(* ===== verification/Prelude.thy ===== *)
theory Prelude
  imports Main "HOL-Library.Multiset"
begin

text \<open>
  Shared vocabulary of the development.

  \<^item> Errors: a rejected promise or a thrown exception is a value \<open>Inl e\<close> of the type
    \<open>'a result\<close>; \<open>await\<close> sequences such computations the way \<^verbatim>\<open>await\<close> does.
  \<^item> JavaScript's built-in list operations that the sources use: \<open>findIndex\<close>, a stable
    \<open>js_sort\<close> with a comparator, insertion-ordered dictionaries.
  \<^item> Amounts: \<open>JNum n\<close> is the JavaScript number \<open>n\<close>, \<open>JDec n\<close> the decimal string of the
    integer \<open>n\<close>, as web3 returns Solidity integers and as \<^verbatim>\<open>BN.prototype.toString\<close>
    prints them. Both convert to the same integer, but \<^verbatim>\<open>===\<close> tells them apart.
  \<^item> The record \<open>libs\<close> holds the functions of the npm packages the sources call
    (web3-utils, web3-eth-abi, bn.js, date-fns) and the implementation-defined
    \<^verbatim>\<open>localeCompare\<close>. They are parameters of the model: nothing is known about them but
    what a theorem states as a hypothesis.
\<close>

named_theorems store_simps \<open>unfolding rules of the background store\<close>
named_theorems view_simps \<open>unfolding rules of the front end\<close>

section \<open>Errors\<close>

datatype js_error =
    TypeError
  | RangeError
  | CallFailed string
  | GenericError string

type_synonym 'a result = "js_error + 'a"

definition await :: "'a result \<Rightarrow> ('a \<Rightarrow> 'b result) \<Rightarrow> 'b result" where
  "await r f = (case r of Inl e \<Rightarrow> Inl e | Inr x \<Rightarrow> f x)"

lemma await_simps [simp]:
  "await (Inl e) f = Inl e"
  "await (Inr x) f = f x"
  by (simp_all add: await_def)

lemma await_eq_Inr_iff [simp]: "await r f = Inr y \<longleftrightarrow> (\<exists>x. r = Inr x \<and> f x = Inr y)"
  by (cases r) auto

lemma await_eq_Inl_iff: "await r f = Inl e \<longleftrightarrow> r = Inl e \<or> (\<exists>x. r = Inr x \<and> f x = Inl e)"
  by (cases r) auto

definition isOk :: "'a result \<Rightarrow> bool" where
  "isOk r = (case r of Inl _ \<Rightarrow> False | Inr _ \<Rightarrow> True)"

lemma isOk_simps [simp]: "isOk (Inr x)" "\<not> isOk (Inl e)"
  by (simp_all add: isOk_def)

lemma isOk_iff: "isOk r \<longleftrightarrow> (\<exists>x. r = Inr x)"
  by (cases r) auto

lemma isOk_await [simp]: "isOk (await r f) \<longleftrightarrow> (\<exists>x. r = Inr x \<and> isOk (f x))"
  by (cases r) auto

lemma isOkE [elim]:
  assumes "isOk r"
  obtains x where "r = Inr x"
  using assms by (cases r) auto

section \<open>Amounts\<close>

datatype js_amount = JNum int | JDec int

fun amount_int :: "js_amount \<Rightarrow> int" where
  "amount_int (JNum n) = n"
| "amount_int (JDec n) = n"

text \<open>The strict comparison \<^verbatim>\<open>v !== 0\<close>: a string is never strictly equal to a number.\<close>

fun js_strict_neq_zero :: "js_amount \<Rightarrow> bool" where
  "js_strict_neq_zero (JNum n) = (n \<noteq> 0)"
| "js_strict_neq_zero (JDec n) = True"

text \<open>The loose comparison \<^verbatim>\<open>v > 0\<close> converts a decimal string to a number first; the
  conversion of an integer rounds but keeps its sign.\<close>

definition js_gt_zero :: "js_amount \<Rightarrow> bool" where
  "js_gt_zero v = (0 < amount_int v)"

section \<open>Array.prototype.findIndex\<close>

fun findIndex :: "('a \<Rightarrow> bool) \<Rightarrow> 'a list \<Rightarrow> nat option" where
  "findIndex P [] = None"
| "findIndex P (x # xs) = (if P x then Some 0 else map_option Suc (findIndex P xs))"

lemma findIndex_None_iff [simp]: "findIndex P xs = None \<longleftrightarrow> (\<forall>x \<in> set xs. \<not> P x)"
  by (induction xs) auto

lemma findIndex_SomeD:
  assumes "findIndex P xs = Some i"
  shows "i < length xs" and "P (xs ! i)" and "\<And>j. j < i \<Longrightarrow> \<not> P (xs ! j)"
proof -
  have *: "findIndex P xs = Some i \<Longrightarrow>
      i < length xs \<and> P (xs ! i) \<and> (\<forall>j < i. \<not> P (xs ! j))" for i
  proof (induction xs arbitrary: i)
    case Nil
    then show ?case by simp
  next
    case (Cons x xs)
    then show ?case
      by (cases i) (auto split: if_splits simp: less_Suc_eq_0_disj nth_Cons')
  qed
  from * [OF assms] show "i < length xs" and "P (xs ! i)" and "\<And>j. j < i \<Longrightarrow> \<not> P (xs ! j)"
    by auto
qed

lemma find_snoc: "find P (xs @ [y]) = (case find P xs of None \<Rightarrow> if P y then Some y else None | Some x \<Rightarrow> Some x)"
  by (induction xs) auto

lemma findIndex_cong: "(\<And>x. x \<in> set xs \<Longrightarrow> P x = Q x) \<Longrightarrow> findIndex P xs = findIndex Q xs"
  by (induction xs) auto

section \<open>Lists indexed by a key\<close>

text \<open>
  Several parts of the store keep a list with at most one live entry per key, where keys
  are compared with an equivalence (addresses up to letter case) and an update replaces the
  entry at \<open>findIndex\<close> or appends a new one. \<open>lookup_by\<close> is the map such a list stands for.
\<close>

definition distinct_by :: "('a \<Rightarrow> bool) \<Rightarrow> ('k \<Rightarrow> 'k \<Rightarrow> bool) \<Rightarrow> ('a \<Rightarrow> 'k) \<Rightarrow> 'a list \<Rightarrow> bool" where
  "distinct_by live eqv key xs =
     sorted_wrt (\<lambda>x y. live x \<longrightarrow> live y \<longrightarrow> \<not> eqv (key x) (key y)) xs"

definition lookup_by :: "('a \<Rightarrow> bool) \<Rightarrow> ('k \<Rightarrow> 'k \<Rightarrow> bool) \<Rightarrow> ('a \<Rightarrow> 'k) \<Rightarrow> 'a list \<Rightarrow> 'k \<Rightarrow> 'a option" where
  "lookup_by live eqv key xs k = find (\<lambda>x. live x \<and> eqv k (key x)) xs"

locale keyed_list =
  fixes live :: "'a \<Rightarrow> bool" and eqv :: "'k \<Rightarrow> 'k \<Rightarrow> bool" and key :: "'a \<Rightarrow> 'k"
  assumes eqv_refl: "eqv a a"
    and eqv_sym: "eqv a b \<Longrightarrow> eqv b a"
    and eqv_trans: "eqv a b \<Longrightarrow> eqv b c \<Longrightarrow> eqv a c"
begin

lemma distinct_by_nth:
  "distinct_by live eqv key xs \<longleftrightarrow>
     (\<forall>i < length xs. \<forall>j < length xs. i \<noteq> j \<longrightarrow> live (xs ! i) \<longrightarrow> live (xs ! j) \<longrightarrow>
        \<not> eqv (key (xs ! i)) (key (xs ! j)))"
proof -
  have "\<not> eqv (key (xs ! i)) (key (xs ! j))"
    if "\<forall>i j. i < j \<longrightarrow> j < length xs \<longrightarrow> live (xs ! i) \<longrightarrow> live (xs ! j) \<longrightarrow>
          \<not> eqv (key (xs ! i)) (key (xs ! j))"
      and "i < length xs" "j < length xs" "i \<noteq> j" "live (xs ! i)" "live (xs ! j)" for i j
    using that(1) [rule_format, of i j] that(1) [rule_format, of j i] that(2-) eqv_sym
    by (cases "i < j") auto
  then show ?thesis
    unfolding distinct_by_def sorted_wrt_iff_nth_less by auto
qed

lemma distinct_by_push:
  assumes "distinct_by live eqv key xs" and "findIndex (\<lambda>x. live x \<and> eqv k (key x)) xs = None"
    and "live y \<Longrightarrow> eqv (key y) k"
  shows "distinct_by live eqv key (xs @ [y])"
  using assms unfolding distinct_by_def
  by (auto simp: sorted_wrt_append) (metis eqv_sym eqv_trans)

lemma distinct_by_replace:
  assumes "distinct_by live eqv key xs" and "findIndex (\<lambda>x. live x \<and> eqv k (key x)) xs = Some i"
    and "live y \<Longrightarrow> eqv (key y) k"
  shows "distinct_by live eqv key (xs[i := y])"
proof -
  have i: "i < length xs" "live (xs ! i)" "eqv k (key (xs ! i))"
    using findIndex_SomeD [OF assms(2)] by auto
  have other: "\<not> eqv (key y) (key (xs ! j))"
    if "j < length xs" "j \<noteq> i" "live (xs ! j)" "live y" for j
    using assms(1,3) i that unfolding distinct_by_nth by (metis eqv_sym eqv_trans)
  show ?thesis
    using assms(1) i(1) other unfolding distinct_by_nth
    by (auto simp: nth_list_update dest: eqv_sym)
qed

lemma distinct_by_filter: "distinct_by live eqv key xs \<Longrightarrow> distinct_by live eqv key (filter P xs)"
  unfolding distinct_by_def by (rule sorted_wrt_filter)

lemma lookup_after_push:
  assumes "findIndex (\<lambda>x. live x \<and> eqv k (key x)) xs = None" and "live y" and "eqv (key y) k"
  shows "lookup_by live eqv key (xs @ [y]) k' =
    (if eqv k' k then Some y else lookup_by live eqv key xs k')"
proof (cases "eqv k' k")
  case True
  have "\<not> (live x \<and> eqv k' (key x))" if "x \<in> set xs" for x
    using assms(1) that True by auto (metis eqv_sym eqv_trans)
  then have "find (\<lambda>x. live x \<and> eqv k' (key x)) xs = None"
    by (auto simp: find_None_iff)
  moreover from True assms(3) have "eqv k' (key y)"
    by (blast intro: eqv_sym eqv_trans)
  ultimately show ?thesis
    using True assms(2) by (simp add: find_snoc lookup_by_def)
next
  case False
  with assms(3) have "\<not> eqv k' (key y)"
    by (blast intro: eqv_trans)
  with False show ?thesis
    by (simp add: find_snoc lookup_by_def split: option.split)
qed

text \<open>Replacing a live entry by one that is no longer live removes the key.\<close>

lemma lookup_after_replace:
  assumes "distinct_by live eqv key xs" and "findIndex (\<lambda>x. live x \<and> eqv k (key x)) xs = Some i"
    and "live y \<Longrightarrow> eqv (key y) k"
  shows "lookup_by live eqv key (xs[i := y]) k' =
    (if eqv k' k then (if live y then Some y else None) else lookup_by live eqv key xs k')"
  using assms
proof (induction xs arbitrary: i)
  case Nil
  then show ?case by simp
next
  case (Cons x xs)
  show ?case
  proof (cases "live x \<and> eqv k (key x)")
    case True
    with Cons.prems have [simp]: "i = 0" by simp
    have "\<not> (live z \<and> eqv k' (key z))" if "eqv k' k" "z \<in> set xs" for z
      using Cons.prems(1) True that unfolding distinct_by_def
      by auto (metis eqv_sym eqv_trans)
    then have "eqv k' k \<Longrightarrow> find (\<lambda>x. live x \<and> eqv k' (key x)) xs = None"
      by (auto simp: find_None_iff)
    moreover have "eqv k' (key x) \<longleftrightarrow> eqv k' k" "live y \<Longrightarrow> eqv k' (key y) \<longleftrightarrow> eqv k' k"
      using True Cons.prems(3) by (blast intro: eqv_sym eqv_trans)+
    ultimately show ?thesis using True by (auto simp: lookup_by_def)
  next
    case False
    with Cons.prems obtain j where j: "findIndex (\<lambda>x. live x \<and> eqv k (key x)) xs = Some j" "i = Suc j"
      by auto
    have "distinct_by live eqv key xs"
      using Cons.prems(1) by (simp add: distinct_by_def)
    moreover have "\<not> (live x \<and> eqv k' (key x))" if "eqv k' k"
      using False that by (blast intro: eqv_sym eqv_trans)
    ultimately show ?thesis
      using Cons.IH [OF _ j(1)] Cons.prems(3) j(2) by (auto simp: lookup_by_def)
  qed
qed

lemma lookup_by_findIndex:
  "lookup_by live eqv key xs k =
     map_option ((!) xs) (findIndex (\<lambda>x. live x \<and> eqv k (key x)) xs)"
  by (induction xs) (auto simp: lookup_by_def option.map_comp comp_def)

end

section \<open>Array.prototype.sort with a comparator\<close>

text \<open>
  ECMAScript requires the sort to be stable and, for a consistent comparator, leaves the
  result no freedom; insertion sort is the simplest algorithm with that result.
\<close>

fun js_insert :: "('a \<Rightarrow> 'a \<Rightarrow> int) \<Rightarrow> 'a \<Rightarrow> 'a list \<Rightarrow> 'a list" where
  "js_insert cmp x [] = [x]"
| "js_insert cmp x (y # ys) =
     (if cmp x y \<le> 0 then x # y # ys else y # js_insert cmp x ys)"

fun js_sort :: "('a \<Rightarrow> 'a \<Rightarrow> int) \<Rightarrow> 'a list \<Rightarrow> 'a list" where
  "js_sort cmp [] = []"
| "js_sort cmp (x # xs) = js_insert cmp x (js_sort cmp xs)"

lemma mset_js_insert [simp]: "mset (js_insert cmp x ys) = add_mset x (mset ys)"
  by (induction ys) auto

lemma mset_js_sort [simp]: "mset (js_sort cmp xs) = mset xs"
  by (induction xs) auto

lemma set_js_sort [simp]: "set (js_sort cmp xs) = set xs"
  by (metis mset_js_sort set_mset_mset)

lemma length_js_sort [simp]: "length (js_sort cmp xs) = length xs"
  by (metis mset_js_sort size_mset)

lemma set_js_insert [simp]: "set (js_insert cmp x ys) = insert x (set ys)"
  by (metis mset_js_insert set_mset_add_mset_insert set_mset_mset)

text \<open>The contract of a comparator, on the elements \<open>D\<close> it is meant for.\<close>

locale comparator =
  fixes cmp :: "'a \<Rightarrow> 'a \<Rightarrow> int" and D :: "'a \<Rightarrow> bool"
  assumes cmp_total: "D x \<Longrightarrow> D y \<Longrightarrow> cmp x y \<le> 0 \<or> cmp y x \<le> 0"
    and cmp_trans: "D x \<Longrightarrow> D y \<Longrightarrow> D z \<Longrightarrow> cmp x y \<le> 0 \<Longrightarrow> cmp y z \<le> 0 \<Longrightarrow> cmp x z \<le> 0"
begin

lemma sorted_js_insert:
  "D x \<Longrightarrow> \<forall>y \<in> set ys. D y \<Longrightarrow> sorted_wrt (\<lambda>x y. cmp x y \<le> 0) ys \<Longrightarrow>
     sorted_wrt (\<lambda>x y. cmp x y \<le> 0) (js_insert cmp x ys)"
proof (induction ys)
  case Nil
  then show ?case by simp
next
  case (Cons y ys)
  then have "cmp x y \<le> 0 \<Longrightarrow> \<forall>z \<in> set ys. cmp x z \<le> 0" by (auto intro: cmp_trans)
  then show ?case
    using Cons cmp_total [of x y] by auto
qed

lemma sorted_js_sort: "\<forall>x \<in> set xs. D x \<Longrightarrow> sorted_wrt (\<lambda>x y. cmp x y \<le> 0) (js_sort cmp xs)"
  by (induction xs) (auto intro: sorted_js_insert)

text \<open>Elements the comparator does not tell apart keep their order.\<close>

lemma filter_js_insert:
  assumes "D x" and "D z" and "\<forall>y \<in> set ys. D y" and "sorted_wrt (\<lambda>x y. cmp x y \<le> 0) ys"
  shows "filter (\<lambda>y. cmp z y \<le> 0 \<and> cmp y z \<le> 0) (js_insert cmp x ys) =
    filter (\<lambda>y. cmp z y \<le> 0 \<and> cmp y z \<le> 0) (x # ys)"
  using assms(3,4)
proof (induction ys)
  case Nil
  then show ?case by simp
next
  case (Cons y ys)
  have "\<not> (cmp z y \<le> 0 \<and> cmp y z \<le> 0)" if "\<not> cmp x y \<le> 0" "cmp z x \<le> 0" "cmp x z \<le> 0"
    using that assms(1,2) Cons.prems(1) cmp_trans [of x z y] by auto
  with Cons show ?case by auto
qed

lemma stable_js_sort:
  "D z \<Longrightarrow> \<forall>x \<in> set xs. D x \<Longrightarrow>
   filter (\<lambda>y. cmp z y \<le> 0 \<and> cmp y z \<le> 0) (js_sort cmp xs) =
   filter (\<lambda>y. cmp z y \<le> 0 \<and> cmp y z \<le> 0) xs"
  by (induction xs) (simp_all add: filter_js_insert sorted_js_sort)

end

section \<open>Plain objects used as dictionaries\<close>

text \<open>Keys are listed in insertion order; storing at an existing key keeps its place.\<close>

fun dict_put :: "'k \<Rightarrow> 'v \<Rightarrow> ('k \<times> 'v) list \<Rightarrow> ('k \<times> 'v) list" where
  "dict_put k v [] = [(k, v)]"
| "dict_put k v ((k', v') # d) = (if k' = k then (k, v) # d else (k', v') # dict_put k v d)"

lemma map_of_dict_put [simp]: "map_of (dict_put k v d) = (map_of d)(k \<mapsto> v)"
  by (induction d) (auto simp: fun_eq_iff)

lemma keys_dict_put:
  "map fst (dict_put k v d) = (if k \<in> fst ` set d then map fst d else map fst d @ [k])"
  by (induction d) force+

lemma distinct_keys_dict_put: "distinct (map fst d) \<Longrightarrow> distinct (map fst (dict_put k v d))"
  by (auto simp: keys_dict_put image_iff)

section \<open>Strings\<close>

definition to_lower :: "char \<Rightarrow> char" where
  "to_lower c = (let n = of_char c :: nat in if 65 \<le> n \<and> n \<le> 90 then char_of (n + 32) else c)"

definition to_upper :: "char \<Rightarrow> char" where
  "to_upper c = (let n = of_char c :: nat in if 97 \<le> n \<and> n \<le> 122 then char_of (n - 32) else c)"

definition toLowerCase :: "string \<Rightarrow> string" where
  "toLowerCase s = map to_lower s"

definition toUpperCase :: "string \<Rightarrow> string" where
  "toUpperCase s = map to_upper s"

text \<open>Decimal digits, for the decimal strings of integers.\<close>

definition digit_char :: "nat \<Rightarrow> char" where
  "digit_char d = char_of (48 + d)"

function show_digits :: "int \<Rightarrow> string" where
  "show_digits n =
     (if n < 10 then [digit_char (nat n)] else show_digits (n div 10) @ [digit_char (nat (n mod 10))])"
  by pat_completeness auto
termination
  by (relation "measure nat") auto

declare show_digits.simps [simp del]

definition show_int :: "int \<Rightarrow> string" where
  "show_int n = (if n < 0 then CHR ''-'' # show_digits (- n) else show_digits n)"

definition is_digit :: "char \<Rightarrow> bool" where
  "is_digit c \<longleftrightarrow> 48 \<le> (of_char c :: nat) \<and> (of_char c :: nat) \<le> 57"

definition digit_val :: "char \<Rightarrow> int" where
  "digit_val c = int (of_char c) - 48"

definition dec_val :: "string \<Rightarrow> int" where
  "dec_val s = foldl (\<lambda>n c. 10 * n + digit_val c) 0 s"

section \<open>Dates\<close>

text \<open>
  A date is its time value in milliseconds. ECMAScript bounds it: beyond the bound
  \<^verbatim>\<open>new Date(t)\<close> is an invalid date.
\<close>

datatype js_date = InvalidDate | Date int

definition new_Date :: "int \<Rightarrow> js_date" where
  "new_Date t = (if \<bar>t\<bar> \<le> 8640000000000000 then Date t else InvalidDate)"

section \<open>The functions of the npm packages\<close>

text \<open>
  \<open>differenceInSeconds\<close>, \<open>differenceInDays\<close> and \<open>compareDesc\<close> give \<open>None\<close> for \<^verbatim>\<open>NaN\<close>, their
  result on an invalid date, and so does \<open>compareAsc\<close>. \<open>bn_fromString\<close> is \<^verbatim>\<open>new BN(s)\<close>. \<open>decodeString\<close> and \<open>encodeString\<close> are \<^verbatim>\<open>decodeParameter\<close> and
  \<^verbatim>\<open>encodeParameter\<close> at the ABI type \<^verbatim>\<open>string\<close>. Values of bn.js are integers with the
  integers' ring operations and order; its division, its conversion to a number and its
  printing are fields.
\<close>

record libs =
  toChecksumAddress :: "string \<Rightarrow> string"
  isAddress :: "string \<Rightarrow> bool"
  decodeString :: "string \<Rightarrow> string result"
  encodeString :: "string \<Rightarrow> string"
  bn_div :: "int \<Rightarrow> int \<Rightarrow> int"
  bn_toNumber :: "int \<Rightarrow> int result"
  bn_toString :: "int \<Rightarrow> string"
  bn_fromString :: "string \<Rightarrow> int result"
  differenceInSeconds :: "js_date \<Rightarrow> js_date \<Rightarrow> int option"
  differenceInDays :: "js_date \<Rightarrow> js_date \<Rightarrow> int option"
  startOfDay :: "js_date \<Rightarrow> js_date"
  endOfDay :: "js_date \<Rightarrow> js_date"
  isBefore :: "js_date \<Rightarrow> js_date \<Rightarrow> bool"
  isAfter :: "js_date \<Rightarrow> js_date \<Rightarrow> bool"
  compareDesc :: "js_date \<Rightarrow> js_date \<Rightarrow> int option"
  compareAsc :: "js_date \<Rightarrow> js_date \<Rightarrow> int option"
  localeCompare :: "string \<Rightarrow> string \<Rightarrow> int"

text \<open>Documented behaviour of the packages, as hypotheses for the theorems that rely on it.\<close>

definition trunc_div :: "int \<Rightarrow> int \<Rightarrow> int" where
  "trunc_div a b = sgn a * sgn b * (\<bar>a\<bar> div \<bar>b\<bar>)"

definition bn_div_truncates :: "libs \<Rightarrow> bool" where
  "bn_div_truncates L \<longleftrightarrow> (\<forall>a b. b \<noteq> 0 \<longrightarrow> bn_div L a b = trunc_div a b)"

definition bn_toNumber_53_bits :: "libs \<Rightarrow> bool" where
  "bn_toNumber_53_bits L \<longleftrightarrow>
     (\<forall>n. bn_toNumber L n = (if \<bar>n\<bar> < 2 ^ 53 then Inr n else Inl RangeError))"

definition bn_fromString_decimal :: "libs \<Rightarrow> bool" where
  "bn_fromString_decimal L \<longleftrightarrow> (\<forall>s. s \<noteq> [] \<and> list_all is_digit s \<longrightarrow> bn_fromString L s = Inr (dec_val s))"

definition bn_toString_decimal :: "libs \<Rightarrow> bool" where
  "bn_toString_decimal L \<longleftrightarrow> (\<forall>n. bn_toString L n = show_int n)"

definition seconds_truncate :: "libs \<Rightarrow> bool" where
  "seconds_truncate L \<longleftrightarrow>
     (\<forall>a b. differenceInSeconds L (Date a) (Date b) = Some (trunc_div (a - b) 1000))"

definition days_of_invalid :: "libs \<Rightarrow> bool" where
  "days_of_invalid L \<longleftrightarrow> (\<forall>d. differenceInDays L InvalidDate d = None)"

definition dates_ordered :: "libs \<Rightarrow> bool" where
  "dates_ordered L \<longleftrightarrow> (\<forall>a b. isBefore L (Date a) (Date b) = (a < b) \<and> isAfter L (Date a) (Date b) = (b < a) \<and>
     compareDesc L (Date a) (Date b) = Some (if b < a then -1 else if a < b then 1 else 0) \<and>
     compareAsc L (Date a) (Date b) = Some (if a < b then -1 else if b < a then 1 else 0))"

definition locale_orders :: "libs \<Rightarrow> bool" where
  "locale_orders L \<longleftrightarrow>
     (\<forall>x y. localeCompare L x y \<le> 0 \<or> localeCompare L y x \<le> 0) \<and>
     (\<forall>x y z. localeCompare L x y \<le> 0 \<longrightarrow> localeCompare L y z \<le> 0 \<longrightarrow> localeCompare L x z \<le> 0)"

section \<open>A concrete instance\<close>

text \<open>An instance of the package functions that has the documented behaviour, at which the
  theorems are applied to concrete inputs.\<close>

fun string_compare :: "string \<Rightarrow> string \<Rightarrow> int" where
  "string_compare [] [] = 0"
| "string_compare [] (_ # _) = -1"
| "string_compare (_ # _) [] = 1"
| "string_compare (x # xs) (y # ys) =
     (if (of_char x :: nat) < of_char y then -1
      else if (of_char y :: nat) < of_char x then 1 else string_compare xs ys)"

definition date_diff :: "int \<Rightarrow> js_date \<Rightarrow> js_date \<Rightarrow> int option" where
  "date_diff unit a b =
     (case a of InvalidDate \<Rightarrow> None | Date x \<Rightarrow>
       (case b of InvalidDate \<Rightarrow> None | Date y \<Rightarrow> Some (trunc_div (x - y) unit)))"

definition date_less :: "js_date \<Rightarrow> js_date \<Rightarrow> bool" where
  "date_less a b = (case a of InvalidDate \<Rightarrow> False | Date x \<Rightarrow> (case b of InvalidDate \<Rightarrow> False | Date y \<Rightarrow> x < y))"

definition map_date :: "(int \<Rightarrow> int) \<Rightarrow> js_date \<Rightarrow> js_date" where
  "map_date f d = (case d of InvalidDate \<Rightarrow> InvalidDate | Date x \<Rightarrow> Date (f x))"

definition sample_libs :: libs where
  "sample_libs = \<lparr>
     toChecksumAddress = toLowerCase,
     isAddress = (\<lambda>s. length s = 42),
     decodeString = Inr,
     encodeString = (\<lambda>s. s),
     bn_div = trunc_div,
     bn_toNumber = (\<lambda>n. if \<bar>n\<bar> < 2 ^ 53 then Inr n else Inl RangeError),
     bn_toString = show_int,
     bn_fromString = (\<lambda>s. if s \<noteq> [] \<and> list_all is_digit s then Inr (dec_val s)
       else Inl (GenericError ''Invalid character'')),
     differenceInSeconds = date_diff 1000,
     differenceInDays = date_diff 86400000,
     startOfDay = map_date (\<lambda>t. t - t mod 86400000),
     endOfDay = map_date (\<lambda>t. t - t mod 86400000 + 86399999),
     isBefore = date_less,
     isAfter = (\<lambda>a b. date_less b a),
     compareDesc = (\<lambda>a b. map_option sgn (date_diff 1 b a)),
     compareAsc = (\<lambda>a b. map_option sgn (date_diff 1 a b)),
     localeCompare = string_compare \<rparr>"

lemma sample_libs_documented [simp]:
  "bn_div_truncates sample_libs" "bn_toNumber_53_bits sample_libs" "bn_toString_decimal sample_libs"
  "seconds_truncate sample_libs" "days_of_invalid sample_libs" "dates_ordered sample_libs"
  "bn_fromString_decimal sample_libs"
  by (simp_all add: sample_libs_def bn_div_truncates_def bn_toNumber_53_bits_def
      bn_toString_decimal_def bn_fromString_decimal_def seconds_truncate_def days_of_invalid_def date_diff_def dates_ordered_def
      date_less_def trunc_div_def)

lemma trunc_div_nonneg: "0 \<le> a \<Longrightarrow> 0 < b \<Longrightarrow> trunc_div a b = a div b"
  by (cases "a = 0") (simp_all add: trunc_div_def)

end
