(* ===== verification/Address.thy ===== *)
theory Address
  imports Prelude
begin

text \<open>
  The helpers every other part uses: address comparison (\<^verbatim>\<open>helpers/web3.js\<close>), the network
  predicates (\<^verbatim>\<open>helpers/network.js\<close>), the time constants (\<^verbatim>\<open>helpers/time.js\<close>), the choice of
  the token list (\<^verbatim>\<open>helpers/token-list.js\<close>) and the table of native super tokens
  (\<^verbatim>\<open>helpers/superfluid.js\<close>).

  An address that may be missing is an option, \<open>None\<close> standing for \<^verbatim>\<open>undefined\<close>. The empty
  string and \<^verbatim>\<open>undefined\<close> are falsy, so \<^verbatim>\<open>first && toChecksumAddress(first)\<close> leaves them
  as they are.
\<close>

section \<open>Addresses\<close>

definition ZERO_ADDRESS :: string where
  "ZERO_ADDRESS = ''0x'' @ replicate 40 (CHR ''0'')"

definition truthy :: "string option \<Rightarrow> bool" where
  "truthy s = (case s of None \<Rightarrow> False | Some t \<Rightarrow> t \<noteq> [])"

definition checksummed :: "libs \<Rightarrow> string option \<Rightarrow> string option" where
  "checksummed L a =
     (case a of None \<Rightarrow> None | Some s \<Rightarrow> Some (if s = [] then [] else toChecksumAddress L s))"

definition addressesEqual :: "libs \<Rightarrow> string option \<Rightarrow> string option \<Rightarrow> bool" where
  "addressesEqual L first second = (checksummed L first = checksummed L second)"

abbreviation addr_eq :: "libs \<Rightarrow> string \<Rightarrow> string \<Rightarrow> bool" where
  "addr_eq L a b \<equiv> addressesEqual L (Some a) (Some b)"

lemma addressesEqual_refl [simp]: "addressesEqual L a a"
  by (simp add: addressesEqual_def)

lemma addressesEqual_sym: "addressesEqual L a b \<Longrightarrow> addressesEqual L b a"
  by (simp add: addressesEqual_def)

lemma addressesEqual_commute: "addressesEqual L a b \<longleftrightarrow> addressesEqual L b a"
  by (auto simp: addressesEqual_def)

lemma addressesEqual_trans:
  "addressesEqual L a b \<Longrightarrow> addressesEqual L b c \<Longrightarrow> addressesEqual L a c"
  by (simp add: addressesEqual_def)

lemma addressesEqual_None [simp]:
  "\<not> addressesEqual L None (Some b)" "\<not> addressesEqual L (Some b) None"
  by (simp_all add: addressesEqual_def checksummed_def)

lemma addressesEqual_cong:
  "addressesEqual L a b \<Longrightarrow> addressesEqual L a c = addressesEqual L b c"
  "addressesEqual L a b \<Longrightarrow> addressesEqual L c a = addressesEqual L c b"
  by (simp_all add: addressesEqual_def)

section \<open>Networks\<close>

record network =
  net_id :: int
  net_type :: string

definition TEST_NETWORKS :: "string list" where
  "TEST_NETWORKS = [''goerly'', ''kovan'', ''rinkeby'', ''ropsten'', ''mumbai'', ''private'']"

definition LOCAL_NETWORK_ID :: int where
  "LOCAL_NETWORK_ID = 1337"

definition TEST_NETWORK_IDS :: "int list" where
  "TEST_NETWORK_IDS = [5, 42, 4, 3, 80001, LOCAL_NETWORK_ID]"

definition isTestNetwork :: "network \<Rightarrow> bool" where
  "isTestNetwork network \<longleftrightarrow>
     toLowerCase (net_type network) \<in> set TEST_NETWORKS \<and> net_id network \<in> set TEST_NETWORK_IDS"

text \<open>The list of types misspells the one of Goerli, which is no test network therefore.\<close>

lemma goerli_not_test: "\<not> isTestNetwork \<lparr> net_id = 5, net_type = ''goerli'' \<rparr>"
  by code_simp

definition MAINNET_TOKEN_LIST :: string where
  "MAINNET_TOKEN_LIST = ''https://tokens.coingecko.com/uniswap/all.json''"

definition XDAI_TOKEN_LIST :: string where
  "XDAI_TOKEN_LIST = ''https://tokens.honeyswap.org/''"

definition POLYGON_TOKEN_LIST :: string where
  "POLYGON_TOKEN_LIST = ''https://unpkg.com/quickswap-default-token-list@1.2.11/build/quickswap-default.tokenlist.json''"

definition getTokenListUrlByNetwork :: "network \<Rightarrow> string" where
  "getTokenListUrlByNetwork network =
     (if isTestNetwork network then MAINNET_TOKEN_LIST
      else if net_id network = 1 then MAINNET_TOKEN_LIST
      else if net_id network = 100 then XDAI_TOKEN_LIST
      else if net_id network = 137 then POLYGON_TOKEN_LIST
      else MAINNET_TOKEN_LIST)"

section \<open>Native super tokens\<close>

text \<open>The symbol of the token under a super token: without the last character, and on a test network
  without a leading \<^verbatim>\<open>f\<close>.\<close>

definition getUnderlyingTokenSymbol :: "string \<Rightarrow> network \<Rightarrow> string" where
  "getUnderlyingTokenSymbol superTokenSymbol network =
     (let isFakeSuperToken = isTestNetwork network \<and> toLowerCase (take 1 superTokenSymbol) = ''f''
      in drop (if isFakeSuperToken then 1 else 0) (butlast superTokenSymbol))"


definition NATIVE_SUPER_TOKENS :: "int \<Rightarrow> string option" where
  "NATIVE_SUPER_TOKENS chainId =
     (if chainId = 4 then Some ''0xa623b2DD931C5162b7a0B25852f4024Db48bb1A0''
      else if chainId = 100 then Some ''0x59988e47A3503AaFaA0368b9deF095c818Fdca01''
      else if chainId = 137 then Some ''0x3aD736904E9e65189c3000c7DD2c8AC8bB7cD4e3''
      else if chainId = 80001 then Some ''0x96B82B65ACF7072eFEb00502F45757F254c2a0D4''
      else None)"

definition isNativeSuperToken :: "libs \<Rightarrow> string option \<Rightarrow> int \<Rightarrow> bool" where
  "isNativeSuperToken L superTokenAddress chainId =
     addressesEqual L superTokenAddress (NATIVE_SUPER_TOKENS chainId)"

section \<open>Time\<close>

definition MINUTE :: int where "MINUTE = 60"
definition HOUR :: int where "HOUR = 60 * MINUTE"
definition DAY :: int where "DAY = 24 * HOUR"
definition WEEK :: int where "WEEK = 7 * DAY"
definition MONTH :: int where "MONTH = 30 * DAY"
definition YEAR :: int where "YEAR = 365 * DAY"

definition timestampToDate :: "int \<Rightarrow> js_date" where
  "timestampToDate timestamp = new_Date (timestamp * 1000)"

definition getCurrentTimestamp :: "int \<Rightarrow> int" where
  "getCurrentTimestamp now = now div 1000"

end
