(* ===== verification/Store_State.thy ===== *)
theory Store_State
  imports Address
begin

text \<open>
  The data of the background store: the objects that \<^verbatim>\<open>script.js\<close> and \<^verbatim>\<open>store/*.js\<close> build
  and the events they receive. Field names carry a prefix for their object (\<open>fl\<close> flow,
  \<open>st\<close> super token, \<open>ut\<close> underlying token, \<open>se\<close> entry of a sender, \<open>ev\<close> event) since
  record fields share one name space.
\<close>

record flow =
  fl_isCancelled :: bool
  fl_isIncoming :: bool
  fl_entity :: string
  fl_superTokenAddress :: string
  fl_accumulatedAmount :: js_amount
  fl_creationTimestamp :: int
  fl_lastTimestamp :: int
  fl_flowRate :: js_amount
  fl_description :: string

text \<open>
  The fields of the underlying token are \<^verbatim>\<open>undefined\<close> when neither the token list nor
  the chain supplies them.
\<close>

record underlying_token =
  ut_address :: string
  ut_name :: "string option"
  ut_decimals :: "js_amount option"
  ut_symbol :: "string option"

record super_token =
  st_address :: "string option"
  st_decimals :: js_amount
  st_liquidationPeriodSeconds :: js_amount
  st_name :: string
  st_symbol :: string
  st_underlyingToken :: underlying_token
  st_logoURI :: "string option"
  st_mainnetTokenEquivalentAddress :: "string option"
  st_balance :: js_amount
  st_netFlow :: js_amount
  st_lastUpdateTimestamp :: "int option"

text \<open>The tokens a sender streams to the agent.\<close>

record sender_entry =
  se_address :: string
  se_balance :: js_amount
  se_netFlow :: js_amount
  se_lastUpdateTimestamp :: int

text \<open>\<open>superTokens\<close> is \<open>None\<close> when the property holds \<^verbatim>\<open>undefined\<close>.\<close>

record app_store =
  agentAddress :: string
  cfaAddress :: string
  hostAddress :: string
  superTokens :: "super_token list option"
  flows :: "flow list"
  sendersSuperTokens :: "(string \<times> sender_entry list) list"
  initialBlock :: int
  isSyncing :: bool
  cachedBlockNumber :: "int option"

text \<open>
  The return values of a \<^verbatim>\<open>FlowUpdated\<close> event. \<open>ev_userData\<close> is \<open>None\<close> when web3
  decodes empty bytes to \<^verbatim>\<open>null\<close>.
\<close>

record flow_event =
  ev_token :: string
  ev_sender :: string
  ev_receiver :: string
  ev_flowRate :: js_amount
  ev_totalSenderFlowRate :: js_amount
  ev_totalReceiverFlowRate :: js_amount
  ev_userData :: "string option"
  ev_blockNumber :: int

end
