(* ===== verification/Flow_Store.thy ===== *)
theory Flow_Store
  imports Store_State
begin

text \<open>
  The flow list of the store: \<^verbatim>\<open>updateFlows\<close> of \<^verbatim>\<open>store/updaters.js\<close> and the helpers of
  \<^verbatim>\<open>store/helpers.js\<close> it calls. A flow is identified by its direction, its token and the
  account at its other end; the list keeps every flow there ever was, cancelled ones
  included, and at most one open flow per key.
\<close>

section \<open>Operations\<close>

definition getFlowEventEntity :: "flow_event \<Rightarrow> bool \<Rightarrow> string" where
  "getFlowEventEntity event isIncomingFlow =
     (if isIncomingFlow then ev_sender event else ev_receiver event)"

definition isFlowEqual :: "libs \<Rightarrow> flow \<Rightarrow> flow_event \<Rightarrow> bool" where
  "isFlowEqual L flow event \<longleftrightarrow>
     \<not> fl_isCancelled flow \<and>
     addr_eq L (fl_superTokenAddress flow) (ev_token event) \<and>
     addr_eq L (fl_entity flow) (getFlowEventEntity event (fl_isIncoming flow))"

definition calculateNewAccumulatedAmount :: "flow \<Rightarrow> int \<Rightarrow> js_amount" where
  "calculateNewAccumulatedAmount oldFlow currentTimestamp =
     JDec ((currentTimestamp - fl_lastTimestamp oldFlow) * amount_int (fl_flowRate oldFlow)
           + amount_int (fl_accumulatedAmount oldFlow))"

definition flow_description :: "libs \<Rightarrow> flow_event \<Rightarrow> string result" where
  "flow_description L event =
     (case ev_userData event of
        None \<Rightarrow> Inr []
      | Some userData \<Rightarrow> if userData = [] then Inr [] else decodeString L userData)"

definition updateFlows :: "libs \<Rightarrow> app_store \<Rightarrow> flow_event \<Rightarrow> int \<Rightarrow> flow list result" where
  "updateFlows L state event updateTimestamp =
     (let newFlows = flows state;
          isIncoming = addr_eq L (ev_receiver event) (agentAddress state);
          flowIndex = findIndex (\<lambda>flow. isFlowEqual L flow event) newFlows
      in await (flow_description L event) (\<lambda>description. Inr
        (case flowIndex of
           None \<Rightarrow>
             newFlows @ [\<lparr> fl_isCancelled = False,
                           fl_isIncoming = isIncoming,
                           fl_entity = getFlowEventEntity event isIncoming,
                           fl_superTokenAddress = ev_token event,
                           fl_accumulatedAmount = JDec 0,
                           fl_creationTimestamp = updateTimestamp,
                           fl_lastTimestamp = updateTimestamp,
                           fl_flowRate = ev_flowRate event,
                           fl_description = description \<rparr>]
         | Some i \<Rightarrow>
             if js_gt_zero (ev_flowRate event) then
               newFlows[i := (newFlows ! i)
                 \<lparr> fl_accumulatedAmount := calculateNewAccumulatedAmount (flows state ! i) updateTimestamp,
                   fl_lastTimestamp := updateTimestamp,
                   fl_flowRate := ev_flowRate event,
                   fl_description := description \<rparr>]
             else
               newFlows[i := (newFlows ! i)
                 \<lparr> fl_accumulatedAmount := calculateNewAccumulatedAmount (flows state ! i) updateTimestamp,
                   fl_lastTimestamp := updateTimestamp,
                   fl_isCancelled := True \<rparr>])))"

section \<open>Keys and the invariant\<close>

type_synonym flow_key = "bool \<times> string \<times> string"

definition is_open :: "flow \<Rightarrow> bool" where
  "is_open f \<longleftrightarrow> \<not> fl_isCancelled f"

definition key_of_flow :: "flow \<Rightarrow> flow_key" where
  "key_of_flow f = (fl_isIncoming f, fl_superTokenAddress f, fl_entity f)"

definition same_key :: "libs \<Rightarrow> flow_key \<Rightarrow> flow_key \<Rightarrow> bool" where
  "same_key L k k' \<longleftrightarrow>
     fst k = fst k' \<and> addr_eq L (fst (snd k)) (fst (snd k')) \<and> addr_eq L (snd (snd k)) (snd (snd k'))"

definition key_of_event :: "libs \<Rightarrow> string \<Rightarrow> flow_event \<Rightarrow> flow_key" where
  "key_of_event L agent event =
     (let isIncoming = addr_eq L (ev_receiver event) agent
      in (isIncoming, ev_token event, getFlowEventEntity event isIncoming))"

text \<open>The agent is at exactly one end of the flow. The agreement contract rejects a flow
  from an account to itself.\<close>

definition agent_event :: "libs \<Rightarrow> string \<Rightarrow> flow_event \<Rightarrow> bool" where
  "agent_event L agent event \<longleftrightarrow>
     addr_eq L (ev_sender event) agent \<noteq> addr_eq L (ev_receiver event) agent"

definition flows_wf :: "libs \<Rightarrow> string \<Rightarrow> flow list \<Rightarrow> bool" where
  "flows_wf L agent fs \<longleftrightarrow>
     distinct_by is_open (same_key L) key_of_flow fs \<and>
     (\<forall>f \<in> set fs. is_open f \<longrightarrow> \<not> addr_eq L (fl_entity f) agent)"

definition lookup_flow :: "libs \<Rightarrow> flow list \<Rightarrow> flow_key \<Rightarrow> flow option" where
  "lookup_flow L fs k = lookup_by is_open (same_key L) key_of_flow fs k"

interpretation fk: keyed_list is_open "same_key L" key_of_flow for L
  by unfold_locales (auto simp: same_key_def intro: addressesEqual_sym addressesEqual_trans)

lemma is_open_update [simp]:
  "is_open (f\<lparr>fl_accumulatedAmount := a\<rparr>) = is_open f"
  "is_open (f\<lparr>fl_lastTimestamp := t\<rparr>) = is_open f"
  "is_open (f\<lparr>fl_flowRate := r\<rparr>) = is_open f"
  "is_open (f\<lparr>fl_description := d\<rparr>) = is_open f"
  "is_open (f\<lparr>fl_isCancelled := b\<rparr>) = (\<not> b)"
  by (simp_all add: is_open_def)

lemma key_of_flow_update [simp]:
  "key_of_flow (f\<lparr>fl_accumulatedAmount := a\<rparr>) = key_of_flow f"
  "key_of_flow (f\<lparr>fl_lastTimestamp := t\<rparr>) = key_of_flow f"
  "key_of_flow (f\<lparr>fl_flowRate := r\<rparr>) = key_of_flow f"
  "key_of_flow (f\<lparr>fl_description := d\<rparr>) = key_of_flow f"
  "key_of_flow (f\<lparr>fl_isCancelled := b\<rparr>) = key_of_flow f"
  by (simp_all add: key_of_flow_def)

text \<open>
  \<open>isFlowEqual\<close> reads the entity of the event by the direction of the stored flow, not of
  the event. With the agent at one end only and never stored as an entity, that is the same
  as comparing keys.
\<close>

lemma isFlowEqual_same_key:
  assumes "agent_event L agent event" and "is_open f \<Longrightarrow> \<not> addr_eq L (fl_entity f) agent"
  shows "isFlowEqual L f event \<longleftrightarrow> is_open f \<and> same_key L (key_of_event L agent event) (key_of_flow f)"
  using assms
  by (auto simp: isFlowEqual_def agent_event_def same_key_def key_of_event_def key_of_flow_def
      getFlowEventEntity_def is_open_def Let_def addressesEqual_def)

lemma findIndex_isFlowEqual:
  assumes "agent_event L agent event" and "flows_wf L agent fs"
  shows "findIndex (\<lambda>f. isFlowEqual L f event) fs =
    findIndex (\<lambda>f. is_open f \<and> same_key L (key_of_event L agent event) (key_of_flow f)) fs"
  using assms by (intro findIndex_cong) (auto simp: flows_wf_def isFlowEqual_same_key)

section \<open>The ledger a flow list stands for\<close>

text \<open>
  The abstract specification. A stream has a rate, the amount settled so far and the time
  of that settlement; the ledger maps each key to its open stream. An event of a key without
  an open stream opens one; otherwise it settles the stream and either changes its rate or,
  for a rate that is not positive, closes it.
\<close>

record stream =
  rate :: int
  settled :: int
  since :: int

type_synonym ledger = "flow_key \<Rightarrow> stream option"

definition stream_of_flow :: "flow \<Rightarrow> stream" where
  "stream_of_flow f = \<lparr> rate = amount_int (fl_flowRate f),
     settled = amount_int (fl_accumulatedAmount f), since = fl_lastTimestamp f \<rparr>"

definition ledger_of :: "libs \<Rightarrow> flow list \<Rightarrow> ledger" where
  "ledger_of L fs k = map_option stream_of_flow (lookup_flow L fs k)"

definition streamed :: "stream \<Rightarrow> int \<Rightarrow> int" where
  "streamed s u = settled s + rate s * (u - since s)"

definition ledger_step :: "libs \<Rightarrow> ledger \<Rightarrow> flow_key \<Rightarrow> int \<Rightarrow> int \<Rightarrow> ledger" where
  "ledger_step L m k r t = (\<lambda>k'. if \<not> same_key L k' k then m k' else
     (case m k of
        None \<Rightarrow> Some \<lparr> rate = r, settled = 0, since = t \<rparr>
      | Some s \<Rightarrow> if 0 < r then Some \<lparr> rate = r, settled = streamed s t, since = t \<rparr> else None))"

fun ledger_run :: "libs \<Rightarrow> ledger \<Rightarrow> (flow_key \<times> int \<times> int) list \<Rightarrow> ledger" where
  "ledger_run L m [] = m"
| "ledger_run L m ((k, r, t) # es) = ledger_run L (ledger_step L m k r t) es"

text \<open>What a stream whose rate was set to \<open>r\<close> at time \<open>t\<close>, for each \<open>(r, t)\<close> of a
  history, has paid out at time \<open>u\<close>.\<close>

fun paid_out :: "(int \<times> int) list \<Rightarrow> int \<Rightarrow> int" where
  "paid_out [] u = 0"
| "paid_out [(r, t)] u = r * (u - t)"
| "paid_out ((r, t) # (r', t') # h) u = r * (t' - t) + paid_out ((r', t') # h) u"

definition history :: "libs \<Rightarrow> flow_key \<Rightarrow> (flow_key \<times> int \<times> int) list \<Rightarrow> (int \<times> int) list" where
  "history L k es = map snd (filter (\<lambda>e. same_key L k (fst e)) es)"

lemma paid_out_snoc:
  "h \<noteq> [] \<Longrightarrow> paid_out (h @ [(r, t)]) u = paid_out h t + r * (u - t)"
  by (induction h u rule: paid_out.induct) auto

lemma ledger_run_snoc: "ledger_run L m (es @ [(k, r, t)]) = ledger_step L (ledger_run L m es) k r t"
  by (induction L m es rule: ledger_run.induct) auto

lemma same_key_ledger:
  assumes "\<And>k k'. same_key L k k' \<Longrightarrow> m k = m k'" and "same_key L k k'"
  shows "ledger_run L m es k = ledger_run L m es k'"
  using assms
proof (induction L m es rule: ledger_run.induct)
  case (2 L m k0 r t es)
  have "ledger_step L m k0 r t a = ledger_step L m k0 r t b" if "same_key L a b" for a b
    using 2(2) [OF that] that unfolding ledger_step_def
    by (auto dest: fk.eqv_sym fk.eqv_trans)
  then show ?case using 2 by simp
qed simp

text \<open>While a key's events all have a positive rate, its stream has paid out the integral of
  its rate, whatever the events of other keys in between.\<close>

lemma ledger_run_paid_out:
  assumes "m k = None" and "\<And>k k'. same_key L k k' \<Longrightarrow> m k = m k'"
    and "\<And>r t. (r, t) \<in> set (history L k es) \<Longrightarrow> 0 < r"
  shows "case ledger_run L m es k of
      None \<Rightarrow> history L k es = []
    | Some s \<Rightarrow> history L k es \<noteq> [] \<and> (\<forall>u. streamed s u = paid_out (history L k es) u)"
  using assms(3)
proof (induction es rule: rev_induct)
  case Nil
  then show ?case using assms(1) by (simp add: history_def)
next
  case (snoc e es)
  obtain k0 r t where e: "e = (k0, r, t)" by (cases e)
  have hist: "history L k (es @ [(k0, r, t)]) = history L k es @ (if same_key L k k0 then [(r, t)] else [])"
    by (simp add: history_def)
  have IH: "case ledger_run L m es k of
      None \<Rightarrow> history L k es = []
    | Some s \<Rightarrow> history L k es \<noteq> [] \<and> (\<forall>u. streamed s u = paid_out (history L k es) u)"
  proof (rule snoc.IH)
    fix r' t' assume "(r', t') \<in> set (history L k es)"
    then show "0 < r'" using snoc.prems [of r' t'] hist by (simp add: e)
  qed
  show ?case
  proof (cases "same_key L k k0")
    case False
    then show ?thesis unfolding e using IH hist by (simp add: ledger_run_snoc ledger_step_def split: option.splits)
  next
    case True
    then have "0 < r" using snoc.prems [of r t] hist by (simp add: e)
    moreover have "ledger_run L m es k0 = ledger_run L m es k"
      using same_key_ledger [of L m k k0 es] assms(2) True by simp
    ultimately show ?thesis
      unfolding e using IH hist True
      by (auto simp: ledger_run_snoc ledger_step_def streamed_def paid_out_snoc split: option.splits)
  qed
qed

section \<open>Refinement: updateFlows implements the ledger\<close>

lemma lookup_flow_same_key:
  assumes "same_key L k k'"
  shows "lookup_flow L fs k = lookup_flow L fs k'"
proof -
  have "same_key L k (key_of_flow f) = same_key L k' (key_of_flow f)" for f
    using assms by (blast intro: fk.eqv_sym fk.eqv_trans)
  then show ?thesis by (simp add: lookup_flow_def lookup_by_def)
qed

lemma key_of_new_flow:
  assumes "isIncoming = addr_eq L (ev_receiver event) agent"
  shows "key_of_flow \<lparr> fl_isCancelled = c, fl_isIncoming = isIncoming,
      fl_entity = getFlowEventEntity event isIncoming, fl_superTokenAddress = ev_token event,
      fl_accumulatedAmount = a, fl_creationTimestamp = ct, fl_lastTimestamp = lt,
      fl_flowRate = r, fl_description = d \<rparr> = key_of_event L agent event"
  by (simp add: key_of_flow_def key_of_event_def assms Let_def)

lemma event_entity_not_agent:
  assumes "agent_event L agent event"
  shows "\<not> addr_eq L (getFlowEventEntity event (addr_eq L (ev_receiver event) agent)) agent"
  using assms by (auto simp: agent_event_def getFlowEventEntity_def)

text \<open>A found flow is open, has the event's key, and so keeps it when updated.\<close>

lemma found_flow:
  assumes "agent_event L agent event" and "flows_wf L agent fs"
    and "findIndex (\<lambda>f. isFlowEqual L f event) fs = Some i"
  shows "i < length fs" and "is_open (fs ! i)"
    and "same_key L (key_of_flow (fs ! i)) (key_of_event L agent event)"
    and "lookup_flow L fs (key_of_event L agent event) = Some (fs ! i)"
proof -
  from assms(3) have idx: "findIndex (\<lambda>f. is_open f \<and>
      same_key L (key_of_event L agent event) (key_of_flow f)) fs = Some i"
    using findIndex_isFlowEqual [OF assms(1,2)] by simp
  from findIndex_SomeD(1,2) [OF this] show "i < length fs" "is_open (fs ! i)"
      "same_key L (key_of_flow (fs ! i)) (key_of_event L agent event)"
    by (auto intro: fk.eqv_sym)
  from idx show "lookup_flow L fs (key_of_event L agent event) = Some (fs ! i)"
    by (simp add: lookup_flow_def fk.lookup_by_findIndex)
qed

lemma updateFlows_foundE:
  assumes "updateFlows L st event t = Inr fs"
    and "findIndex (\<lambda>f. isFlowEqual L f event) (flows st) = Some i" and "is_open (flows st ! i)"
  obtains y where "fs = (flows st)[i := y]" and "key_of_flow y = key_of_flow (flows st ! i)"
    and "fl_entity y = fl_entity (flows st ! i)" and "is_open y = (0 < amount_int (ev_flowRate event))"
    and "is_open y \<longrightarrow> stream_of_flow y = \<lparr> rate = amount_int (ev_flowRate event),
      settled = streamed (stream_of_flow (flows st ! i)) t, since = t \<rparr>"
proof (cases "js_gt_zero (ev_flowRate event)")
  case True
  with assms obtain d where "fs = (flows st)[i := (flows st ! i)
      \<lparr> fl_accumulatedAmount := calculateNewAccumulatedAmount (flows st ! i) t,
        fl_lastTimestamp := t, fl_flowRate := ev_flowRate event, fl_description := d \<rparr>]"
    by (auto simp: updateFlows_def Let_def)
  then show thesis
    by (rule that) (use assms(3) True in \<open>simp_all add: js_gt_zero_def stream_of_flow_def
        streamed_def calculateNewAccumulatedAmount_def algebra_simps\<close>)
next
  case False
  with assms have "fs = (flows st)[i := (flows st ! i)
      \<lparr> fl_accumulatedAmount := calculateNewAccumulatedAmount (flows st ! i) t,
        fl_lastTimestamp := t, fl_isCancelled := True \<rparr>]"
    by (auto simp: updateFlows_def Let_def)
  then show thesis
    by (rule that) (use False in \<open>simp_all add: js_gt_zero_def\<close>)
qed

lemma updateFlows_wf:
  assumes ev: "agent_event L (agentAddress st) event"
    and wf: "flows_wf L (agentAddress st) (flows st)"
    and upd: "updateFlows L st event t = Inr fs"
  shows "flows_wf L (agentAddress st) fs"
proof (cases "findIndex (\<lambda>f. isFlowEqual L f event) (flows st)")
  case None
  then have idx: "findIndex (\<lambda>f. is_open f \<and>
      same_key L (key_of_event L (agentAddress st) event) (key_of_flow f)) (flows st) = None"
    using findIndex_isFlowEqual [OF ev wf] by simp
  from upd None obtain y where fs: "fs = flows st @ [y]"
    and y: "key_of_flow y = key_of_event L (agentAddress st) event"
      "\<not> addr_eq L (fl_entity y) (agentAddress st)"
    using event_entity_not_agent [OF ev]
    by (auto simp: updateFlows_def Let_def key_of_new_flow)
  have "distinct_by is_open (same_key L) key_of_flow (flows st @ [y])"
    using wf idx y(1) by (intro fk.distinct_by_push) (auto simp: flows_wf_def fk.eqv_refl)
  with wf y(2) fs show ?thesis by (auto simp: flows_wf_def)
next
  case (Some i)
  note found = found_flow [OF ev wf Some]
  have idx: "findIndex (\<lambda>f. is_open f \<and>
      same_key L (key_of_event L (agentAddress st) event) (key_of_flow f)) (flows st) = Some i"
    using findIndex_isFlowEqual [OF ev wf] Some by simp
  obtain y where fs: "fs = (flows st)[i := y]"
    and y: "key_of_flow y = key_of_flow (flows st ! i)" "fl_entity y = fl_entity (flows st ! i)"
    by (rule updateFlows_foundE [OF upd Some found(2)])
  have "distinct_by is_open (same_key L) key_of_flow ((flows st)[i := y])"
    using wf idx y(1) found(3) by (intro fk.distinct_by_replace) (auto simp: flows_wf_def)
  moreover have "\<not> addr_eq L (fl_entity y) (agentAddress st)"
    using wf found(1,2) y(2) by (auto simp: flows_wf_def)
  ultimately show ?thesis
    using wf fs by (auto simp: flows_wf_def dest!: set_update_subset_insert [THEN subsetD])
qed

lemma updateFlows_ledger:
  assumes ev: "agent_event L (agentAddress st) event"
    and wf: "flows_wf L (agentAddress st) (flows st)"
    and upd: "updateFlows L st event t = Inr fs"
  shows "ledger_of L fs = ledger_step L (ledger_of L (flows st))
    (key_of_event L (agentAddress st) event) (amount_int (ev_flowRate event)) t"
proof (rule ext, cases "findIndex (\<lambda>f. isFlowEqual L f event) (flows st)")
  fix k
  let ?k = "key_of_event L (agentAddress st) event"
  case None
  then have idx: "findIndex (\<lambda>f. is_open f \<and> same_key L ?k (key_of_flow f)) (flows st) = None"
    using findIndex_isFlowEqual [OF ev wf] by simp
  then have none: "lookup_flow L (flows st) ?k = None"
    unfolding lookup_flow_def fk.lookup_by_findIndex by simp
  from upd None obtain y where fs: "fs = flows st @ [y]" and y: "key_of_flow y = ?k" "is_open y"
    "stream_of_flow y = \<lparr> rate = amount_int (ev_flowRate event), settled = 0, since = t \<rparr>"
    by (auto simp: updateFlows_def Let_def key_of_new_flow is_open_def stream_of_flow_def)
  have "lookup_flow L fs k = (if same_key L k ?k then Some y else lookup_flow L (flows st) k)"
    unfolding lookup_flow_def fs using y by (intro fk.lookup_after_push idx) (auto simp: fk.eqv_refl)
  then show "ledger_of L fs k = ledger_step L (ledger_of L (flows st)) ?k (amount_int (ev_flowRate event)) t k"
    using none y(3) by (auto simp: ledger_of_def ledger_step_def)
next
  fix k
  let ?k = "key_of_event L (agentAddress st) event"
  case (Some i)
  note found = found_flow [OF ev wf Some]
  have idx: "findIndex (\<lambda>f. is_open f \<and> same_key L ?k (key_of_flow f)) (flows st) = Some i"
    using findIndex_isFlowEqual [OF ev wf] Some by simp
  let ?s = "stream_of_flow (flows st ! i)"
  obtain y where fs: "fs = (flows st)[i := y]"
    and y: "key_of_flow y = key_of_flow (flows st ! i)" "fl_entity y = fl_entity (flows st ! i)"
      "is_open y = (0 < amount_int (ev_flowRate event))"
      "is_open y \<longrightarrow> stream_of_flow y =
        \<lparr> rate = amount_int (ev_flowRate event), settled = streamed ?s t, since = t \<rparr>"
    by (rule updateFlows_foundE [OF upd Some found(2)])
  have "lookup_flow L fs k = (if same_key L k ?k then (if is_open y then Some y else None)
      else lookup_flow L (flows st) k)"
    unfolding lookup_flow_def fs using wf y(1) found(3)
    by (intro fk.lookup_after_replace idx) (auto simp: flows_wf_def)
  then show "ledger_of L fs k = ledger_step L (ledger_of L (flows st)) ?k (amount_int (ev_flowRate event)) t k"
    using found(4) y(3,4) by (auto simp: ledger_of_def ledger_step_def)
qed

text \<open>Closed flows are history: no event changes them, and no flow is ever dropped.\<close>

lemma updateFlows_keeps_cancelled:
  assumes "updateFlows L st event t = Inr fs"
  shows "length (flows st) \<le> length fs \<and>
    (\<forall>j < length (flows st). fl_isCancelled (flows st ! j) \<longrightarrow> fs ! j = flows st ! j)"
proof (cases "findIndex (\<lambda>f. isFlowEqual L f event) (flows st)")
  case None
  with assms show ?thesis by (auto simp: updateFlows_def Let_def nth_append)
next
  case (Some i)
  then have "\<not> fl_isCancelled (flows st ! i)"
    using findIndex_SomeD(2) [OF Some] by (simp add: isFlowEqual_def)
  moreover from assms Some obtain y where "fs = (flows st)[i := y]"
    by (auto simp: updateFlows_def Let_def split: if_splits)
  ultimately show ?thesis by simp (metis nth_list_update_neq)
qed

end
