(* ===== verification/Token_Store.thy ===== *)
theory Token_Store
  imports Store_State
begin

text \<open>
  The super tokens of the store: \<^verbatim>\<open>getSuperTokenContract\<close>, \<^verbatim>\<open>updateSuperTokens\<close>,
  \<^verbatim>\<open>updateSendersSuperTokens\<close>, \<^verbatim>\<open>newSuperTokenEntry\<close> and \<^verbatim>\<open>newSuperToken\<close> of
  \<^verbatim>\<open>store/updaters.js\<close>, with the token helpers of \<^verbatim>\<open>helpers/token.js\<close>.

  The chain is reached through the Aragon API object, a parameter of the model
  (\<open>app_api\<close>): each field is the outcome of one kind of call at the moment the handler
  runs, \<open>Inl\<close> being a rejected promise. A contract handle is the address it was made for.
  The module-level \<^verbatim>\<open>Map\<close> of handles is a state that the functions thread.
\<close>

section \<open>The Aragon API and the settings\<close>

type_synonym contract = "string option"

record app_api =
  app_external :: "string option \<Rightarrow> contract result"
  call_balanceOf :: "contract \<Rightarrow> string \<Rightarrow> js_amount result"
  call_decimals :: "contract \<Rightarrow> js_amount result"
  call_name :: "contract \<Rightarrow> string result"
  call_symbol :: "contract \<Rightarrow> string result"
  call_getUnderlyingToken :: "contract \<Rightarrow> string result"
  call_getHost :: "contract \<Rightarrow> string result"
  call_getCFAv1LiquidationPeriod :: "contract \<Rightarrow> string \<Rightarrow> string option \<Rightarrow> js_amount result"
  call_getInitializationBlock :: "contract \<Rightarrow> int result"
  call_getGovernance :: "contract \<Rightarrow> string result"
  app_call :: "string \<Rightarrow> string result"
  app_network :: "network result"
  web3_getBlockNumber :: "int result"
  web3_getBlockTimestamp :: "int \<Rightarrow> int result"
  web3_getBalance :: "string \<Rightarrow> js_amount result"

record list_token =
  tl_address :: string
  tl_chainId :: int
  tl_symbol :: string
  tl_name :: string
  tl_decimals :: js_amount
  tl_logoURI :: "string option"

record external =
  ex_address :: string
  ex_contract :: contract

record settings =
  set_network :: network
  set_cfa :: external
  set_governance :: external
  set_host :: external
  set_tokenList :: "list_token list"

section \<open>Token helpers\<close>

text \<open>The native currency of a network; \<open>None\<close> where the table has no entry.\<close>

definition NATIVE_CURRENCIES :: "int \<Rightarrow> (js_amount \<times> string \<times> string) option" where
  "NATIVE_CURRENCIES chainId =
     (if chainId = 1 \<or> chainId = 4 then Some (JNum 18, ''ETH'', ''ETH'')
      else if chainId = 100 then Some (JNum 18, ''xDAI'', ''XDAI'')
      else if chainId = 137 \<or> chainId = 80001 then Some (JNum 18, ''MATIC'', ''MATIC'')
      else None)"

definition loadContractData :: "app_api \<Rightarrow> contract \<Rightarrow> (js_amount \<times> string \<times> string) result" where
  "loadContractData app tokenContract =
     await (call_decimals app tokenContract) (\<lambda>decimals.
     await (call_name app tokenContract) (\<lambda>name.
     await (call_symbol app tokenContract) (\<lambda>symbol.
       Inr (decimals, name, symbol))))"

text \<open>
  \<^verbatim>\<open>loadTokenData\<close> for an address. Destructuring a missing entry of the table of native
  currencies throws, and so does calling a method on a string that is no address; a missing
  network gives three \<^verbatim>\<open>undefined\<close>s. For a contract handle, which is no address string,
  it is \<open>loadContractData\<close>.
\<close>

definition loadTokenData ::
  "libs \<Rightarrow> app_api \<Rightarrow> string \<Rightarrow> network option \<Rightarrow>
     (js_amount option \<times> string option \<times> string option) result" where
  "loadTokenData L app token network =
     (if isAddress L token then
        if addr_eq L token ZERO_ADDRESS then
          (case network of
             None \<Rightarrow> Inr (None, None, None)
           | Some n \<Rightarrow>
               if net_id n = 0 then Inr (None, None, None)
               else (case NATIVE_CURRENCIES (net_id n) of
                       None \<Rightarrow> Inl TypeError
                     | Some (decimals, name, symbol) \<Rightarrow> Inr (Some decimals, Some name, Some symbol)))
        else await (app_external app (Some token)) (\<lambda>tokenContract.
             await (loadContractData app tokenContract) (\<lambda>(decimals, name, symbol).
               Inr (Some decimals, Some name, Some symbol)))
      else Inl TypeError)"

definition loadTokenHolderBalance :: "libs \<Rightarrow> app_api \<Rightarrow> string \<Rightarrow> string \<Rightarrow> js_amount result" where
  "loadTokenHolderBalance L app tokenAddress holder =
     (if addr_eq L tokenAddress ZERO_ADDRESS then web3_getBalance app holder
      else await (app_external app (Some tokenAddress)) (\<lambda>token. call_balanceOf app token holder))"

definition getFakeTokenSymbol :: "string option \<Rightarrow> string option" where
  "getFakeTokenSymbol symbol =
     (case symbol of
        None \<Rightarrow> None
      | Some [] \<Rightarrow> Some []
      | Some (c # cs) \<Rightarrow> if c = CHR ''f'' then Some cs else Some (c # cs))"

definition getNativeCurrencyLogo :: "string option \<Rightarrow> string option result" where
  "getNativeCurrencyLogo symbol =
     (case symbol of
        None \<Rightarrow> Inl TypeError
      | Some s \<Rightarrow> Inr
          (if toUpperCase s = ''ETH'' then
             Some ''https://raw.githubusercontent.com/trustwallet/assets/master/blockchains/ethereum/info/logo.png''
           else if toUpperCase s = ''XDAI'' then
             Some ''https://assets.coingecko.com/coins/images/11062/small/Identity-Primary-DarkBG.png?1638372986''
           else if toUpperCase s = ''MATIC'' then
             Some ''https://raw.githubusercontent.com/trustwallet/assets/master/blockchains/polygon/info/logo.png''
           else None))"

definition isSuperToken :: "app_api \<Rightarrow> string \<Rightarrow> bool" where
  "isSuperToken app tokenAddress =
     isOk (await (app_external app (Some tokenAddress)) (\<lambda>superToken. call_getHost app superToken))"

section \<open>Contract handles\<close>

type_synonym contract_cache = "(string option \<times> contract) list"

text \<open>\<open>app\<close> is \<open>None\<close> where the caller passes no API object: reading \<^verbatim>\<open>app.external\<close>
  then throws.\<close>

definition getSuperTokenContract ::
  "contract_cache \<Rightarrow> string option \<Rightarrow> app_api option \<Rightarrow> contract result \<times> contract_cache" where
  "getSuperTokenContract superTokenContracts tokenAddress app =
     (case map_of superTokenContracts tokenAddress of
        Some tokenContract \<Rightarrow> (Inr tokenContract, dict_put tokenAddress tokenContract superTokenContracts)
      | None \<Rightarrow>
          (case app of
             None \<Rightarrow> (Inl TypeError, superTokenContracts)
           | Some api \<Rightarrow>
               (case app_external api tokenAddress of
                  Inl e \<Rightarrow> (Inl e, superTokenContracts)
                | Inr tokenContract \<Rightarrow>
                    (Inr tokenContract, dict_put tokenAddress tokenContract superTokenContracts))))"

section \<open>New super tokens\<close>

text \<open>The metadata of the underlying token: logo, mainnet equivalent, decimals, name, symbol.\<close>

type_synonym underlying_data =
  "string option \<times> string option \<times> js_amount option \<times> string option \<times> string option"

definition testnet_underlying_data ::
  "libs \<Rightarrow> app_api \<Rightarrow> settings \<Rightarrow> string \<Rightarrow> underlying_data result" where
  "testnet_underlying_data L app settings underlyingTokenAddress =
     await (loadTokenData L app underlyingTokenAddress (Some (set_network settings)))
       (\<lambda>(underlyingDecimals, underlyingName, underlyingSymbol).
     let tokenSymbol = getFakeTokenSymbol underlyingSymbol in
     (case find (\<lambda>t. Some (tl_symbol t) = tokenSymbol) (set_tokenList settings) of
        Some token \<Rightarrow>
          Inr (tl_logoURI token, Some (tl_address token),
               underlyingDecimals, underlyingName, underlyingSymbol)
      | None \<Rightarrow>
          if addr_eq L underlyingTokenAddress ZERO_ADDRESS then
            await (getNativeCurrencyLogo tokenSymbol) (\<lambda>logoURI.
              Inr (logoURI, None, underlyingDecimals, underlyingName, underlyingSymbol))
          else Inr (None, None, underlyingDecimals, underlyingName, underlyingSymbol)))"

definition mainnet_underlying_data ::
  "libs \<Rightarrow> app_api \<Rightarrow> settings \<Rightarrow> string \<Rightarrow> underlying_data result" where
  "mainnet_underlying_data L app settings underlyingTokenAddress =
     (case (if \<not> addr_eq L underlyingTokenAddress ZERO_ADDRESS
            then find (\<lambda>t. addr_eq L (tl_address t) underlyingTokenAddress) (set_tokenList settings)
            else None) of
        Some token \<Rightarrow>
          Inr (tl_logoURI token, None, Some (tl_decimals token), Some (tl_name token), Some (tl_symbol token))
      | None \<Rightarrow>
          await (loadTokenData L app underlyingTokenAddress (Some (set_network settings)))
            (\<lambda>(underlyingDecimals, underlyingName, underlyingSymbol).
          if addr_eq L underlyingTokenAddress ZERO_ADDRESS then
            await (getNativeCurrencyLogo underlyingSymbol) (\<lambda>logoURI.
              Inr (logoURI, None, underlyingDecimals, underlyingName, underlyingSymbol))
          else Inr (None, None, underlyingDecimals, underlyingName, underlyingSymbol)))"

definition newSuperToken ::
  "libs \<Rightarrow> string option \<Rightarrow> contract \<Rightarrow> app_api \<Rightarrow> settings \<Rightarrow> super_token result" where
  "newSuperToken L superTokenAddress superTokenContract app settings =
     (let isNative = isNativeSuperToken L superTokenAddress (net_id (set_network settings)) in
      await (loadContractData app superTokenContract) (\<lambda>(decimals, name, symbol).
      await (if isNative then Inr ZERO_ADDRESS else call_getUnderlyingToken app superTokenContract)
        (\<lambda>underlyingTokenAddress.
      await (call_getCFAv1LiquidationPeriod app (ex_contract (set_governance settings))
               (ex_address (set_host settings)) superTokenAddress) (\<lambda>liquidationPeriod.
      await (if isTestNetwork (set_network settings)
             then testnet_underlying_data L app settings underlyingTokenAddress
             else mainnet_underlying_data L app settings underlyingTokenAddress)
        (\<lambda>(logoURI, mainnetTokenEquivalentAddress, underlyingDecimals, underlyingName, underlyingSymbol).
      Inr \<lparr> st_address = superTokenAddress,
            st_decimals = decimals,
            st_liquidationPeriodSeconds = liquidationPeriod,
            st_name = name,
            st_symbol = symbol,
            st_underlyingToken = \<lparr> ut_address = underlyingTokenAddress, ut_name = underlyingName,
              ut_decimals = underlyingDecimals, ut_symbol = underlyingSymbol \<rparr>,
            st_logoURI = logoURI,
            st_mainnetTokenEquivalentAddress = mainnetTokenEquivalentAddress,
            st_balance = JNum 0,
            st_netFlow = JNum 0,
            st_lastUpdateTimestamp = None \<rparr>)))))"

section \<open>Updating the super tokens\<close>

text \<open>
  The body of the \<^verbatim>\<open>try\<close> block, once the handle is there. \<open>oldSuperTokens\<close> is \<open>None\<close> when
  the state holds \<^verbatim>\<open>undefined\<close>, which the array spread rejects.
\<close>

definition updated_super_tokens ::
  "libs \<Rightarrow> super_token list option \<Rightarrow> string \<Rightarrow> app_api \<Rightarrow> settings \<Rightarrow> string option \<Rightarrow> contract \<Rightarrow>
     int \<Rightarrow> js_amount option \<Rightarrow> super_token list result" where
  "updated_super_tokens L superTokens_opt agent app settings tokenAddress tokenContract updateTimestamp netFlow =
     (case superTokens_opt of
        None \<Rightarrow> Inl TypeError
      | Some oldSuperTokens \<Rightarrow>
          (let superTokenIndex = findIndex (\<lambda>t. addressesEqual L tokenAddress (st_address t)) oldSuperTokens in
           await (case superTokenIndex of
                    None \<Rightarrow> newSuperToken L tokenAddress tokenContract app settings
                  | Some i \<Rightarrow> Inr (oldSuperTokens ! i)) (\<lambda>token.
           await (call_balanceOf app tokenContract agent) (\<lambda>balance.
           let updatedToken = token\<lparr> st_lastUpdateTimestamp := Some updateTimestamp,
                 st_balance := balance,
                 st_netFlow := (case netFlow of None \<Rightarrow> st_netFlow token | Some n \<Rightarrow> n) \<rparr> in
           Inr (case superTokenIndex of
                  None \<Rightarrow> oldSuperTokens @ [updatedToken]
                | Some i \<Rightarrow> oldSuperTokens[i := updatedToken])))))"

text \<open>\<^verbatim>\<open>updateSuperTokens\<close> never rejects: its \<^verbatim>\<open>catch\<close> logs the error and the function
  returns \<^verbatim>\<open>undefined\<close>, the \<open>None\<close> of the model.\<close>

definition updateSuperTokens ::
  "libs \<Rightarrow> contract_cache \<Rightarrow> super_token list option \<Rightarrow> string \<Rightarrow> app_api \<Rightarrow> settings \<Rightarrow> string option \<Rightarrow>
     int \<Rightarrow> js_amount option \<Rightarrow> super_token list option \<times> contract_cache" where
  "updateSuperTokens L cache oldSuperTokens agent app settings tokenAddress updateTimestamp netFlow =
     (case getSuperTokenContract cache tokenAddress (Some app) of
        (Inl e, cache') \<Rightarrow> (None, cache')
      | (Inr tokenContract, cache') \<Rightarrow>
          ((case updated_super_tokens L oldSuperTokens agent app settings tokenAddress tokenContract
                   updateTimestamp netFlow of
              Inl e \<Rightarrow> None
            | Inr newSuperTokens \<Rightarrow> Some newSuperTokens), cache'))"

section \<open>Updating the tokens of a sender\<close>

text \<open>The call in \<^verbatim>\<open>newSuperTokenEntry\<close> passes no API object to \<^verbatim>\<open>getSuperTokenContract\<close>.
  The balance is read through the handle itself, so the API object is needed for the
  outcome of the call only.\<close>

definition newSuperTokenEntry ::
  "app_api \<Rightarrow> contract_cache \<Rightarrow> string \<Rightarrow> string \<Rightarrow> js_amount \<Rightarrow> int \<Rightarrow> sender_entry result \<times> contract_cache" where
  "newSuperTokenEntry app cache sender tokenAddress netFlow updateTimestamp =
     (case getSuperTokenContract cache (Some tokenAddress) None of
        (Inl e, cache') \<Rightarrow> (Inl e, cache')
      | (Inr tokenContract, cache') \<Rightarrow>
          (await (call_balanceOf app tokenContract sender) (\<lambda>balance.
             Inr \<lparr> se_address = tokenAddress, se_balance = balance, se_netFlow = netFlow,
                   se_lastUpdateTimestamp = updateTimestamp \<rparr>), cache'))"

definition updateSendersSuperTokens ::
  "libs \<Rightarrow> app_api \<Rightarrow> contract_cache \<Rightarrow> app_store \<Rightarrow> flow_event \<Rightarrow> int \<Rightarrow>
     (string \<times> sender_entry list) list result \<times> contract_cache" where
  "updateSendersSuperTokens L app cache state event updateTimestamp =
     (let isIncoming = addr_eq L (agentAddress state) (ev_receiver event);
          newSendersSuperTokens = sendersSuperTokens state;
          sender = ev_sender event
      in if \<not> isIncoming then (Inr newSendersSuperTokens, cache)
         else (case map_of newSendersSuperTokens sender of
            None \<Rightarrow>
              (case newSuperTokenEntry app cache sender (ev_token event)
                      (ev_totalSenderFlowRate event) updateTimestamp of
                 (r, cache') \<Rightarrow>
                   (await r (\<lambda>entry. Inr (dict_put sender [entry] newSendersSuperTokens)), cache'))
          | Some senderSuperTokens \<Rightarrow>
              (let newSenderSuperTokens =
                     filter (\<lambda>t. \<not> addr_eq L (se_address t) (ev_token event)) senderSuperTokens
               in if js_strict_neq_zero (ev_totalSenderFlowRate event) then
                    (case newSuperTokenEntry app cache sender (ev_token event)
                            (ev_totalSenderFlowRate event) updateTimestamp of
                       (r, cache') \<Rightarrow>
                         (await r (\<lambda>entry.
                            Inr (dict_put sender (newSenderSuperTokens @ [entry]) newSendersSuperTokens)),
                          cache'))
                  else (Inr newSendersSuperTokens, cache))))"

section \<open>Invariants\<close>

definition tokens_wf :: "libs \<Rightarrow> super_token list \<Rightarrow> bool" where
  "tokens_wf L ts = distinct_by (\<lambda>_. True) (addressesEqual L) st_address ts"

definition lookup_token :: "libs \<Rightarrow> super_token list \<Rightarrow> string option \<Rightarrow> super_token option" where
  "lookup_token L ts a = lookup_by (\<lambda>_. True) (addressesEqual L) st_address ts a"

definition senders_wf :: "libs \<Rightarrow> (string \<times> sender_entry list) list \<Rightarrow> bool" where
  "senders_wf L d \<longleftrightarrow> distinct (map fst d) \<and>
     (\<forall>p \<in> set d. distinct_by (\<lambda>_. True) (\<lambda>a b. addr_eq L a b) se_address (snd p))"

interpretation tk: keyed_list "\<lambda>_ :: super_token. True" "addressesEqual L" st_address for L
  by unfold_locales (auto intro: addressesEqual_sym addressesEqual_trans)

interpretation sk: keyed_list "\<lambda>_ :: sender_entry. True" "\<lambda>a b. addr_eq L a b" se_address for L
  by unfold_locales (auto intro: addressesEqual_sym addressesEqual_trans)

lemmas tk_laws = tk.distinct_by_push tk.distinct_by_replace tk.lookup_after_push
  tk.lookup_after_replace

lemma lookup_token_findIndex:
  "lookup_token L ts a = map_option ((!) ts) (findIndex (\<lambda>t. addressesEqual L a (st_address t)) ts)"
  using tk.lookup_by_findIndex [of L ts a] by (simp add: lookup_token_def)

section \<open>Super tokens\<close>

lemma newSuperToken_address:
  "newSuperToken L a c app settings = Inr t \<Longrightarrow> st_address t = a"
  by (auto simp: newSuperToken_def Let_def)

text \<open>The token an update starts from: the stored one, or a new one.\<close>

definition base_token ::
  "libs \<Rightarrow> super_token list \<Rightarrow> app_api \<Rightarrow> settings \<Rightarrow> string option \<Rightarrow> contract \<Rightarrow> super_token result" where
  "base_token L ts app settings a c =
     (case lookup_token L ts a of None \<Rightarrow> newSuperToken L a c app settings | Some t \<Rightarrow> Inr t)"

definition refreshed_token :: "super_token \<Rightarrow> js_amount \<Rightarrow> int \<Rightarrow> js_amount option \<Rightarrow> super_token" where
  "refreshed_token t balance ts netFlow = t\<lparr> st_lastUpdateTimestamp := Some ts, st_balance := balance,
     st_netFlow := (case netFlow of None \<Rightarrow> st_netFlow t | Some n \<Rightarrow> n) \<rparr>"

lemma refreshed_token_fields [simp]:
  "st_address (refreshed_token t b ts n) = st_address t"
  "st_balance (refreshed_token t b ts n) = b"
  "st_lastUpdateTimestamp (refreshed_token t b ts n) = Some ts"
  "st_netFlow (refreshed_token t b ts n) = (case n of None \<Rightarrow> st_netFlow t | Some m \<Rightarrow> m)"
  by (simp_all add: refreshed_token_def)

lemma base_token_address:
  assumes "base_token L ts app settings a c = Inr t"
  shows "addressesEqual L (st_address t) a"
proof (cases "findIndex (\<lambda>t. addressesEqual L a (st_address t)) ts")
  case None
  with assms show ?thesis
    by (auto simp: base_token_def lookup_token_findIndex dest: newSuperToken_address)
next
  case (Some i)
  with assms findIndex_SomeD(2) [OF Some] show ?thesis
    by (auto simp: base_token_def lookup_token_findIndex intro: addressesEqual_sym)
qed

lemma updated_super_tokens_eq:
  "updated_super_tokens L (Some old) agent app settings a c ts netFlow =
     await (base_token L old app settings a c) (\<lambda>t.
     await (call_balanceOf app c agent) (\<lambda>balance. Inr
       (case findIndex (\<lambda>t. addressesEqual L a (st_address t)) old of
          None \<Rightarrow> old @ [refreshed_token t balance ts netFlow]
        | Some i \<Rightarrow> old[i := refreshed_token t balance ts netFlow])))"
  unfolding updated_super_tokens_def base_token_def lookup_token_findIndex refreshed_token_def Let_def
  by (cases "findIndex (\<lambda>t. addressesEqual L a (st_address t)) old")
    (simp_all del: findIndex_None_iff)

lemma getSuperTokenContract_Inr:
  assumes "getSuperTokenContract cache a app = (Inr c, cache')"
  shows "cache' = dict_put a c cache"
  using assms by (auto simp: getSuperTokenContract_def split: option.splits sum.splits)

text \<open>A successful update has refreshed one token and left every other one as it was.\<close>

lemma updateSuperTokens_SomeE:
  assumes "updateSuperTokens L cache old agent app settings a ts netFlow = (Some new, cache')"
  obtains old' c t balance where "old = Some old'" and "map_of cache' a = Some c"
    and "base_token L old' app settings a c = Inr t" and "call_balanceOf app c agent = Inr balance"
    and "new = (case findIndex (\<lambda>t. addressesEqual L a (st_address t)) old' of
          None \<Rightarrow> old' @ [refreshed_token t balance ts netFlow]
        | Some i \<Rightarrow> old'[i := refreshed_token t balance ts netFlow])"
proof -
  from assms obtain c where c: "getSuperTokenContract cache a (Some app) = (Inr c, cache')"
    and upd: "updated_super_tokens L old agent app settings a c ts netFlow = Inr new"
    by (auto simp: updateSuperTokens_def split: prod.splits sum.splits)
  from upd obtain old' where old: "old = Some old'"
    by (auto simp: updated_super_tokens_def split: option.splits)
  from upd obtain t balance where "base_token L old' app settings a c = Inr t"
    "call_balanceOf app c agent = Inr balance"
    "new = (case findIndex (\<lambda>t. addressesEqual L a (st_address t)) old' of
          None \<Rightarrow> old' @ [refreshed_token t balance ts netFlow]
        | Some i \<Rightarrow> old'[i := refreshed_token t balance ts netFlow])"
    unfolding old updated_super_tokens_eq by auto
  with old show thesis
    using getSuperTokenContract_Inr [OF c] by (intro that) auto
qed

lemma updateSuperTokens_wf:
  assumes "updateSuperTokens L cache (Some old) agent app settings a ts netFlow = (Some new, cache')"
    and "tokens_wf L old"
  shows "tokens_wf L new"
  using assms(1)
proof (rule updateSuperTokens_SomeE)
  fix old' c t balance
  assume *: "Some old = Some old'" "base_token L old' app settings a c = Inr t"
    "new = (case findIndex (\<lambda>t. addressesEqual L a (st_address t)) old' of
          None \<Rightarrow> old' @ [refreshed_token t balance ts netFlow]
        | Some i \<Rightarrow> old'[i := refreshed_token t balance ts netFlow])"
  have "addressesEqual L (st_address (refreshed_token t balance ts netFlow)) a"
    using base_token_address [OF *(2)] by simp
  with * assms(2) show ?thesis
    by (auto simp: tokens_wf_def split: option.split intro: tk_laws(1,2) [where k = a])
qed

lemma updateSuperTokens_lookup:
  assumes "updateSuperTokens L cache (Some old) agent app settings a ts netFlow = (Some new, cache')"
    and "tokens_wf L old"
  shows "\<exists>c t balance. map_of cache' a = Some c \<and> base_token L old app settings a c = Inr t \<and>
    call_balanceOf app c agent = Inr balance \<and>
    (\<forall>a'. lookup_token L new a' = (if addressesEqual L a' a
       then Some (refreshed_token t balance ts netFlow) else lookup_token L old a'))"
  using assms(1)
proof (rule updateSuperTokens_SomeE)
  fix old' c t balance
  assume *: "Some old = Some old'" "map_of cache' a = Some c" "base_token L old' app settings a c = Inr t"
    "call_balanceOf app c agent = Inr balance"
    "new = (case findIndex (\<lambda>t. addressesEqual L a (st_address t)) old' of
          None \<Rightarrow> old' @ [refreshed_token t balance ts netFlow]
        | Some i \<Rightarrow> old'[i := refreshed_token t balance ts netFlow])"
  let ?t = "refreshed_token t balance ts netFlow"
  have addr: "addressesEqual L (st_address ?t) a"
    using base_token_address [OF *(3)] by simp
  have "lookup_token L new a' = (if addressesEqual L a' a then Some ?t else lookup_token L old a')" for a'
  proof (cases "findIndex (\<lambda>t. addressesEqual L a (st_address t)) old")
    case None
    then show ?thesis
      using * addr tk.lookup_after_push [of L a old ?t a']
      by (simp add: lookup_token_def del: findIndex_None_iff)
  next
    case (Some i)
    then show ?thesis
      using * addr assms(2) tk.lookup_after_replace [of L old a i ?t a']
      by (simp add: lookup_token_def tokens_wf_def)
  qed
  with * show ?thesis by blast
qed

text \<open>Once the token list is \<^verbatim>\<open>undefined\<close> no update brings it back.\<close>

lemma updateSuperTokens_undefined:
  "fst (updateSuperTokens L cache None agent app settings a ts netFlow) = None"
  by (simp add: updateSuperTokens_def updated_super_tokens_def split: prod.split sum.split)

text \<open>An update leaves the token's handle in the cache, unless making one failed.\<close>

lemma updateSuperTokens_caches:
  assumes "isOk (app_external app a)"
  shows "map_of (snd (updateSuperTokens L cache old agent app settings a ts netFlow)) a \<noteq> None"
  using assms
  by (auto simp: updateSuperTokens_def getSuperTokenContract_def split: option.splits sum.splits)

text \<open>What the chain has to answer for an update to succeed.\<close>

definition token_answers :: "libs \<Rightarrow> contract_cache \<Rightarrow> super_token list \<Rightarrow> string \<Rightarrow> app_api \<Rightarrow> settings \<Rightarrow>
    string option \<Rightarrow> bool" where
  "token_answers L cache old agent app settings a =
     (case fst (getSuperTokenContract cache a (Some app)) of
        Inl _ \<Rightarrow> False
      | Inr c \<Rightarrow> isOk (base_token L old app settings a c) \<and> isOk (call_balanceOf app c agent))"

lemma updateSuperTokens_succeeds_iff:
  "fst (updateSuperTokens L cache (Some old) agent app settings a ts netFlow) \<noteq> None \<longleftrightarrow>
     token_answers L cache old agent app settings a"
  by (cases "getSuperTokenContract cache a (Some app)")
    (auto simp: updateSuperTokens_def token_answers_def updated_super_tokens_eq await_def isOk_def
      split: sum.splits)

section \<open>Tokens of a sender\<close>

lemma newSuperTokenEntry_cached:
  assumes "map_of cache (Some a) = Some c"
  shows "newSuperTokenEntry app cache sender a netFlow ts =
    (await (call_balanceOf app c sender) (\<lambda>balance. Inr \<lparr> se_address = a, se_balance = balance,
       se_netFlow = netFlow, se_lastUpdateTimestamp = ts \<rparr>), dict_put (Some a) c cache)"
  using assms by (simp add: newSuperTokenEntry_def getSuperTokenContract_def)

lemma newSuperTokenEntry_address:
  "newSuperTokenEntry app cache sender a netFlow ts = (Inr e, cache') \<Longrightarrow> se_address e = a \<and> se_netFlow e = netFlow"
  by (auto simp: newSuperTokenEntry_def split: prod.splits sum.splits)

text \<open>The new entry of a sender replaces the one of the same token.\<close>

lemma updateSendersSuperTokens_InrE:
  assumes "updateSendersSuperTokens L app cache st event ts = (Inr d, cache')"
  obtains (unchanged) "d = sendersSuperTokens st"
  | (entered) e where "addr_eq L (agentAddress st) (ev_receiver event)"
    and "se_address e = ev_token event" and "se_netFlow e = ev_totalSenderFlowRate event"
    and "d = dict_put (ev_sender event)
      (filter (\<lambda>t. \<not> addr_eq L (se_address t) (ev_token event))
         (case map_of (sendersSuperTokens st) (ev_sender event) of None \<Rightarrow> [] | Some es \<Rightarrow> es) @ [e])
      (sendersSuperTokens st)"
  using assms
  by (auto simp: updateSendersSuperTokens_def Let_def split: if_splits option.splits prod.splits
      dest!: newSuperTokenEntry_address)

lemma distinct_by_entry:
  fixes es :: "sender_entry list"
  assumes "distinct_by (\<lambda>_. True) (\<lambda>a b. addr_eq L a b) se_address es"
  shows "distinct_by (\<lambda>_. True) (\<lambda>a b. addr_eq L a b) se_address
    (filter (\<lambda>t. \<not> addr_eq L (se_address t) (se_address e)) es @ [e])"
  using sk.distinct_by_filter [OF assms, of "\<lambda>t. \<not> addr_eq L (se_address t) (se_address e)"]
  by (auto simp: distinct_by_def sorted_wrt_append)

lemma updateSendersSuperTokens_wf:
  assumes "updateSendersSuperTokens L app cache st event ts = (Inr d, cache')"
    and "senders_wf L (sendersSuperTokens st)"
  shows "senders_wf L d"
  using assms(1)
proof (cases rule: updateSendersSuperTokens_InrE)
  case unchanged
  then show ?thesis using assms(2) by simp
next
  case (entered e)
  let ?old = "case map_of (sendersSuperTokens st) (ev_sender event) of None \<Rightarrow> [] | Some es \<Rightarrow> es"
  have "distinct_by (\<lambda>_. True) (\<lambda>a b. addr_eq L a b) se_address ?old"
    using assms(2) by (auto simp: senders_wf_def distinct_by_def split: option.split dest!: map_of_SomeD)
  from distinct_by_entry [OF this, of e] entered(2) have new: "distinct_by (\<lambda>_. True) (\<lambda>a b. addr_eq L a b) se_address
      (filter (\<lambda>t. \<not> addr_eq L (se_address t) (ev_token event)) ?old @ [e])"
    by simp
  have put: "p \<in> set (dict_put k v m) \<Longrightarrow> p = (k, v) \<or> p \<in> set m" for p k and v :: "sender_entry list" and m
    by (induction m) (auto split: if_splits)
  show ?thesis
    using assms(2) new unfolding senders_wf_def entered(4)
    by (auto simp: distinct_keys_dict_put dest!: put)
qed

end
