(* ===== verification/Event_Handlers.thy ===== *)
theory Event_Handlers
  imports Flow_Store Token_Store
begin

text \<open>
  The event handlers (\<^verbatim>\<open>store/event-handlers.js\<close>) and the reducer of the background store
  (\<^verbatim>\<open>initialize\<close> in \<^verbatim>\<open>script.js\<close>). Every handler returns its promise's outcome and the
  cache of contract handles. The reducer returns the handler's promise from inside a
  \<^verbatim>\<open>try\<close> without awaiting it, so a rejection passes through to the caller.
\<close>

section \<open>Handlers\<close>

definition isAgentSender :: "libs \<Rightarrow> string \<Rightarrow> string \<Rightarrow> string \<Rightarrow> bool" where
  "isAgentSender L agent sender receiver \<longleftrightarrow> addr_eq L agent sender \<or> addr_eq L agent receiver"

definition handleFlowUpdated ::
  "libs \<Rightarrow> app_api \<Rightarrow> settings \<Rightarrow> contract_cache \<Rightarrow> app_store \<Rightarrow> flow_event \<Rightarrow>
     app_store result \<times> contract_cache" where
  "handleFlowUpdated L app settings cache state event =
     (if \<not> isAgentSender L (agentAddress state) (ev_sender event) (ev_receiver event)
      then (Inr state, cache)
      else (case web3_getBlockTimestamp app (ev_blockNumber event) of
         Inl e \<Rightarrow> (Inl e, cache)
       | Inr timestamp \<Rightarrow>
           (let (newSuperTokens, cache1) =
                  updateSuperTokens L cache (superTokens state) (agentAddress state) app settings
                    (Some (ev_token event)) timestamp
                    (Some (if addr_eq L (agentAddress state) (ev_sender event)
                           then ev_totalSenderFlowRate event
                           else ev_totalReceiverFlowRate event));
                (newSendersSuperTokens, cache2) =
                  updateSendersSuperTokens L app cache1 state event timestamp
            in (await newSendersSuperTokens (\<lambda>senders.
                await (updateFlows L state event timestamp) (\<lambda>newFlows.
                  Inr (state\<lparr> superTokens := newSuperTokens,
                              flows := newFlows,
                              sendersSuperTokens := senders \<rparr>))), cache2))))"

definition handleVaultEvent ::
  "libs \<Rightarrow> app_api \<Rightarrow> settings \<Rightarrow> contract_cache \<Rightarrow> app_store \<Rightarrow> string \<Rightarrow> int \<Rightarrow>
     app_store result \<times> contract_cache" where
  "handleVaultEvent L app settings cache state tokenAddress blockNumber =
     (case web3_getBlockTimestamp app blockNumber of
        Inl e \<Rightarrow> (Inl e, cache)
      | Inr timestamp \<Rightarrow>
          (let (newSuperTokens, cache1) =
                 updateSuperTokens L cache (superTokens state) (agentAddress state) app settings
                   (Some tokenAddress) timestamp None
           in (Inr (state\<lparr> superTokens := newSuperTokens \<rparr>), cache1)))"

section \<open>The reducer of the store\<close>

datatype store_event =
    FlowUpdated flow_event
  | VaultTransfer string int
  | VaultDeposit string int
  | SyncStatusSyncing int
  | ExternalSubscriptionSynced
  | OtherEvent string

fun store_reducer ::
  "libs \<Rightarrow> settings \<Rightarrow> app_api \<Rightarrow> contract_cache \<Rightarrow> app_store \<Rightarrow> store_event \<Rightarrow>
     app_store result \<times> contract_cache" where
  "store_reducer L settings app cache state (FlowUpdated event) =
     handleFlowUpdated L app settings cache state event"
| "store_reducer L settings app cache state (VaultTransfer token block) =
     handleVaultEvent L app settings cache state token block"
| "store_reducer L settings app cache state (VaultDeposit token block) =
     handleVaultEvent L app settings cache state token block"
| "store_reducer L settings app cache state (SyncStatusSyncing to) =
     (Inr (state\<lparr> isSyncing := True, cachedBlockNumber := Some to \<rparr>), cache)"
| "store_reducer L settings app cache state ExternalSubscriptionSynced =
     (Inr (state\<lparr> isSyncing := False \<rparr>), cache)"
| "store_reducer L settings app cache state (OtherEvent name) = (Inr state, cache)"

text \<open>
  A run of the store: the events in the order they are delivered, each with the API's view
  of the chain at that moment. A rejected step ends the run.
\<close>

definition store_step ::
  "libs \<Rightarrow> settings \<Rightarrow> app_store \<times> contract_cache \<Rightarrow> app_api \<times> store_event \<Rightarrow>
     (app_store \<times> contract_cache) result" where
  "store_step L settings s e =
     (case store_reducer L settings (fst e) (snd s) (fst s) (snd e) of
        (r, cache) \<Rightarrow> await r (\<lambda>state. Inr (state, cache)))"

fun run_events :: "('s \<Rightarrow> 'e \<Rightarrow> 's result) \<Rightarrow> 's \<Rightarrow> 'e list \<Rightarrow> 's result" where
  "run_events step s [] = Inr s"
| "run_events step s (e # es) = await (step s e) (\<lambda>s'. run_events step s' es)"

lemma run_events_append:
  "run_events step s (es @ es') = await (run_events step s es) (\<lambda>s'. run_events step s' es')"
proof (induction es arbitrary: s)
  case (Cons e es)
  then show ?case by (cases "step s e") auto
qed simp

text \<open>
  The contract of an event-sourced store: a step function whose invariant every admissible
  event keeps.
\<close>

locale event_store =
  fixes step :: "'s \<Rightarrow> 'e \<Rightarrow> 's result" and inv :: "'s \<Rightarrow> bool" and admissible :: "'e \<Rightarrow> bool"
  assumes step_inv: "inv s \<Longrightarrow> admissible e \<Longrightarrow> step s e = Inr s' \<Longrightarrow> inv s'"
begin

lemma run_inv: "inv s \<Longrightarrow> (\<And>e. e \<in> set es \<Longrightarrow> admissible e) \<Longrightarrow> run_events step s es = Inr s' \<Longrightarrow> inv s'"
proof (induction es arbitrary: s)
  case (Cons e es)
  then obtain s1 where "step s e = Inr s1" "run_events step s1 es = Inr s'"
    by auto
  with Cons show ?case by (auto intro: step_inv)
qed simp

text \<open>Where every step is seen as a labelled step of an abstract machine, or not seen at
  all, the run is a run of that machine.\<close>

lemma run_refines:
  assumes sim: "\<And>s e s'. inv s \<Longrightarrow> admissible e \<Longrightarrow> step s e = Inr s' \<Longrightarrow>
      view s' = (case label e of None \<Rightarrow> view s | Some l \<Rightarrow> astep l (view s))"
    and "inv s" and "\<And>e. e \<in> set es \<Longrightarrow> admissible e" and "run_events step s es = Inr s'"
  shows "view s' = fold astep (List.map_filter label es) (view s)"
  using assms(2-)
proof (induction es arbitrary: s)
  case Nil
  then show ?case by (simp add: map_filter_simps)
next
  case (Cons e es)
  then obtain s1 where s1: "step s e = Inr s1" "run_events step s1 es = Inr s'"
    by auto
  with Cons.prems have "inv s1" by (auto intro: step_inv)
  with Cons.IH [OF this _ s1(2)] Cons.prems
  have "view s' = fold astep (List.map_filter label es) (view s1)"
    by simp
  then show ?case
    using sim [OF Cons.prems(1) _ s1(1)] Cons.prems(2)
    by (simp add: map_filter_simps split: option.split)
qed

end

section \<open>The invariant of the store\<close>

definition store_wf :: "libs \<Rightarrow> string \<Rightarrow> app_store \<Rightarrow> bool" where
  "store_wf L agent st \<longleftrightarrow>
     agentAddress st = agent \<and>
     flows_wf L agent (flows st) \<and>
     (case superTokens st of None \<Rightarrow> True | Some ts \<Rightarrow> tokens_wf L ts) \<and>
     senders_wf L (sendersSuperTokens st)"

lemma store_wf_sync [simp]:
  "store_wf L agent (st\<lparr> isSyncing := b \<rparr>) = store_wf L agent st"
  "store_wf L agent (st\<lparr> cachedBlockNumber := n \<rparr>) = store_wf L agent st"
  by (simp_all add: store_wf_def)

text \<open>A \<^verbatim>\<open>FlowUpdated\<close> event never has the same account at both ends.\<close>

definition no_self_flow :: "libs \<Rightarrow> store_event \<Rightarrow> bool" where
  "no_self_flow L e = (case e of FlowUpdated ev \<Rightarrow> \<not> addr_eq L (ev_sender ev) (ev_receiver ev) | _ \<Rightarrow> True)"

lemma agent_event_if:
  assumes "isAgentSender L agent (ev_sender ev) (ev_receiver ev)"
    and "\<not> addr_eq L (ev_sender ev) (ev_receiver ev)"
  shows "agent_event L agent ev"
  using assms unfolding isAgentSender_def agent_event_def addressesEqual_def by metis

text \<open>The three parts a handled flow event updates.\<close>

lemma handleFlowUpdated_InrE:
  assumes "handleFlowUpdated L app settings cache st ev = (Inr st', cache')"
  obtains (ignored) "\<not> isAgentSender L (agentAddress st) (ev_sender ev) (ev_receiver ev)"
      "st' = st" "cache' = cache"
  | (handled) ts cache1 senders fs newST where
      "isAgentSender L (agentAddress st) (ev_sender ev) (ev_receiver ev)"
      "web3_getBlockTimestamp app (ev_blockNumber ev) = Inr ts"
      "updateSuperTokens L cache (superTokens st) (agentAddress st) app settings (Some (ev_token ev)) ts
         (Some (if addr_eq L (agentAddress st) (ev_sender ev)
                then ev_totalSenderFlowRate ev else ev_totalReceiverFlowRate ev)) = (newST, cache1)"
      "updateSendersSuperTokens L app cache1 st ev ts = (Inr senders, cache')"
      "updateFlows L st ev ts = Inr fs"
      "st' = st\<lparr> superTokens := newST, flows := fs, sendersSuperTokens := senders \<rparr>"
proof (cases "isAgentSender L (agentAddress st) (ev_sender ev) (ev_receiver ev)")
  case False
  with assms show thesis by (intro ignored) (simp_all add: handleFlowUpdated_def)
next
  case True
  with assms obtain ts where ts: "web3_getBlockTimestamp app (ev_blockNumber ev) = Inr ts"
    by (cases "web3_getBlockTimestamp app (ev_blockNumber ev)") (simp_all add: handleFlowUpdated_def)
  obtain newST cache1 where st: "updateSuperTokens L cache (superTokens st) (agentAddress st) app settings
      (Some (ev_token ev)) ts (Some (if addr_eq L (agentAddress st) (ev_sender ev)
        then ev_totalSenderFlowRate ev else ev_totalReceiverFlowRate ev)) = (newST, cache1)"
    by fastforce
  obtain r cache2 where r: "updateSendersSuperTokens L app cache1 st ev ts = (r, cache2)"
    by fastforce
  from assms True ts st r obtain senders fs where "r = Inr senders" "updateFlows L st ev ts = Inr fs"
    "st' = st\<lparr> superTokens := newST, flows := fs, sendersSuperTokens := senders \<rparr>" "cache2 = cache'"
    by (simp add: handleFlowUpdated_def Let_def) metis
  with True ts st r show thesis by (intro handled) simp_all
qed

lemma handleFlowUpdated_wf:
  assumes wf: "store_wf L agent st" and ns: "no_self_flow L (FlowUpdated ev)"
    and upd: "handleFlowUpdated L app settings cache st ev = (Inr st', cache')"
  shows "store_wf L agent st'"
  using upd
proof (cases rule: handleFlowUpdated_InrE)
  case ignored
  then show ?thesis using wf by simp
next
  case (handled ts cache1 senders fs newST)
  have agent: "agentAddress st = agent" using wf by (simp add: store_wf_def)
  have "agent_event L (agentAddress st) ev"
    using handled(1) ns by (intro agent_event_if) (simp_all add: no_self_flow_def)
  then have "flows_wf L agent fs"
    using wf handled(5) updateFlows_wf by (auto simp: store_wf_def)
  moreover have "senders_wf L senders"
    using updateSendersSuperTokens_wf [OF handled(4)] wf by (simp add: store_wf_def)
  moreover have "case newST of None \<Rightarrow> True | Some new \<Rightarrow> tokens_wf L new"
    using wf handled(3) updateSuperTokens_undefined updateSuperTokens_wf
    by (cases "superTokens st"; cases newST) (auto simp: store_wf_def, metis fst_conv option.distinct(1))
  ultimately show ?thesis using agent handled(6) by (simp add: store_wf_def)
qed

lemma handleVaultEvent_wf:
  assumes wf: "store_wf L agent st"
    and upd: "handleVaultEvent L app settings cache st token block = (Inr st', cache')"
  shows "store_wf L agent st'"
proof -
  from upd obtain ts newST where st': "st' = st\<lparr> superTokens := newST \<rparr>"
    and tok: "updateSuperTokens L cache (superTokens st) (agentAddress st) app settings (Some token) ts None
      = (newST, cache')"
    by (auto simp: handleVaultEvent_def Let_def split: sum.splits prod.splits)
  have "case newST of None \<Rightarrow> True | Some new \<Rightarrow> tokens_wf L new"
    using wf tok updateSuperTokens_undefined updateSuperTokens_wf
    by (cases "superTokens st"; cases newST) (auto simp: store_wf_def, metis fst_conv option.distinct(1))
  then show ?thesis using wf st' by (simp add: store_wf_def)
qed

lemma store_step_InrE:
  assumes "store_step L settings s e = Inr s'"
  shows "store_reducer L settings (fst e) (snd s) (fst s) (snd e) = (Inr (fst s'), snd s')"
  using assms by (auto simp: store_step_def split: prod.splits)

lemma store_reducer_wf:
  assumes "store_wf L agent st" and "no_self_flow L e"
    and "store_reducer L settings app cache st e = (Inr st', cache')"
  shows "store_wf L agent st'"
  using assms
  by (cases e) (auto intro: handleFlowUpdated_wf handleVaultEvent_wf)

interpretation es: event_store "store_step L settings" "\<lambda>s. store_wf L agent (fst s)"
    "\<lambda>e. no_self_flow L (snd e)" for L settings agent
  by unfold_locales (auto dest!: store_step_InrE intro: store_reducer_wf)

section \<open>The store implements the ledger\<close>

text \<open>What an event does to the ledger: nothing, or a step at a key with a rate and a time.\<close>

definition ledger_label :: "libs \<Rightarrow> string \<Rightarrow> app_api \<times> store_event \<Rightarrow> (flow_key \<times> int \<times> int) option" where
  "ledger_label L agent e =
     (case snd e of
        FlowUpdated ev \<Rightarrow>
          if isAgentSender L agent (ev_sender ev) (ev_receiver ev)
          then (case web3_getBlockTimestamp (fst e) (ev_blockNumber ev) of
                  Inl _ \<Rightarrow> None
                | Inr t \<Rightarrow> Some (key_of_event L agent ev, amount_int (ev_flowRate ev), t))
          else None
      | _ \<Rightarrow> None)"

lemma store_reducer_other:
  assumes "store_reducer L settings app cache st e = (Inr st', cache')" and "\<forall>ev. e \<noteq> FlowUpdated ev"
  shows "flows st' = flows st \<and> sendersSuperTokens st' = sendersSuperTokens st"
  using assms by (cases e) (auto simp: handleVaultEvent_def split: sum.splits prod.splits)

lemma store_step_ledger:
  assumes wf: "store_wf L agent (fst s)" and ns: "no_self_flow L (snd e)"
    and step: "store_step L settings s e = Inr s'"
  shows "ledger_of L (flows (fst s')) =
    (case ledger_label L agent e of
       None \<Rightarrow> ledger_of L (flows (fst s))
     | Some (k, r, t) \<Rightarrow> ledger_step L (ledger_of L (flows (fst s))) k r t)"
proof (cases "snd e")
  case (FlowUpdated ev)
  have agent: "agentAddress (fst s) = agent" using wf by (simp add: store_wf_def)
  from store_step_InrE [OF step] FlowUpdated
  have "handleFlowUpdated L (fst e) settings (snd s) (fst s) ev = (Inr (fst s'), snd s')"
    by simp
  then show ?thesis
  proof (cases rule: handleFlowUpdated_InrE)
    case ignored
    then show ?thesis using FlowUpdated agent by (simp add: ledger_label_def)
  next
    case (handled ts cache1 senders fs newST)
    have "agent_event L (agentAddress (fst s)) ev"
      using handled(1) ns FlowUpdated by (intro agent_event_if) (simp_all add: no_self_flow_def)
    moreover have "flows_wf L (agentAddress (fst s)) (flows (fst s))"
      using wf agent by (simp add: store_wf_def)
    ultimately show ?thesis
      using updateFlows_ledger [OF _ _ handled(5)] handled(1,2,6) FlowUpdated agent
      by (simp add: ledger_label_def)
  qed
qed (use store_reducer_other [OF store_step_InrE [OF step]] in \<open>simp_all add: ledger_label_def\<close>)

lemma ledger_run_fold: "ledger_run L m ls = fold (\<lambda>(k, r, t) m. ledger_step L m k r t) ls m"
  by (induction L m ls rule: ledger_run.induct) auto

lemma store_run_ledger:
  assumes "store_wf L agent (fst s)" and "\<And>e. e \<in> set es \<Longrightarrow> no_self_flow L (snd e)"
    and "run_events (store_step L settings) s es = Inr s'"
  shows "ledger_of L (flows (fst s')) =
    ledger_run L (ledger_of L (flows (fst s))) (List.map_filter (ledger_label L agent) es)"
  unfolding ledger_run_fold
  by (rule es.run_refines [where view = "\<lambda>s. ledger_of L (flows (fst s))", OF _ assms])
    (auto dest!: store_step_ledger split: option.splits)

end
