(* ===== verification/Subscription.thy ===== *)
theory Subscription
  imports Event_Handlers
begin

text \<open>
  How the background script starts (\<^verbatim>\<open>script.js\<close> and \<^verbatim>\<open>store/helpers.js\<close>): the retry
  loop, the settings, the initial state, the preset tokens and the subscription to the
  events of the external contracts.
\<close>

section \<open>Retrying\<close>

text \<open>
  \<open>callback n\<close> is the outcome of the call made after \<open>n\<close> retries. The result comes with
  the list of delays slept, in milliseconds. \<^verbatim>\<open>retryNum\<close> starts at 0 and grows by one, so
  it reaches \<open>maxRetries\<close> before it could pass it.
\<close>

function attempt ::
  "(nat \<Rightarrow> 'a result) \<Rightarrow> int \<Rightarrow> nat \<Rightarrow> nat \<Rightarrow> int \<Rightarrow> 'a result \<times> int list" where
  "attempt callback increaseFactor maxRetries retryNum retryTimer =
     (case callback retryNum of
        Inr x \<Rightarrow> (Inr x, [])
      | Inl err \<Rightarrow>
          if maxRetries \<le> retryNum then (Inl err, [])
          else (let nextRetryTime = retryTimer * increaseFactor;
                    (r, delays) = attempt callback increaseFactor maxRetries (Suc retryNum) nextRetryTime
                in (r, nextRetryTime # delays)))"
  by pat_completeness auto
termination
  by (relation "measure (\<lambda>(callback, increaseFactor, maxRetries, retryNum, retryTimer). maxRetries - retryNum)") auto

declare attempt.simps [simp del]

definition retryEvery :: "(nat \<Rightarrow> 'a result) \<Rightarrow> int \<Rightarrow> int \<Rightarrow> nat \<Rightarrow> 'a result \<times> int list" where
  "retryEvery callback initialRetryTimer increaseFactor maxRetries =
     attempt callback increaseFactor maxRetries 0 initialRetryTimer"

text \<open>The call in \<^verbatim>\<open>script.js\<close> passes no options.\<close>

definition retryEvery_default :: "(nat \<Rightarrow> 'a result) \<Rightarrow> 'a result \<times> int list" where
  "retryEvery_default callback = retryEvery callback 1000 3 3"

section \<open>Settings\<close>

text \<open>\<open>fetch_tokens url\<close> is the token array of the JSON document at \<open>url\<close>.\<close>

definition fetchTokenList :: "(string \<Rightarrow> list_token list result) \<Rightarrow> network \<Rightarrow> list_token list result" where
  "fetchTokenList fetch_tokens network =
     await (fetch_tokens (getTokenListUrlByNetwork network)) (\<lambda>tokens.
       Inr (if isTestNetwork network then tokens
            else filter (\<lambda>t. tl_chainId t = net_id network) tokens))"

definition getExternal :: "app_api \<Rightarrow> string \<Rightarrow> external result" where
  "getExternal app address =
     await (app_external app (Some address)) (\<lambda>contract.
       Inr \<lparr> ex_address = address, ex_contract = contract \<rparr>)"

definition createSettings :: "app_api \<Rightarrow> (string \<Rightarrow> list_token list result) \<Rightarrow> settings result" where
  "createSettings app fetch_tokens =
     await (app_call app ''cfa'') (\<lambda>cfaAddress.
     await (getExternal app cfaAddress) (\<lambda>cfa.
     await (app_call app ''host'') (\<lambda>hostAddress.
     await (getExternal app hostAddress) (\<lambda>host.
     await (call_getGovernance app (ex_contract host)) (\<lambda>governanceAddress.
     await (getExternal app governanceAddress) (\<lambda>governance.
     await (app_network app) (\<lambda>network.
     await (fetchTokenList fetch_tokens network) (\<lambda>tokenList.
       Inr \<lparr> set_network = network, set_cfa = cfa, set_governance = governance,
             set_host = host, set_tokenList = tokenList \<rparr>))))))))"

section \<open>Initial super tokens\<close>

definition PRESET_SUPER_TOKENS :: "int \<Rightarrow> string list option" where
  "PRESET_SUPER_TOKENS chainId =
     (if chainId = 1337 then Some
        [''0xE4460795D4d6549d99788F6e8d7df0AC56d21996'',
         ''0xD88692862751b86145638a76e3C10306638BD95B'',
         ''0xdc532eb7f633018A9E58Fa0Df8cb4DE9c53c0227'',
         ''0x3990b44d6233D8287c62635028FAc7b046c5607A'']
      else if chainId = 4 then Some
        [''0x745861AeD1EEe363b4AaA5F1994Be40b1e05Ff90'',
         ''0x0F1D7C55A2B133E000eA10EeC03c774e0d6796e8'',
         ''0xdF7B8461a1d9f57f12F88d97FC6131E36d302d81'',
         ''0xa623b2DD931C5162b7a0B25852f4024Db48bb1A0'']
      else if chainId = 100 then Some [''0x59988e47A3503AaFaA0368b9deF095c818Fdca01'']
      else if chainId = 137 then Some
        [''0x3aD736904E9e65189c3000c7DD2c8AC8bB7cD4e3'',
         ''0x27e1e4E6BC79D93032abef01025811B7E4727e85'',
         ''0xCAa7349CEA390F89641fe306D93591f87595dc1F'',
         ''0x1305F6B6Df9Dc47159D12Eb7aC2804d4A33173c2'',
         ''0x4086eBf75233e8492F1BCDa41C7f2A8288c2fB92'']
      else None)"

text \<open>The elements of \<^verbatim>\<open>new Set(xs)\<close> in iteration order: first occurrences.\<close>

fun js_set :: "'a list \<Rightarrow> 'a list" where
  "js_set [] = []"
| "js_set (x # xs) = x # filter (\<lambda>y. y \<noteq> x) (js_set xs)"

text \<open>\<^verbatim>\<open>concat(undefined)\<close> appends the element \<^verbatim>\<open>undefined\<close>.\<close>

definition initial_addresses :: "super_token list \<Rightarrow> string list option \<Rightarrow> string option list" where
  "initial_addresses tokens initialSTAddresses =
     js_set (map st_address tokens @
       (case initialSTAddresses of None \<Rightarrow> [None] | Some as \<Rightarrow> map Some as))"

fun load_tokens ::
  "libs \<Rightarrow> app_api \<Rightarrow> settings \<Rightarrow> int \<Rightarrow> contract_cache \<Rightarrow> app_store \<Rightarrow> string option list \<Rightarrow>
     app_store \<times> contract_cache" where
  "load_tokens L app settings timestamp cache state [] = (state, cache)"
| "load_tokens L app settings timestamp cache state (a # as) =
     (let (newSuperTokens, cache') =
            updateSuperTokens L cache (superTokens state) (agentAddress state) app settings a timestamp None
      in load_tokens L app settings timestamp cache' (state\<lparr> superTokens := newSuperTokens \<rparr>) as)"

definition loadInitialSuperTokens ::
  "libs \<Rightarrow> app_api \<Rightarrow> settings \<Rightarrow> contract_cache \<Rightarrow> app_store \<Rightarrow> string list option \<Rightarrow> int \<Rightarrow>
     app_store result \<times> contract_cache" where
  "loadInitialSuperTokens L app settings cache state initialSTAddresses currentBlock =
     (case superTokens state of
        None \<Rightarrow> if initialSTAddresses = None then (Inr state, cache) else (Inl TypeError, cache)
      | Some tokens \<Rightarrow>
          (case web3_getBlockTimestamp app currentBlock of
             Inl e \<Rightarrow> (Inl e, cache)
           | Inr timestamp \<Rightarrow>
               (let (nextState, cache') =
                      load_tokens L app settings timestamp cache state
                        (initial_addresses tokens initialSTAddresses)
                in (Inr nextState, cache'))))"

section \<open>Block ranges\<close>

definition REORG_SAFETY_BLOCK_AGE :: int where
  "REORG_SAFETY_BLOCK_AGE = 100"

record block_ranges =
  cachedPastEventsFromBlock :: int
  cachedPastEventsToBlock :: int
  nonCachedPastEventsFromBlock :: int
  nonCachedPastEventsToBlock :: int
  currentEventsFromBlock :: int

text \<open>A cached block number that is missing, or 0, counts as none.\<close>

definition subscription_ranges :: "int option \<Rightarrow> int \<Rightarrow> int \<Rightarrow> block_ranges" where
  "subscription_ranges cachedBlockNumber_opt currentBlock initialBlock_num =
     (let cachedTo = max (currentBlock - REORG_SAFETY_BLOCK_AGE) initialBlock_num;
          cachedFrom = (case cachedBlockNumber_opt of
              None \<Rightarrow> initialBlock_num
            | Some n \<Rightarrow> if n = 0 then initialBlock_num else min (n + 1) cachedTo);
          nonCachedTo = currentBlock - 1;
          nonCachedFrom = min (cachedTo + 1) nonCachedTo
      in \<lparr> cachedPastEventsFromBlock = cachedFrom, cachedPastEventsToBlock = cachedTo,
           nonCachedPastEventsFromBlock = nonCachedFrom, nonCachedPastEventsToBlock = nonCachedTo,
           currentEventsFromBlock = currentBlock \<rparr>)"

section \<open>The subscription\<close>

text \<open>
  An event as a contract subscription delivers it, with \<open>'v\<close> for its return values. The
  outcome of \<^verbatim>\<open>contract.pastEvents\<close> and \<^verbatim>\<open>contract.events\<close> is a parameter: the events of a
  contract under a topic filter in a range of blocks. \<^verbatim>\<open>merge\<close> emits the array of each
  contract when its request resolves; the order in which they resolve is a parameter too.
\<close>

record 'v raw_event =
  re_event :: "string option"
  re_returnValues :: "'v option"
  re_address :: "string option"
  re_blockNumber :: "int option"

record 'v trigger =
  tr_event :: string
  tr_returnValues :: 'v
  tr_address :: "string option"
  tr_blockNumber :: "int option"

definition emit_triggers :: "'v raw_event list \<Rightarrow> 'v trigger list" where
  "emit_triggers evs = List.map_filter (\<lambda>e.
     (case re_event e of
        None \<Rightarrow> None
      | Some event \<Rightarrow>
          if event = [] then None
          else (case re_returnValues e of
                  None \<Rightarrow> None
                | Some returnValues \<Rightarrow> Some \<lparr> tr_event = event, tr_returnValues = returnValues,
                    tr_address = re_address e, tr_blockNumber = re_blockNumber e \<rparr>))) evs"

definition sync_event :: "string \<Rightarrow> (int \<Rightarrow> int \<Rightarrow> 'v) \<Rightarrow> int \<Rightarrow> int \<Rightarrow> 'v raw_event" where
  "sync_event name range_value from to = \<lparr> re_event = Some name, re_returnValues = Some (range_value from to),
     re_address = None, re_blockNumber = None \<rparr>"

definition subscribeToExternals ::
  "(contract \<Rightarrow> 't option \<Rightarrow> int \<Rightarrow> int \<Rightarrow> 'v raw_event list) \<Rightarrow>
   ((contract \<times> 't option) list \<Rightarrow> int \<Rightarrow> 'v raw_event list) \<Rightarrow> (int \<Rightarrow> int \<Rightarrow> 'v) \<Rightarrow>
   ((contract \<times> 't option) list \<Rightarrow> (contract \<times> 't option) list) \<Rightarrow>
   ((contract \<times> 't option) list \<Rightarrow> (contract \<times> 't option) list) \<Rightarrow>
   external list \<Rightarrow> 't option list option \<Rightarrow> int option \<Rightarrow> int \<Rightarrow> int \<Rightarrow> 'v trigger list" where
  "subscribeToExternals pastEvents currentEvents range_value order1 order2
     externals topics cachedBlock currentBlock initialBlock_num =
     (let R = subscription_ranges cachedBlock currentBlock initialBlock_num;
          sources = (case topics of
              None \<Rightarrow> map (\<lambda>e. (ex_contract e, None)) externals
            | Some ts \<Rightarrow> zip (map ex_contract externals) ts);
          past = (\<lambda>order from to. concat (map (\<lambda>(c, t). pastEvents c t from to) (order sources)));
          pastCachedEvents =
            [sync_event ''EXTERNAL_SUBSCRIPTION_SYNCING'' range_value
               (cachedPastEventsFromBlock R) (cachedPastEventsToBlock R)] @
            past order1 (cachedPastEventsFromBlock R) (cachedPastEventsToBlock R) @
            [sync_event ''EXTERNAL_SUBSCRIPTION_CACHED'' range_value
               (cachedPastEventsFromBlock R) (cachedPastEventsToBlock R)];
          pastNonCachedEvents =
            past order2 (nonCachedPastEventsFromBlock R) (nonCachedPastEventsToBlock R) @
            [sync_event ''EXTERNAL_SUBSCRIPTION_SYNCED'' range_value
               (nonCachedPastEventsFromBlock R) (nonCachedPastEventsToBlock R)]
      in emit_triggers (pastCachedEvents @ pastNonCachedEvents @
           currentEvents sources (currentEventsFromBlock R)))"

section \<open>The initial state\<close>

definition getAgentInitializationBlock :: "app_api \<Rightarrow> external \<Rightarrow> int result" where
  "getAgentInitializationBlock app agent = call_getInitializationBlock app (ex_contract agent)"

text \<open>
  A cached state is a state the store saved; saving drops a property that is
  \<^verbatim>\<open>undefined\<close>. Spreading it after the defaults gives every field of the cached state.
\<close>

definition next_state :: "external \<Rightarrow> settings \<Rightarrow> int \<Rightarrow> app_store option \<Rightarrow> app_store" where
  "next_state agent settings initialBlock_num cachedState =
     (case cachedState of
        None \<Rightarrow> \<lparr> agentAddress = ex_address agent, cfaAddress = ex_address (set_cfa settings),
                  hostAddress = ex_address (set_host settings), superTokens = Some [], flows = [],
                  sendersSuperTokens = [], initialBlock = initialBlock_num, isSyncing = True,
                  cachedBlockNumber = None \<rparr>
      | Some c \<Rightarrow> c\<lparr> superTokens := (case superTokens c of None \<Rightarrow> Some [] | Some ts \<Rightarrow> Some ts),
                     isSyncing := True \<rparr>)"

text \<open>What \<^verbatim>\<open>initializeState\<close> returns: the state, and the block arguments of the
  subscription it starts.\<close>

definition initializeState ::
  "libs \<Rightarrow> app_api \<Rightarrow> settings \<Rightarrow> external \<Rightarrow> contract_cache \<Rightarrow> app_store option \<Rightarrow>
     (app_store \<times> int option \<times> int \<times> int) result \<times> contract_cache" where
  "initializeState L app settings agent cache cachedState =
     (case (case cachedState of
              None \<Rightarrow> getAgentInitializationBlock app agent
            | Some c \<Rightarrow> if initialBlock c \<noteq> 0 then Inr (initialBlock c)
                        else getAgentInitializationBlock app agent) of
        Inl e \<Rightarrow> (Inl e, cache)
      | Inr initialBlock_num \<Rightarrow>
          (case web3_getBlockNumber app of
             Inl e \<Rightarrow> (Inl e, cache)
           | Inr currentBlock \<Rightarrow>
               (case loadInitialSuperTokens L app settings cache
                       (next_state agent settings initialBlock_num cachedState)
                       (PRESET_SUPER_TOKENS (net_id (set_network settings))) currentBlock of
                  (r, cache') \<Rightarrow>
                    (await r (\<lambda>st. Inr (st,
                       (case cachedState of None \<Rightarrow> None | Some c \<Rightarrow> cachedBlockNumber c),
                       currentBlock, initialBlock_num)), cache'))))"

section \<open>Lemmas: retrying\<close>

text \<open>The retry loop stops at the first success, or at the last allowed attempt, and has
  slept once between any two attempts, each time \<open>increaseFactor\<close> times longer.\<close>

lemma attempt_outcome:
  assumes "retryNum \<le> maxRetries"
  shows "\<exists>k. retryNum \<le> k \<and> k \<le> maxRetries \<and>
    (\<forall>j. retryNum \<le> j \<longrightarrow> j < k \<longrightarrow> \<not> isOk (callback j)) \<and>
    (isOk (callback k) \<or> k = maxRetries) \<and>
    attempt callback increaseFactor maxRetries retryNum retryTimer =
      (callback k, map (\<lambda>i. retryTimer * increaseFactor ^ Suc i) [0..<k - retryNum])"
  using assms
proof (induction callback increaseFactor maxRetries retryNum retryTimer rule: attempt.induct)
  case (1 callback f m n timer)
  show ?case
  proof (cases "callback n")
    case (Inr x)
    then show ?thesis
      using "1.prems" by (intro exI [of _ n]) (simp add: attempt.simps [of callback f m n])
  next
    case (Inl err)
    show ?thesis
    proof (cases "m \<le> n")
      case True
      then show ?thesis
        using "1.prems" Inl by (intro exI [of _ n]) (simp add: attempt.simps [of callback f n n])
    next
      case False
      then obtain k where k: "Suc n \<le> k" "k \<le> m" "\<forall>j. Suc n \<le> j \<longrightarrow> j < k \<longrightarrow> \<not> isOk (callback j)"
        "isOk (callback k) \<or> k = m" "attempt callback f m (Suc n) (timer * f) =
          (callback k, map (\<lambda>i. timer * f * f ^ Suc i) [0..<k - Suc n])"
        using "1.IH" [OF Inl False refl] by (auto simp: not_le Suc_le_eq)
      have "map (\<lambda>i. timer * f ^ Suc i) [0..<k - n] =
          timer * f # map (\<lambda>i. timer * f * f ^ Suc i) [0..<k - Suc n]"
      proof -
        have "k - n = Suc (k - Suc n)" using k(1) by simp
        then show ?thesis by (simp add: upt_conv_Cons map_Suc_upt [symmetric] del: upt_Suc)
      qed
      moreover have "\<not> isOk (callback j)" if "n \<le> j" "j < k" for j
        using that Inl k(3) by (cases "j = n") auto
      ultimately show ?thesis
        using k False Inl by (intro exI [of _ k]) (simp add: attempt.simps [of callback f m n] Let_def)
    qed
  qed
qed

section \<open>Lemmas: block ranges\<close>

definition in_range :: "int \<Rightarrow> int \<Rightarrow> int \<Rightarrow> bool" where
  "in_range lo hi b \<longleftrightarrow> lo \<le> b \<and> b \<le> hi"

text \<open>How many of the three queries return the events of block \<open>b\<close>.\<close>

definition deliveries :: "block_ranges \<Rightarrow> int \<Rightarrow> nat" where
  "deliveries R b =
     of_bool (in_range (cachedPastEventsFromBlock R) (cachedPastEventsToBlock R) b) +
     of_bool (in_range (nonCachedPastEventsFromBlock R) (nonCachedPastEventsToBlock R) b) +
     of_bool (currentEventsFromBlock R \<le> b)"

lemmas range_defs = subscription_ranges_def deliveries_def in_range_def REORG_SAFETY_BLOCK_AGE_def Let_def

section \<open>Lemmas: initial tokens\<close>

lemma set_js_set [simp]: "set (js_set xs) = set xs"
  by (induction xs) auto

lemma distinct_js_set: "distinct (js_set xs)"
  by (induction xs) auto

lemma load_tokens_undefined:
  "superTokens st = None \<Longrightarrow> superTokens (fst (load_tokens L app settings ts cache st as)) = None"
proof (induction as arbitrary: st cache)
  case (Cons a as)
  then show ?case
    using updateSuperTokens_undefined [of L cache "agentAddress st" app settings a ts None]
    by (cases "updateSuperTokens L cache None (agentAddress st) app settings a ts None") simp
qed simp

lemma load_tokens_frame:
  "\<exists>ts'. fst (load_tokens L app settings ts cache st as) = st\<lparr> superTokens := ts' \<rparr>"
proof (induction as arbitrary: st cache)
  case Nil
  show ?case by (intro exI [of _ "superTokens st"]) simp
next
  case (Cons a as)
  obtain new cache' where "updateSuperTokens L cache (superTokens st) (agentAddress st) app settings a ts None
      = (new, cache')"
    by fastforce
  with Cons.IH [of cache' "st\<lparr> superTokens := new \<rparr>"] show ?case by auto
qed

lemma load_tokens_ConsE:
  assumes "superTokens (fst (load_tokens L app settings ts cache st (a # as))) = Some new"
    and "superTokens st = Some old" and "tokens_wf L old"
  obtains m cache' t b where "tokens_wf L m"
    and "superTokens (fst (load_tokens L app settings ts cache' (st\<lparr> superTokens := Some m \<rparr>) as)) = Some new"
    and "\<forall>a'. lookup_token L m a' =
      (if addressesEqual L a' a then Some (refreshed_token t b ts None) else lookup_token L old a')"
proof -
  obtain mid cache' where mid: "updateSuperTokens L cache (Some old) (agentAddress st) app settings a ts None
      = (mid, cache')"
    by fastforce
  with assms(1,2) load_tokens_undefined obtain m where m: "mid = Some m"
    by (cases mid) auto
  from updateSuperTokens_lookup [OF mid [unfolded m] assms(3)] obtain t b where
    "\<forall>a'. lookup_token L m a' =
      (if addressesEqual L a' a then Some (refreshed_token t b ts None) else lookup_token L old a')"
    by blast
  moreover have "tokens_wf L m" using mid m assms(3) updateSuperTokens_wf by blast
  ultimately show thesis using assms(1,2) mid m by (intro that [of m cache' t b]) simp_all
qed

lemma load_tokens_keeps:
  assumes "superTokens (fst (load_tokens L app settings ts cache st as)) = Some new"
    and "superTokens st = Some old" and "tokens_wf L old"
    and "lookup_token L old a' = Some t" and "P t" and "\<And>t b. P (refreshed_token t b ts None)"
  shows "\<exists>t'. lookup_token L new a' = Some t' \<and> P t'"
  using assms(1-5)
proof (induction as arbitrary: st cache old t)
  case (Cons a as)
  show ?case
  proof (rule load_tokens_ConsE [OF Cons.prems(1-3)])
    fix m cache' t0 b
    assume m: "tokens_wf L m" "superTokens (fst (load_tokens L app settings ts cache'
        (st\<lparr> superTokens := Some m \<rparr>) as)) = Some new"
      "\<forall>a'. lookup_token L m a' =
        (if addressesEqual L a' a then Some (refreshed_token t0 b ts None) else lookup_token L old a')"
    obtain t1 where "lookup_token L m a' = Some t1" "P t1"
      using m(3) Cons.prems(4,5) assms(6) by (cases "addressesEqual L a' a") auto
    then show ?thesis using Cons.IH [OF m(2) _ m(1)] by simp
  qed
qed auto

text \<open>When the list comes out defined, every address asked for is in it, with the balance
  read at this start.\<close>

lemma load_tokens_loads:
  assumes "superTokens (fst (load_tokens L app settings ts cache st as)) = Some new"
    and "superTokens st = Some old" and "tokens_wf L old"
  shows "tokens_wf L new \<and>
    (\<forall>a \<in> set as. \<exists>t. lookup_token L new a = Some t \<and> st_lastUpdateTimestamp t = Some ts)"
  using assms
proof (induction as arbitrary: st cache old)
  case (Cons a as)
  show ?case
  proof (rule load_tokens_ConsE [OF Cons.prems])
    fix m cache' t b
    assume m: "tokens_wf L m" "superTokens (fst (load_tokens L app settings ts cache'
        (st\<lparr> superTokens := Some m \<rparr>) as)) = Some new"
      "\<forall>a'. lookup_token L m a' =
        (if addressesEqual L a' a then Some (refreshed_token t b ts None) else lookup_token L old a')"
    have "lookup_token L m a = Some (refreshed_token t b ts None)" using m(3) by simp
    from load_tokens_keeps [OF m(2) _ m(1) this, of "\<lambda>t. st_lastUpdateTimestamp t = Some ts"]
    have "\<exists>t'. lookup_token L new a = Some t' \<and> st_lastUpdateTimestamp t' = Some ts" by simp
    with Cons.IH [OF m(2) _ m(1)] show ?thesis by simp
  qed
qed simp

lemma loadInitialSuperTokens_wf:
  assumes "loadInitialSuperTokens L app settings cache st presets block = (Inr st', cache')"
    and "store_wf L agent st"
  shows "store_wf L agent st'"
proof (cases "superTokens st")
  case None
  with assms show ?thesis by (simp add: loadInitialSuperTokens_def split: if_splits)
next
  case (Some old)
  with assms(1) obtain ts where st': "st' = fst (load_tokens L app settings ts cache st (initial_addresses old presets))"
    by (auto simp: loadInitialSuperTokens_def split: sum.splits prod.splits) (metis fst_conv)
  moreover obtain new where new: "fst (load_tokens L app settings ts cache st (initial_addresses old presets))
      = st\<lparr> superTokens := new \<rparr>"
    using load_tokens_frame by blast
  moreover have "case new of None \<Rightarrow> True | Some n \<Rightarrow> tokens_wf L n"
    using load_tokens_loads [of L app settings ts cache st "initial_addresses old presets" _ old]
      new Some assms(2) by (auto simp: store_wf_def split: option.split)
  ultimately show ?thesis using assms(2) by (simp add: store_wf_def)
qed

lemma next_state_wf:
  assumes "\<And>c. cachedState = Some c \<Longrightarrow> store_wf L (agentAddress c) c"
  shows "store_wf L (agentAddress (next_state agent settings b cachedState)) (next_state agent settings b cachedState)"
  using assms
  by (cases cachedState)
    (auto simp: next_state_def store_wf_def flows_wf_def tokens_wf_def senders_wf_def distinct_by_def
      split: option.splits)

end
