(* ===== verification/Amounts.thy ===== *)
theory Amounts
  imports Token_Store
begin

text \<open>
  The amounts the front end computes (\<^verbatim>\<open>helpers/superfluid.js\<close>): what an account holds at
  a moment, when it runs dry, which tokens are available. A token as the front end sees it
  is the record \<open>view_token\<close>, produced by the state reducer of \<open>App_State\<close>.
\<close>

record view_token =
  vt_address :: "string option"
  vt_name :: string
  vt_symbol :: string
  vt_underlyingToken :: underlying_token
  vt_underlyingDecimals :: "int option"
  vt_logoURI :: "string option"
  vt_mainnetTokenEquivalentAddress :: "string option"
  vt_balance :: int
  vt_lastUpdateDate :: js_date
  vt_liquidationPeriodSeconds :: int
  vt_inflowRate :: int
  vt_outflowRate :: int
  vt_netFlow :: int
  vt_decimals :: int
  vt_depletionDate :: "js_date option"

text \<open>\<open>date\<close> is the explicit date argument or, where the source passes none, the current
  date. bn.js asserts that its argument is a number.\<close>

definition calculateCurrentAmount :: "libs \<Rightarrow> int \<Rightarrow> int \<Rightarrow> js_date \<Rightarrow> js_date \<Rightarrow> int result" where
  "calculateCurrentAmount L accumulatedAmount rate_bn lastDate date =
     (case differenceInSeconds L date lastDate of
        None \<Rightarrow> Inl (GenericError ''Assertion failed'')
      | Some seconds \<Rightarrow> Inr (accumulatedAmount + rate_bn * seconds))"

definition calculateDepletionDate :: "libs \<Rightarrow> int \<Rightarrow> int \<Rightarrow> js_date \<Rightarrow> js_date \<Rightarrow> js_date option result" where
  "calculateDepletionDate L balance netFlow currentDate lastUpdateDate =
     (if \<not> netFlow < 0 then Inr None
      else await (calculateCurrentAmount L balance netFlow lastUpdateDate currentDate) (\<lambda>currentBalance.
           await (bn_toNumber L (bn_div L currentBalance \<bar>netFlow\<bar> * 1000)) (\<lambda>millisecondsToDepletion.
           Inr (Some (case currentDate of
              InvalidDate \<Rightarrow> InvalidDate
            | Date currentDateMilliseconds \<Rightarrow>
                new_Date (currentDateMilliseconds + millisecondsToDepletion))))))"

fun filter_result :: "('a \<Rightarrow> bool result) \<Rightarrow> 'a list \<Rightarrow> 'a list result" where
  "filter_result P [] = Inr []"
| "filter_result P (x # xs) =
     await (P x) (\<lambda>b. await (filter_result P xs) (\<lambda>ys. Inr (if b then x # ys else ys)))"

fun map_result :: "('a \<Rightarrow> 'b result) \<Rightarrow> 'a list \<Rightarrow> 'b list result" where
  "map_result f [] = Inr []"
| "map_result f (x # xs) = await (f x) (\<lambda>y. await (map_result f xs) (\<lambda>ys. Inr (y # ys)))"

definition getAvailableSuperTokens :: "libs \<Rightarrow> js_date \<Rightarrow> view_token list \<Rightarrow> view_token list result" where
  "getAvailableSuperTokens L now tokens =
     filter_result (\<lambda>t. await (calculateCurrentAmount L (vt_balance t) (vt_netFlow t) (vt_lastUpdateDate t) now)
       (\<lambda>amount. Inr (0 < amount))) tokens"

section \<open>Lemmas\<close>

lemma map_result_Inr: "map_result f xs = Inr ys \<longleftrightarrow> list_all2 (\<lambda>x y. f x = Inr y) xs ys"
  by (induction xs arbitrary: ys) (auto simp: list_all2_Cons1)

lemma map_result_Inl: "map_result f xs = Inl e \<Longrightarrow> \<exists>x \<in> set xs. f x = Inl e"
  by (induction xs) (auto simp: await_eq_Inl_iff)

lemma map_result_ok: "isOk (map_result f xs) \<longleftrightarrow> (\<forall>x \<in> set xs. isOk (f x))"
  by (induction xs) (auto simp: isOk_iff)

lemma filter_result_Inr:
  assumes "\<And>x. x \<in> set xs \<Longrightarrow> P x = Inr (Q x)"
  shows "filter_result P xs = Inr (filter Q xs)"
  using assms by (induction xs) auto

lemma calculateCurrentAmount_valid:
  assumes "seconds_truncate L"
  shows "calculateCurrentAmount L a r (Date since) (Date now) = Inr (a + r * trunc_div (now - since) 1000)"
  using assms by (simp add: calculateCurrentAmount_def seconds_truncate_def)

text \<open>On whole seconds nothing is truncated.\<close>

lemma trunc_div_seconds: "trunc_div (a * 1000 - b * 1000) 1000 = a - b"
proof -
  have "a * 1000 - b * 1000 = (a - b) * 1000" by (simp add: algebra_simps)
  moreover have "trunc_div (x * 1000) 1000 = x" for x
    by (simp add: trunc_div_def abs_mult sgn_mult mult_sgn_abs)
  ultimately show ?thesis by (simp only:)
qed

end
