(* ===== verification/App_State.thy ===== *)
theory App_State
  imports Event_Handlers Amounts
begin

text \<open>
  The state reducer of the front end (\<^verbatim>\<open>app-state-reducer.js\<close>): it turns the state of the
  background store into the state the components render, with amounts as integers, dates,
  the in and out rates per token, the depletion dates and the tokens sorted by symbol.
\<close>

section \<open>The front end's state\<close>

record view_flow =
  vf_isCancelled :: bool
  vf_isIncoming :: bool
  vf_entity :: string
  vf_superTokenAddress :: string
  vf_description :: string
  vf_accumulatedAmount :: int
  vf_creationDate :: js_date
  vf_flowRate :: int
  vf_lastUpdateDate :: js_date

record view_sender_entry =
  vse_address :: string
  vse_balance :: int
  vse_lastUpdateDate :: js_date
  vse_netFlow :: int

text \<open>The fields the initial state lacks are options.\<close>

record view_state =
  vs_agentAddress :: string
  vs_cfaAddress :: "string option"
  vs_hostAddress :: "string option"
  vs_flows :: "view_flow list"
  vs_superTokens :: "view_token list"
  vs_sendersSuperTokens :: "(string \<times> view_sender_entry list) list"
  vs_isSyncing :: bool

definition INITIAL_STATE :: view_state where
  "INITIAL_STATE = \<lparr> vs_agentAddress = [], vs_cfaAddress = None, vs_hostAddress = None,
     vs_flows = [], vs_superTokens = [], vs_sendersSuperTokens = [], vs_isSyncing = True \<rparr>"

section \<open>The reducer\<close>

definition compareSuperTokensBySymbol :: "libs \<Rightarrow> view_token \<Rightarrow> view_token \<Rightarrow> int" where
  "compareSuperTokensBySymbol L tokenA tokenB = localeCompare L (vt_symbol tokenA) (vt_symbol tokenB)"

type_synonym rates = "(string \<times> int \<times> int) list"

definition calculateInOutRate :: "rates \<Rightarrow> string \<Rightarrow> int \<Rightarrow> bool \<Rightarrow> int \<times> int" where
  "calculateInOutRate inOutRates superTokenAddress flowRate flowIncoming =
     (let (inflow, outflow) = (case map_of inOutRates superTokenAddress of None \<Rightarrow> (0, 0) | Some r \<Rightarrow> r)
      in if flowIncoming then (inflow + flowRate, outflow) else (inflow, outflow + flowRate))"

definition format_flow :: "flow \<Rightarrow> view_flow" where
  "format_flow f = \<lparr>
     vf_isCancelled = fl_isCancelled f,
     vf_isIncoming = fl_isIncoming f,
     vf_entity = fl_entity f,
     vf_superTokenAddress = fl_superTokenAddress f,
     vf_description = fl_description f,
     vf_accumulatedAmount = amount_int (fl_accumulatedAmount f),
     vf_creationDate = timestampToDate (fl_creationTimestamp f),
     vf_flowRate = amount_int (fl_flowRate f),
     vf_lastUpdateDate = timestampToDate (fl_lastTimestamp f) \<rparr>"

text \<open>The callback of \<^verbatim>\<open>state.flows.map\<close> also adds the rate of an open flow to the
  dictionary of rates.\<close>

fun format_flows :: "rates \<Rightarrow> flow list \<Rightarrow> rates \<times> view_flow list" where
  "format_flows inOutRates [] = (inOutRates, [])"
| "format_flows inOutRates (f # fs) =
     (let inOutRates' =
            (if \<not> fl_isCancelled f
             then dict_put (fl_superTokenAddress f)
                    (calculateInOutRate inOutRates (fl_superTokenAddress f)
                       (amount_int (fl_flowRate f)) (fl_isIncoming f)) inOutRates
             else inOutRates);
          (final, formatted) = format_flows inOutRates' fs
      in (final, format_flow f # formatted))"

text \<open>The date of a token without a time stamp is \<^verbatim>\<open>new Date(NaN)\<close>.\<close>

definition optional_date :: "int option \<Rightarrow> js_date" where
  "optional_date timestamp = (case timestamp of None \<Rightarrow> InvalidDate | Some t \<Rightarrow> timestampToDate t)"

definition format_super_token :: "libs \<Rightarrow> js_date \<Rightarrow> rates \<Rightarrow> super_token \<Rightarrow> view_token result" where
  "format_super_token L now inOutRates t =
     (let formattedBalance = amount_int (st_balance t);
          formattedNetflow = amount_int (st_netFlow t);
          formattedLastUpdateDate = optional_date (st_lastUpdateTimestamp t);
          (inflowRate, outflowRate) =
            (case st_address t of
               None \<Rightarrow> (0, 0)
             | Some a \<Rightarrow> (case map_of inOutRates a of None \<Rightarrow> (0, 0) | Some r \<Rightarrow> r))
      in await (calculateDepletionDate L formattedBalance formattedNetflow now formattedLastUpdateDate)
           (\<lambda>depletionDate. Inr \<lparr>
              vt_address = st_address t,
              vt_name = st_name t,
              vt_symbol = st_symbol t,
              vt_underlyingToken = st_underlyingToken t,
              vt_underlyingDecimals = map_option amount_int (ut_decimals (st_underlyingToken t)),
              vt_logoURI = st_logoURI t,
              vt_mainnetTokenEquivalentAddress = st_mainnetTokenEquivalentAddress t,
              vt_balance = formattedBalance,
              vt_lastUpdateDate = formattedLastUpdateDate,
              vt_liquidationPeriodSeconds = amount_int (st_liquidationPeriodSeconds t),
              vt_inflowRate = inflowRate,
              vt_outflowRate = outflowRate,
              vt_netFlow = formattedNetflow,
              vt_decimals = amount_int (st_decimals t),
              vt_depletionDate = depletionDate \<rparr>))"

definition format_sender_entry :: "sender_entry \<Rightarrow> view_sender_entry" where
  "format_sender_entry e = \<lparr> vse_address = se_address e, vse_balance = amount_int (se_balance e),
     vse_lastUpdateDate = timestampToDate (se_lastUpdateTimestamp e), vse_netFlow = amount_int (se_netFlow e) \<rparr>"

text \<open>\<open>now\<close> is \<^verbatim>\<open>new Date()\<close> at the call.\<close>

definition appStateReducer :: "libs \<Rightarrow> js_date \<Rightarrow> app_store option \<Rightarrow> view_state result" where
  "appStateReducer L now state_opt =
     (case state_opt of
        None \<Rightarrow> Inr INITIAL_STATE
      | Some state \<Rightarrow>
          (let (inOutRates, formattedFlows) = format_flows [] (flows state) in
           (case superTokens state of
              None \<Rightarrow> Inl TypeError
            | Some tokens \<Rightarrow>
                await (map_result (format_super_token L now inOutRates) tokens) (\<lambda>formattedSuperTokens.
                Inr \<lparr> vs_agentAddress = agentAddress state,
                      vs_cfaAddress = Some (cfaAddress state),
                      vs_hostAddress = Some (hostAddress state),
                      vs_flows = formattedFlows,
                      vs_superTokens = js_sort (compareSuperTokensBySymbol L) formattedSuperTokens,
                      vs_sendersSuperTokens =
                        map (\<lambda>(sender, es). (sender, map format_sender_entry es)) (sendersSuperTokens state),
                      vs_isSyncing = isSyncing state \<rparr>))))"

section \<open>Lemmas\<close>

text \<open>The rate of all open flows of a token in one direction; the token is compared as the
  dictionary does, by its exact string.\<close>

definition open_rate :: "bool \<Rightarrow> string \<Rightarrow> flow list \<Rightarrow> int" where
  "open_rate incoming a fs =
     (\<Sum>f\<leftarrow>filter (\<lambda>f. is_open f \<and> fl_isIncoming f = incoming \<and> fl_superTokenAddress f = a) fs.
        amount_int (fl_flowRate f))"

definition rates_of :: "rates \<Rightarrow> string \<Rightarrow> int \<times> int" where
  "rates_of d a = (case map_of d a of None \<Rightarrow> (0, 0) | Some r \<Rightarrow> r)"

lemma snd_format_flows: "snd (format_flows d fs) = map format_flow fs"
  by (induction d fs rule: format_flows.induct) (auto simp: Let_def split: prod.split)

lemma open_rate_Cons:
  "open_rate incoming a (f # fs) =
     (if is_open f \<and> fl_isIncoming f = incoming \<and> fl_superTokenAddress f = a
      then amount_int (fl_flowRate f) else 0) + open_rate incoming a fs"
  by (simp add: open_rate_def)

lemma rates_of_format_flows:
  "rates_of (fst (format_flows d fs)) a =
     (fst (rates_of d a) + open_rate True a fs, snd (rates_of d a) + open_rate False a fs)"
proof (induction d fs rule: format_flows.induct)
  case (1 d)
  show ?case by (simp add: open_rate_def)
next
  case (2 d f fs)
  define d' where "d' = (if \<not> fl_isCancelled f
      then dict_put (fl_superTokenAddress f)
        (calculateInOutRate d (fl_superTokenAddress f) (amount_int (fl_flowRate f)) (fl_isIncoming f)) d
      else d)"
  have "rates_of d' a =
      (fst (rates_of d a) + open_rate True a [f], snd (rates_of d a) + open_rate False a [f])"
    by (auto simp: d'_def rates_of_def calculateInOutRate_def open_rate_def is_open_def Let_def
        split: option.split prod.split)
  moreover have "fst (format_flows d (f # fs)) = fst (format_flows d' fs)"
    by (simp add: d'_def Let_def split: prod.split)
  moreover have "open_rate b a (f # fs) = open_rate b a [f] + open_rate b a fs" for b
    by (simp add: open_rate_Cons) (simp add: open_rate_def)
  ultimately show ?case
    using 2 [OF d'_def] by simp
qed

lemma format_super_token_fields:
  assumes "format_super_token L now d t = Inr v"
  shows "vt_address v = st_address t" and "vt_symbol v = st_symbol t"
    and "vt_balance v = amount_int (st_balance t)" and "vt_netFlow v = amount_int (st_netFlow t)"
    and "vt_lastUpdateDate v = optional_date (st_lastUpdateTimestamp t)"
    and "\<And>a. st_address t = Some a \<Longrightarrow> (vt_inflowRate v, vt_outflowRate v) = rates_of d a"
    and "calculateDepletionDate L (vt_balance v) (vt_netFlow v) now (vt_lastUpdateDate v) = Inr (vt_depletionDate v)"
  using assms
  by (auto simp: format_super_token_def rates_of_def Let_def split: prod.splits option.splits)

lemma appStateReducer_InrE:
  assumes "appStateReducer L now (Some st) = Inr v"
  obtains tokens formatted where "superTokens st = Some tokens"
    and "list_all2 (\<lambda>t f. format_super_token L now (fst (format_flows [] (flows st))) t = Inr f) tokens formatted"
    and "vs_superTokens v = js_sort (compareSuperTokensBySymbol L) formatted"
    and "vs_flows v = map format_flow (flows st)"
    and "vs_sendersSuperTokens v =
      map (\<lambda>(sender, es). (sender, map format_sender_entry es)) (sendersSuperTokens st)"
  using assms snd_format_flows [of "[]" "flows st"]
  by (auto simp: appStateReducer_def map_result_Inr split: option.splits prod.splits)

lemma list_all2_in_set2:
  assumes "list_all2 P xs ys" and "y \<in> set ys"
  obtains x where "x \<in> set xs" and "P x y"
  using assms by (metis in_set_conv_nth list_all2_conv_all_nth)

text \<open>Where the locale orders strings, the tokens are ordered by their symbols.\<close>

interpretation symbols: comparator "compareSuperTokensBySymbol L" "\<lambda>t. locale_orders L" for L
  by unfold_locales (auto simp: compareSuperTokensBySymbol_def locale_orders_def)

end
