(* ===== verification/Samples.thy ===== *)
theory Samples
  imports Subscription App_State
begin

text \<open>
  A small concrete scenario at which the theorems are applied: an agent, an account that
  streams a token to it, an API object whose calls all succeed, and a few events.
\<close>

definition s_agent :: string where "s_agent = ''0xA''"
definition s_alice :: string where "s_alice = ''0xb''"
definition s_token :: string where "s_token = ''0xD''"
definition s_token_lower :: string where "s_token_lower = ''0xd''"

text \<open>Block \<open>n\<close> has time stamp \<open>n\<close>, and every balance is \<open>bal\<close>.\<close>

definition s_app :: "int \<Rightarrow> app_api" where
  "s_app bal = \<lparr>
     app_external = Inr,
     call_balanceOf = (\<lambda>c h. Inr (JDec bal)),
     call_decimals = (\<lambda>c. Inr (JDec 18)),
     call_name = (\<lambda>c. Inr ''Super''),
     call_symbol = (\<lambda>c. Inr ''SUPx''),
     call_getUnderlyingToken = (\<lambda>c. Inr ''0xE''),
     call_getHost = (\<lambda>c. Inr ''0xF''),
     call_getCFAv1LiquidationPeriod = (\<lambda>c h t. Inr (JDec 3600)),
     call_getInitializationBlock = (\<lambda>c. Inr 10),
     call_getGovernance = (\<lambda>c. Inr ''0x9''),
     app_call = (\<lambda>s. Inr ''0x8''),
     app_network = Inr \<lparr> net_id = 137, net_type = ''main'' \<rparr>,
     web3_getBlockNumber = Inr 1000,
     web3_getBlockTimestamp = Inr,
     web3_getBalance = (\<lambda>h. Inr (JDec bal)) \<rparr>"

text \<open>The same API at a moment when balances cannot be read.\<close>

definition s_app_down :: app_api where
  "s_app_down = (s_app 0)\<lparr> call_balanceOf := (\<lambda>c h. Inl (CallFailed ''balanceOf'')) \<rparr>"

definition s_external :: "string \<Rightarrow> external" where
  "s_external a = \<lparr> ex_address = a, ex_contract = Some a \<rparr>"

definition s_settings :: settings where
  "s_settings = \<lparr> set_network = \<lparr> net_id = 137, net_type = ''main'' \<rparr>,
     set_cfa = s_external ''0x1'', set_governance = s_external ''0x9'', set_host = s_external ''0xF'',
     set_tokenList = [\<lparr> tl_address = ''0xe'', tl_chainId = 137, tl_symbol = ''SUP'', tl_name = ''Sup'',
       tl_decimals = JNum 18, tl_logoURI = None \<rparr>] \<rparr>"

definition s_store :: app_store where
  "s_store = \<lparr> agentAddress = s_agent, cfaAddress = ''0x1'', hostAddress = ''0xF'',
     superTokens = Some [], flows = [], sendersSuperTokens = [], initialBlock = 10,
     isSyncing = True, cachedBlockNumber = None \<rparr>"

text \<open>Alice's flow to the agent at a rate, set in a block.\<close>

definition s_event :: "int \<Rightarrow> int \<Rightarrow> flow_event" where
  "s_event r block = \<lparr> ev_token = s_token, ev_sender = s_alice, ev_receiver = s_agent,
     ev_flowRate = JDec r, ev_totalSenderFlowRate = JDec (- r), ev_totalReceiverFlowRate = JDec r,
     ev_userData = None, ev_blockNumber = block \<rparr>"

definition s_events :: "(app_api \<times> store_event) list" where
  "s_events = [(s_app 50, FlowUpdated (s_event 5 100)), (s_app 60, FlowUpdated (s_event 7 110))]"

lemmas s_defs = s_agent_def s_alice_def s_token_def s_token_lower_def s_app_def s_app_down_def
  s_external_def s_settings_def s_store_def s_event_def s_events_def

definition s_token_entry :: "int \<Rightarrow> int \<Rightarrow> int \<Rightarrow> super_token" where
  "s_token_entry bal net t = \<lparr> st_address = Some s_token, st_decimals = JDec 18,
     st_liquidationPeriodSeconds = JDec 3600, st_name = ''Super'', st_symbol = ''SUPx'',
     st_underlyingToken = \<lparr> ut_address = ''0xE'', ut_name = Some ''Sup'', ut_decimals = Some (JNum 18),
       ut_symbol = Some ''SUP'' \<rparr>, st_logoURI = None, st_mainnetTokenEquivalentAddress = None,
     st_balance = JDec bal, st_netFlow = JDec net, st_lastUpdateTimestamp = Some t \<rparr>"

definition s_flow :: "int \<Rightarrow> int \<Rightarrow> int \<Rightarrow> flow" where
  "s_flow acc r t = \<lparr> fl_isCancelled = False, fl_isIncoming = True, fl_entity = s_alice,
     fl_superTokenAddress = s_token, fl_accumulatedAmount = JDec acc, fl_creationTimestamp = 100,
     fl_lastTimestamp = t, fl_flowRate = JDec r, fl_description = [] \<rparr>"

text \<open>The store after the first and after both events.\<close>

definition s_store_after :: "int \<Rightarrow> int \<Rightarrow> int \<Rightarrow> int \<Rightarrow> app_store" where
  "s_store_after bal acc r t = s_store\<lparr> superTokens := Some [s_token_entry bal r t],
     flows := [s_flow acc r t],
     sendersSuperTokens := [(s_alice, [\<lparr> se_address = s_token, se_balance = JDec bal,
       se_netFlow = JDec (- r), se_lastUpdateTimestamp = t \<rparr>])] \<rparr>"

definition s_cache :: contract_cache where
  "s_cache = [(Some s_token, Some s_token)]"

lemma s_store_wf: "store_wf sample_libs s_agent s_store"
  by (simp add: store_wf_def s_store_def flows_wf_def tokens_wf_def senders_wf_def distinct_by_def)

lemma s_step1: "store_step sample_libs s_settings (s_store, []) (s_app 50, FlowUpdated (s_event 5 100)) =
    Inr (s_store_after 50 0 5 100, s_cache)"
  by code_simp

end
