(* ===== verification/Store_Properties.thy ===== *)
theory Store_Properties
  imports Samples
begin

text \<open>
  The properties of the background store: the flow list as a ledger, the invariant of the
  store, its super tokens and the tokens of the senders, and what failures do to them.
\<close>

section \<open>Helper lemmas\<close>

lemma ledger_of_none: "ledger_of L fs k = None \<longleftrightarrow> lookup_flow L fs k = None"
  by (simp add: ledger_of_def)

lemma ledger_of_same_key: "same_key L k k' \<Longrightarrow> ledger_of L fs k = ledger_of L fs k'"
  by (simp add: ledger_of_def lookup_flow_same_key)

text \<open>The closed flows of a list stay in place.\<close>

definition keeps_closed :: "flow list \<Rightarrow> flow list \<Rightarrow> bool" where
  "keeps_closed fs fs' \<longleftrightarrow> length fs \<le> length fs' \<and>
     (\<forall>j < length fs. fl_isCancelled (fs ! j) \<longrightarrow> fs' ! j = fs ! j)"

lemma keeps_closed_trans: "keeps_closed a b \<Longrightarrow> keeps_closed b c \<Longrightarrow> keeps_closed a c"
  by (auto simp: keeps_closed_def)

lemma store_step_keeps_closed:
  assumes "store_step L settings s e = Inr s'"
  shows "keeps_closed (flows (fst s)) (flows (fst s'))"
proof (cases "snd e")
  case (FlowUpdated ev)
  with store_step_InrE [OF assms]
  have "handleFlowUpdated L (fst e) settings (snd s) (fst s) ev = (Inr (fst s'), snd s')" by simp
  then show ?thesis
    by (cases rule: handleFlowUpdated_InrE)
      (auto simp: keeps_closed_def dest!: updateFlows_keeps_cancelled)
qed (use store_reducer_other [OF store_step_InrE [OF assms]] in \<open>simp_all add: keeps_closed_def\<close>)

interpretation closed: event_store "store_step L settings" "\<lambda>s. keeps_closed fs (flows (fst s))"
    "\<lambda>e. True" for L settings fs
  by unfold_locales (auto intro: keeps_closed_trans store_step_keeps_closed)

lemma updateSuperTokens_undefinedD:
  "updateSuperTokens L cache None agent app settings a ts n = (new, cache') \<Longrightarrow> new = None"
  using updateSuperTokens_undefined [of L cache agent app settings a ts n] by simp

lemma store_reducer_undefined:
  assumes "store_reducer L settings app cache st e = (Inr st', cache')" and "superTokens st = None"
  shows "superTokens st' = None"
proof (cases e)
  case (FlowUpdated ev)
  with assms(1) have "handleFlowUpdated L app settings cache st ev = (Inr st', cache')" by simp
  then show ?thesis
    using assms(2) by (cases rule: handleFlowUpdated_InrE) (auto dest: updateSuperTokens_undefinedD)
qed (use assms in \<open>auto simp: handleVaultEvent_def split: sum.splits prod.splits
      dest: updateSuperTokens_undefinedD\<close>)

interpretation undef: event_store "store_step L settings" "\<lambda>s. superTokens (fst s) = None" "\<lambda>e. True"
    for L settings
  by unfold_locales (auto dest!: store_step_InrE intro: store_reducer_undefined)

lemma s_run: "run_events (store_step sample_libs s_settings) (s_store, []) s_events =
    Inr (s_store_after 60 50 7 110, s_cache)"
  by code_simp

lemma store_run_streamed:
  assumes "store_wf L agent st" and "\<forall>e \<in> set es. no_self_flow L (snd e)"
    and "run_events (store_step L settings) (st, cache) es = Inr (st', cache')"
    and "lookup_flow L (flows st) k = None"
    and "\<forall>p \<in> set (history L k (List.map_filter (ledger_label L agent) es)). 0 < fst p"
  shows "case ledger_of L (flows st') k of
      None \<Rightarrow> history L k (List.map_filter (ledger_label L agent) es) = []
    | Some s \<Rightarrow> history L k (List.map_filter (ledger_label L agent) es) \<noteq> [] \<and>
        (\<forall>u. streamed s u = paid_out (history L k (List.map_filter (ledger_label L agent) es)) u)"
proof -
  let ?ls = "List.map_filter (ledger_label L agent) es"
  have "ledger_of L (flows st') = ledger_run L (ledger_of L (flows st)) ?ls"
    using store_run_ledger [of L agent "(st, cache)" es settings "(st', cache')"] assms(1-3) by simp
  moreover have "case ledger_run L (ledger_of L (flows st)) ?ls k of
      None \<Rightarrow> history L k ?ls = []
    | Some s \<Rightarrow> history L k ?ls \<noteq> [] \<and> (\<forall>u. streamed s u = paid_out (history L k ?ls) u)"
    using assms(4,5) by (intro ledger_run_paid_out) (auto simp: ledger_of_none intro: ledger_of_same_key)
  ultimately show ?thesis by (simp only:)
qed

section \<open>Flows\<close>

text \<open>
  C1. A run of the store keeps exact accounts of every stream. Take a store that satisfies
  its invariant and has no open flow at a key (direction, token, counterparty), and any run
  of events, in which the events of that key all carry positive rates. If the run has no
  event for the key, there is still no open flow; otherwise there is one, and at every moment
  \<open>u\<close> the stored amount plus the rate times the time since the last update is the integral of
  the rates the events have set.
\<close>

theorem store_run_pays_out:
  assumes "store_wf L agent st" and "\<forall>e \<in> set es. no_self_flow L (snd e)"
    and "run_events (store_step L settings) (st, cache) es = Inr (st', cache')"
    and "lookup_flow L (flows st) k = None"
    and "\<forall>p \<in> set (history L k (List.map_filter (ledger_label L agent) es)). 0 < fst p"
  shows "case lookup_flow L (flows st') k of
      None \<Rightarrow> history L k (List.map_filter (ledger_label L agent) es) = []
    | Some f \<Rightarrow> history L k (List.map_filter (ledger_label L agent) es) \<noteq> [] \<and>
        (\<forall>u. amount_int (fl_accumulatedAmount f) + amount_int (fl_flowRate f) * (u - fl_lastTimestamp f) =
             paid_out (history L k (List.map_filter (ledger_label L agent) es)) u)"
  using store_run_streamed [OF assms]
  by (auto simp: ledger_of_def streamed_def stream_of_flow_def split: option.splits)

theorem store_run_pays_out_witness:
  "case lookup_flow sample_libs (flows (s_store_after 60 50 7 110)) (True, s_token, s_alice) of
     None \<Rightarrow> False
   | Some f \<Rightarrow> amount_int (fl_accumulatedAmount f) + amount_int (fl_flowRate f) * (120 - fl_lastTimestamp f)
       = paid_out [(5, 100), (7, 110)] 120"
proof -
  have hist: "history sample_libs (True, s_token, s_alice)
      (List.map_filter (ledger_label sample_libs s_agent) s_events) = [(5, 100), (7, 110)]"
    by code_simp
  have "\<forall>e \<in> set s_events. no_self_flow sample_libs (snd e)" by code_simp
  moreover have "lookup_flow sample_libs (flows s_store) (True, s_token, s_alice) = None" by code_simp
  ultimately show ?thesis
    using store_run_pays_out [OF s_store_wf _ s_run, of "(True, s_token, s_alice)"]
    unfolding hist by (auto split: option.splits)
qed

text \<open>
  C2. \<^verbatim>\<open>updateFlows\<close> implements the ledger: unless the description cannot be decoded it
  returns a list, and that list stands for the ledger in which exactly the stream of the
  event's key was opened, settled at a new rate, or closed; two open flows never share a key.
\<close>

theorem updateFlows_implements_ledger:
  assumes "agent_event L (agentAddress st) event" and "flows_wf L (agentAddress st) (flows st)"
    and "isOk (flow_description L event)"
  shows "\<exists>fs. updateFlows L st event t = Inr fs \<and> flows_wf L (agentAddress st) fs \<and>
    ledger_of L fs = ledger_step L (ledger_of L (flows st))
      (key_of_event L (agentAddress st) event) (amount_int (ev_flowRate event)) t"
proof -
  obtain fs where "updateFlows L st event t = Inr fs"
    using assms(3) by (auto simp: updateFlows_def Let_def)
  then show ?thesis
    using updateFlows_wf [OF assms(1,2)] updateFlows_ledger [OF assms(1,2)] by blast
qed

theorem updateFlows_implements_ledger_witness:
  "\<exists>fs. updateFlows sample_libs s_store (s_event 5 100) 100 = Inr fs \<and> flows_wf sample_libs s_agent fs \<and>
    ledger_of sample_libs fs (True, s_token_lower, s_alice) = Some \<lparr> rate = 5, settled = 0, since = 100 \<rparr>"
proof -
  have "agent_event sample_libs (agentAddress s_store) (s_event 5 100)" by code_simp
  moreover have "flows_wf sample_libs (agentAddress s_store) (flows s_store)"
    by (simp add: s_store_def flows_wf_def distinct_by_def)
  moreover have "isOk (flow_description sample_libs (s_event 5 100))" by code_simp
  ultimately obtain fs where fs: "updateFlows sample_libs s_store (s_event 5 100) 100 = Inr fs"
    "flows_wf sample_libs (agentAddress s_store) fs"
    "ledger_of sample_libs fs = ledger_step sample_libs (ledger_of sample_libs (flows s_store))
      (key_of_event sample_libs (agentAddress s_store) (s_event 5 100)) (amount_int (ev_flowRate (s_event 5 100))) 100"
    using updateFlows_implements_ledger by blast
  have "ledger_step sample_libs (ledger_of sample_libs (flows s_store))
      (key_of_event sample_libs (agentAddress s_store) (s_event 5 100)) (amount_int (ev_flowRate (s_event 5 100))) 100
      (True, s_token_lower, s_alice) = Some \<lparr> rate = 5, settled = 0, since = 100 \<rparr>"
    by code_simp
  with fs show ?thesis by (simp add: s_store_def)
qed

text \<open>
  C3. The store's invariant holds after every run: open flows have distinct keys and never
  the agent at their other end, super tokens have distinct addresses, and each sender has at
  most one entry per token.
\<close>

theorem store_run_invariant:
  assumes "store_wf L agent st" and "\<forall>e \<in> set es. no_self_flow L (snd e)"
    and "run_events (store_step L settings) (st, cache) es = Inr (st', cache')"
  shows "store_wf L agent st'"
  using es.run_inv [of L agent "(st, cache)" es settings "(st', cache')"] assms by simp

theorem store_run_invariant_witness: "store_wf sample_libs s_agent (s_store_after 60 50 7 110)"
proof -
  have "\<forall>e \<in> set s_events. no_self_flow sample_libs (snd e)" by code_simp
  then show ?thesis by (rule store_run_invariant [OF s_store_wf _ s_run])
qed

text \<open>
  C4. A closed flow is history: whatever events follow, it stays at its place in the list
  with every field unchanged, and the list never gets shorter.
\<close>

theorem closed_flows_are_final:
  assumes "run_events (store_step L settings) (st, cache) es = Inr (st', cache')"
  shows "length (flows st) \<le> length (flows st') \<and>
    (\<forall>j < length (flows st). fl_isCancelled (flows st ! j) \<longrightarrow> flows st' ! j = flows st ! j)"
  using closed.run_inv [of "flows st" "(st, cache)" es L settings "(st', cache')"] assms
  by (simp add: keeps_closed_def)

theorem closed_flows_are_final_witness:
  "length (flows s_store) \<le> length (flows (s_store_after 60 50 7 110))"
  using closed_flows_are_final [OF s_run] by blast

end
