(* ===== verification/Token_Properties.thy ===== *)
theory Token_Properties
  imports Store_Properties
begin

text \<open>
  The properties of the super tokens and of the senders' tokens: what a handled event
  refreshes, what a failing call does, and what a replayed event does.
\<close>

section \<open>Helper lemmas\<close>

lemma updateSendersSuperTokens_cache:
  assumes "updateSendersSuperTokens L app cache st ev ts = (r, cache')"
  shows "map_of cache' a = map_of cache a"
proof -
  have "map_of c' a = map_of c a"
    if "getSuperTokenContract c b None = (x, c')" for c c' b x
    using that by (auto simp: getSuperTokenContract_def split: option.splits)
  then have "map_of c' a = map_of c a"
    if "newSuperTokenEntry app c s b n t = (x, c')" for c c' s b n t x
    using that by (auto simp: newSuperTokenEntry_def split: prod.splits sum.splits)
  then show ?thesis
    using assms by (auto simp: updateSendersSuperTokens_def Let_def split: if_splits option.splits prod.splits)
qed

text \<open>With the token's handle cached, the sender update fails only with the balance call.\<close>

definition needs_balance :: "app_store \<Rightarrow> flow_event \<Rightarrow> bool" where
  "needs_balance st ev \<longleftrightarrow>
     map_of (sendersSuperTokens st) (ev_sender ev) = None \<or> js_strict_neq_zero (ev_totalSenderFlowRate ev)"

lemma updateSendersSuperTokens_ok:
  assumes "map_of cache (Some (ev_token ev)) = Some c"
  shows "isOk (fst (updateSendersSuperTokens L app cache st ev ts)) \<longleftrightarrow>
    (addr_eq L (agentAddress st) (ev_receiver ev) \<and> needs_balance st ev \<longrightarrow>
       isOk (call_balanceOf app c (ev_sender ev)))"
  using newSuperTokenEntry_cached [OF assms] unfolding isOk_iff
  by (auto simp: updateSendersSuperTokens_def Let_def needs_balance_def split: option.splits)

lemma updateSuperTokens_cache:
  assumes "getSuperTokenContract cache a (Some app) = (Inr c, cache1)"
  shows "map_of (snd (updateSuperTokens L cache old agent app settings a ts n)) a = Some c"
  using assms getSuperTokenContract_Inr [OF assms] by (simp add: updateSuperTokens_def)

text \<open>The outcome of a handled event, in terms of its three updates.\<close>

lemma handleFlowUpdated_handled:
  assumes "isAgentSender L (agentAddress st) (ev_sender ev) (ev_receiver ev)"
    and "web3_getBlockTimestamp app (ev_blockNumber ev) = Inr ts"
    and "updateSuperTokens L cache (superTokens st) (agentAddress st) app settings (Some (ev_token ev)) ts
       (Some (if addr_eq L (agentAddress st) (ev_sender ev)
              then ev_totalSenderFlowRate ev else ev_totalReceiverFlowRate ev)) = (newST, cache1)"
  shows "fst (handleFlowUpdated L app settings cache st ev) =
    await (fst (updateSendersSuperTokens L app cache1 st ev ts)) (\<lambda>senders.
    await (updateFlows L st ev ts) (\<lambda>fs.
      Inr (st\<lparr> superTokens := newST, flows := fs, sendersSuperTokens := senders \<rparr>)))"
  using assms by (simp add: handleFlowUpdated_def Let_def split: prod.split)

lemma updateFlows_ok: "isOk (updateFlows L st ev ts) = isOk (flow_description L ev)"
  by (auto simp: updateFlows_def Let_def isOk_iff)

section \<open>Super tokens\<close>

text \<open>
  C5. A handled \<^verbatim>\<open>FlowUpdated\<close> event refreshes exactly one super token. When the list is
  still defined afterwards, the event's token is in it, with the balance of the agent as the
  chain gave it through the token's cached handle, the agent's total rate of the event as its
  net flow, and the time stamp of the event's block; every other token is what it was.
\<close>

theorem flow_event_refreshes_token:
  assumes "store_wf L (agentAddress st) st" and "superTokens st = Some old"
    and "isAgentSender L (agentAddress st) (ev_sender ev) (ev_receiver ev)"
    and "handleFlowUpdated L app settings cache st ev = (Inr st', cache')" and "superTokens st' = Some new"
  shows "\<exists>c balance ts t. map_of cache' (Some (ev_token ev)) = Some c \<and>
    call_balanceOf app c (agentAddress st) = Inr balance \<and>
    web3_getBlockTimestamp app (ev_blockNumber ev) = Inr ts \<and>
    lookup_token L new (Some (ev_token ev)) = Some t \<and>
    st_balance t = balance \<and> st_lastUpdateTimestamp t = Some ts \<and>
    st_netFlow t = (if addr_eq L (agentAddress st) (ev_sender ev)
       then ev_totalSenderFlowRate ev else ev_totalReceiverFlowRate ev) \<and>
    (\<forall>a. \<not> addressesEqual L a (Some (ev_token ev)) \<longrightarrow> lookup_token L new a = lookup_token L old a)"
  using assms(4)
proof (cases rule: handleFlowUpdated_InrE)
  case ignored
  then show ?thesis using assms(3) by simp
next
  case (handled ts cache1 senders fs newST)
  have "newST = Some new" using handled(6) assms(5) by simp
  then have upd: "updateSuperTokens L cache (Some old) (agentAddress st) app settings (Some (ev_token ev)) ts
      (Some (if addr_eq L (agentAddress st) (ev_sender ev)
         then ev_totalSenderFlowRate ev else ev_totalReceiverFlowRate ev)) = (Some new, cache1)"
    using handled(3) assms(2) by simp
  have "tokens_wf L old" using assms(1,2) by (simp add: store_wf_def)
  from updateSuperTokens_lookup [OF upd this] obtain c t balance where
    c: "map_of cache1 (Some (ev_token ev)) = Some c" "call_balanceOf app c (agentAddress st) = Inr balance"
    and new: "\<forall>a. lookup_token L new a = (if addressesEqual L a (Some (ev_token ev))
       then Some (refreshed_token t balance ts (Some (if addr_eq L (agentAddress st) (ev_sender ev)
         then ev_totalSenderFlowRate ev else ev_totalReceiverFlowRate ev))) else lookup_token L old a)"
    by blast
  then show ?thesis
    using updateSendersSuperTokens_cache [OF handled(4)] handled(2) by simp
qed

theorem flow_event_refreshes_token_witness:
  "\<exists>balance t. call_balanceOf (s_app 60) (Some s_token) s_agent = Inr balance \<and>
     lookup_token sample_libs [s_token_entry 60 7 110] (Some s_token) = Some t \<and>
     st_balance t = balance \<and> st_netFlow t = JDec 7"
proof -
  have wf: "store_wf sample_libs (agentAddress (s_store_after 50 0 5 100)) (s_store_after 50 0 5 100)"
    using store_reducer_wf [OF s_store_wf, of "FlowUpdated (s_event 5 100)" s_settings "s_app 50" "[]"
        "s_store_after 50 0 5 100" s_cache]
    by (simp add: s_store_after_def s_store_def) code_simp
  have step: "handleFlowUpdated sample_libs (s_app 60) s_settings s_cache (s_store_after 50 0 5 100) (s_event 7 110)
      = (Inr (s_store_after 60 50 7 110), s_cache)"
    by code_simp
  have agent: "isAgentSender sample_libs (agentAddress (s_store_after 50 0 5 100))
      (ev_sender (s_event 7 110)) (ev_receiver (s_event 7 110))"
    by code_simp
  have facts: "agentAddress (s_store_after 50 0 5 100) = s_agent" "ev_token (s_event 7 110) = s_token"
    "map_of s_cache (Some s_token) = Some (Some s_token)"
    "\<not> addr_eq sample_libs s_agent (ev_sender (s_event 7 110))" "ev_totalReceiverFlowRate (s_event 7 110) = JDec 7"
    by code_simp+
  show ?thesis
    using flow_event_refreshes_token [OF wf _ agent step, of "[s_token_entry 50 5 100]" "[s_token_entry 60 7 110]"] facts
    by (simp add: s_store_after_def) metis
qed

text \<open>
  C6. When a flow event of the agent is handled, and with which outcome. Let the token have a
  contract handle. The handler resolves exactly when the block's time stamp can be read, the
  description can be decoded and, for an incoming flow whose sender has no entries yet or a
  total that is not strictly zero, the sender's balance can be read: the call in
  \<^verbatim>\<open>newSuperTokenEntry\<close> that leaves out the API object is harmless, since the handle was
  cached just before. The calls for the token itself (metadata, balance) never make the handler
  fail; when one of them fails, the resolved state has \<^verbatim>\<open>undefined\<close> for its super tokens.
\<close>

theorem flow_event_outcome:
  assumes "isAgentSender L (agentAddress st) (ev_sender ev) (ev_receiver ev)"
    and "getSuperTokenContract cache (Some (ev_token ev)) (Some app) = (Inr c, cache1)"
  shows "(isOk (fst (handleFlowUpdated L app settings cache st ev)) \<longleftrightarrow>
      isOk (web3_getBlockTimestamp app (ev_blockNumber ev)) \<and> isOk (flow_description L ev) \<and>
      (addr_eq L (agentAddress st) (ev_receiver ev) \<and> needs_balance st ev \<longrightarrow>
         isOk (call_balanceOf app c (ev_sender ev)))) \<and>
    (\<forall>st'. fst (handleFlowUpdated L app settings cache st ev) = Inr st' \<longrightarrow>
       (superTokens st' = None \<longleftrightarrow>
          \<not> (\<exists>old. superTokens st = Some old \<and>
                token_answers L cache old (agentAddress st) app settings (Some (ev_token ev)))))"
proof (cases "web3_getBlockTimestamp app (ev_blockNumber ev)")
  case (Inl e)
  then show ?thesis using assms(1) by (simp add: handleFlowUpdated_def)
next
  case (Inr ts)
  let ?n = "Some (if addr_eq L (agentAddress st) (ev_sender ev)
      then ev_totalSenderFlowRate ev else ev_totalReceiverFlowRate ev)"
  obtain newST cache2 where upd: "updateSuperTokens L cache (superTokens st) (agentAddress st) app settings
      (Some (ev_token ev)) ts ?n = (newST, cache2)"
    by fastforce
  note handled = handleFlowUpdated_handled [OF assms(1) Inr upd]
  have "map_of cache2 (Some (ev_token ev)) = Some c"
    using updateSuperTokens_cache [OF assms(2)] upd by (metis snd_conv)
  note senders = updateSendersSuperTokens_ok [OF this]
  have "newST = None \<longleftrightarrow> \<not> (\<exists>old. superTokens st = Some old \<and>
      token_answers L cache old (agentAddress st) app settings (Some (ev_token ev)))"
    using upd updateSuperTokens_undefined [of L cache "agentAddress st" app settings "Some (ev_token ev)" ts ?n]
      updateSuperTokens_succeeds_iff [of L cache _ "agentAddress st" app settings "Some (ev_token ev)" ts ?n]
    by (cases "superTokens st") (simp, metis fst_conv option.inject)
  then show ?thesis
    unfolding handled using Inr senders [of L app st ts] updateFlows_ok [of L st ev ts]
    by (auto simp: isOk_iff)
qed

theorem flow_event_outcome_witness:
  "\<exists>st'. fst (handleFlowUpdated sample_libs
     (s_app_down\<lparr> call_balanceOf := \<lambda>c h. if h = s_agent then Inl (CallFailed ''balanceOf'') else Inr (JDec 1) \<rparr>)
     s_settings [] s_store (s_event 5 100)) = Inr st' \<and> superTokens st' = None"
proof -
  let ?app = "s_app_down\<lparr> call_balanceOf :=
    \<lambda>c h. if h = s_agent then Inl (CallFailed ''balanceOf'') else Inr (JDec 1) \<rparr>"
  have "isAgentSender sample_libs (agentAddress s_store) (ev_sender (s_event 5 100)) (ev_receiver (s_event 5 100))"
    by code_simp
  moreover have "getSuperTokenContract [] (Some (ev_token (s_event 5 100))) (Some ?app) = (Inr (Some s_token), s_cache)"
    by code_simp
  moreover have "isOk (web3_getBlockTimestamp ?app (ev_blockNumber (s_event 5 100)))"
    "isOk (flow_description sample_libs (s_event 5 100))"
    "isOk (call_balanceOf ?app (Some s_token) (ev_sender (s_event 5 100)))"
    "\<not> token_answers sample_libs [] [] (agentAddress s_store) ?app s_settings (Some (ev_token (s_event 5 100)))"
    by code_simp+
  moreover have "superTokens s_store = Some []" by (simp add: s_store_def)
  ultimately show ?thesis
    using flow_event_outcome [of sample_libs s_store "s_event 5 100" "[]" ?app "Some s_token" s_cache s_settings]
    by (auto simp: isOk_iff)
qed

text \<open>
  C7. The loss of the super tokens is permanent: once the list is \<^verbatim>\<open>undefined\<close>, it is so
  after every further run of events, and the front end's reducer throws on each of these
  states.
\<close>

theorem undefined_tokens_absorbing:
  assumes "superTokens st = None" and "run_events (store_step L settings) (st, cache) es = Inr (st', cache')"
  shows "superTokens st' = None \<and> appStateReducer L now (Some st') = Inl TypeError"
  using undef.run_inv [of "(st, cache)" es L settings "(st', cache')"] assms
  by (simp add: appStateReducer_def split: prod.split)

theorem undefined_tokens_absorbing_witness:
  "\<exists>st' cache'. run_events (store_step sample_libs s_settings) (s_store\<lparr> superTokens := None \<rparr>, []) s_events
      = Inr (st', cache') \<and> superTokens st' = None \<and> appStateReducer sample_libs (Date 0) (Some st') = Inl TypeError"
proof -
  have run: "run_events (store_step sample_libs s_settings) (s_store\<lparr> superTokens := None \<rparr>, []) s_events
      = Inr ((s_store_after 60 50 7 110)\<lparr> superTokens := None \<rparr>, s_cache)"
    by code_simp
  show ?thesis
    using undefined_tokens_absorbing [OF _ run, of "Date 0"] run by simp
qed

section \<open>Tokens of the senders\<close>

lemma incoming_entry:
  assumes "updateSendersSuperTokens L app cache st ev ts = (Inr d, cache')"
    and "addr_eq L (agentAddress st) (ev_receiver ev)" and "ev_totalSenderFlowRate ev = JDec n"
  obtains e where "se_address e = ev_token ev" and "se_netFlow e = JDec n"
    and "d = dict_put (ev_sender ev)
      (filter (\<lambda>t. \<not> addr_eq L (se_address t) (ev_token ev))
         (case map_of (sendersSuperTokens st) (ev_sender ev) of None \<Rightarrow> [] | Some es \<Rightarrow> es) @ [e])
      (sendersSuperTokens st)"
  using assms
  by (auto simp: updateSendersSuperTokens_def Let_def split: option.splits prod.splits
      dest!: newSuperTokenEntry_address)

definition has_entry :: "libs \<Rightarrow> string \<Rightarrow> string \<Rightarrow> app_store \<Rightarrow> bool" where
  "has_entry L sender a st \<longleftrightarrow>
     (\<exists>es. map_of (sendersSuperTokens st) sender = Some es \<and> (\<exists>t \<in> set es. addr_eq L (se_address t) a))"

lemma updateSendersSuperTokens_has_entry:
  assumes "updateSendersSuperTokens L app cache st ev ts = (Inr d, cache')" and "has_entry L sender a st"
  shows "has_entry L sender a (st\<lparr> superTokens := x, flows := fs, sendersSuperTokens := d \<rparr>)"
  using assms(1)
proof (cases rule: updateSendersSuperTokens_InrE)
  case unchanged
  then show ?thesis using assms(2) by (simp add: has_entry_def)
next
  case (entered e)
  show ?thesis
  proof (cases "sender = ev_sender ev")
    case True
    from assms(2) obtain es t where "map_of (sendersSuperTokens st) sender = Some es" "t \<in> set es"
      "addr_eq L (se_address t) a"
      by (auto simp: has_entry_def)
    then show ?thesis
      using entered(2,4) True
      by (cases "addr_eq L (se_address t) (ev_token ev)")
        (auto simp: has_entry_def dest: addressesEqual_sym intro: addressesEqual_trans)
  next
    case False
    then show ?thesis using assms(2) entered(4) by (simp add: has_entry_def)
  qed
qed

lemma store_step_has_entry:
  assumes "store_step L settings s e = Inr s'" and "has_entry L sender a (fst s)"
  shows "has_entry L sender a (fst s')"
proof (cases "snd e")
  case (FlowUpdated ev)
  with store_step_InrE [OF assms(1)]
  have "handleFlowUpdated L (fst e) settings (snd s) (fst s) ev = (Inr (fst s'), snd s')" by simp
  then show ?thesis
    by (cases rule: handleFlowUpdated_InrE)
      (use assms(2) in \<open>auto intro: updateSendersSuperTokens_has_entry\<close>)
qed (use assms(2) store_reducer_other [OF store_step_InrE [OF assms(1)]] in \<open>simp_all add: has_entry_def\<close>)

interpretation entries: event_store "store_step L settings" "\<lambda>s. has_entry L sender a (fst s)" "\<lambda>e. True"
    for L settings sender a
  by unfold_locales (auto intro: store_step_has_entry)

text \<open>
  C8. After a handled incoming event the sender has exactly one entry for the event's token,
  and it carries the sender's total rate of the event, even a total of zero, which web3
  delivers as the string \<^verbatim>\<open>"0"\<close>; the sender's entries for other tokens and the entries
  of all other senders are unchanged.
\<close>

theorem incoming_event_enters_sender:
  assumes "handleFlowUpdated L app settings cache st ev = (Inr st', cache')"
    and "addr_eq L (agentAddress st) (ev_receiver ev)" and "ev_totalSenderFlowRate ev = JDec n"
  shows "\<exists>es e. map_of (sendersSuperTokens st') (ev_sender ev) = Some es \<and>
    filter (\<lambda>t. addr_eq L (se_address t) (ev_token ev)) es = [e] \<and> se_netFlow e = JDec n \<and>
    filter (\<lambda>t. \<not> addr_eq L (se_address t) (ev_token ev)) es =
      filter (\<lambda>t. \<not> addr_eq L (se_address t) (ev_token ev))
        (case map_of (sendersSuperTokens st) (ev_sender ev) of None \<Rightarrow> [] | Some es \<Rightarrow> es) \<and>
    (\<forall>s. s \<noteq> ev_sender ev \<longrightarrow> map_of (sendersSuperTokens st') s = map_of (sendersSuperTokens st) s)"
  using assms(1)
proof (cases rule: handleFlowUpdated_InrE)
  case ignored
  then show ?thesis using assms(2) by (simp add: isAgentSender_def)
next
  case (handled ts cache1 senders fs newST)
  show ?thesis
    by (rule incoming_entry [OF handled(4) assms(2,3)]) (use handled(6) in simp)
qed

theorem incoming_event_enters_sender_witness:
  "\<exists>st' es e. fst (handleFlowUpdated sample_libs (s_app 60) s_settings s_cache (s_store_after 50 0 5 100) (s_event 0 110))
      = Inr st' \<and> map_of (sendersSuperTokens st') s_alice = Some es \<and>
     filter (\<lambda>t. addr_eq sample_libs (se_address t) s_token) es = [e] \<and> se_netFlow e = JDec 0"
proof -
  let ?h = "handleFlowUpdated sample_libs (s_app 60) s_settings s_cache (s_store_after 50 0 5 100) (s_event 0 110)"
  have "isOk (fst ?h)" by code_simp
  then obtain st' where st': "?h = (Inr st', snd ?h)" by (metis isOk_iff prod.collapse)
  moreover have "addr_eq sample_libs (agentAddress (s_store_after 50 0 5 100)) (ev_receiver (s_event 0 110))"
    "ev_totalSenderFlowRate (s_event 0 110) = JDec 0" "ev_sender (s_event 0 110) = s_alice"
    "ev_token (s_event 0 110) = s_token"
    by code_simp+
  ultimately show ?thesis
    using incoming_event_enters_sender [OF st'] by (metis fst_conv)
qed

text \<open>
  C9. No run of events removes a sender's entry for a token: the branch that should drop the
  entry of a sender whose total became zero is never effective.
\<close>

theorem sender_entries_persist:
  assumes "run_events (store_step L settings) (st, cache) es = Inr (st', cache')"
    and "map_of (sendersSuperTokens st) sender = Some ts" and "t \<in> set ts" and "addr_eq L (se_address t) a"
  shows "\<exists>ts' t'. map_of (sendersSuperTokens st') sender = Some ts' \<and> t' \<in> set ts' \<and> addr_eq L (se_address t') a"
  using entries.run_inv [of L sender a "(st, cache)" es settings "(st', cache')"] assms
  by (auto simp: has_entry_def)

theorem sender_entries_persist_witness:
  "\<exists>st' cache' ts' t'. run_events (store_step sample_libs s_settings) (s_store_after 50 0 5 100, s_cache)
     [(s_app 60, FlowUpdated (s_event 0 110))] = Inr (st', cache') \<and>
   map_of (sendersSuperTokens st') s_alice = Some ts' \<and> t' \<in> set ts' \<and>
   addr_eq sample_libs (se_address t') s_token_lower"
proof -
  let ?r = "run_events (store_step sample_libs s_settings) (s_store_after 50 0 5 100, s_cache)
     [(s_app 60, FlowUpdated (s_event 0 110))]"
  have "isOk ?r" by code_simp
  then obtain st' cache' where r: "?r = Inr (st', cache')" by (metis isOk_iff prod.collapse)
  have "map_of (sendersSuperTokens (s_store_after 50 0 5 100)) s_alice =
      Some [\<lparr> se_address = s_token, se_balance = JDec 50, se_netFlow = JDec (- 5), se_lastUpdateTimestamp = 100 \<rparr>]"
    by (simp add: s_store_after_def)
  moreover have "addr_eq sample_libs s_token s_token_lower" by code_simp
  ultimately show ?thesis
    using sender_entries_persist [OF r] r by fastforce
qed

section \<open>Replayed events\<close>

lemma ledger_step_replay:
  assumes "0 < r"
  shows "ledger_step L (ledger_step L m k r t) k r t = ledger_step L m k r t"
  using assms
  by (auto simp: ledger_step_def fun_eq_iff streamed_def fk.eqv_refl split: option.splits)

lemma handled_ledger_label:
  assumes "handleFlowUpdated L app settings cache st ev = (Inr st', cache')"
    and "isAgentSender L (agentAddress st) (ev_sender ev) (ev_receiver ev)" and "agentAddress st = agent"
  obtains ts where "ledger_label L agent (app, FlowUpdated ev) =
    Some (key_of_event L agent ev, amount_int (ev_flowRate ev), ts)"
  using assms(1)
  by (cases rule: handleFlowUpdated_InrE) (use assms(2,3) that in \<open>auto simp: ledger_label_def\<close>)

lemma replayed_ledger:
  assumes "store_wf L agent st" and "\<not> addr_eq L (ev_sender ev) (ev_receiver ev)"
    and "isAgentSender L agent (ev_sender ev) (ev_receiver ev)"
    and "handleFlowUpdated L app settings cache st ev = (Inr st1, cache1)"
    and "handleFlowUpdated L app settings cache1 st1 ev = (Inr st2, cache2)"
  obtains ts where
    "ledger_of L (flows st1) =
       ledger_step L (ledger_of L (flows st)) (key_of_event L agent ev) (amount_int (ev_flowRate ev)) ts"
    "ledger_of L (flows st2) =
       ledger_step L (ledger_of L (flows st1)) (key_of_event L agent ev) (amount_int (ev_flowRate ev)) ts"
proof -
  have ns: "no_self_flow L (FlowUpdated ev)" using assms(2) by (simp add: no_self_flow_def)
  have agent: "agentAddress st = agent" using assms(1) by (simp add: store_wf_def)
  obtain ts where label: "ledger_label L agent (app, FlowUpdated ev) =
      Some (key_of_event L agent ev, amount_int (ev_flowRate ev), ts)"
    using handled_ledger_label [OF assms(4) _ agent] assms(3) agent by metis
  have step1: "store_step L settings (st, cache) (app, FlowUpdated ev) = Inr (st1, cache1)"
    and step2: "store_step L settings (st1, cache1) (app, FlowUpdated ev) = Inr (st2, cache2)"
    using assms(4,5) by (simp_all add: store_step_def)
  have "store_wf L agent st1" using handleFlowUpdated_wf [OF assms(1) ns assms(4)] .
  then show thesis
    using store_step_ledger [of L agent "(st, cache)" "(app, FlowUpdated ev)", OF _ _ step1]
      store_step_ledger [of L agent "(st1, cache1)" "(app, FlowUpdated ev)", OF _ _ step2]
      label assms(1) ns
    by (intro that) simp_all
qed

text \<open>
  C10. A subscription may deliver the events of a block twice. Handling an event with a
  positive rate a second time changes no account: the ledger after the second handling is
  the ledger after the first.
\<close>

theorem replayed_update_is_harmless:
  assumes "store_wf L agent st" and "\<not> addr_eq L (ev_sender ev) (ev_receiver ev)"
    and "isAgentSender L agent (ev_sender ev) (ev_receiver ev)" and "0 < amount_int (ev_flowRate ev)"
    and "handleFlowUpdated L app settings cache st ev = (Inr st1, cache1)"
    and "handleFlowUpdated L app settings cache1 st1 ev = (Inr st2, cache2)"
  shows "ledger_of L (flows st2) = ledger_of L (flows st1)"
proof (rule replayed_ledger [OF assms(1-3,5,6)])
  fix ts
  assume "ledger_of L (flows st1) =
       ledger_step L (ledger_of L (flows st)) (key_of_event L agent ev) (amount_int (ev_flowRate ev)) ts"
    and "ledger_of L (flows st2) =
       ledger_step L (ledger_of L (flows st1)) (key_of_event L agent ev) (amount_int (ev_flowRate ev)) ts"
  then show ?thesis using ledger_step_replay [OF assms(4)] by (simp only:)
qed

theorem replayed_update_is_harmless_witness:
  "\<exists>st2 cache2. handleFlowUpdated sample_libs (s_app 50) s_settings s_cache (s_store_after 50 0 5 100) (s_event 5 100)
      = (Inr st2, cache2) \<and> ledger_of sample_libs (flows st2) = ledger_of sample_libs (flows (s_store_after 50 0 5 100))"
proof -
  let ?h = "handleFlowUpdated sample_libs (s_app 50) s_settings"
  have h1: "?h [] s_store (s_event 5 100) = (Inr (s_store_after 50 0 5 100), s_cache)" by code_simp
  have "isOk (fst (?h s_cache (s_store_after 50 0 5 100) (s_event 5 100)))" by code_simp
  then obtain st2 cache2 where h2: "?h s_cache (s_store_after 50 0 5 100) (s_event 5 100) = (Inr st2, cache2)"
    by (metis isOk_iff prod.collapse)
  have "\<not> addr_eq sample_libs (ev_sender (s_event 5 100)) (ev_receiver (s_event 5 100))"
    "isAgentSender sample_libs s_agent (ev_sender (s_event 5 100)) (ev_receiver (s_event 5 100))"
    "0 < amount_int (ev_flowRate (s_event 5 100))"
    by code_simp+
  from replayed_update_is_harmless [OF s_store_wf this h1 h2] h2 show ?thesis by blast
qed

text \<open>
  C11. The same is not true of the event that closes a flow. Handled once it closes the open
  flow of its key; handled a second time it finds no open flow and opens a new one, with the
  rate of the closing event and no amount.
\<close>

theorem replayed_close_reopens:
  assumes "store_wf L agent st" and "\<not> addr_eq L (ev_sender ev) (ev_receiver ev)"
    and "isAgentSender L agent (ev_sender ev) (ev_receiver ev)" and "amount_int (ev_flowRate ev) \<le> 0"
    and "handleFlowUpdated L app settings cache st ev = (Inr st1, cache1)"
    and "handleFlowUpdated L app settings cache1 st1 ev = (Inr st2, cache2)"
    and "lookup_flow L (flows st) (key_of_event L agent ev) \<noteq> None"
  shows "lookup_flow L (flows st1) (key_of_event L agent ev) = None \<and>
    (\<exists>f. lookup_flow L (flows st2) (key_of_event L agent ev) = Some f \<and>
       amount_int (fl_flowRate f) = amount_int (ev_flowRate ev) \<and> amount_int (fl_accumulatedAmount f) = 0)"
proof (rule replayed_ledger [OF assms(1-3,5,6)])
  fix ts
  let ?k = "key_of_event L agent ev" and ?r = "amount_int (ev_flowRate ev)"
  assume l1: "ledger_of L (flows st1) = ledger_step L (ledger_of L (flows st)) ?k ?r ts"
    and l2: "ledger_of L (flows st2) = ledger_step L (ledger_of L (flows st1)) ?k ?r ts"
  have "ledger_of L (flows st1) ?k = None"
    unfolding l1 using assms(4,7) by (auto simp: ledger_step_def ledger_of_def fk.eqv_refl)
  moreover from this have "ledger_of L (flows st2) ?k = Some \<lparr> rate = ?r, settled = 0, since = ts \<rparr>"
    unfolding l2 by (simp add: ledger_step_def fk.eqv_refl)
  ultimately show ?thesis by (auto simp: ledger_of_def stream_of_flow_def)
qed

theorem replayed_close_reopens_witness:
  "\<exists>st1 cache1 st2 f. handleFlowUpdated sample_libs (s_app 60) s_settings s_cache (s_store_after 50 0 5 100) (s_event 0 110)
      = (Inr st1, cache1) \<and>
    fst (handleFlowUpdated sample_libs (s_app 60) s_settings cache1 st1 (s_event 0 110)) = Inr st2 \<and>
    lookup_flow sample_libs (flows st2) (True, s_token, s_alice) = Some f \<and> amount_int (fl_flowRate f) = 0"
proof -
  let ?h = "handleFlowUpdated sample_libs (s_app 60) s_settings" and ?e = "s_event 0 110"
  have "isOk (fst (?h s_cache (s_store_after 50 0 5 100) ?e))" by code_simp
  then obtain st1 cache1 where h1: "?h s_cache (s_store_after 50 0 5 100) ?e = (Inr st1, cache1)"
    by (metis isOk_iff prod.collapse)
  have "case ?h s_cache (s_store_after 50 0 5 100) ?e of
      (Inl _, _) \<Rightarrow> False | (Inr st1, cache1) \<Rightarrow> isOk (fst (?h cache1 st1 ?e))"
    by code_simp
  then obtain st2 cache2 where h2: "?h cache1 st1 ?e = (Inr st2, cache2)"
    using h1 by (auto simp: isOk_iff) (metis prod.collapse)
  have "no_self_flow sample_libs (FlowUpdated (s_event 5 100))" by code_simp
  then have "store_wf sample_libs s_agent (s_store_after 50 0 5 100)"
    using es.step_inv [of sample_libs s_agent "(s_store, [])" _ s_settings, OF _ _ s_step1] s_store_wf by simp
  moreover have "\<not> addr_eq sample_libs (ev_sender ?e) (ev_receiver ?e)"
    "isAgentSender sample_libs s_agent (ev_sender ?e) (ev_receiver ?e)"
    "amount_int (ev_flowRate ?e) \<le> 0" "amount_int (ev_flowRate ?e) = 0"
    "key_of_event sample_libs s_agent ?e = (True, s_token, s_alice)"
    "lookup_flow sample_libs (flows (s_store_after 50 0 5 100)) (True, s_token, s_alice) \<noteq> None"
    by code_simp+
  ultimately show ?thesis
    using replayed_close_reopens [OF _ _ _ _ h1 h2] h1 h2 by (metis fst_conv)
qed

end
