(* ===== verification/Startup_Properties.thy ===== *)
theory Startup_Properties
  imports Samples
begin

text \<open>
  The properties of the start of the background script: the retry loop, the block ranges of
  the subscription, and the initial state.
\<close>

section \<open>Helper lemmas\<close>

lemma initializeState_InrE:
  assumes "initializeState L app settings agent cache cached = (Inr (st, cachedBlock, currentBlock, b), cache')"
  obtains ts old as where
    "web3_getBlockNumber app = Inr currentBlock"
    "superTokens (next_state agent settings b cached) = Some old"
    "web3_getBlockTimestamp app currentBlock = Inr ts"
    "as = initial_addresses old (PRESET_SUPER_TOKENS (net_id (set_network settings)))"
    "load_tokens L app settings ts cache (next_state agent settings b cached) as = (st, cache')"
proof -
  have "superTokens (next_state agent settings b cached) \<noteq> None"
    by (simp add: next_state_def split: option.split)
  then obtain old where old: "superTokens (next_state agent settings b cached) = Some old" by blast
  have *: "web3_getBlockNumber app = Inr currentBlock"
    "loadInitialSuperTokens L app settings cache (next_state agent settings b cached)
      (PRESET_SUPER_TOKENS (net_id (set_network settings))) currentBlock = (Inr st, cache')"
    using assms by (auto simp: initializeState_def split: sum.splits prod.splits)
  from *(2) old obtain ts where "web3_getBlockTimestamp app currentBlock = Inr ts"
    "load_tokens L app settings ts cache (next_state agent settings b cached)
      (initial_addresses old (PRESET_SUPER_TOKENS (net_id (set_network settings)))) = (st, cache')"
    by (auto simp: loadInitialSuperTokens_def split: sum.splits prod.splits)
  with *(1) old show thesis by (intro that) simp_all
qed

lemma next_state_old_tokens:
  "superTokens (next_state agent settings b cached) =
     Some (case cached of None \<Rightarrow> [] | Some c \<Rightarrow> (case superTokens c of None \<Rightarrow> [] | Some ts \<Rightarrow> ts))"
  by (simp add: next_state_def split: option.split)

lemma load_tokens_append:
  "load_tokens L app settings ts cache st (as @ bs) =
     (case load_tokens L app settings ts cache st as of
        (st', cache') \<Rightarrow> load_tokens L app settings ts cache' st' bs)"
  by (induction as arbitrary: st cache) (auto split: prod.split)

text \<open>A token that cannot be read leaves the list undefined for good.\<close>

lemma load_tokens_unreadable:
  assumes "updateSuperTokens L cache (superTokens st) (agentAddress st) app settings a ts None = (None, cache')"
  shows "superTokens (fst (load_tokens L app settings ts cache st (a # as))) = None"
  using assms load_tokens_undefined by simp

section \<open>Retrying\<close>

text \<open>
  C12. \<^verbatim>\<open>retryEvery\<close> ends, succeeds exactly when one of the first \<open>maxRetries + 1\<close> calls of
  the callback succeeds, and then with the first success; otherwise it rejects with the last
  call's error. Before retry number \<open>i\<close> it sleeps \<open>initialRetryTimer * increaseFactor ^ i\<close>.
\<close>

theorem retryEvery_outcome:
  "(isOk (fst (retryEvery callback timer factor maxRetries)) \<longleftrightarrow> (\<exists>j \<le> maxRetries. isOk (callback j))) \<and>
   (\<exists>k \<le> maxRetries. fst (retryEvery callback timer factor maxRetries) = callback k \<and>
      (\<forall>j < k. \<not> isOk (callback j)) \<and>
      snd (retryEvery callback timer factor maxRetries) = map (\<lambda>i. timer * factor ^ i) [1..<Suc k])"
proof -
  obtain k where k: "k \<le> maxRetries" "\<forall>j. 0 \<le> j \<longrightarrow> j < k \<longrightarrow> \<not> isOk (callback j)"
    "isOk (callback k) \<or> k = maxRetries"
    "attempt callback factor maxRetries 0 timer = (callback k, map (\<lambda>i. timer * factor ^ Suc i) [0..<k - 0])"
    using attempt_outcome [of 0 maxRetries callback factor timer] by auto
  have "map (\<lambda>i. timer * factor ^ i) [1..<Suc k] = map (\<lambda>i. timer * factor ^ Suc i) [0..<k]"
    by (simp add: map_Suc_upt [symmetric] del: upt_Suc)
  moreover have "isOk (callback k) \<longleftrightarrow> (\<exists>j \<le> maxRetries. isOk (callback j))"
    using k(1-3) by (metis le_neq_implies_less le0)
  ultimately show ?thesis
    using k unfolding retryEvery_def by (intro conjI exI [of _ k]) simp_all
qed

theorem retryEvery_outcome_witness:
  "fst (retryEvery_default (\<lambda>n. if n < 2 then Inl TypeError else Inr n)) = Inr (2 :: nat) \<and>
   snd (retryEvery_default (\<lambda>n. if n < 2 then Inl TypeError else Inr (n :: nat))) = [3000, 9000]"
proof -
  let ?c = "\<lambda>n :: nat. if n < 2 then Inl TypeError else Inr n"
  obtain k where k: "k \<le> 3" "fst (retryEvery ?c 1000 3 3) = ?c k" "\<forall>j < k. \<not> isOk (?c j)"
    "snd (retryEvery ?c 1000 3 3) = map (\<lambda>i. 1000 * 3 ^ i) [1..<Suc k]"
    and ok: "isOk (fst (retryEvery ?c 1000 3 3)) \<longleftrightarrow> (\<exists>j \<le> 3. isOk (?c j))"
    using retryEvery_outcome [of ?c 1000 3 3] by blast
  have "isOk (?c 3)" by simp
  with ok have "isOk (fst (retryEvery ?c 1000 3 3))" by blast
  with k(2) have "\<not> k < 2" by (cases "k < 2") simp_all
  moreover have "\<not> 2 < k"
  proof
    assume "2 < k"
    with k(3) have "\<not> isOk (?c 2)" by blast
    then show False by simp
  qed
  ultimately have [simp]: "k = 2" by simp
  show ?thesis using k(2,4) by (simp add: retryEvery_default_def upt_rec)
qed

section \<open>Block ranges\<close>

text \<open>The first block whose events a store with this cached block number has not seen.\<close>

definition first_unseen :: "int option \<Rightarrow> int \<Rightarrow> int" where
  "first_unseen cached initial = (case cached of None \<Rightarrow> initial | Some n \<Rightarrow> if n = 0 then initial else n + 1)"

text \<open>Blocks that are queried twice: the last block of the cached range after a restart within the
  safety margin, and the blocks of an agent created in the last block or later.\<close>

lemma subscription_redelivers_blocks:
  "(n \<noteq> 0 \<and> max (currentBlock - REORG_SAFETY_BLOCK_AGE) initial \<le> n \<longrightarrow>
      1 \<le> deliveries (subscription_ranges (Some n) currentBlock initial)
             (max (currentBlock - REORG_SAFETY_BLOCK_AGE) initial)) \<and>
   (currentBlock - 1 \<le> initial \<and> initial \<le> currentBlock \<longrightarrow>
      deliveries (subscription_ranges None currentBlock initial) initial = 2)"
  by (auto simp: range_defs)

text \<open>
  C13. No block is missed: whatever block number is cached, every block after it (from the
  agent's first block, if none is cached) is covered by one of the three queries. And when
  the cached block lies before the safety margin and the agent was created before the last
  block, the three ranges do not overlap: each such block is delivered exactly once, and no
  earlier one is. Otherwise blocks are delivered again: a restart within the safety margin of
  the cached block queries the last block of the cached range a second time although it was
  processed; and an agent created in the last block, or later, gets the blocks of its first
  query twice.
\<close>

theorem subscription_covers_blocks:
  "(first_unseen cached initial \<le> b \<longrightarrow> 1 \<le> deliveries (subscription_ranges cached currentBlock initial) b) \<and>
    (initial + 1 < currentBlock \<and> first_unseen cached initial \<le> max (currentBlock - REORG_SAFETY_BLOCK_AGE) initial \<longrightarrow>
       deliveries (subscription_ranges cached currentBlock initial) b = (if first_unseen cached initial \<le> b then 1 else 0)) \<and>
    (n \<noteq> 0 \<and> max (currentBlock - REORG_SAFETY_BLOCK_AGE) initial \<le> n \<longrightarrow>
       1 \<le> deliveries (subscription_ranges (Some n) currentBlock initial)
              (max (currentBlock - REORG_SAFETY_BLOCK_AGE) initial)) \<and>
    (currentBlock - 1 \<le> initial \<and> initial \<le> currentBlock \<longrightarrow>
       deliveries (subscription_ranges None currentBlock initial) initial = 2)"
proof -
  have "(first_unseen cached initial \<le> b \<longrightarrow> 1 \<le> deliveries (subscription_ranges cached currentBlock initial) b) \<and>
      (initial + 1 < currentBlock \<and> first_unseen cached initial \<le> max (currentBlock - REORG_SAFETY_BLOCK_AGE) initial \<longrightarrow>
         deliveries (subscription_ranges cached currentBlock initial) b = (if first_unseen cached initial \<le> b then 1 else 0))"
    by (auto simp: range_defs first_unseen_def split: option.splits)
  then show ?thesis using subscription_redelivers_blocks [of n currentBlock initial] by blast
qed

theorem subscription_covers_blocks_witness:
  "deliveries (subscription_ranges (Some 500) 1000 10) 900 = 1 \<and>
   deliveries (subscription_ranges (Some 500) 1000 10) 500 = 0 \<and>
   1 \<le> deliveries (subscription_ranges (Some 900) 1000 10) 900 \<and>
   deliveries (subscription_ranges None 1000 999) 999 = 2"
  using subscription_covers_blocks [where cached = "Some 500" and initial = 10 and currentBlock = 1000 and b = 900 and n = 900]
    subscription_covers_blocks [where cached = "Some 500" and initial = 10 and currentBlock = 1000 and b = 500 and n = 900]
    subscription_covers_blocks [where cached = None and initial = 999 and currentBlock = 1000 and b = 0 and n = 0]
  by (simp add: first_unseen_def REORG_SAFETY_BLOCK_AGE_def)

section \<open>The initial state\<close>



text \<open>
  On a network without preset tokens the first start loses the super tokens. The guard
  of \<^verbatim>\<open>loadInitialSuperTokens\<close> returns early only when presets and state are both missing,
  so the addresses to load are the single value \<^verbatim>\<open>undefined\<close>; when no contract answers at
  it, the start succeeds with \<^verbatim>\<open>undefined\<close> for the super tokens.
\<close>

theorem no_presets_lose_tokens:
  assumes "initializeState L app settings agent [] None = (Inr (st, cachedBlock, currentBlock, b), cache')"
    and "PRESET_SUPER_TOKENS (net_id (set_network settings)) = None"
    and "\<not> isOk (await (app_external app None) (loadContractData app))"
  shows "superTokens st = None"
  using assms(1)
proof (rule initializeState_InrE)
  let ?s = "next_state agent settings b None"
  fix ts old as
  assume *: "superTokens ?s = Some old" "as = initial_addresses old (PRESET_SUPER_TOKENS (net_id (set_network settings)))"
    "load_tokens L app settings ts [] ?s as = (st, cache')"
  have old: "old = []" using *(1) next_state_old_tokens [of agent settings b None] by simp
  have "\<not> token_answers L [] [] (agentAddress ?s) app settings None"
    using assms(3)
    by (auto simp: token_answers_def getSuperTokenContract_def base_token_def lookup_token_def lookup_by_def
        newSuperToken_def Let_def isOk_iff split: sum.splits)
  then have "fst (updateSuperTokens L [] (Some []) (agentAddress ?s) app settings None ts None) = None"
    using updateSuperTokens_succeeds_iff by metis
  then obtain c where "updateSuperTokens L [] (superTokens ?s) (agentAddress ?s) app settings None ts None = (None, c)"
    using *(1) old by (metis prod.collapse)
  from load_tokens_unreadable [OF this, of "[]"] show ?thesis
    using *(2,3) old assms(2) by (simp add: initial_addresses_def)
qed

theorem no_presets_lose_tokens_witness:
  "\<exists>st r cache'. initializeState sample_libs
       ((s_app 50)\<lparr> call_decimals := \<lambda>c. case c of None \<Rightarrow> Inl (CallFailed ''no address'') | Some _ \<Rightarrow> Inr (JDec 18) \<rparr>)
       (s_settings\<lparr> set_network := \<lparr> net_id = 1, net_type = ''main'' \<rparr> \<rparr>)
       (s_external s_agent) [] None = (Inr (st, r), cache') \<and> superTokens st = None"
proof -
  let ?app = "(s_app 50)\<lparr> call_decimals :=
    \<lambda>c. case c of None \<Rightarrow> Inl (CallFailed ''no address'') | Some _ \<Rightarrow> Inr (JDec 18) \<rparr>"
  let ?set = "s_settings\<lparr> set_network := \<lparr> net_id = 1, net_type = ''main'' \<rparr> \<rparr>"
  let ?i = "initializeState sample_libs ?app ?set (s_external s_agent) [] None"
  have "isOk (fst ?i)" by code_simp
  then obtain st cb cur b cache' where i: "?i = (Inr (st, cb, cur, b), cache')"
    by (cases ?i) (auto simp: isOk_iff)
  have "PRESET_SUPER_TOKENS (net_id (set_network ?set)) = None"
    "\<not> isOk (await (app_external ?app None) (loadContractData ?app))"
    by code_simp+
  from no_presets_lose_tokens [OF i this] i show ?thesis by metis
qed

end
