(* ===== verification/View_Properties.thy ===== *)
theory View_Properties
  imports Store_Properties
begin

text \<open>
  The properties of the front end's state reducer: rates, order of the tokens, amounts shown,
  depletion dates, and when the reducer fails.
\<close>

section \<open>Helper lemmas\<close>

lemma appStateReducer_tokenE:
  assumes "appStateReducer L now (Some st) = Inr v" and "w \<in> set (vs_superTokens v)"
  obtains ts t where "superTokens st = Some ts" and "t \<in> set ts"
    and "format_super_token L now (fst (format_flows [] (flows st))) t = Inr w"
  using assms(1)
proof (rule appStateReducer_InrE)
  fix tokens formatted
  assume *: "superTokens st = Some tokens"
    "list_all2 (\<lambda>t f. format_super_token L now (fst (format_flows [] (flows st))) t = Inr f) tokens formatted"
    "vs_superTokens v = js_sort (compareSuperTokensBySymbol L) formatted"
  from assms(2) *(3) have "w \<in> set formatted" by simp
  with *(2) show thesis by (rule list_all2_in_set2) (use *(1) that in blast)
qed

lemma depletion_date_eq:
  assumes "bn_div_truncates L" and "bn_toNumber_53_bits L" and "seconds_truncate L"
    and "netFlow < 0"
  shows "calculateDepletionDate L balance netFlow (Date now) (Date last_date) =
    (let ms = trunc_div (balance + netFlow * trunc_div (now - last_date) 1000) \<bar>netFlow\<bar> * 1000
     in if \<bar>ms\<bar> < 2 ^ 53 then Inr (Some (new_Date (now + ms))) else Inl RangeError)"
  using assms
  by (simp add: calculateDepletionDate_def calculateCurrentAmount_valid bn_div_truncates_def
      bn_toNumber_53_bits_def Let_def)

lemma format_super_token_ok:
  "isOk (format_super_token L now d t) \<longleftrightarrow>
     isOk (calculateDepletionDate L (amount_int (st_balance t)) (amount_int (st_netFlow t)) now
             (optional_date (st_lastUpdateTimestamp t)))"
  by (auto simp: format_super_token_def Let_def isOk_iff split: prod.splits)

lemma map_filter_parallel:
  assumes "map f xs = map g ys" and "map f' xs = map g' ys"
  shows "map f (filter (\<lambda>x. P (f' x)) xs) = map g (filter (\<lambda>y. P (g' y)) ys)"
proof -
  have "list_all2 (\<lambda>x y. f x = g y \<and> f' x = g' y) xs ys"
    using assms by (auto simp: list_all2_conv_all_nth list_eq_iff_nth_eq)
  then show ?thesis by (induction rule: list_all2_induct) auto
qed

lemma sample_locale_orders: "locale_orders sample_libs"
proof -
  have refl: "string_compare x x = 0" for x by (induction x) auto
  have total: "string_compare x y \<le> 0 \<or> string_compare y x \<le> 0" for x y
    by (induction x y rule: string_compare.induct) auto
  have trans: "string_compare x y \<le> 0 \<Longrightarrow> string_compare y z \<le> 0 \<Longrightarrow> string_compare x z \<le> 0" for x y z
  proof (induction x y arbitrary: z rule: string_compare.induct)
    case (4 x xs y ys)
    show ?case
    proof (cases z)
      case Nil
      then show ?thesis using "4.prems" by simp
    next
      case (Cons c cs)
      have "string_compare xs cs \<le> 0"
        if "\<not> (of_char x :: nat) < of_char y" "\<not> (of_char y :: nat) < of_char x"
          "string_compare xs ys \<le> 0" "string_compare ys cs \<le> 0"
        by (rule "4.IH" [OF that])
      then show ?thesis
        using "4.prems" unfolding Cons string_compare.simps by (simp split: if_splits) (auto dest: order.strict_trans)
    qed
  next
    case 1
    then show ?case by simp
  next
    case (2 y ys)
    then show ?case by (cases z) simp_all
  next
    case (3 x xs)
    then show ?case by simp
  qed
  show ?thesis using total trans by (auto simp: sample_libs_def locale_orders_def)
qed

section \<open>Rates and order\<close>

text \<open>
  C17. In the state the front end renders, every super token carries the sum of the rates of
  the open incoming flows of its address as its inflow rate, the sum over the open outgoing
  flows as its outflow rate, and the balance and net flow of the stored token.
\<close>

theorem reducer_rates:
  assumes "appStateReducer L now (Some st) = Inr v" and "w \<in> set (vs_superTokens v)" and "vt_address w = Some a"
  shows "vt_inflowRate w = open_rate True a (flows st) \<and> vt_outflowRate w = open_rate False a (flows st) \<and>
    (\<exists>ts t. superTokens st = Some ts \<and> t \<in> set ts \<and> st_address t = Some a \<and>
       vt_balance w = amount_int (st_balance t) \<and> vt_netFlow w = amount_int (st_netFlow t))"
proof (rule appStateReducer_tokenE [OF assms(1,2)])
  fix ts t
  assume t: "superTokens st = Some ts" "t \<in> set ts"
    and w: "format_super_token L now (fst (format_flows [] (flows st))) t = Inr w"
  have "st_address t = Some a" using format_super_token_fields(1) [OF w] assms(3) by simp
  then show ?thesis
    using format_super_token_fields(3,4,6) [OF w] t rates_of_format_flows [of "[]" "flows st" a]
    by (auto simp: rates_of_def)
qed

theorem reducer_rates_witness:
  "\<exists>v w. appStateReducer sample_libs (Date 120000) (Some (s_store_after 60 50 7 110)) = Inr v \<and>
     w \<in> set (vs_superTokens v) \<and> vt_inflowRate w = 7 \<and> vt_outflowRate w = 0"
proof -
  let ?r = "appStateReducer sample_libs (Date 120000) (Some (s_store_after 60 50 7 110))"
  have "case ?r of Inl _ \<Rightarrow> False | Inr v \<Rightarrow> map vt_address (vs_superTokens v) = [Some s_token]" by code_simp
  then obtain v where v: "?r = Inr v" "map vt_address (vs_superTokens v) = [Some s_token]"
    by (auto split: sum.splits)
  then obtain w where w: "w \<in> set (vs_superTokens v)" "vt_address w = Some s_token" by auto
  have "open_rate True s_token (flows (s_store_after 60 50 7 110)) = 7"
    "open_rate False s_token (flows (s_store_after 60 50 7 110)) = 0" by code_simp+
  with reducer_rates [OF v(1) w] v(1) w(1) show ?thesis by auto
qed

text \<open>
  The rendered tokens are the stored ones, none lost and none added, sorted by symbol
  whenever the locale's comparison of strings is a total preorder; tokens with equivalent
  symbols keep their order. The flows are the stored flows in their order.
\<close>

theorem reducer_sorts_tokens:
  assumes "appStateReducer L now (Some st) = Inr v" and "superTokens st = Some ts"
    and "locale_orders L"
  shows "mset (map vt_address (vs_superTokens v)) = mset (map st_address ts) \<and>
    sorted_wrt (\<lambda>x y. localeCompare L x y \<le> 0) (map vt_symbol (vs_superTokens v)) \<and>
    (\<forall>s. map vt_address (filter (\<lambda>w. localeCompare L s (vt_symbol w) \<le> 0 \<and> localeCompare L (vt_symbol w) s \<le> 0)
             (vs_superTokens v)) =
         map st_address (filter (\<lambda>t. localeCompare L s (st_symbol t) \<le> 0 \<and> localeCompare L (st_symbol t) s \<le> 0) ts)) \<and>
    length (vs_flows v) = length (flows st) \<and>
    (\<forall>i < length (flows st). vs_flows v ! i = format_flow (flows st ! i))"
  using assms(1)
proof (rule appStateReducer_InrE)
  fix tokens formatted
  assume *: "superTokens st = Some tokens"
    "list_all2 (\<lambda>t f. format_super_token L now (fst (format_flows [] (flows st))) t = Inr f) tokens formatted"
    "vs_superTokens v = js_sort (compareSuperTokensBySymbol L) formatted" "vs_flows v = map format_flow (flows st)"
  have fields: "map vt_address formatted = map st_address ts" "map vt_symbol formatted = map st_symbol ts"
    using *(1,2) assms(2) format_super_token_fields(1,2)
    by (auto simp: list_all2_conv_all_nth list_eq_iff_nth_eq)
  have "mset (map vt_address (vs_superTokens v)) = mset (map st_address ts)"
    using fields(1) mset_js_sort [of "compareSuperTokensBySymbol L" formatted] *(3) by (metis mset_map)
  moreover have "sorted_wrt (\<lambda>x y. localeCompare L x y \<le> 0) (map vt_symbol (vs_superTokens v))"
    using symbols.sorted_js_sort [where L = L and xs = formatted] assms(3) *(3) by (simp add: sorted_wrt_map compareSuperTokensBySymbol_def)
  moreover have "map vt_address (filter (\<lambda>w. localeCompare L s (vt_symbol w) \<le> 0 \<and> localeCompare L (vt_symbol w) s \<le> 0)
             (vs_superTokens v)) =
         map st_address (filter (\<lambda>t. localeCompare L s (st_symbol t) \<le> 0 \<and> localeCompare L (st_symbol t) s \<le> 0) ts)" for s
    using symbols.stable_js_sort [where L = L and z = "undefined\<lparr> vt_symbol := s \<rparr>" and xs = formatted] assms(3)
      map_filter_parallel [OF fields, of "\<lambda>x. localeCompare L s x \<le> 0 \<and> localeCompare L x s \<le> 0"] *(3)
    by (simp add: compareSuperTokensBySymbol_def)
  ultimately show ?thesis using *(4) by simp
qed

theorem reducer_sorts_tokens_witness:
  "\<exists>v. appStateReducer sample_libs (Date 120000) (Some (s_store_after 60 50 7 110)) = Inr v \<and>
     mset (map vt_address (vs_superTokens v)) = mset [Some s_token] \<and> length (vs_flows v) = 1"
proof -
  have "isOk (appStateReducer sample_libs (Date 120000) (Some (s_store_after 60 50 7 110)))" by code_simp
  then obtain v where v: "appStateReducer sample_libs (Date 120000) (Some (s_store_after 60 50 7 110)) = Inr v"
    by blast
  from reducer_sorts_tokens [OF v _ sample_locale_orders, of "[s_token_entry 60 7 110]"] v show ?thesis
    by (simp add: s_store_after_def s_token_entry_def)
qed

section \<open>Amounts and dates\<close>

lemma timestampToDate_eq: "\<bar>t\<bar> \<le> 8640000000000 \<Longrightarrow> timestampToDate t = Date (t * 1000)"
  by (simp add: timestampToDate_def new_Date_def abs_mult)

text \<open>
  C19. What the user is shown is what was streamed. After a run of the store as in C1, take
  the open flow of a key as the front end's reducer formats it: at every date the amount that
  \<^verbatim>\<open>calculateCurrentAmount\<close> gives for it, at a whole second \<open>u\<close>, is the integral of the
  rates that the events of the key have set.
\<close>

theorem shown_amount_is_paid_out:
  assumes "store_wf L agent st" and "\<forall>e \<in> set es. no_self_flow L (snd e)"
    and "run_events (store_step L settings) (st, cache) es = Inr (st', cache')"
    and "lookup_flow L (flows st) k = None" and "lookup_flow L (flows st') k = Some f"
    and "\<forall>p \<in> set (history L k (List.map_filter (ledger_label L agent) es)). 0 < fst p"
    and "\<bar>fl_lastTimestamp f\<bar> \<le> 8640000000000" and "seconds_truncate L"
  shows "calculateCurrentAmount L (vf_accumulatedAmount (format_flow f)) (vf_flowRate (format_flow f))
      (vf_lastUpdateDate (format_flow f)) (Date (u * 1000)) =
    Inr (paid_out (history L k (List.map_filter (ledger_label L agent) es)) u)"
proof -
  have "streamed (stream_of_flow f) u = paid_out (history L k (List.map_filter (ledger_label L agent) es)) u"
    using store_run_streamed [OF assms(1-4,6)] assms(5) by (simp add: ledger_of_def)
  then show ?thesis
    by (simp add: format_flow_def timestampToDate_eq [OF assms(7)] calculateCurrentAmount_valid [OF assms(8)]
        trunc_div_seconds streamed_def stream_of_flow_def)
qed

theorem shown_amount_is_paid_out_witness:
  "calculateCurrentAmount sample_libs 50 7 (Date 110000) (Date 120000) = Inr (paid_out [(5, 100), (7, 110)] 120)"
proof -
  have hist: "history sample_libs (True, s_token, s_alice)
      (List.map_filter (ledger_label sample_libs s_agent) s_events) = [(5, 100), (7, 110)]"
    by code_simp
  have "\<forall>e \<in> set s_events. no_self_flow sample_libs (snd e)" by code_simp
  moreover have "lookup_flow sample_libs (flows s_store) (True, s_token, s_alice) = None" by code_simp
  moreover have "lookup_flow sample_libs (flows (s_store_after 60 50 7 110)) (True, s_token, s_alice) =
      Some (s_flow 50 7 110)" by code_simp
  ultimately show ?thesis
    using shown_amount_is_paid_out [OF s_store_wf _ s_run, of "(True, s_token, s_alice)" "s_flow 50 7 110" 120]
    unfolding hist by (simp add: s_flow_def format_flow_def timestampToDate_def new_Date_def)
qed

lemma div_drain:
  fixes cur :: int
  assumes "0 \<le> cur" and "0 < n"
  shows "0 \<le> cur div n" and "cur div n * n \<le> cur" and "cur < (cur div n + 1) * n"
proof -
  have *: "0 \<le> cur mod n" "cur mod n < n" "cur = cur div n * n + cur mod n"
    using assms(2) by simp_all
  from assms show "0 \<le> cur div n" by (simp add: pos_imp_zdiv_nonneg_iff)
  from * show "cur div n * n \<le> cur" by linarith
  have "(cur div n + 1) * n = cur div n * n + n" by (simp add: algebra_simps)
  with * show "cur < (cur div n + 1) * n" by linarith
qed

lemma depletion_of_draining:
  assumes libs: "bn_div_truncates L" "bn_toNumber_53_bits L" "seconds_truncate L"
    and neg: "netFlow < 0" and le: "t0 \<le> t" and bal: "0 \<le> balance + netFlow * ((t - t0) div 1000)"
    and small: "1000 * balance < 2 ^ 53 * \<bar>netFlow\<bar>"
  shows "\<exists>s. 0 \<le> s \<and> calculateDepletionDate L balance netFlow (Date t) (Date t0) = Inr (Some (new_Date (t + 1000 * s))) \<and>
         0 \<le> balance + netFlow * ((t + 1000 * s - t0) div 1000) \<and>
         balance + netFlow * ((t + 1000 * s - t0) div 1000) < - netFlow"
proof -
  define secs where "secs = (t - t0) div 1000"
  define cur where "cur = balance + netFlow * secs"
  define s where "s = cur div (- netFlow)"
  have secs: "0 \<le> secs" using le by (simp add: secs_def)
  have cur: "0 \<le> cur" "cur \<le> balance"
    using bal secs neg by (simp_all add: cur_def secs_def mult_nonpos_nonneg)
  have s: "0 \<le> s" "s * (- netFlow) \<le> cur" "cur < (s + 1) * (- netFlow)"
    using div_drain [OF cur(1), of "- netFlow"] neg by (simp_all add: s_def)
  have "(s * 1000) * (- netFlow) < 2 ^ 53 * (- netFlow)"
  proof -
    have "1000 * (s * (- netFlow)) < 2 ^ 53 * \<bar>netFlow\<bar>" using s(2) cur(2) small by linarith
    then show ?thesis using neg by (simp add: mult.assoc mult.left_commute mult.commute)
  qed
  then have "s * 1000 < 2 ^ 53" using neg by (simp add: mult_less_cancel_right)
  moreover have "trunc_div (t - t0) 1000 = secs" "trunc_div cur \<bar>netFlow\<bar> = s"
    using le cur neg by (simp_all add: trunc_div_nonneg secs_def s_def)
  ultimately have date: "calculateDepletionDate L balance netFlow (Date t) (Date t0) = Inr (Some (new_Date (t + 1000 * s)))"
    using s(1) by (simp add: depletion_date_eq [OF libs neg] cur_def [symmetric] Let_def mult.commute)
  have "(t + 1000 * s - t0) div 1000 = secs + s"
    using div_mult_self1 [of 1000 "t - t0" s] by (simp add: secs_def algebra_simps)
  then have "balance + netFlow * ((t + 1000 * s - t0) div 1000) = cur - s * (- netFlow)"
    by (simp add: cur_def algebra_simps)
  then show ?thesis using date s by (intro exI [of _ s]) (simp add: algebra_simps)
qed

text \<open>
  C20. The depletion date is right. A token whose net flow is not negative has none. For one
  that drains, whose balance has not run out yet and whose remaining time fits in a number,
  the date is the last one, in whole seconds from now, at which the balance is not negative:
  there the balance is at least zero and less than one second's drain.
\<close>

theorem depletion_date_correct:
  assumes "bn_div_truncates L" and "bn_toNumber_53_bits L" and "seconds_truncate L"
  shows "(0 \<le> netFlow \<longrightarrow> calculateDepletionDate L balance netFlow now updated = Inr None) \<and>
    (netFlow < 0 \<and> t0 \<le> t \<and> 0 \<le> balance + netFlow * ((t - t0) div 1000) \<and>
     1000 * balance < 2 ^ 53 * \<bar>netFlow\<bar> \<longrightarrow>
      (\<exists>s. 0 \<le> s \<and> calculateDepletionDate L balance netFlow (Date t) (Date t0) = Inr (Some (new_Date (t + 1000 * s))) \<and>
         0 \<le> balance + netFlow * ((t + 1000 * s - t0) div 1000) \<and>
         balance + netFlow * ((t + 1000 * s - t0) div 1000) < - netFlow))"
proof -
  have "0 \<le> netFlow \<Longrightarrow> calculateDepletionDate L balance netFlow now updated = Inr None"
    by (simp add: calculateDepletionDate_def)
  then show ?thesis using depletion_of_draining [OF assms] by blast
qed

theorem depletion_date_correct_witness:
  "\<exists>s. calculateDepletionDate sample_libs 100 (- 7) (Date 5500) (Date 1000) = Inr (Some (new_Date (5500 + 1000 * s))) \<and>
     0 \<le> 100 - 7 * ((5500 + 1000 * s - 1000) div 1000) \<and> 100 - 7 * ((5500 + 1000 * s - 1000) div 1000) < (7 :: int)"
  using depletion_date_correct [of sample_libs "- 7" 100 "Date 0" "Date 0" 1000 5500] by auto

text \<open>
  C21. When the front end's reducer fails. It throws a \<^verbatim>\<open>TypeError\<close> when the super tokens
  are undefined. Otherwise it succeeds exactly if every draining token has an update date
  and a time to depletion, in milliseconds, that bn.js can convert to a number: a single
  token that drains slowly enough makes the whole reducer throw.
\<close>

theorem reducer_succeeds_iff:
  assumes "bn_div_truncates L" and "bn_toNumber_53_bits L" and "seconds_truncate L"
    and "\<forall>t. differenceInSeconds L t InvalidDate = None"
  shows "isOk (appStateReducer L (Date now) (Some st)) \<longleftrightarrow>
    (\<exists>ts. superTokens st = Some ts \<and>
       (\<forall>t \<in> set ts. amount_int (st_netFlow t) < 0 \<longrightarrow>
          (\<exists>t0. optional_date (st_lastUpdateTimestamp t) = Date t0 \<and>
             \<bar>trunc_div (amount_int (st_balance t) + amount_int (st_netFlow t) * trunc_div (now - t0) 1000)
                 \<bar>amount_int (st_netFlow t)\<bar> * 1000\<bar> < 2 ^ 53)))"
proof -
  have token: "isOk (format_super_token L (Date now) d t) \<longleftrightarrow>
      (amount_int (st_netFlow t) < 0 \<longrightarrow>
          (\<exists>t0. optional_date (st_lastUpdateTimestamp t) = Date t0 \<and>
             \<bar>trunc_div (amount_int (st_balance t) + amount_int (st_netFlow t) * trunc_div (now - t0) 1000)
                 \<bar>amount_int (st_netFlow t)\<bar> * 1000\<bar> < 2 ^ 53))" for d t
  proof (cases "amount_int (st_netFlow t) < 0")
    case True
    show ?thesis
    proof (cases "optional_date (st_lastUpdateTimestamp t)")
      case InvalidDate
      then show ?thesis using True assms(4)
        by (simp add: format_super_token_ok calculateDepletionDate_def calculateCurrentAmount_def)
    next
      case (Date t0)
      then show ?thesis using True
        by (simp add: format_super_token_ok depletion_date_eq [OF assms(1-3)] Let_def)
    qed
  qed (simp add: format_super_token_ok calculateDepletionDate_def)
  show ?thesis
  proof (cases "superTokens st")
    case None
    then show ?thesis by (simp add: appStateReducer_def split: prod.split)
  next
    case (Some ts)
    then have "isOk (appStateReducer L (Date now) (Some st)) \<longleftrightarrow>
        isOk (map_result (format_super_token L (Date now) (fst (format_flows [] (flows st)))) ts)"
      by (auto simp: appStateReducer_def isOk_iff split: prod.split)
    then show ?thesis using Some by (simp add: map_result_ok token)
  qed
qed

theorem reducer_succeeds_iff_witness:
  "\<not> isOk (appStateReducer sample_libs (Date 0) (Some (s_store\<lparr> superTokens :=
       Some [(s_token_entry (10 ^ 18) 0 0)\<lparr> st_netFlow := JDec (- 1) \<rparr>] \<rparr>)))"
proof -
  have "\<forall>t. differenceInSeconds sample_libs t InvalidDate = None"
    by (simp add: sample_libs_def date_diff_def split: js_date.split)
  then show ?thesis
    using reducer_succeeds_iff [of sample_libs 0 "s_store\<lparr> superTokens :=
       Some [(s_token_entry (10 ^ 18) 0 0)\<lparr> st_netFlow := JDec (- 1) \<rparr>] \<rparr>"]
    by (auto simp: s_token_entry_def optional_date_def timestampToDate_def new_Date_def trunc_div_def)
qed

end
