(* ===== verification/Js_Number.thy ===== *)
theory Js_Number
  imports Prelude
begin

text \<open>
  JavaScript's numbers, as far as the sources use them: IEEE doubles with rounding to the
  nearest even value, the conversions between strings and numbers, sums, products and
  comparisons. A finite number is \<open>Fin m e\<close>, the value \<open>m * 2 ^ e\<close>. The sign of zero is left
  out: no expression of the sources can tell the two zeros apart.
\<close>

datatype js_number = NaN | Infinite bool | Fin int int

section \<open>Rounding\<close>

function bits :: "int \<Rightarrow> int" where
  "bits n = (if n \<le> 0 then 0 else 1 + bits (n div 2))"
  by pat_completeness auto
termination
  by (relation "measure nat") auto

declare bits.simps [simp del]

text \<open>\<open>scale_div a q e\<close> is the fraction \<open>a / (q * 2 ^ e)\<close> as numerator and denominator.\<close>

definition scale_div :: "int \<Rightarrow> int \<Rightarrow> int \<Rightarrow> int \<times> int" where
  "scale_div a q e = (if 0 \<le> e then (a, q * 2 ^ nat e) else (a * 2 ^ nat (- e), q))"

definition round_half_even :: "int \<Rightarrow> int \<Rightarrow> int" where
  "round_half_even a q =
     (let d = a div q; r = a mod q
      in if 2 * r < q then d else if q < 2 * r then d + 1 else if even d then d else d + 1)"

text \<open>The exponent of the unit in the last place of \<open>a / q\<close>, for positive \<open>a\<close> and \<open>q\<close>: the
  fraction has at most 53 bits before the point once scaled by it.\<close>

definition ulp_exponent :: "int \<Rightarrow> int \<Rightarrow> int" where
  "ulp_exponent a q =
     (let k = bits a - bits q;
          (num, den) = scale_div a q k
      in max ((if den \<le> num then k else k - 1) - 52) (- 1074))"

text \<open>The double nearest to \<open>p / q\<close>, for positive \<open>q\<close>. Rounding may carry into a 54th
  bit, which moves the exponent.\<close>

definition round_frac :: "int \<Rightarrow> int \<Rightarrow> js_number" where
  "round_frac p q =
     (if p = 0 then Fin 0 0
      else (let e = ulp_exponent \<bar>p\<bar> q;
                (num, den) = scale_div \<bar>p\<bar> q e;
                m = round_half_even num den
            in if 971 < e \<or> e = 971 \<and> m = 2 ^ 53 then Infinite (p < 0)
               else if m = 2 ^ 53 then Fin (sgn p * 2 ^ 52) (e + 1)
               else Fin (sgn p * m) e))"

text \<open>The double nearest to \<open>m * 10 ^ k\<close>.\<close>

definition round_decimal :: "int \<Rightarrow> int \<Rightarrow> js_number" where
  "round_decimal m k = (if 0 \<le> k then round_frac (m * 10 ^ nat k) 1 else round_frac m (10 ^ nat (- k)))"

section \<open>Arithmetic and comparison\<close>

text \<open>The numerators of two finite numbers over a common power of two.\<close>

definition common :: "int \<Rightarrow> int \<Rightarrow> int \<Rightarrow> int \<Rightarrow> int \<times> int \<times> int" where
  "common m e m' e' = (let k = min e e' in (m * 2 ^ nat (e - k), m' * 2 ^ nat (e' - k), k))"

definition round_scaled :: "int \<Rightarrow> int \<Rightarrow> js_number" where
  "round_scaled m e = (if 0 \<le> e then round_frac (m * 2 ^ nat e) 1 else round_frac m (2 ^ nat (- e)))"

fun num_add :: "js_number \<Rightarrow> js_number \<Rightarrow> js_number" where
  "num_add (Fin m e) (Fin m' e') = (let (a, b, k) = common m e m' e' in round_scaled (a + b) k)"
| "num_add (Infinite s) (Fin m e) = Infinite s"
| "num_add (Fin m e) (Infinite s) = Infinite s"
| "num_add (Infinite s) (Infinite s') = (if s = s' then Infinite s else NaN)"
| "num_add _ _ = NaN"

fun num_mul :: "js_number \<Rightarrow> js_number \<Rightarrow> js_number" where
  "num_mul (Fin m e) (Fin m' e') = round_scaled (m * m') (e + e')"
| "num_mul (Infinite s) (Fin m e) = (if m = 0 then NaN else Infinite (s \<noteq> (m < 0)))"
| "num_mul (Fin m e) (Infinite s) = (if m = 0 then NaN else Infinite (s \<noteq> (m < 0)))"
| "num_mul (Infinite s) (Infinite s') = Infinite (s \<noteq> s')"
| "num_mul _ _ = NaN"

text \<open>Division of numbers; a zero divisor counts as positive.\<close>

fun num_div :: "js_number \<Rightarrow> js_number \<Rightarrow> js_number" where
  "num_div (Fin m e) (Fin m' e') =
     (if m' = 0 then (if m = 0 then NaN else Infinite (m < 0))
      else (let (a, b, k) = common m e m' e' in round_frac (a * sgn b) \<bar>b\<bar>))"
| "num_div (Infinite s) (Fin m e) = Infinite (s \<noteq> (m < 0))"
| "num_div (Fin m e) (Infinite s) = Fin 0 0"
| "num_div _ _ = NaN"

fun num_less :: "js_number \<Rightarrow> js_number \<Rightarrow> bool" where
  "num_less (Fin m e) (Fin m' e') = (let (a, b, k) = common m e m' e' in a < b)"
| "num_less (Infinite s) (Fin m e) = s"
| "num_less (Fin m e) (Infinite s) = (\<not> s)"
| "num_less (Infinite s) (Infinite s') = (s \<and> \<not> s')"
| "num_less _ _ = False"

text \<open>\<^verbatim>\<open>a <= b\<close>: false when a number is \<^verbatim>\<open>NaN\<close>, otherwise not \<^verbatim>\<open>b < a\<close>.\<close>

definition num_le :: "js_number \<Rightarrow> js_number \<Rightarrow> bool" where
  "num_le a b \<longleftrightarrow> a \<noteq> NaN \<and> b \<noteq> NaN \<and> \<not> num_less b a"

definition num_of_int :: "int \<Rightarrow> js_number" where
  "num_of_int n = round_frac n 1"

definition num_isZero :: "js_number \<Rightarrow> bool" where
  "num_isZero x = (case x of Fin m _ \<Rightarrow> m = 0 | _ \<Rightarrow> False)"

section \<open>Strings to numbers\<close>

definition is_space :: "char \<Rightarrow> bool" where
  "is_space c \<longleftrightarrow> (of_char c :: nat) \<in> set [9, 10, 11, 12, 13, 32, 160]"

definition trim :: "string \<Rightarrow> string" where
  "trim s = rev (dropWhile is_space (rev (dropWhile is_space s)))"

text \<open>An exponent part, or nothing: \<open>None\<close> when the text is neither.\<close>

definition parse_exponent :: "string \<Rightarrow> int option" where
  "parse_exponent s =
     (case s of
        [] \<Rightarrow> Some 0
      | c # r \<Rightarrow>
          if c \<noteq> CHR ''e'' \<and> c \<noteq> CHR ''E'' then None
          else (let (sign, ds) = (case r of
                    [] \<Rightarrow> (1, [])
                  | d # r' \<Rightarrow> if d = CHR ''-'' then (-1, r') else if d = CHR ''+'' then (1, r') else (1, r))
                in if ds \<noteq> [] \<and> list_all is_digit ds then Some (sign * dec_val ds) else None))"

text \<open>The integer \<open>m\<close> and the power \<open>k\<close> of a decimal literal \<open>m * 10 ^ k\<close>.\<close>

definition parse_decimal :: "string \<Rightarrow> (int \<times> int) option" where
  "parse_decimal s =
     (let whole = takeWhile is_digit s;
          rest = dropWhile is_digit s;
          (frac, rest') = (case rest of
              [] \<Rightarrow> ([], [])
            | c # r \<Rightarrow> if c = CHR ''.'' then (takeWhile is_digit r, dropWhile is_digit r) else ([], rest))
      in if whole = [] \<and> frac = [] then None
         else map_option (\<lambda>k. (dec_val (whole @ frac), k - int (length frac))) (parse_exponent rest'))"

definition radix_digit :: "char \<Rightarrow> int option" where
  "radix_digit c =
     (let n = of_char (to_lower c) :: nat
      in if 48 \<le> n \<and> n \<le> 57 then Some (int n - 48)
         else if 97 \<le> n \<and> n \<le> 102 then Some (int n - 87) else None)"

fun parse_radix :: "int \<Rightarrow> int \<Rightarrow> string \<Rightarrow> int option" where
  "parse_radix b acc [] = Some acc"
| "parse_radix b acc (c # s) =
     (case radix_digit c of
        None \<Rightarrow> None
      | Some d \<Rightarrow> if d < b then parse_radix b (b * acc + d) s else None)"

definition parse_signed :: "string \<Rightarrow> js_number" where
  "parse_signed s =
     (let (sign, u) = (case s of
          [] \<Rightarrow> (1, [])
        | c # r \<Rightarrow> if c = CHR ''-'' then (-1, r) else if c = CHR ''+'' then (1, r) else (1, s))
      in if u = ''Infinity'' then Infinite (sign < 0)
         else (case parse_decimal u of
                 None \<Rightarrow> NaN
               | Some (m, k) \<Rightarrow> round_decimal (sign * m) k))"

text \<open>\<^verbatim>\<open>Number(s)\<close> for a string.\<close>

definition to_number :: "string \<Rightarrow> js_number" where
  "to_number s =
     (let t = trim s in
      case t of
        [] \<Rightarrow> Fin 0 0
      | c # r \<Rightarrow>
          (case r of
             p # ds \<Rightarrow>
               (let b = (if c \<noteq> CHR ''0'' then 0
                         else if to_lower p = CHR ''x'' then 16
                         else if to_lower p = CHR ''o'' then 8
                         else if to_lower p = CHR ''b'' then 2 else (0 :: int))
                in if b = 0 then parse_signed t
                   else if ds = [] then NaN
                   else (case parse_radix b 0 ds of None \<Rightarrow> NaN | Some n \<Rightarrow> num_of_int n))
           | [] \<Rightarrow> parse_signed t))"

text \<open>\<^verbatim>\<open>isNaN(s)\<close> for a string.\<close>

definition isNaN_string :: "string \<Rightarrow> bool" where
  "isNaN_string s \<longleftrightarrow> to_number s = NaN"

section \<open>Numbers to strings\<close>

text \<open>The number of decimal digits of a natural number.\<close>

definition dec_length :: "int \<Rightarrow> int" where
  "dec_length n = int (length (show_digits n))"

text \<open>\<open>dec_exponent a q\<close> is the \<open>n\<close> with \<open>10 ^ (n - 1) \<le> a / q < 10 ^ n\<close>, for positive
  \<open>a\<close> and \<open>q\<close>.\<close>

definition dec_scale :: "int \<Rightarrow> int \<Rightarrow> int \<Rightarrow> int \<times> int" where
  "dec_scale a q k = (if 0 \<le> k then (a * 10 ^ nat k, q) else (a, q * 10 ^ nat (- k)))"

definition dec_exponent :: "int \<Rightarrow> int \<Rightarrow> int" where
  "dec_exponent a q =
     (let n = dec_length a - dec_length q;
          (num, den) = dec_scale a q (- n)
      in if den \<le> num then n + 1 else n)"

text \<open>The shortest decimal \<open>s\<close> with \<open>k\<close> digits that still rounds to the number \<open>x\<close> of
  value \<open>a / q\<close>, and of two the nearer; at most 17 digits are needed.\<close>

definition shortest_with :: "js_number \<Rightarrow> int \<Rightarrow> int \<Rightarrow> int \<Rightarrow> int \<Rightarrow> int option" where
  "shortest_with x a q n k =
     (let (num, den) = dec_scale a q (k - n);
          lo = num div den; hi = lo + 1;
          ok = (\<lambda>s. round_decimal s (n - k) = x)
      in if 2 * (num mod den) \<le> den
         then (if ok lo then Some lo else if ok hi then Some hi else None)
         else (if ok hi then Some hi else if ok lo then Some lo else None))"

fun shortest :: "js_number \<Rightarrow> int \<Rightarrow> int \<Rightarrow> int \<Rightarrow> nat \<Rightarrow> nat \<Rightarrow> int" where
  "shortest x a q n k 0 = (let (num, den) = dec_scale a q (int k - n) in num div den)"
| "shortest x a q n k (Suc fuel) =
     (case shortest_with x a q n (int k) of
        Some s \<Rightarrow> s
      | None \<Rightarrow> shortest x a q n (Suc k) fuel)"

definition strip_trailing_zeros :: "string \<Rightarrow> string" where
  "strip_trailing_zeros s = rev (dropWhile (\<lambda>c. c = CHR ''0'') (rev s))"

definition format_digits :: "string \<Rightarrow> int \<Rightarrow> string" where
  "format_digits ds n =
     (let k = int (length ds) in
      if k \<le> n \<and> n \<le> 21 then ds @ replicate (nat (n - k)) (CHR ''0'')
      else if 0 < n \<and> n \<le> 21 then take (nat n) ds @ ''.'' @ drop (nat n) ds
      else if - 6 < n \<and> n \<le> 0 then ''0.'' @ replicate (nat (- n)) (CHR ''0'') @ ds
      else take 1 ds @ (if k = 1 then [] else ''.'' @ drop 1 ds) @ ''e'' @
           (if n - 1 < 0 then ''-'' else ''+'') @ show_digits \<bar>n - 1\<bar>)"

text \<open>\<^verbatim>\<open>x.toString()\<close>. A candidate that reached the next power of ten has a digit more,
  and trailing zeros, which are no digits of the shortest form.\<close>

definition toString_digits :: "js_number \<Rightarrow> int \<Rightarrow> int \<Rightarrow> string \<Rightarrow> string" where
  "toString_digits x n s ds =
     format_digits (strip_trailing_zeros ds) (if round_decimal s (n - int (length ds)) = x then n else n + 1)"

definition toString_shortest :: "js_number \<Rightarrow> int \<Rightarrow> int \<Rightarrow> string" where
  "toString_shortest x n s = toString_digits x n s (show_digits s)"

definition toString_scaled :: "js_number \<Rightarrow> int \<Rightarrow> int \<Rightarrow> int \<Rightarrow> string" where
  "toString_scaled x a q n = toString_shortest x n (shortest x a q n 1 16)"

definition toString_positive :: "js_number \<Rightarrow> int \<Rightarrow> int \<Rightarrow> string" where
  "toString_positive x a q = toString_scaled x a q (dec_exponent a q)"

definition num_toString :: "js_number \<Rightarrow> string" where
  "num_toString x =
     (case x of
        NaN \<Rightarrow> ''NaN''
      | Infinite s \<Rightarrow> (if s then ''-Infinity'' else ''Infinity'')
      | Fin m e \<Rightarrow>
          if m = 0 then ''0''
          else (if m < 0 then ''-'' else []) @
               (if 0 \<le> e then toString_positive (Fin \<bar>m\<bar> e) (\<bar>m\<bar> * 2 ^ nat e) 1
                else toString_positive (Fin \<bar>m\<bar> e) \<bar>m\<bar> (2 ^ nat (- e))))"

definition pad_start :: "nat \<Rightarrow> string \<Rightarrow> string" where
  "pad_start n s = replicate (n - length s) (CHR ''0'') @ s"

definition pad_end :: "nat \<Rightarrow> string \<Rightarrow> string" where
  "pad_end n s = s @ replicate (n - length s) (CHR ''0'')"

text \<open>\<^verbatim>\<open>x.toFixed(d)\<close>: the nearest decimal with \<open>d\<close> digits, the larger one of two.\<close>

definition num_toFixed :: "js_number \<Rightarrow> nat \<Rightarrow> string result" where
  "num_toFixed x d =
     (if 100 < d then Inl RangeError
      else (case x of
        Fin m e \<Rightarrow>
          (let (a, q) = (if 0 \<le> e then (\<bar>m\<bar> * 2 ^ nat e, 1) else (\<bar>m\<bar>, 2 ^ nat (- e)))
           in if q * 10 ^ 21 \<le> a then Inr (num_toString x)
              else (let n = (2 * a * 10 ^ d + q) div (2 * q);
                        s = pad_start (Suc d) (show_digits n);
                        t = (if d = 0 then s else take (length s - d) s @ ''.'' @ drop (length s - d) s)
                    in Inr ((if m < 0 then ''-'' else []) @ t)))
      | _ \<Rightarrow> Inr (num_toString x)))"

section \<open>Lemmas\<close>

lemma bits_nonneg: "0 \<le> bits n"
  by (induction n rule: bits.induct) (simp add: bits.simps)

lemma bits_bounds: "0 < n \<Longrightarrow> 0 < bits n \<and> 2 ^ nat (bits n - 1) \<le> n \<and> n < 2 ^ nat (bits n)"
proof (induction n rule: bits.induct)
  case (1 n)
  show ?case
  proof (cases "n = 1")
    case True
    then show ?thesis by (simp add: bits.simps)
  next
    case False
    with 1 have m: "0 < n div 2" by simp
    with 1 have IH: "0 < bits (n div 2)" "2 ^ nat (bits (n div 2) - 1) \<le> n div 2" "n div 2 < 2 ^ nat (bits (n div 2))"
      by auto
    have b: "bits n = 1 + bits (n div 2)" using 1 by (simp add: bits.simps [of n])
    have "nat (bits n - 1) = Suc (nat (bits (n div 2) - 1))" "nat (bits n) = Suc (nat (bits (n div 2)))"
      using IH(1) b by (simp_all add: Suc_nat_eq_nat_zadd1)
    then have pow: "(2 :: int) ^ nat (bits n - 1) = 2 * 2 ^ nat (bits (n div 2) - 1)"
      "(2 :: int) ^ nat (bits n) = 2 * 2 ^ nat (bits (n div 2))"
      by (simp_all only: power_Suc)
    have "2 * 2 ^ nat (bits (n div 2) - 1) \<le> n" "n < 2 * 2 ^ nat (bits (n div 2))" using IH(2,3) by linarith+
    with IH(1) b show ?thesis unfolding pow by simp
  qed
qed

text \<open>The scaled fraction at the floor of the logarithm is at least one.\<close>

lemma scale_div_pos: "0 < a \<Longrightarrow> 0 < q \<Longrightarrow> scale_div a q e = (num, den) \<Longrightarrow> 0 < num \<and> 0 < den"
  by (auto simp: scale_div_def split: if_splits)

lemma power_le_mono_exp: "0 \<le> (i :: int) \<Longrightarrow> i \<le> j \<Longrightarrow> (2 :: int) ^ nat i \<le> 2 ^ nat j"
  by (intro power_increasing) auto

text \<open>Scaling by less keeps a fraction that is at least one so.\<close>

lemma scale_div_mono:
  assumes "0 < a" and "0 < q" and "e \<le> k" and "scale_div a q k = (num, den)" and "den \<le> num"
    and "scale_div a q e = (num', den')"
  shows "den' \<le> num'"
proof -
  consider "0 \<le> e" "0 \<le> k" | "e < 0" "0 \<le> k" | "e < 0" "k < 0" using assms(3) by linarith
  then show ?thesis
  proof cases
    case 1
    then have "q * 2 ^ nat e \<le> q * 2 ^ nat k" using assms(2,3) power_le_mono_exp by simp
    moreover have "num = a" "den = q * 2 ^ nat k" "num' = a" "den' = q * 2 ^ nat e"
      using 1 assms(4,6) by (auto simp: scale_div_def)
    ultimately show ?thesis using assms(5) by linarith
  next
    case 2
    have "1 \<le> (2 :: int) ^ nat k" "1 \<le> (2 :: int) ^ nat (- e)" by simp_all
    then have "q \<le> q * 2 ^ nat k" "a \<le> a * 2 ^ nat (- e)"
      using assms(1,2) mult_left_mono [of 1 "2 ^ nat k" q] mult_left_mono [of 1 "2 ^ nat (- e)" a] by simp_all
    moreover have "num = a" "den = q * 2 ^ nat k" "num' = a * 2 ^ nat (- e)" "den' = q"
      using 2 assms(4,6) by (auto simp: scale_div_def)
    ultimately show ?thesis using assms(5) by linarith
  next
    case 3
    then have "a * 2 ^ nat (- k) \<le> a * 2 ^ nat (- e)" using assms(1,3) power_le_mono_exp by simp
    moreover have "num = a * 2 ^ nat (- k)" "den = q" "num' = a * 2 ^ nat (- e)" "den' = q"
      using 3 assms(4,6) by (auto simp: scale_div_def)
    ultimately show ?thesis using assms(5) by linarith
  qed
qed

text \<open>The exponent one below the difference of the bit lengths is low enough.\<close>

lemma scale_div_bits:
  assumes "0 < a" and "0 < q" and "scale_div a q (bits a - bits q - 1) = (num, den)"
  shows "den \<le> num"
proof -
  have a: "0 < bits a" "2 ^ nat (bits a - 1) \<le> a" and q: "0 < bits q" "q < 2 ^ nat (bits q)"
    using bits_bounds assms(1,2) by auto
  show ?thesis
  proof (cases "0 \<le> bits a - bits q - 1")
    case True
    have "q * 2 ^ nat (bits a - bits q - 1) \<le> 2 ^ nat (bits q) * 2 ^ nat (bits a - bits q - 1)"
      using q(2) by simp
    also have "\<dots> = 2 ^ nat (bits a - 1)" using True q(1) by (simp add: power_add [symmetric] nat_add_distrib [symmetric])
    finally show ?thesis using True a(2) assms(3) by (auto simp: scale_div_def)
  next
    case False
    have "2 ^ nat (bits q) = (2 :: int) ^ nat (bits a - 1) * 2 ^ nat (- (bits a - bits q - 1))"
      using False a(1) by (simp add: power_add [symmetric] nat_add_distrib [symmetric])
    also have "\<dots> \<le> a * 2 ^ nat (- (bits a - bits q - 1))" using a(2) by simp
    finally show ?thesis using False q(2) assms(3) by (auto simp: scale_div_def)
  qed
qed

lemma round_half_even_pos: "0 < q \<Longrightarrow> q \<le> a \<Longrightarrow> 0 < round_half_even a q"
  by (auto simp: round_half_even_def Let_def pos_imp_zdiv_pos_iff) (use zdiv_mono1 [of q a q] in auto)

text \<open>A positive fraction that is not below the least positive double rounds to a positive
  number.\<close>

lemma round_frac_pos:
  assumes "0 < p" and "0 < q" and "q \<le> p * 2 ^ 1074"
  shows "num_less (Fin 0 0) (round_frac p q)"
proof -
  let ?e = "ulp_exponent p q"
  obtain num den where nd: "scale_div p q ?e = (num, den)" by fastforce
  have "den \<le> num"
  proof (cases "?e = - 1074")
    case True
    then show ?thesis using nd assms by (auto simp: scale_div_def)
  next
    case False
    obtain num1 den1 where nd1: "scale_div p q (bits p - bits q) = (num1, den1)" by fastforce
    obtain num2 den2 where nd2: "scale_div p q (bits p - bits q - 1) = (num2, den2)" by fastforce
    have "?e = (if den1 \<le> num1 then bits p - bits q else bits p - bits q - 1) - 52"
      using False nd1 by (simp add: ulp_exponent_def Let_def)
    then consider "den1 \<le> num1" "?e \<le> bits p - bits q" | "?e \<le> bits p - bits q - 1"
      by (cases "den1 \<le> num1") auto
    then show ?thesis
      using scale_div_mono [OF assms(1,2) _ nd1 _ nd] scale_div_mono [OF assms(1,2) _ nd2 _ nd]
        scale_div_bits [OF assms(1,2) nd2] by cases auto
  qed
  then have "0 < round_half_even num den"
    using round_half_even_pos scale_div_pos [OF assms(1,2) nd] by blast
  then show ?thesis
    using assms(1) nd by (auto simp: round_frac_def Let_def common_def split: prod.splits)
qed

end
