(* ===== verification/Decimal_Math.thy ===== *)
theory Decimal_Math
  imports Js_Number
begin

text \<open>
  The conversions between an amount in a token's smallest unit and the decimal text a user
  reads and types (\<^verbatim>\<open>helpers/math.js\<close>). The number of decimals is a natural number, which
  the callers pass as a number or as its decimal string.
\<close>

section \<open>Operations\<close>

datatype num_arg = ArgBN int | ArgNum js_number | ArgStr string

text \<open>The text before the first point, and between the first and the second.\<close>

definition split_dot :: "string \<Rightarrow> string \<times> string" where
  "split_dot s = (takeWhile (\<lambda>c. c \<noteq> CHR ''.'') s,
     takeWhile (\<lambda>c. c \<noteq> CHR ''.'') (drop 1 (dropWhile (\<lambda>c. c \<noteq> CHR ''.'') s)))"

definition strip_leading_zeros :: "string \<Rightarrow> string" where
  "strip_leading_zeros s = dropWhile (\<lambda>c. c = CHR ''0'') s"

definition splitDecimalNumber :: "string \<Rightarrow> string \<times> string" where
  "splitDecimalNumber num =
     (let (whole, dec) = split_dot num in (strip_leading_zeros whole, strip_trailing_zeros dec))"

definition normalizedNum :: "libs \<Rightarrow> num_arg \<Rightarrow> string" where
  "normalizedNum L num =
     (case num of ArgBN n \<Rightarrow> bn_toString L n | ArgNum x \<Rightarrow> num_toString x | ArgStr s \<Rightarrow> s)"

definition fromDecimals :: "libs \<Rightarrow> num_arg \<Rightarrow> nat \<Rightarrow> bool \<Rightarrow> string" where
  "fromDecimals L num decimals truncated =
     (let (whole, dec) = splitDecimalNumber (normalizedNum L num) in
      if whole = [] \<and> dec = [] then ''0''
      else (let paddedWhole = pad_start (decimals + 1) whole;
                decimalIndex = length paddedWhole - decimals;
                wholeWithoutBase = take decimalIndex paddedWhole;
                decWithoutBase = drop decimalIndex paddedWhole
            in if \<not> truncated \<and> dec \<noteq> [] then wholeWithoutBase @ ''.'' @ decWithoutBase @ dec
               else (let decWithoutBaseTrimmed = strip_trailing_zeros decWithoutBase
                     in if decWithoutBaseTrimmed \<noteq> [] then wholeWithoutBase @ ''.'' @ decWithoutBaseTrimmed
                        else wholeWithoutBase)))"

definition toDecimals :: "libs \<Rightarrow> num_arg \<Rightarrow> nat \<Rightarrow> bool \<Rightarrow> string result" where
  "toDecimals L num decimals truncated =
     (let s = normalizedNum L num in
      await (if CHR ''e'' \<in> set s then num_toFixed (to_number s) decimals else Inr s) (\<lambda>normalized.
      let (whole, dec) = splitDecimalNumber normalized in
      if whole = [] \<and> (dec = [] \<or> decimals = 0) then Inr ''0''
      else (let wholeLengthWithBase = length whole + decimals;
                withoutDecimals = pad_end wholeLengthWithBase (whole @ dec);
                wholeWithBase = take wholeLengthWithBase withoutDecimals
            in if \<not> truncated \<and> length wholeWithBase < length withoutDecimals
               then Inr (wholeWithBase @ ''.'' @ drop wholeLengthWithBase withoutDecimals)
               else Inr wholeWithBase)))"

section \<open>Values of digit strings\<close>

abbreviation digits :: "string \<Rightarrow> bool" where
  "digits s \<equiv> list_all is_digit s"

lemma dec_val_Nil [simp]: "dec_val [] = 0"
  by (simp add: dec_val_def)

lemma dec_val_snoc [simp]: "dec_val (s @ [c]) = 10 * dec_val s + digit_val c"
  by (simp add: dec_val_def)

lemma dec_val_append: "dec_val (s @ t) = dec_val s * 10 ^ length t + dec_val t"
  by (induction t rule: rev_induct) (simp_all add: append_assoc [symmetric] algebra_simps del: append_assoc)

lemma digit_val_zero [simp]: "digit_val (CHR ''0'') = 0"
  by (simp add: digit_val_def)

lemma is_digit_zero [simp]: "is_digit (CHR ''0'')" "\<not> is_digit (CHR ''.'')" "\<not> is_digit (CHR ''e'')"
  by (simp_all add: is_digit_def)

lemma dec_val_zeros [simp]: "dec_val (replicate n (CHR ''0'')) = 0"
proof (induction n)
  case (Suc n)
  then show ?case by (simp add: replicate_append_same [symmetric] del: replicate_append_same)
qed simp

lemma dec_val_bounds: "digits s \<Longrightarrow> 0 \<le> dec_val s \<and> dec_val s < 10 ^ length s"
proof (induction s rule: rev_induct)
  case (snoc c s)
  then have "0 \<le> digit_val c" "digit_val c \<le> 9" by (auto simp: is_digit_def digit_val_def)
  with snoc show ?case by auto
qed simp

lemma strip_leading_split:
  "\<exists>n. s = replicate n (CHR ''0'') @ strip_leading_zeros s"
proof -
  have "takeWhile (\<lambda>c. c = CHR ''0'') s = replicate (length (takeWhile (\<lambda>c. c = CHR ''0'') s)) (CHR ''0'')"
    by (metis (full_types) replicate_eqI set_takeWhileD)
  then show ?thesis unfolding strip_leading_zeros_def by (metis takeWhile_dropWhile_id)
qed

lemma strip_trailing_split:
  "\<exists>n. s = strip_trailing_zeros s @ replicate n (CHR ''0'')"
proof -
  obtain n where "rev s = replicate n (CHR ''0'') @ strip_leading_zeros (rev s)"
    using strip_leading_split by blast
  then have "s = rev (strip_leading_zeros (rev s)) @ replicate n (CHR ''0'')"
    by (metis rev_append rev_replicate rev_rev_ident)
  then show ?thesis by (auto simp: strip_trailing_zeros_def strip_leading_zeros_def)
qed

lemma dec_val_strip_leading [simp]: "dec_val (strip_leading_zeros s) = dec_val s"
  using strip_leading_split [of s] by (metis add_0 dec_val_append dec_val_zeros mult_zero_left)

lemma strip_digits [simp]:
  "digits s \<Longrightarrow> digits (strip_leading_zeros s)" "digits s \<Longrightarrow> digits (strip_trailing_zeros s)"
  by (auto simp: strip_leading_zeros_def strip_trailing_zeros_def list_all_iff dest: set_dropWhileD)

lemma last_strip_trailing: "strip_trailing_zeros s \<noteq> [] \<longrightarrow> last (strip_trailing_zeros s) \<noteq> CHR ''0''"
  using hd_dropWhile [of "\<lambda>c. c = CHR ''0''" "rev s"] by (auto simp: strip_trailing_zeros_def last_rev)

lemma length_strip_trailing: "length (strip_trailing_zeros s) \<le> length s"
  by (simp add: strip_trailing_zeros_def length_dropWhile_le [of _ "rev s", simplified])

lemma no_dot: "digits s \<Longrightarrow> c \<in> set s \<Longrightarrow> c \<noteq> CHR ''.'' \<and> c \<noteq> CHR ''e''"
  by (auto simp: list_all_iff)

lemma takeWhile_no_dot: "digits s \<Longrightarrow> takeWhile (\<lambda>c. c \<noteq> CHR ''.'') s = s"
  using no_dot by (simp add: takeWhile_eq_all_conv)

lemma dropWhile_no_dot: "digits s \<Longrightarrow> dropWhile (\<lambda>c. c \<noteq> CHR ''.'') (s @ t) = dropWhile (\<lambda>c. c \<noteq> CHR ''.'') t"
  using no_dot by (induction s) auto

lemma split_dot_plain: "digits s \<Longrightarrow> split_dot s = (s, [])"
proof -
  assume s: "digits s"
  have "dropWhile (\<lambda>c. c \<noteq> CHR ''.'') s = []" using dropWhile_no_dot [OF s, of "[]"] by (simp only: append_Nil2 dropWhile.simps)
  then show ?thesis using takeWhile_no_dot [OF s] by (simp add: split_dot_def del: dropWhile_eq_Nil_conv)
qed

lemma split_dot_point:
  assumes "digits s" and "digits t"
  shows "split_dot (s @ CHR ''.'' # t) = (s, t)"
  using assms no_dot [OF assms(1)]
  by (simp add: split_dot_def takeWhile_no_dot dropWhile_no_dot takeWhile_append)

section \<open>Decimal text\<close>

text \<open>The text of \<open>ds\<close> before and \<open>fs\<close> after the point; no point where \<open>fs\<close> is empty.\<close>

definition decimal_text :: "string \<Rightarrow> string \<Rightarrow> string" where
  "decimal_text ds fs = ds @ (if fs = [] then [] else CHR ''.'' # fs)"

lemma split_decimal_text:
  assumes "digits ds" and "digits fs"
  shows "splitDecimalNumber (decimal_text ds fs) = (strip_leading_zeros ds, strip_trailing_zeros fs)"
  using assms
  by (auto simp: splitDecimalNumber_def decimal_text_def split_dot_plain split_dot_point)

lemma decimal_text_no_e: "digits ds \<Longrightarrow> digits fs \<Longrightarrow> CHR ''e'' \<notin> set (decimal_text ds fs)"
  using no_dot by (auto simp: decimal_text_def)

lemma pad_end_strip:
  assumes "length s \<le> n"
  shows "pad_end n (strip_trailing_zeros s) = pad_end n s"
proof -
  obtain k where k: "s = strip_trailing_zeros s @ replicate k (CHR ''0'')" using strip_trailing_split by blast
  then have "length s = length (strip_trailing_zeros s) + k" by (metis length_append length_replicate)
  with assms have "replicate (n - length (strip_trailing_zeros s)) (CHR ''0'') =
      replicate k (CHR ''0'') @ replicate (n - length s) (CHR ''0'')"
    by (simp add: replicate_add [symmetric])
  then show ?thesis unfolding pad_end_def by (metis append_assoc k)
qed

text \<open>Cutting or padding the digits after the point to \<open>d\<close> of them.\<close>

definition fit :: "nat \<Rightarrow> string \<Rightarrow> string" where
  "fit d fs = take d (pad_end d fs)"

lemma fit_strip: "fit d (strip_trailing_zeros fs) = fit d fs"
proof -
  obtain k where k: "fs = strip_trailing_zeros fs @ replicate k (CHR ''0'')" using strip_trailing_split by blast
  have "take d (s @ replicate (d - length s) (CHR ''0'')) =
      take d ((s @ replicate k (CHR ''0'')) @ replicate (d - length (s @ replicate k (CHR ''0''))) (CHR ''0''))" for s
    by (cases "d \<le> length s") (auto simp: min_def replicate_add [symmetric])
  from this [of "strip_trailing_zeros fs"] k show ?thesis unfolding fit_def pad_end_def by metis
qed

lemma length_fit [simp]: "length (fit d fs) = d"
  by (simp add: fit_def pad_end_def)

lemma digits_fit: "digits fs \<Longrightarrow> digits (fit d fs)"
  by (auto simp: fit_def pad_end_def list_all_iff dest!: in_set_takeD)

lemma dec_val_fit:
  assumes "digits fs"
  shows "dec_val (fit d fs) = dec_val fs * 10 ^ d div 10 ^ length fs"
proof (cases "length fs \<le> d")
  case True
  then have "fit d fs = fs @ replicate (d - length fs) (CHR ''0'')" by (simp add: fit_def pad_end_def)
  moreover have "(10 :: int) ^ d = 10 ^ (d - length fs) * 10 ^ length fs"
    using True by (simp add: power_add [symmetric])
  ultimately show ?thesis by (simp add: dec_val_append mult.assoc [symmetric])
next
  case False
  define a b where "a = take d fs" and "b = drop d fs"
  have ab: "fs = a @ b" "length a = d" using False by (simp_all add: a_def b_def)
  have "digits b" using assms ab by simp
  then have b: "0 \<le> dec_val b" "dec_val b < 10 ^ length b" using dec_val_bounds by auto
  have "dec_val fs * 10 ^ d div 10 ^ length fs = dec_val fs div 10 ^ length b"
    using ab by (simp add: power_add mult.commute [of _ "10 ^ d"])
  also have "\<dots> = dec_val a" using b ab by (simp add: dec_val_append)
  finally show ?thesis using False ab by (simp add: fit_def pad_end_def)
qed

text \<open>\<^verbatim>\<open>toDecimals\<close> on decimal text.\<close>

lemma toDecimals_text:
  assumes "digits ds" and "digits fs"
  shows "toDecimals L (ArgStr (decimal_text ds fs)) d True = Inr
    (if strip_leading_zeros ds = [] \<and> (strip_trailing_zeros fs = [] \<or> d = 0) then ''0''
     else strip_leading_zeros ds @ fit d fs)"
proof -
  have "take (length w + d) (pad_end (length w + d) (w @ f)) = w @ fit d f" for w f
    by (simp add: fit_def pad_end_def)
  then show ?thesis
    using decimal_text_no_e [OF assms] fit_strip [of d fs]
    by (simp add: toDecimals_def normalizedNum_def split_decimal_text [OF assms] Let_def) auto
qed

lemma toDecimals_value:
  assumes "digits ds" and "digits fs"
  obtains r where "toDecimals L (ArgStr (decimal_text ds fs)) d True = Inr r" and "digits r" and "r \<noteq> []"
    and "dec_val r = dec_val (ds @ fs) * 10 ^ d div 10 ^ length fs"
proof -
  define r where "r = (if strip_leading_zeros ds = [] \<and> (strip_trailing_zeros fs = [] \<or> d = 0) then ''0''
     else strip_leading_zeros ds @ fit d fs)"
  have "dec_val (ds @ fs) * 10 ^ d = dec_val fs * 10 ^ d + dec_val ds * 10 ^ d * 10 ^ length fs"
    by (simp add: dec_val_append algebra_simps)
  then have "dec_val (ds @ fs) * 10 ^ d div 10 ^ length fs = dec_val ds * 10 ^ d + dec_val fs * 10 ^ d div 10 ^ length fs"
    by simp
  also have "\<dots> = dec_val (strip_leading_zeros ds @ fit d fs)"
    by (simp add: dec_val_append dec_val_fit [OF assms(2)])
  finally have val: "dec_val (ds @ fs) * 10 ^ d div 10 ^ length fs = dec_val (strip_leading_zeros ds @ fit d fs)" .
  have zero: "dec_val (fit d fs) = 0" if "strip_trailing_zeros fs = [] \<or> d = 0"
  proof -
    have "fit d [] = replicate d (CHR ''0'')" by (simp add: fit_def pad_end_def)
    then have "fit d fs = replicate d (CHR ''0'')"
      using that fit_strip [of d fs] length_fit [of d fs] by (auto simp del: length_fit)
    then show ?thesis by simp
  qed
  have "dec_val ''0'' = 0" by (simp add: dec_val_def)
  then have "dec_val r = dec_val (ds @ fs) * 10 ^ d div 10 ^ length fs"
    unfolding val using zero by (auto simp: r_def)
  moreover have "digits r" "r \<noteq> []"
    using assms digits_fit [OF assms(2), of d] length_fit [of d fs] by (auto simp: r_def simp del: length_fit)
  ultimately show thesis using toDecimals_text [OF assms] by (intro that [of r]) (simp_all add: r_def)
qed

section \<open>From integers to decimal text\<close>

lemma digit_char_val: "d < 10 \<Longrightarrow> is_digit (digit_char d) \<and> digit_val (digit_char d) = int d"
  by (simp add: digit_char_def is_digit_def digit_val_def of_char_of)

lemma show_digits_val:
  assumes "0 \<le> n"
  shows "digits (show_digits n) \<and> dec_val (show_digits n) = n"
  using assms
proof (induction n rule: show_digits.induct)
  case (1 n)
  show ?case
  proof (cases "n < 10")
    case True
    then show ?thesis
      using 1 digit_char_val [of "nat n"] by (simp add: show_digits.simps [of n] dec_val_def)
  next
    case False
    then have "digits (show_digits (n div 10)) \<and> dec_val (show_digits (n div 10)) = n div 10"
      using 1 by simp
    with False show ?thesis
      using digit_char_val [of "nat (n mod 10)"] by (simp add: show_digits.simps [of n] nat_less_iff)
  qed
qed

lemma dec_val_pad_start [simp]: "dec_val (pad_start n s) = dec_val s"
  by (simp add: pad_start_def dec_val_append)

lemma digits_pad_start: "digits s \<Longrightarrow> digits (pad_start n s)"
  by (auto simp: pad_start_def list_all_iff)

text \<open>\<^verbatim>\<open>fromDecimals\<close> on an amount that is not negative: digits, and after a point at most
  \<open>d\<close> more, whose value is the amount divided by the power of ten.\<close>

lemma fromDecimals_text:
  assumes "bn_toString_decimal L" and "0 \<le> n"
  obtains ds fs where "fromDecimals L (ArgBN n) d True = decimal_text ds fs" and "digits ds" and "digits fs"
    and "ds \<noteq> []" and "length fs \<le> d" and "dec_val (ds @ fs) * 10 ^ (d - length fs) = n"
    and "fs \<noteq> [] \<longrightarrow> last fs \<noteq> CHR ''0''"
proof -
  define w where "w = strip_leading_zeros (show_digits n)"
  have sd: "digits (show_digits n)" "dec_val (show_digits n) = n" using show_digits_val [OF assms(2)] by auto
  have split: "splitDecimalNumber (normalizedNum L (ArgBN n)) = (w, [])"
    using assms split_decimal_text [of "show_digits n" "[]"] sd(1)
    by (simp add: normalizedNum_def bn_toString_decimal_def show_int_def decimal_text_def w_def strip_trailing_zeros_def)
  show thesis
  proof (cases "w = []")
    case True
    then have "n = 0" using dec_val_strip_leading [of "show_digits n"] sd(2) by (simp add: w_def)
    then show thesis
      using split True by (intro that [of "''0''" "[]"]) (simp_all add: fromDecimals_def decimal_text_def dec_val_def)
  next
    case False
    define P where "P = pad_start (d + 1) w"
    define ds fs where "ds = take (length P - d) P" and "fs = drop (length P - d) P"
    have len: "d + 1 \<le> length P" by (simp add: P_def pad_start_def)
    have P: "digits P" "dec_val P = n" using sd by (simp_all add: P_def w_def digits_pad_start)
    have "P = ds @ fs" "length fs = d" using len by (simp_all add: ds_def fs_def)
    moreover obtain k where k: "fs = strip_trailing_zeros fs @ replicate k (CHR ''0'')"
      using strip_trailing_split by blast
    moreover from k have "length fs = length (strip_trailing_zeros fs) + k" by (metis length_append length_replicate)
    ultimately have val: "dec_val (ds @ strip_trailing_zeros fs) * 10 ^ (d - length (strip_trailing_zeros fs)) = n"
      using P(2) dec_val_append [of "ds @ strip_trailing_zeros fs" "replicate k (CHR ''0'')"]
      by (metis add_diff_cancel_left' append_assoc dec_val_zeros add_0_right length_replicate)
    have "fromDecimals L (ArgBN n) d True = decimal_text ds (strip_trailing_zeros fs)"
      using False split by (simp add: fromDecimals_def Let_def P_def ds_def fs_def decimal_text_def)
    moreover have "digits ds" "digits (strip_trailing_zeros fs)"
      using P(1) unfolding \<open>P = ds @ fs\<close> by simp_all
    moreover have "ds \<noteq> []" using len by (cases P) (auto simp: ds_def)
    moreover have "length (strip_trailing_zeros fs) \<le> d"
      using length_strip_trailing [of fs] \<open>length fs = d\<close> by simp
    ultimately show thesis using val last_strip_trailing by (intro that)
  qed
qed

section \<open>Numbers of decimal text\<close>

lemma digit_not_special:
  assumes "is_digit c \<or> c = CHR ''.''"
  shows "\<not> is_space c" "to_lower c \<noteq> CHR ''x''" "to_lower c \<noteq> CHR ''o''" "to_lower c \<noteq> CHR ''b''"
    "c \<noteq> CHR ''-''" "c \<noteq> CHR ''+''" "c \<noteq> CHR ''I''"
proof -
  have n: "46 \<le> (of_char c :: nat)" "(of_char c :: nat) \<le> 57" using assms by (auto simp: is_digit_def)
  have "to_lower c = c" using n by (simp add: to_lower_def)
  with n show "\<not> is_space c" "to_lower c \<noteq> CHR ''x''" "to_lower c \<noteq> CHR ''o''" "to_lower c \<noteq> CHR ''b''"
    "c \<noteq> CHR ''-''" "c \<noteq> CHR ''+''" "c \<noteq> CHR ''I''" by (auto simp: is_space_def)
qed

lemma parse_decimal_text:
  assumes "digits ds" and "digits fs" and "ds \<noteq> []"
  shows "parse_decimal (decimal_text ds fs) = Some (dec_val (ds @ fs), - int (length fs))"
proof -
  have all: "takeWhile is_digit fs = fs" "dropWhile is_digit fs = []" "takeWhile is_digit ds = ds" "dropWhile is_digit ds = []"
    using assms by (simp_all add: list_all_iff)
  have "takeWhile is_digit (ds @ CHR ''.'' # r) = ds" "dropWhile is_digit (ds @ CHR ''.'' # r) = CHR ''.'' # r" for r
    using assms(1) by (simp_all add: list_all_iff takeWhile_append dropWhile_append)
  then show ?thesis
    using assms(3) all
    by (cases "fs = []") (simp_all add: parse_decimal_def decimal_text_def parse_exponent_def Let_def
      del: takeWhile_eq_all_conv dropWhile_eq_Nil_conv)
qed

lemma to_number_text:
  assumes "digits ds" and "digits fs" and "ds \<noteq> []"
  shows "to_number (decimal_text ds fs) = round_decimal (dec_val (ds @ fs)) (- int (length fs))"
proof -
  obtain c ds' where ds: "ds = c # ds'" using assms(3) by (cases ds) auto
  let ?s = "decimal_text ds fs"
  have special: "is_digit x \<or> x = CHR ''.''" if "x \<in> set ?s" for x
    using that assms by (auto simp: decimal_text_def list_all_iff split: if_splits)
  have no_space: "dropWhile is_space xs = xs" if "set xs \<subseteq> set ?s" for xs
    using that digit_not_special(1) special by (cases xs) auto
  have trim: "trim ?s = ?s" by (simp add: trim_def no_space)
  have c: "?s = c # ds' @ (if fs = [] then [] else CHR ''.'' # fs)" by (simp add: decimal_text_def ds)
  then have "c \<in> set ?s" by simp
  note spc = digit_not_special [OF special [OF this]]
  have "parse_signed ?s = round_decimal (dec_val (ds @ fs)) (- int (length fs))"
    using parse_decimal_text [OF assms] spc c by (simp add: parse_signed_def)
  moreover have "to_number ?s = parse_signed ?s"
  proof (cases "ds' @ (if fs = [] then [] else CHR ''.'' # fs)")
    case Nil
    then show ?thesis unfolding to_number_def Let_def trim using c by simp
  next
    case (Cons p r)
    then have "p \<in> set ?s" using c by simp
    note spp = digit_not_special [OF special [OF this]]
    show ?thesis unfolding to_number_def Let_def trim using c Cons spp by simp
  qed
  ultimately show ?thesis by simp
qed

text \<open>Positive decimal text with not too many digits after the point is a positive number.\<close>

lemma to_number_text_pos:
  assumes "digits ds" and "digits fs" and "ds \<noteq> []" and "0 < dec_val (ds @ fs)" and "length fs \<le> 300"
  shows "num_less (Fin 0 0) (to_number (decimal_text ds fs))"
proof -
  have "(10 :: int) ^ length fs \<le> 10 ^ 300" using assms(5) by (intro power_increasing) simp_all
  also have "\<dots> \<le> 2 ^ 1074" by simp
  also have "\<dots> \<le> dec_val (ds @ fs) * 2 ^ 1074" using assms(4) mult_right_mono [of 1 "dec_val (ds @ fs)" "2 ^ 1074"] by simp
  finally have "10 ^ length fs \<le> dec_val (ds @ fs) * 2 ^ 1074" .
  then show ?thesis
    using round_frac_pos [OF assms(4), of "10 ^ length fs"] round_frac_pos [OF assms(4), of 1] assms(4)
    by (auto simp: to_number_text [OF assms(1-3)] round_decimal_def)
qed

end
