(* ===== verification/Math_Properties.thy ===== *)
theory Math_Properties
  imports Decimal_Math
begin

text \<open>
  The properties of the conversions between amounts and decimal text.
\<close>

text \<open>
  C22. \<^verbatim>\<open>toDecimals\<close> undoes \<^verbatim>\<open>fromDecimals\<close>: for every amount that is not negative and every
  number of decimals, formatting the amount and reading it back gives a string of digits
  whose value is the amount, with nothing lost.
\<close>

theorem decimals_round_trip:
  assumes "bn_toString_decimal L" and "0 \<le> n"
  shows "\<exists>r. toDecimals L (ArgStr (fromDecimals L (ArgBN n) d True)) d True = Inr r \<and>
    r \<noteq> [] \<and> list_all is_digit r \<and> dec_val r = n"
proof (rule fromDecimals_text [OF assms, of d])
  fix ds fs
  assume *: "fromDecimals L (ArgBN n) d True = decimal_text ds fs" "digits ds" "digits fs"
    "length fs \<le> d" "dec_val (ds @ fs) * 10 ^ (d - length fs) = n"
  obtain r where r: "toDecimals L (ArgStr (decimal_text ds fs)) d True = Inr r" "digits r" "r \<noteq> []"
    "dec_val r = dec_val (ds @ fs) * 10 ^ d div 10 ^ length fs"
    by (rule toDecimals_value [OF *(2,3)])
  have "(10 :: int) ^ d = 10 ^ (d - length fs) * 10 ^ length fs"
    using *(4) by (simp add: power_add [symmetric])
  then have "dec_val r = n" using r(4) *(5) by (simp add: mult.assoc [symmetric])
  with r *(1) show ?thesis by auto
qed

theorem decimals_round_trip_witness:
  "\<exists>r. toDecimals sample_libs (ArgStr (fromDecimals sample_libs (ArgBN 1050) 3 True)) 3 True = Inr r \<and> dec_val r = 1050"
  using decimals_round_trip [of sample_libs 1050 3] by auto

text \<open>
  C23. \<^verbatim>\<open>toDecimals\<close> on what a user types, digits with an optional point and more digits: the
  result is a string of digits whose value is the number typed times the power of ten of the
  decimals, rounded down. No digit typed within the decimals is lost, and none beyond them
  counts.
\<close>

theorem toDecimals_rounds_down:
  assumes "list_all is_digit ds" and "list_all is_digit fs"
  shows "\<exists>r. toDecimals L (ArgStr (ds @ (if fs = [] then [] else CHR ''.'' # fs))) d True = Inr r \<and>
    r \<noteq> [] \<and> list_all is_digit r \<and> dec_val r = dec_val (ds @ fs) * 10 ^ d div 10 ^ length fs"
  using toDecimals_value [OF assms, of L d] by (metis decimal_text_def)

theorem toDecimals_rounds_down_witness:
  "\<exists>r. toDecimals sample_libs (ArgStr ''12.3456'') 3 True = Inr r \<and> dec_val r = 12345"
proof -
  have "list_all is_digit ''12''" "list_all is_digit ''3456''" "dec_val (''12'' @ ''3456'') = 123456"
    by code_simp+
  with toDecimals_rounds_down [of "''12''" "''3456''" sample_libs 3] show ?thesis by auto
qed

text \<open>
  \<^verbatim>\<open>fromDecimals\<close> on an amount that is not negative gives the amount's exact decimal
  text: at least one digit, then at most as many digits after a point as there are decimals,
  the last of them not zero, of which the value is the amount divided by the power of ten.
\<close>

theorem fromDecimals_exact:
  assumes "bn_toString_decimal L" and "0 \<le> n"
  shows "\<exists>ds fs. fromDecimals L (ArgBN n) d True = ds @ (if fs = [] then [] else CHR ''.'' # fs) \<and>
    ds \<noteq> [] \<and> list_all is_digit (ds @ fs) \<and> length fs \<le> d \<and> (fs \<noteq> [] \<longrightarrow> last fs \<noteq> CHR ''0'') \<and>
    dec_val (ds @ fs) * 10 ^ (d - length fs) = n"
proof (rule fromDecimals_text [OF assms, of d])
  fix ds fs
  assume "fromDecimals L (ArgBN n) d True = decimal_text ds fs" "digits ds" "digits fs" "ds \<noteq> []"
    "length fs \<le> d" "dec_val (ds @ fs) * 10 ^ (d - length fs) = n" "fs \<noteq> [] \<longrightarrow> last fs \<noteq> CHR ''0''"
  then show ?thesis by (intro exI [of _ ds] exI [of _ fs]) (simp add: decimal_text_def)
qed

theorem fromDecimals_exact_witness:
  "\<exists>ds fs. fromDecimals sample_libs (ArgBN 1050) 3 True = ds @ (if fs = [] then [] else CHR ''.'' # fs) \<and>
     length fs \<le> 3 \<and> dec_val (ds @ fs) * 10 ^ (3 - length fs) = 1050"
  using fromDecimals_exact [of sample_libs 1050 3, OF sample_libs_documented(3)] by (fastforce simp only:)

end
