(* ===== verification/Flow_View.thy ===== *)
theory Flow_View
  imports App_State
begin

text \<open>
  The table of flows: the flow states and types (\<^verbatim>\<open>flow.js\<close>), the hook that filters the
  flows (\<^verbatim>\<open>hooks/useFilteredFlows.js\<close>) and the component that sorts and renders them
  (\<^verbatim>\<open>components/Flows/index.js\<close>). Of the rendering, the data shown is here, and the
  elements that show it are in \<open>Page_View\<close>.
\<close>

section \<open>Flow states and types\<close>

datatype flow_symbol = All | Open | Close | Incoming | Outgoing

definition AVAILABLE_FLOW_STATES :: "(flow_symbol \<times> string) list" where
  "AVAILABLE_FLOW_STATES = [(All, ''All''), (Open, ''Open''), (Close, ''Close'')]"

definition FLOW_STATES :: "flow_symbol list" where
  "FLOW_STATES = map fst AVAILABLE_FLOW_STATES"

definition FLOW_STATES_LABELS :: "string list" where
  "FLOW_STATES_LABELS = map snd AVAILABLE_FLOW_STATES"

definition AVAILABLE_FLOW_TYPES :: "(flow_symbol \<times> string) list" where
  "AVAILABLE_FLOW_TYPES = [(All, ''All''), (Incoming, ''Incoming''), (Outgoing, ''Outgoing'')]"

definition FLOW_TYPES :: "flow_symbol list" where
  "FLOW_TYPES = map fst AVAILABLE_FLOW_TYPES"

definition FLOW_TYPES_LABELS :: "string list" where
  "FLOW_TYPES_LABELS = map snd AVAILABLE_FLOW_TYPES"

text \<open>\<^verbatim>\<open>xs[i]\<close>, \<open>None\<close> standing for \<^verbatim>\<open>undefined\<close>.\<close>

definition js_nth :: "'a list \<Rightarrow> int \<Rightarrow> 'a option" where
  "js_nth xs i = (if 0 \<le> i \<and> nat i < length xs then Some (xs ! nat i) else None)"

section \<open>The filters\<close>

text \<open>
  The state of the hook. The date range is \<open>None\<close> while it is the constant
  \<^verbatim>\<open>UNSELECTED_DATE_RANGE_FILTER\<close>, and otherwise the object that the date picker passed.
\<close>

record filter_state =
  fi_page :: int
  fi_dateRange :: "(js_date option \<times> js_date option) option"
  fi_flowState :: int
  fi_flowType :: int
  fi_token :: int

definition UNSELECTED :: int where
  "UNSELECTED = - 1"

definition initial_filters :: filter_state where
  "initial_filters = \<lparr> fi_page = 0, fi_dateRange = None, fi_flowState = UNSELECTED,
     fi_flowType = UNSELECTED, fi_token = UNSELECTED \<rparr>"

datatype filter_event =
    DateRangeChange "js_date option \<times> js_date option"
  | TokenChange int
  | FlowStateChange int
  | FlowTypeChange int
  | ClearFilters
  | SetPage int

definition unselect_zero :: "int \<Rightarrow> int" where
  "unselect_zero index = (if index = 0 then UNSELECTED else index)"

fun filter_handler :: "filter_state \<Rightarrow> filter_event \<Rightarrow> filter_state" where
  "filter_handler s (DateRangeChange r) = s\<lparr> fi_dateRange := Some r \<rparr>"
| "filter_handler s (TokenChange index) = s\<lparr> fi_token := unselect_zero index \<rparr>"
| "filter_handler s (FlowStateChange index) = s\<lparr> fi_flowState := unselect_zero index \<rparr>"
| "filter_handler s (FlowTypeChange index) = s\<lparr> fi_flowType := unselect_zero index \<rparr>"
| "filter_handler s ClearFilters =
     s\<lparr> fi_flowType := UNSELECTED, fi_token := UNSELECTED, fi_dateRange := None \<rparr>"
| "filter_handler s (SetPage p) = s\<lparr> fi_page := p \<rparr>"

text \<open>
  The effect that resets the page runs when the date range, the type or the token is another
  value than before; the date picker passes a new object each time.
\<close>

definition page_effect_runs :: "filter_state \<Rightarrow> filter_event \<Rightarrow> filter_state \<Rightarrow> bool" where
  "page_effect_runs s e s' \<longleftrightarrow>
     (case e of DateRangeChange _ \<Rightarrow> True | _ \<Rightarrow> fi_dateRange s' \<noteq> fi_dateRange s) \<or>
     fi_flowType s' \<noteq> fi_flowType s \<or> fi_token s' \<noteq> fi_token s"

definition filter_step :: "filter_state \<Rightarrow> filter_event \<Rightarrow> filter_state" where
  "filter_step s e =
     (let s' = filter_handler s e in if page_effect_runs s e s' then s'\<lparr> fi_page := 0 \<rparr> else s')"

definition tokensToFilter :: "view_token list \<Rightarrow> (string option \<times> string) list" where
  "tokensToFilter tokens = (None, ''All tokens'') # map (\<lambda>t. (vt_address t, vt_symbol t)) tokens"

text \<open>Whether the filters keep a flow. Reading the address of a token that is not there throws.\<close>

definition flow_included :: "libs \<Rightarrow> filter_state \<Rightarrow> view_token list \<Rightarrow> view_flow \<Rightarrow> bool result" where
  "flow_included L s tokens f =
     (let state = (if vf_isCancelled f then Close else Open);
          type = (if vf_isIncoming f then Incoming else Outgoing);
          (start, end_date) = (case fi_dateRange s of None \<Rightarrow> (None, None) | Some r \<Rightarrow> r)
      in if fi_flowState s \<noteq> UNSELECTED \<and> js_nth FLOW_STATES (fi_flowState s) \<noteq> Some state then Inr False
         else if fi_flowType s \<noteq> UNSELECTED \<and> js_nth FLOW_TYPES (fi_flowType s) \<noteq> Some type then Inr False
         else if (case start of None \<Rightarrow> False | Some d \<Rightarrow> isBefore L (vf_creationDate f) (startOfDay L d)) then Inr False
         else if (case end_date of None \<Rightarrow> False | Some d \<Rightarrow> isAfter L (vf_creationDate f) (endOfDay L d)) then Inr False
         else if 0 < fi_token s then
           (case js_nth (tokensToFilter tokens) (fi_token s) of
              None \<Rightarrow> Inl TypeError
            | Some (address, _) \<Rightarrow> Inr (addressesEqual L (Some (vf_superTokenAddress f)) address))
         else Inr True)"

definition filteredFlows :: "libs \<Rightarrow> filter_state \<Rightarrow> view_token list \<Rightarrow> view_flow list \<Rightarrow> view_flow list result" where
  "filteredFlows L s tokens flows_list = filter_result (flow_included L s tokens) flows_list"

text \<open>\<^verbatim>\<open>!filteredFlows\<close> negates an array, and an array is truthy whatever it holds.\<close>

definition js_truthy_array :: "'a list \<Rightarrow> bool" where
  "js_truthy_array xs = True"

definition emptyResultsViaFilters :: "filter_state \<Rightarrow> view_flow list \<Rightarrow> bool" where
  "emptyResultsViaFilters s filtered \<longleftrightarrow> \<not> js_truthy_array filtered \<and> (0 < fi_token s \<or> 0 < fi_flowType s)"

section \<open>The table\<close>

definition compareFlows :: "libs \<Rightarrow> view_flow \<Rightarrow> view_flow \<Rightarrow> int" where
  "compareFlows L left right =
     (if \<not> vf_isCancelled left \<and> vf_isCancelled right then -1
      else if vf_isCancelled left \<and> \<not> vf_isCancelled right then 1
      else if vf_isCancelled left \<and> vf_isCancelled right then 0
      else (case compareDesc L (vf_creationDate left) (vf_creationDate right) of None \<Rightarrow> 0 | Some c \<Rightarrow> c))"

definition sortedFlows :: "libs \<Rightarrow> view_flow list \<Rightarrow> view_flow list" where
  "sortedFlows L filtered = js_sort (compareFlows L) filtered"

definition dataViewStatus :: "bool \<Rightarrow> view_flow list \<Rightarrow> bool \<Rightarrow> string" where
  "dataViewStatus emptyResults flows_list syncing =
     (if emptyResults \<and> flows_list \<noteq> [] then ''empty-filters''
      else if syncing then ''loading'' else ''default'')"

text \<open>The dictionary of decimals and symbols, keyed by the checksummed address; a missing
  address makes the checksum throw.\<close>

fun tokenDetails :: "libs \<Rightarrow> (string \<times> int \<times> string) list \<Rightarrow> view_token list \<Rightarrow> (string \<times> int \<times> string) list result" where
  "tokenDetails L details [] = Inr details"
| "tokenDetails L details (t # ts) =
     (case vt_address t of
        None \<Rightarrow> Inl TypeError
      | Some a \<Rightarrow> tokenDetails L (dict_put (toChecksumAddress L a) (vt_decimals t, vt_symbol t) details) ts)"

text \<open>What a row shows: the account at the other end and whether it is the user's, the dates,
  the type, the token, the signed monthly rate and the signed total, which for an open flow
  grows with time.\<close>

record flow_row =
  row_entity :: string
  row_isConnected :: bool
  row_from :: js_date
  row_until :: "js_date option"
  row_type :: string
  row_symbol :: string
  row_monthlyRate :: int
  row_total :: int
  row_decimals :: int

definition renderEntry :: "libs \<Rightarrow> js_date \<Rightarrow> string option \<Rightarrow> (string \<times> int \<times> string) list \<Rightarrow> view_flow \<Rightarrow> flow_row result" where
  "renderEntry L now connectedAccount details f =
     (case map_of details (toChecksumAddress L (vf_superTokenAddress f)) of
        None \<Rightarrow> Inl TypeError
      | Some (decimals, symbol) \<Rightarrow>
          (let monthlyFlowRate = vf_flowRate f * MONTH in
           await (if vf_isCancelled f then Inr (vf_accumulatedAmount f)
                  else calculateCurrentAmount L (vf_accumulatedAmount f) (vf_flowRate f) (vf_lastUpdateDate f) now)
             (\<lambda>dynamicAmount. Inr \<lparr>
                row_entity = vf_entity f,
                row_isConnected = addressesEqual L (Some (vf_entity f)) connectedAccount,
                row_from = vf_creationDate f,
                row_until = (if vf_isCancelled f then Some (vf_lastUpdateDate f) else None),
                row_type = (if vf_isIncoming f then ''Incoming'' else ''Outgoing''),
                row_symbol = symbol,
                row_monthlyRate = (if vf_isIncoming f then monthlyFlowRate else - monthlyFlowRate),
                row_total = (if vf_isIncoming f then dynamicAmount else - dynamicAmount),
                row_decimals = decimals \<rparr>)))"

text \<open>The menu of a row: none, or the arguments of updating and of deleting the flow.\<close>

record update_args =
  ua_presetSuperTokenAddress :: string
  ua_presetRecipient :: string
  ua_presetSender :: string
  ua_presetFlowTypeIndex :: int
  ua_presetDescription :: string

record delete_args =
  da_superTokenAddress :: string
  da_entity :: string
  da_isOutgoing :: bool
  da_isOwn :: bool

definition renderEntryActions :: "libs \<Rightarrow> string option \<Rightarrow> string \<Rightarrow> view_flow \<Rightarrow> (update_args \<times> delete_args) option" where
  "renderEntryActions L connectedAccount agent f =
     (if vf_isCancelled f \<or> vf_isIncoming f \<and> \<not> addressesEqual L (Some (vf_entity f)) connectedAccount then None
      else Some
        (\<lparr> ua_presetSuperTokenAddress = vf_superTokenAddress f,
           ua_presetRecipient = (if vf_isIncoming f then agent else vf_entity f),
           ua_presetSender = (if vf_isIncoming f then vf_entity f else agent),
           ua_presetFlowTypeIndex = (if vf_isIncoming f then 0 else 1),
           ua_presetDescription = vf_description f \<rparr>,
         \<lparr> da_superTokenAddress = vf_superTokenAddress f, da_entity = vf_entity f,
           da_isOutgoing = (\<not> vf_isIncoming f), da_isOwn = (connectedAccount = Some (vf_entity f)) \<rparr>))"

section \<open>Lemmas\<close>

text \<open>The order of the rows: open flows first, the newest first among them.\<close>

definition row_before :: "view_flow \<Rightarrow> view_flow \<Rightarrow> bool" where
  "row_before f g \<longleftrightarrow> (vf_isCancelled f \<longrightarrow> vf_isCancelled g) \<and>
     (\<not> vf_isCancelled f \<and> \<not> vf_isCancelled g \<longrightarrow>
        (case (vf_creationDate f, vf_creationDate g) of (Date a, Date b) \<Rightarrow> b \<le> a | _ \<Rightarrow> True))"

definition valid_creation :: "view_flow \<Rightarrow> bool" where
  "valid_creation f \<longleftrightarrow> vf_creationDate f \<noteq> InvalidDate"

lemma compareFlows_le:
  assumes "dates_ordered L" and "valid_creation f" and "valid_creation g"
  shows "compareFlows L f g \<le> 0 \<longleftrightarrow> row_before f g"
  using assms
  by (cases "vf_creationDate f"; cases "vf_creationDate g")
    (auto simp: compareFlows_def row_before_def dates_ordered_def valid_creation_def)

interpretation rows: comparator "compareFlows L" "\<lambda>f. dates_ordered L \<and> valid_creation f" for L
  by unfold_locales
    (auto simp: compareFlows_le, auto simp: row_before_def valid_creation_def split: js_date.splits)

end
