(* ===== verification/Flow_View_Properties.thy ===== *)
theory Flow_View_Properties
  imports Flow_View Store_Properties
begin

text \<open>
  The properties of the table of flows: its order, its filters, and that every flow the store
  holds can be shown.
\<close>

section \<open>Helper lemmas\<close>

lemma sortedFlows_before:
  assumes "dates_ordered L" and "\<forall>f \<in> set fs. valid_creation f"
  shows "sorted_wrt row_before (sortedFlows L fs)"
proof -
  have "sorted_wrt (\<lambda>f g. compareFlows L f g \<le> 0) (sortedFlows L fs)"
    unfolding sortedFlows_def using assms by (intro rows.sorted_js_sort) auto
  then show ?thesis
    by (rule sorted_wrt_mono_rel [rotated]) (use assms in \<open>auto simp: sortedFlows_def compareFlows_le\<close>)
qed

text \<open>The selections a user can make in the drop-down menus over \<open>n\<close> tokens.\<close>

definition menu_event :: "nat \<Rightarrow> filter_event \<Rightarrow> bool" where
  "menu_event n e =
     (case e of
        TokenChange i \<Rightarrow> 0 \<le> i \<and> i \<le> int n
      | FlowStateChange i \<Rightarrow> 0 \<le> i \<and> i \<le> 2
      | FlowTypeChange i \<Rightarrow> 0 \<le> i \<and> i \<le> 2
      | _ \<Rightarrow> True)"

definition filters_wf :: "nat \<Rightarrow> filter_state \<Rightarrow> bool" where
  "filters_wf n s \<longleftrightarrow> fi_flowState s \<in> {-1, 1, 2} \<and> fi_flowType s \<in> {-1, 1, 2} \<and>
     (fi_token s = -1 \<or> 1 \<le> fi_token s \<and> fi_token s \<le> int n)"

lemma filter_step_fields [simp]:
  "fi_flowState (filter_step s e) = fi_flowState (filter_handler s e)"
  "fi_flowType (filter_step s e) = fi_flowType (filter_handler s e)"
  "fi_token (filter_step s e) = fi_token (filter_handler s e)"
  "fi_dateRange (filter_step s e) = fi_dateRange (filter_handler s e)"
  by (simp_all add: filter_step_def Let_def)

lemma filters_wf_step: "filters_wf n s \<Longrightarrow> menu_event n e \<Longrightarrow> filters_wf n (filter_step s e)"
  by (cases e) (auto simp: filters_wf_def menu_event_def unselect_zero_def UNSELECTED_def)

interpretation filters: event_store "\<lambda>s e. Inr (filter_step s e)" "filters_wf n" "menu_event n" for n
  by unfold_locales (auto simp: filters_wf_step)

lemma run_filter_steps: "run_events (\<lambda>s e. Inr (filter_step s e)) s es = Inr (foldl filter_step s es)"
  by (induction es arbitrary: s) auto

lemma filters_reachable:
  assumes "\<forall>e \<in> set es. menu_event n e"
  shows "filters_wf n (foldl filter_step initial_filters es)"
  using filters.run_inv [of n initial_filters es "foldl filter_step initial_filters es"] assms
  by (simp add: run_filter_steps filters_wf_def initial_filters_def UNSELECTED_def)

text \<open>What the filters mean.\<close>

definition flow_matches :: "libs \<Rightarrow> filter_state \<Rightarrow> view_token list \<Rightarrow> view_flow \<Rightarrow> bool" where
  "flow_matches L s tokens f \<longleftrightarrow>
     (fi_flowState s = 1 \<longrightarrow> \<not> vf_isCancelled f) \<and> (fi_flowState s = 2 \<longrightarrow> vf_isCancelled f) \<and>
     (fi_flowType s = 1 \<longrightarrow> vf_isIncoming f) \<and> (fi_flowType s = 2 \<longrightarrow> \<not> vf_isIncoming f) \<and>
     (\<forall>d e. fi_dateRange s = Some (Some d, e) \<longrightarrow> \<not> isBefore L (vf_creationDate f) (startOfDay L d)) \<and>
     (\<forall>d e. fi_dateRange s = Some (d, Some e) \<longrightarrow> \<not> isAfter L (vf_creationDate f) (endOfDay L e)) \<and>
     (0 < fi_token s \<longrightarrow>
        addressesEqual L (Some (vf_superTokenAddress f)) (vt_address (tokens ! nat (fi_token s - 1))))"

lemma flow_included_matches:
  assumes "filters_wf (length tokens) s"
  shows "flow_included L s tokens f = Inr (flow_matches L s tokens f)"
proof -
  have nth: "js_nth FLOW_STATES 1 = Some Open" "js_nth FLOW_STATES 2 = Some Close"
    "js_nth FLOW_TYPES 1 = Some Incoming" "js_nth FLOW_TYPES 2 = Some Outgoing"
    by (simp_all add: js_nth_def FLOW_STATES_def FLOW_TYPES_def AVAILABLE_FLOW_STATES_def AVAILABLE_FLOW_TYPES_def)
  have token: "js_nth (tokensToFilter tokens) (fi_token s) = Some (vt_address (tokens ! nat (fi_token s - 1)),
      vt_symbol (tokens ! nat (fi_token s - 1)))" if "0 < fi_token s"
  proof -
    from assms that have "fi_token s \<le> int (length tokens)" by (auto simp: filters_wf_def)
    moreover from that obtain k where k: "fi_token s = int (Suc k)" by (metis gr0_conv_Suc zero_less_imp_eq_int)
    ultimately show ?thesis by (simp add: js_nth_def tokensToFilter_def nat_add_distrib)
  qed
  have sel: "fi_flowState s = -1 \<or> fi_flowState s = 1 \<or> fi_flowState s = 2"
    "fi_flowType s = -1 \<or> fi_flowType s = 1 \<or> fi_flowType s = 2"
    using assms by (auto simp: filters_wf_def)
  show ?thesis
    using sel token unfolding flow_included_def flow_matches_def Let_def UNSELECTED_def
    by (cases "fi_dateRange s") (auto simp: nth split: option.splits)
qed

section \<open>Order and filters\<close>

text \<open>
  C25. The table shows each of the filtered flows once: open flows come before closed ones,
  newer open flows before older ones, and closed flows keep the order of the store.
\<close>

theorem table_order:
  assumes "dates_ordered L" and "\<forall>f \<in> set fs. vf_creationDate f \<noteq> InvalidDate"
  shows "mset (sortedFlows L fs) = mset fs \<and>
    sorted_wrt (\<lambda>f g. (vf_isCancelled f \<longrightarrow> vf_isCancelled g) \<and>
      (\<not> vf_isCancelled f \<and> \<not> vf_isCancelled g \<longrightarrow>
         (\<exists>a b. vf_creationDate f = Date a \<and> vf_creationDate g = Date b \<and> b \<le> a))) (sortedFlows L fs) \<and>
    filter vf_isCancelled (sortedFlows L fs) = filter vf_isCancelled fs"
proof -
  have valid: "\<forall>f \<in> set fs. valid_creation f" using assms(2) by (simp add: valid_creation_def)
  have "sorted_wrt (\<lambda>f g. (vf_isCancelled f \<longrightarrow> vf_isCancelled g) \<and>
      (\<not> vf_isCancelled f \<and> \<not> vf_isCancelled g \<longrightarrow>
         (\<exists>a b. vf_creationDate f = Date a \<and> vf_creationDate g = Date b \<and> b \<le> a))) (sortedFlows L fs)"
    by (rule sorted_wrt_mono_rel [OF _ sortedFlows_before [OF assms(1) valid]])
      (use assms(2) in \<open>auto simp: row_before_def sortedFlows_def split: js_date.splits\<close>)
  moreover have "filter vf_isCancelled (sortedFlows L fs) = filter vf_isCancelled fs"
  proof (cases "\<exists>z \<in> set fs. vf_isCancelled z")
    case True
    then obtain z where z: "z \<in> set fs" "vf_isCancelled z" by blast
    have same: "compareFlows L z f \<le> 0 \<and> compareFlows L f z \<le> 0 \<longleftrightarrow> vf_isCancelled f" for f
      using z(2) by (simp add: compareFlows_def)
    show ?thesis
      using rows.stable_js_sort [where L = L and z = z and xs = fs] assms(1) valid z(1)
      unfolding sortedFlows_def same by blast
  next
    case False
    then show ?thesis by (auto simp: sortedFlows_def filter_empty_conv)
  qed
  ultimately show ?thesis by (simp add: sortedFlows_def)
qed

theorem table_order_witness:
  "map vf_isCancelled (sortedFlows sample_libs [format_flow ((s_flow 0 5 100)\<lparr> fl_isCancelled := True \<rparr>), format_flow (s_flow 0 5 100)])
     = [False, True]"
proof -
  let ?f = "format_flow ((s_flow 0 5 100)\<lparr> fl_isCancelled := True \<rparr>)" and ?g = "format_flow (s_flow 0 5 100)"
  have valid: "\<forall>f \<in> set [?f, ?g]. vf_creationDate f \<noteq> InvalidDate"
    by (simp add: s_flow_def format_flow_def timestampToDate_def new_Date_def)
  have "mset (sortedFlows sample_libs [?f, ?g]) = mset [?f, ?g]"
    and sorted: "sorted_wrt (\<lambda>f g. (vf_isCancelled f \<longrightarrow> vf_isCancelled g)) (sortedFlows sample_libs [?f, ?g])"
    using table_order [OF sample_libs_documented(6) valid] by (auto elim: sorted_wrt_mono_rel [rotated])
  then have "length (sortedFlows sample_libs [?f, ?g]) = 2" "set (sortedFlows sample_libs [?f, ?g]) = {?f, ?g}"
    by (metis size_mset length_Cons list.size(3) numeral_2_eq_2, metis set_mset_mset list.simps(15) list.set(1))
  then obtain a b where ab: "sortedFlows sample_libs [?f, ?g] = [a, b]" "{a, b} = {?f, ?g}"
    by (auto simp: numeral_2_eq_2 length_Suc_conv)
  moreover have "vf_isCancelled ?f" "\<not> vf_isCancelled ?g" by (simp_all add: s_flow_def format_flow_def)
  ultimately show ?thesis using sorted by (auto simp: doubleton_eq_iff)
qed

text \<open>
  C26. The filters mean what their menus say. After any sequence of selections, filtering
  succeeds and keeps, in order, exactly the flows that match the selected state (open or
  closed), type (incoming or outgoing), range of days and token.
\<close>

theorem filters_exact:
  assumes "\<forall>e \<in> set es. menu_event (length tokens) e"
  shows "filteredFlows L (foldl filter_step initial_filters es) tokens fs =
    Inr (filter (flow_matches L (foldl filter_step initial_filters es) tokens) fs)"
  unfolding filteredFlows_def
  by (intro filter_result_Inr flow_included_matches filters_reachable assms)

theorem filters_exact_witness:
  "\<exists>fs. filteredFlows sample_libs (foldl filter_step initial_filters [FlowStateChange 2, FlowTypeChange 1, TokenChange 0]) []
     [format_flow (s_flow 0 5 100)] = Inr fs \<and> fs = []"
proof -
  have "\<forall>e \<in> set [FlowStateChange 2, FlowTypeChange 1, TokenChange 0]. menu_event (length []) e"
    by (simp add: menu_event_def)
  note filters_exact [OF this, of sample_libs "[format_flow (s_flow 0 5 100)]"]
  moreover have "\<not> flow_matches sample_libs (foldl filter_step initial_filters
      [FlowStateChange 2, FlowTypeChange 1, TokenChange 0]) [] (format_flow (s_flow 0 5 100))"
    by (simp add: flow_matches_def filter_step_def Let_def unselect_zero_def s_flow_def format_flow_def page_effect_runs_def
        initial_filters_def)
  ultimately show ?thesis by simp
qed

text \<open>
  Filters that leave nothing are never reported as such: whatever the filters and the
  flows, the status of the table is not the one for empty filter results. And clearing the
  filters keeps the selected flow state.
\<close>

theorem empty_filters_never_reported:
  "dataViewStatus (emptyResultsViaFilters s filtered) flows_list syncing \<noteq> ''empty-filters'' \<and>
   fi_flowState (filter_step s ClearFilters) = fi_flowState s"
  by (simp add: dataViewStatus_def emptyResultsViaFilters_def js_truthy_array_def filter_step_def Let_def)

section \<open>Every flow can be shown\<close>

definition names_token :: "store_event \<Rightarrow> bool" where
  "names_token e =
     (case e of FlowUpdated ev \<Rightarrow> ev_token ev \<noteq> [] | VaultTransfer t _ \<Rightarrow> t \<noteq> [] | VaultDeposit t _ \<Rightarrow> t \<noteq> [] | _ \<Rightarrow> True)"

definition addressed :: "super_token \<Rightarrow> bool" where
  "addressed t \<longleftrightarrow> (\<exists>a. st_address t = Some a \<and> a \<noteq> [])"

text \<open>While the token list is defined, it has the token of every flow.\<close>

definition tokens_cover :: "libs \<Rightarrow> app_store \<Rightarrow> bool" where
  "tokens_cover L st \<longleftrightarrow> (\<forall>f \<in> set (flows st). fl_superTokenAddress f \<noteq> []) \<and>
     (\<forall>ts. superTokens st = Some ts \<longrightarrow> (\<forall>t \<in> set ts. addressed t) \<and>
        (\<forall>f \<in> set (flows st). lookup_token L ts (Some (fl_superTokenAddress f)) \<noteq> None))"

lemma updateFlows_tokens:
  assumes "updateFlows L st ev t = Inr fs" and "f \<in> set fs"
  shows "fl_superTokenAddress f = ev_token ev \<or> fl_superTokenAddress f \<in> fl_superTokenAddress ` set (flows st)"
proof (cases "findIndex (\<lambda>f. isFlowEqual L f ev) (flows st)")
  case None
  with assms show ?thesis by (auto simp: updateFlows_def Let_def)
next
  case (Some i)
  note i = findIndex_SomeD(1) [OF Some]
  from assms(1) Some obtain y where "fs = (flows st)[i := y]"
    "fl_superTokenAddress y = fl_superTokenAddress (flows st ! i)"
    by (auto simp: updateFlows_def Let_def split: if_splits)
  with assms(2) i show ?thesis by (auto dest!: set_update_subset_insert [THEN subsetD])
qed

lemma updateSuperTokens_addressed:
  assumes "updateSuperTokens L cache (Some old) agent app settings (Some a) ts netFlow = (Some new, cache')"
    and "\<forall>t \<in> set old. addressed t" and "a \<noteq> []"
  shows "\<forall>t \<in> set new. addressed t"
  using assms(1)
proof (rule updateSuperTokens_SomeE)
  fix old' c t balance
  assume *: "Some old = Some old'" "base_token L old' app settings (Some a) c = Inr t"
    "new = (case findIndex (\<lambda>t. addressesEqual L (Some a) (st_address t)) old' of
          None \<Rightarrow> old' @ [refreshed_token t balance ts netFlow]
        | Some i \<Rightarrow> old'[i := refreshed_token t balance ts netFlow])"
  have "addressed t"
    using *(1,2) assms(2,3) findIndex_SomeD(1)
    by (fastforce simp: base_token_def lookup_token_findIndex addressed_def split: option.splits
        dest: newSuperToken_address)
  then have "addressed (refreshed_token t balance ts netFlow)" by (simp add: addressed_def)
  with * assms(2) show ?thesis
    by (auto split: option.splits dest!: set_update_subset_insert [THEN subsetD])
qed

text \<open>An update of the token \<open>a\<close> keeps the covered flows covered and covers those of \<open>a\<close>.\<close>

lemma tokens_cover_update:
  assumes "tokens_cover L st" and "store_wf L agent st" and "a \<noteq> []"
    and "updateSuperTokens L cache (superTokens st) agent app settings (Some a) ts n = (newST, cache')"
    and "\<forall>f \<in> set fs. fl_superTokenAddress f = a \<or> fl_superTokenAddress f \<in> fl_superTokenAddress ` set (flows st)"
    and "superTokens st' = newST" and "flows st' = fs"
  shows "tokens_cover L st'"
  unfolding tokens_cover_def
proof (intro conjI ballI allI impI)
  fix f assume "f \<in> set (flows st')"
  then show "fl_superTokenAddress f \<noteq> []" using assms(1,3,5,7) by (auto simp: tokens_cover_def)
next
  fix new assume new: "superTokens st' = Some new"
  then obtain old where old: "superTokens st = Some old"
    using assms(4,6) updateSuperTokens_undefinedD by (metis option.exhaust option.distinct(1))
  have upd: "updateSuperTokens L cache (Some old) agent app settings (Some a) ts n = (Some new, cache')"
    using assms(4,6) new old by simp
  {
    fix t assume "t \<in> set new"
    then show "addressed t"
      using updateSuperTokens_addressed [OF upd _ assms(3)] assms(1) old by (auto simp: tokens_cover_def)
  }
  {
    fix f assume f: "f \<in> set (flows st')"
    have "tokens_wf L old" using assms(2) old by (simp add: store_wf_def)
    from updateSuperTokens_lookup [OF upd this] obtain t where
      lookup: "\<forall>a'. lookup_token L new a' = (if addressesEqual L a' (Some a) then Some t else lookup_token L old a')"
      by blast
    from f assms(5,7) consider "fl_superTokenAddress f = a" |
      g where "g \<in> set (flows st)" "fl_superTokenAddress f = fl_superTokenAddress g" by auto
    then show "lookup_token L new (Some (fl_superTokenAddress f)) \<noteq> None"
    proof cases
      case 1
      then show ?thesis using lookup by simp
    next
      case 2
      then show ?thesis using lookup assms(1) old by (simp add: tokens_cover_def)
    qed
  }
qed

lemma store_step_tokens_cover:
  assumes "tokens_cover L (fst s)" and "store_wf L agent (fst s)" and "names_token (snd e)"
    and "store_step L settings s e = Inr s'"
  shows "tokens_cover L (fst s')"
proof -
  note red = store_step_InrE [OF assms(4)]
  have agent: "agentAddress (fst s) = agent" using assms(2) by (simp add: store_wf_def)
  have vault: "tokens_cover L (fst s')"
    if "handleVaultEvent L (fst e) settings (snd s) (fst s) token block = (Inr (fst s'), snd s')" "token \<noteq> []" for token block
  proof -
    from that(1) obtain ts newST where "fst s' = (fst s)\<lparr> superTokens := newST \<rparr>"
      "updateSuperTokens L (snd s) (superTokens (fst s)) agent (fst e) settings (Some token) ts None = (newST, snd s')"
      using agent by (auto simp: handleVaultEvent_def Let_def split: sum.splits prod.splits) metis
    then show ?thesis
      using tokens_cover_update [OF assms(1,2) that(2), of "snd s" "fst e" settings ts None newST "snd s'" "flows (fst s)"]
      by simp
  qed
  show ?thesis
  proof (cases "snd e")
    case (FlowUpdated ev)
    with red have "handleFlowUpdated L (fst e) settings (snd s) (fst s) ev = (Inr (fst s'), snd s')" by simp
    then show ?thesis
    proof (cases rule: handleFlowUpdated_InrE)
      case ignored
      then show ?thesis using assms(1) by simp
    next
      case (handled ts cache1 senders fs newST)
      show ?thesis
        by (rule tokens_cover_update [OF assms(1,2) _ handled(3) [unfolded agent]])
          (use handled(5,6) assms(3) FlowUpdated updateFlows_tokens in \<open>auto simp: names_token_def\<close>)
    qed
  next
    case (SyncStatusSyncing to)
    with red have "fst s' = (fst s)\<lparr> isSyncing := True, cachedBlockNumber := Some to \<rparr>" by simp
    then show ?thesis using assms(1) by (simp add: tokens_cover_def)
  next
    case ExternalSubscriptionSynced
    with red have "fst s' = (fst s)\<lparr> isSyncing := False \<rparr>" by simp
    then show ?thesis using assms(1) by (simp add: tokens_cover_def)
  qed (use red assms(1,3) vault in \<open>auto simp: names_token_def\<close>)
qed

interpretation cover: event_store "store_step L settings"
    "\<lambda>s. store_wf L agent (fst s) \<and> tokens_cover L (fst s)"
    "\<lambda>e. no_self_flow L (snd e) \<and> names_token (snd e)" for L settings agent
  by unfold_locales (auto intro: es.step_inv store_step_tokens_cover)

lemma tokenDetails_keys:
  assumes "\<forall>t \<in> set ts. vt_address t \<noteq> None"
  shows "\<exists>d'. tokenDetails L d ts = Inr d' \<and>
    (\<forall>k. map_of d' k \<noteq> None \<longleftrightarrow> map_of d k \<noteq> None \<or> (\<exists>t \<in> set ts. \<exists>a. vt_address t = Some a \<and> k = toChecksumAddress L a))"
  using assms
proof (induction L d ts rule: tokenDetails.induct)
  case (2 L d t ts)
  then obtain a where a: "vt_address t = Some a" by auto
  from 2(1) [OF a] 2(2) obtain d' where "tokenDetails L (dict_put (toChecksumAddress L a) (vt_decimals t, vt_symbol t) d) ts = Inr d'"
    "\<forall>k. map_of d' k \<noteq> None \<longleftrightarrow> map_of (dict_put (toChecksumAddress L a) (vt_decimals t, vt_symbol t) d) k \<noteq> None \<or>
       (\<exists>t \<in> set ts. \<exists>a. vt_address t = Some a \<and> k = toChecksumAddress L a)"
    by auto
  with a show ?case by (intro exI [of _ d']) auto
qed simp

lemma lookup_token_checksum:
  assumes "lookup_token L ts (Some a) \<noteq> None" and "a \<noteq> []" and "\<forall>t \<in> set ts. addressed t"
  obtains t b where "t \<in> set ts" and "st_address t = Some b" and "toChecksumAddress L a = toChecksumAddress L b"
proof -
  from assms(1) obtain t where t: "t \<in> set ts" "addressesEqual L (Some a) (st_address t)"
    by (auto simp: lookup_token_def lookup_by_def find_Some_iff) (metis nth_mem)
  with assms(3) obtain b where "st_address t = Some b" "b \<noteq> []" by (auto simp: addressed_def)
  with t assms(2) show thesis by (intro that [of t b]) (simp_all add: addressesEqual_def checksummed_def)
qed

text \<open>
  From the store to the table: start from a store without flows whose tokens have
  addresses and run any events. If the front end's reducer accepts the resulting state, the
  table finds the token of every flow, and every flow whose dates are valid gets its row; no
  flow of an unlisted token breaks the table.
\<close>

theorem every_flow_has_a_row:
  assumes "store_wf L agent st" and "flows st = []" and "superTokens st = Some ts"
    and "\<forall>t \<in> set ts. \<exists>a. st_address t = Some a \<and> a \<noteq> []"
    and "\<forall>e \<in> set es. no_self_flow L (snd e) \<and> names_token (snd e)"
    and "run_events (store_step L settings) (st, cache) es = Inr (st', cache')"
    and "appStateReducer L now (Some st') = Inr v" and "seconds_truncate L"
  shows "\<exists>d. tokenDetails L [] (vs_superTokens v) = Inr d \<and>
    (\<forall>f \<in> set (vs_flows v). vf_lastUpdateDate f \<noteq> InvalidDate \<longrightarrow>
       isOk (renderEntry L (Date u) connectedAccount d f))"
proof -
  have "tokens_cover L st" using assms(2-4) by (simp add: tokens_cover_def addressed_def)
  then have cover: "tokens_cover L st'"
    using cover.run_inv [of L agent "(st, cache)" es settings "(st', cache')"] assms(1,5,6) by simp
  show ?thesis
  proof (rule appStateReducer_InrE [OF assms(7)])
    fix tokens formatted
    assume *: "superTokens st' = Some tokens"
      "list_all2 (\<lambda>t f. format_super_token L now (fst (format_flows [] (flows st'))) t = Inr f) tokens formatted"
      "vs_superTokens v = js_sort (compareSuperTokensBySymbol L) formatted" "vs_flows v = map format_flow (flows st')"
    have addresses: "map vt_address formatted = map st_address tokens"
      using *(2) format_super_token_fields(1) by (auto simp: list_all2_conv_all_nth list_eq_iff_nth_eq)
    then have sets: "vt_address ` set (vs_superTokens v) = st_address ` set tokens"
      using *(3) by (metis set_js_sort set_map)
    have addr: "\<forall>t \<in> set tokens. addressed t" using cover *(1) by (simp add: tokens_cover_def)
    have "vt_address t \<noteq> None" if "t \<in> set (vs_superTokens v)" for t
      using sets addr that by (force simp: addressed_def)
    then obtain d where d: "tokenDetails L [] (vs_superTokens v) = Inr d"
      "\<forall>k. map_of d k \<noteq> None \<longleftrightarrow> (\<exists>t \<in> set (vs_superTokens v). \<exists>a. vt_address t = Some a \<and> k = toChecksumAddress L a)"
      using tokenDetails_keys [of "vs_superTokens v" L "[]"] by auto
    have "isOk (renderEntry L (Date u) connectedAccount d (format_flow f))"
      if f: "f \<in> set (flows st')" and date: "vf_lastUpdateDate (format_flow f) \<noteq> InvalidDate" for f
    proof -
      from cover *(1) f have "lookup_token L tokens (Some (fl_superTokenAddress f)) \<noteq> None" "fl_superTokenAddress f \<noteq> []"
        by (auto simp: tokens_cover_def)
      then obtain t b where b: "t \<in> set tokens" "st_address t = Some b"
        "toChecksumAddress L (fl_superTokenAddress f) = toChecksumAddress L b"
        by (rule lookup_token_checksum [OF _ _ addr])
      then have "Some b \<in> vt_address ` set (vs_superTokens v)" unfolding sets by force
      then obtain w where "w \<in> set (vs_superTokens v)" "vt_address w = Some b" by auto
      then have "map_of d (toChecksumAddress L (fl_superTokenAddress f)) \<noteq> None"
        using d(2) b(3) by blast
      moreover from date obtain x where "vf_lastUpdateDate (format_flow f) = Date x" by (cases "vf_lastUpdateDate (format_flow f)") auto
      ultimately show ?thesis
        using calculateCurrentAmount_valid [OF assms(8)]
        by (auto simp: renderEntry_def Let_def format_flow_def isOk_iff)
    qed
    then show ?thesis using d(1) *(4) by auto
  qed
qed

theorem every_flow_has_a_row_witness:
  "\<exists>v d. appStateReducer sample_libs (Date 120000) (Some (s_store_after 60 50 7 110)) = Inr v \<and>
     tokenDetails sample_libs [] (vs_superTokens v) = Inr d \<and>
     isOk (renderEntry sample_libs (Date 120000) None d (format_flow (s_flow 50 7 110)))"
proof -
  have "isOk (appStateReducer sample_libs (Date 120000) (Some (s_store_after 60 50 7 110)))" by code_simp
  then obtain v where v: "appStateReducer sample_libs (Date 120000) (Some (s_store_after 60 50 7 110)) = Inr v" by blast
  have adm: "\<forall>e \<in> set s_events. no_self_flow sample_libs (snd e) \<and> names_token (snd e)" by code_simp
  have "vs_flows v = [format_flow (s_flow 50 7 110)]"
    by (rule appStateReducer_InrE [OF v]) (simp add: s_store_after_def)
  moreover have "vf_lastUpdateDate (format_flow (s_flow 50 7 110)) \<noteq> InvalidDate" by code_simp
  ultimately show ?thesis
    using every_flow_has_a_row [OF s_store_wf _ _ _ adm s_run v, of "[]" 120000 None] v
    by (simp add: s_store_def)
qed

end
