(* ===== verification/App_Logic.thy ===== *)
theory App_Logic
  imports Flow_View
begin

text \<open>
  The actions of the app (\<^verbatim>\<open>app-logic.js\<close>), the call of the agreement
  (\<^verbatim>\<open>callAgreement\<close> of \<^verbatim>\<open>helpers/superfluid.js\<close>), the operations on super tokens
  (\<^verbatim>\<open>super-token-operations.js\<close>) and the state of a side panel
  (\<^verbatim>\<open>hooks/usePanelState.js\<close>).

  An action hands transactions to the Aragon client. \<open>submit\<close> is the outcome of such a
  request, a parameter of the model; what an action did is recorded as the transactions it
  requested, whether it called \<^verbatim>\<open>onDone\<close>, and the error its promise was rejected with.
\<close>

section \<open>Transactions\<close>

datatype cfa_operation = createFlowABI | updateFlowABI | deleteFlowABI

datatype transaction =
    CallAgreement string cfa_operation "string list" string
  | ApiCreateFlow string string string string
  | ApiUpdateFlow string string string string
  | ApiDeleteFlow string string
  | ApiDeleteOwnFlow string
  | ApiDeposit string string bool "string \<times> string"
  | ApiWithdraw string string string
  | UpgradeByETH string string
  | Upgrade string string "string \<times> string"
  | DowngradeToETH string string
  | Downgrade string string

record action_outcome =
  requested :: "transaction list"
  doneCalled :: bool
  rejectedWith :: "js_error option"

text \<open>The handle of the host contract is \<^verbatim>\<open>null\<close> while its address is unknown; calling a
  method on it throws.\<close>

definition useContract :: "app_api option \<Rightarrow> string option \<Rightarrow> contract result option" where
  "useContract api address =
     (case api of
        None \<Rightarrow> None
      | Some app \<Rightarrow> if truthy address then Some (app_external app address) else None)"

definition callAgreement ::
  "contract option \<Rightarrow> string \<Rightarrow> string list \<Rightarrow> string option \<Rightarrow> cfa_operation \<Rightarrow> transaction result" where
  "callAgreement host cfa params userData operationABI =
     (case host of
        None \<Rightarrow> Inl TypeError
      | Some _ \<Rightarrow> Inr (CallAgreement cfa operationABI params
          (case userData of None \<Rightarrow> ''0x'' | Some d \<Rightarrow> if d = [] then ''0x'' else d)))"

section \<open>Actions on flows\<close>

definition useUpdateFlow ::
  "contract option \<Rightarrow> string \<Rightarrow> string \<Rightarrow> string \<Rightarrow> string \<Rightarrow> string \<Rightarrow> string option \<Rightarrow> bool \<Rightarrow> bool \<Rightarrow>
     action_outcome" where
  "useUpdateFlow host agent cfa tokenAddress entity flowRate description isOutgoingFlow isCreateOperation =
     (let flowDescription = (case description of None \<Rightarrow> ''0x'' | Some d \<Rightarrow> if d = [] then ''0x'' else d);
          tx = (if isCreateOperation then
                  if \<not> isOutgoingFlow
                  then callAgreement host cfa [tokenAddress, agent, flowRate, ''0x''] (Some flowDescription) createFlowABI
                  else Inr (ApiCreateFlow tokenAddress entity flowRate flowDescription)
                else
                  if \<not> isOutgoingFlow
                  then callAgreement host cfa [tokenAddress, agent, flowRate, ''0x''] (Some flowDescription) updateFlowABI
                  else Inr (ApiUpdateFlow tokenAddress entity flowRate flowDescription))
      in \<lparr> requested = (case tx of Inl _ \<Rightarrow> [] | Inr t \<Rightarrow> [t]), doneCalled = True, rejectedWith = None \<rparr>)"

text \<open>\<^verbatim>\<open>useDeleteFlow\<close> does not wait for the promises it starts.\<close>

definition useDeleteFlow ::
  "contract option \<Rightarrow> string \<Rightarrow> string \<Rightarrow> string \<Rightarrow> string \<Rightarrow> bool \<Rightarrow> bool \<Rightarrow> action_outcome" where
  "useDeleteFlow host agent cfa tokenAddress entity isOutgoingFlow isOwnFlow =
     (case (if isOutgoingFlow then
              if isOwnFlow then Inr (ApiDeleteOwnFlow tokenAddress)
              else Inr (ApiDeleteFlow tokenAddress entity)
            else callAgreement host cfa [tokenAddress, entity, agent, ''0x''] None deleteFlowABI) of
        Inl e \<Rightarrow> \<lparr> requested = [], doneCalled = False, rejectedWith = Some e \<rparr>
      | Inr t \<Rightarrow> \<lparr> requested = [t], doneCalled = True, rejectedWith = None \<rparr>)"

section \<open>Actions on tokens\<close>

text \<open>Waiting for a transaction and then calling \<^verbatim>\<open>onDone\<close>.\<close>

definition awaited :: "(transaction \<Rightarrow> unit result) \<Rightarrow> transaction \<Rightarrow> action_outcome" where
  "awaited submit t =
     (case submit t of
        Inl e \<Rightarrow> \<lparr> requested = [t], doneCalled = False, rejectedWith = Some e \<rparr>
      | Inr _ \<Rightarrow> \<lparr> requested = [t], doneCalled = True, rejectedWith = None \<rparr>)"

definition failed :: "js_error \<Rightarrow> action_outcome" where
  "failed e = \<lparr> requested = [], doneCalled = False, rejectedWith = Some e \<rparr>"

definition useDeposit :: "(transaction \<Rightarrow> unit result) \<Rightarrow> string \<Rightarrow> string \<Rightarrow> bool \<Rightarrow> action_outcome" where
  "useDeposit submit tokenAddress amount isExternalDeposit =
     awaited submit (ApiDeposit tokenAddress amount isExternalDeposit (tokenAddress, amount))"

definition useWithdraw :: "(transaction \<Rightarrow> unit result) \<Rightarrow> string \<Rightarrow> string \<Rightarrow> string \<Rightarrow> action_outcome" where
  "useWithdraw submit tokenAddress receiver amount =
     awaited submit (ApiWithdraw tokenAddress receiver amount)"

datatype token_operation = UPGRADE | DOWNGRADE | UnknownOperation

definition useConvertTokens ::
  "libs \<Rightarrow> app_api \<Rightarrow> network \<Rightarrow> (transaction \<Rightarrow> unit result) \<Rightarrow> token_operation \<Rightarrow> string \<Rightarrow> string \<Rightarrow>
     action_outcome" where
  "useConvertTokens L app network submit operation superTokenAddress amount =
     (case await (app_external app (Some superTokenAddress)) (call_getUnderlyingToken app) of
        Inl e \<Rightarrow> failed e
      | Inr underlyingTokenAddress \<Rightarrow>
          (let isNative = (isNativeSuperToken L (Some superTokenAddress) (net_id network) \<or>
                           addr_eq L underlyingTokenAddress ZERO_ADDRESS)
           in case operation of
                UPGRADE \<Rightarrow>
                  if isNative then awaited submit (UpgradeByETH superTokenAddress amount)
                  else awaited submit (Upgrade superTokenAddress amount (underlyingTokenAddress, amount))
              | DOWNGRADE \<Rightarrow>
                  if isNative then awaited submit (DowngradeToETH superTokenAddress amount)
                  else awaited submit (Downgrade superTokenAddress amount)
              | UnknownOperation \<Rightarrow> failed (GenericError ''Convert operation unknown.'')))"

section \<open>Panels\<close>

text \<open>
  The state of a side panel. Its preset parameters are undefined at first, and \<^verbatim>\<open>{}\<close> after
  a close. A close schedules the reset of the parameters for a second later; \<open>ps_timers\<close>
  counts the resets that have not run yet.
\<close>

datatype 'p preset = UndefinedPreset | EmptyPreset | Preset 'p

record 'p panel_state =
  ps_visible :: bool
  ps_presetParams :: "'p preset"
  ps_waitTxPanel :: bool
  ps_didOpen :: bool
  ps_timers :: nat

datatype 'p panel_event =
    RequestOpen "'p option"
  | RequestClose
  | TransitionEnd bool
  | RequestTransaction
  | TransactionSettled
  | PresetTimer

definition initial_panel :: "'p panel_state" where
  "initial_panel = \<lparr> ps_visible = False, ps_presetParams = UndefinedPreset, ps_waitTxPanel = False,
     ps_didOpen = False, ps_timers = 0 \<rparr>"

fun panel_handler :: "'p panel_state \<Rightarrow> 'p panel_event \<Rightarrow> 'p panel_state" where
  "panel_handler s (RequestOpen params) =
     s\<lparr> ps_visible := True, ps_didOpen := False,
        ps_presetParams := (case params of None \<Rightarrow> ps_presetParams s | Some p \<Rightarrow> Preset p) \<rparr>"
| "panel_handler s RequestClose =
     s\<lparr> ps_visible := False, ps_waitTxPanel := False, ps_timers := Suc (ps_timers s) \<rparr>"
| "panel_handler s (TransitionEnd opened) = s\<lparr> ps_didOpen := opened \<rparr>"
| "panel_handler s RequestTransaction = s\<lparr> ps_waitTxPanel := True \<rparr>"
| "panel_handler s TransactionSettled = s\<lparr> ps_waitTxPanel := False \<rparr>"
| "panel_handler s PresetTimer = s\<lparr> ps_presetParams := EmptyPreset, ps_timers := ps_timers s - 1 \<rparr>"

text \<open>A step of the panel: the timer can only run when one is pending.\<close>

inductive panel_step :: "'p panel_state \<Rightarrow> 'p panel_event \<Rightarrow> 'p panel_state \<Rightarrow> bool" where
  user: "e \<noteq> PresetTimer \<Longrightarrow> panel_step s e (panel_handler s e)"
| timer: "0 < ps_timers s \<Longrightarrow> panel_step s PresetTimer (panel_handler s PresetTimer)"

inductive_cases panel_stepE: "panel_step s e s'"

inductive panel_run :: "'p panel_state \<Rightarrow> 'p panel_event list \<Rightarrow> 'p panel_state \<Rightarrow> bool" where
  stop: "panel_run s [] s"
| more: "panel_step s e s1 \<Longrightarrow> panel_run s1 es s2 \<Longrightarrow> panel_run s (e # es) s2"

inductive_simps panel_run_Nil [simp]: "panel_run s [] s'"
inductive_simps panel_run_Cons: "panel_run s (e # es) s'"

end
