(* ===== verification/App_Logic_Properties.thy ===== *)
theory App_Logic_Properties
  imports App_Logic Samples
begin

text \<open>
  The properties of the app's actions and of the side panels.
\<close>

section \<open>Actions\<close>

text \<open>
  The stream a transaction acts on, as token, sender and receiver, when \<open>user\<close> signs it. The
  operations of the agreement name their receiver, and deletion its sender too; the
  functions of the app's contract act for the agent, and \<^verbatim>\<open>deleteOwnFlow\<close> on the
  stream from the agent to the caller.
\<close>

fun acts_on :: "string \<Rightarrow> string \<Rightarrow> transaction \<Rightarrow> (string \<times> string \<times> string) option" where
  "acts_on agent user (CallAgreement cfa createFlowABI [token, receiver, fr, ctx] d) = Some (token, user, receiver)"
| "acts_on agent user (CallAgreement cfa updateFlowABI [token, receiver, fr, ctx] d) = Some (token, user, receiver)"
| "acts_on agent user (CallAgreement cfa deleteFlowABI [token, sender, receiver, ctx] d) = Some (token, sender, receiver)"
| "acts_on agent user (ApiCreateFlow token receiver fr d) = Some (token, agent, receiver)"
| "acts_on agent user (ApiUpdateFlow token receiver fr d) = Some (token, agent, receiver)"
| "acts_on agent user (ApiDeleteFlow token receiver) = Some (token, agent, receiver)"
| "acts_on agent user (ApiDeleteOwnFlow token) = Some (token, agent, user)"
| "acts_on agent user t = None"

text \<open>
  The menu of a row acts on the row's flow. It is offered for open flows only, and for an
  incoming one only to its sender. Deleting requests exactly one transaction, and it acts on
  the stream of the row: the same token, from the other account to the agent for an incoming
  flow and from the agent to the other account for an outgoing one. The preset of updating
  names the same stream.
\<close>

theorem row_menu_targets_flow:
  assumes "renderEntryActions L (Some user) agent f = Some (u, d)"
  shows "\<not> vf_isCancelled f \<and> (vf_isIncoming f \<longrightarrow> addr_eq L (vf_entity f) user) \<and>
    (\<exists>t. requested (useDeleteFlow (Some host) agent cfa (da_superTokenAddress d) (da_entity d) (da_isOutgoing d) (da_isOwn d)) = [t] \<and>
       acts_on agent user t = Some (vf_superTokenAddress f,
         if vf_isIncoming f then vf_entity f else agent, if vf_isIncoming f then agent else vf_entity f)) \<and>
    (ua_presetSuperTokenAddress u, ua_presetSender u, ua_presetRecipient u) = (vf_superTokenAddress f,
         if vf_isIncoming f then vf_entity f else agent, if vf_isIncoming f then agent else vf_entity f)"
  using assms
  by (auto simp: renderEntryActions_def useDeleteFlow_def callAgreement_def split: if_splits)

theorem row_menu_targets_flow_witness:
  "\<exists>u d t. renderEntryActions sample_libs (Some s_alice) s_agent (format_flow (s_flow 0 5 100)) = Some (u, d) \<and>
     requested (useDeleteFlow (Some None) s_agent ''0x1'' (da_superTokenAddress d) (da_entity d) (da_isOutgoing d) (da_isOwn d)) = [t] \<and>
     acts_on s_agent s_alice t = Some (s_token, s_alice, s_agent)"
proof -
  have "renderEntryActions sample_libs (Some s_alice) s_agent (format_flow (s_flow 0 5 100)) \<noteq> None" by code_simp
  then obtain u d where ud: "renderEntryActions sample_libs (Some s_alice) s_agent (format_flow (s_flow 0 5 100)) = Some (u, d)"
    by auto
  from row_menu_targets_flow [OF this, of None "''0x1''"] ud show ?thesis
    by (auto simp: s_flow_def format_flow_def)
qed

text \<open>
  What the actions request and when they close their panel. Creating and updating a flow
  requests one transaction, for the stream between the agent and the given account in the given
  direction, and always reports done, whatever becomes of the transaction. Deposits,
  withdrawals and conversions report done exactly when their transaction succeeded, and are
  rejected otherwise; a conversion of a token whose underlying asset is the native currency
  goes through the native functions, and any other upgrade asks for the approval of exactly
  the amount of the underlying token.
\<close>

theorem actions_outcome:
  "(\<exists>t. requested (useUpdateFlow (Some host) agent cfa token entity fr descr outgoing create) = [t] \<and>
      acts_on agent user t = Some (token, if outgoing then agent else user, if outgoing then entity else agent)) \<and>
   doneCalled (useUpdateFlow h agent cfa token entity fr descr outgoing create) \<and>
   doneCalled (useDeposit submit token amount ext) = isOk (submit (ApiDeposit token amount ext (token, amount))) \<and>
   doneCalled (useWithdraw submit token receiver amount) = isOk (submit (ApiWithdraw token receiver amount)) \<and>
   (doneCalled (useConvertTokens L app net submit oper token amount) \<longleftrightarrow>
      rejectedWith (useConvertTokens L app net submit oper token amount) = None) \<and>
   (doneCalled (useConvertTokens L app net submit oper token amount) \<longleftrightarrow>
      (\<exists>c underlying. app_external app (Some token) = Inr c \<and> call_getUnderlyingToken app c = Inr underlying \<and>
         (let native = isNativeSuperToken L (Some token) (net_id net) \<or> addr_eq L underlying ZERO_ADDRESS
          in case oper of
               UPGRADE \<Rightarrow> isOk (submit (if native then UpgradeByETH token amount else Upgrade token amount (underlying, amount)))
             | DOWNGRADE \<Rightarrow> isOk (submit (if native then DowngradeToETH token amount else Downgrade token amount))
             | UnknownOperation \<Rightarrow> False)))"
proof (intro conjI)
  show "\<exists>t. requested (useUpdateFlow (Some host) agent cfa token entity fr descr outgoing create) = [t] \<and>
      acts_on agent user t = Some (token, if outgoing then agent else user, if outgoing then entity else agent)"
    by (cases outgoing; cases create) (simp_all add: useUpdateFlow_def callAgreement_def Let_def)
qed (auto simp: useUpdateFlow_def useDeposit_def useWithdraw_def awaited_def useConvertTokens_def failed_def Let_def isOk_iff
    await_eq_Inl_iff split: sum.splits token_operation.splits if_splits)

section \<open>Panels\<close>

lemma panel_step_untimed:
  assumes "panel_step s e s'" and "ps_timers s = 0" and "e \<noteq> RequestClose" and "\<forall>p. e \<noteq> RequestOpen (Some p)"
  shows "ps_timers s' = 0 \<and> ps_presetParams s' = ps_presetParams s"
  using assms by (cases e) (auto elim!: panel_stepE)

lemma panel_run_untimed:
  assumes "panel_run s es s'" and "ps_timers s = 0" and "RequestClose \<notin> set es" and "\<forall>p. RequestOpen (Some p) \<notin> set es"
  shows "ps_timers s' = 0 \<and> ps_presetParams s' = ps_presetParams s"
  using assms
proof (induction rule: panel_run.induct)
  case (more s e s1 es s2)
  from panel_step_untimed [OF more(1)] more.prems have "ps_timers s1 = 0 \<and> ps_presetParams s1 = ps_presetParams s"
    by auto
  with more.IH more.prems show ?case by auto
qed simp

text \<open>
  C31. The parameters a panel is opened with stay until it is closed or opened anew, provided
  no reset of an earlier close is pending. With one pending they do not: opening the panel
  again within a second of a close lets the earlier reset take the parameters away while the
  panel is visible.
\<close>

theorem panel_presets:
  "(ps_timers s = 0 \<and> panel_run s (RequestOpen (Some p) # es) s' \<and> RequestClose \<notin> set es \<and>
      (\<forall>q. RequestOpen (Some q) \<notin> set es) \<longrightarrow> ps_presetParams s' = Preset p) \<and>
   (0 < ps_timers s \<longrightarrow>
      (\<exists>s'. panel_run s [RequestOpen (Some p), PresetTimer] s' \<and> ps_visible s' \<and> ps_presetParams s' = EmptyPreset))"
proof (intro conjI impI)
  assume *: "ps_timers s = 0 \<and> panel_run s (RequestOpen (Some p) # es) s' \<and> RequestClose \<notin> set es \<and>
      (\<forall>q. RequestOpen (Some q) \<notin> set es)"
  then obtain s1 where s1: "panel_step s (RequestOpen (Some p)) s1" "panel_run s1 es s'"
    by (auto simp: panel_run_Cons)
  then have "s1 = panel_handler s (RequestOpen (Some p))" by (auto elim: panel_stepE)
  with panel_run_untimed [OF s1(2)] * show "ps_presetParams s' = Preset p" by auto
next
  assume "0 < ps_timers s"
  let ?s1 = "panel_handler s (RequestOpen (Some p))"
  have "panel_step s (RequestOpen (Some p)) ?s1" by (rule panel_step.user) simp
  moreover have "panel_step ?s1 PresetTimer (panel_handler ?s1 PresetTimer)"
    by (rule panel_step.timer) (use \<open>0 < ps_timers s\<close> in simp)
  ultimately have "panel_run s [RequestOpen (Some p), PresetTimer] (panel_handler ?s1 PresetTimer)"
    by (blast intro: panel_run.intros)
  then show "\<exists>s'. panel_run s [RequestOpen (Some p), PresetTimer] s' \<and> ps_visible s' \<and> ps_presetParams s' = EmptyPreset"
    by (rule exI [of _ "panel_handler ?s1 PresetTimer", OF conjI]) simp
qed

theorem panel_presets_witness:
  "\<exists>s'. panel_run (panel_handler (initial_panel :: nat panel_state) RequestClose) [RequestOpen (Some 7), PresetTimer] s' \<and>
     ps_visible s' \<and> ps_presetParams s' = EmptyPreset"
  using panel_presets [of "panel_handler (initial_panel :: nat panel_state) RequestClose" 7 "[]" initial_panel]
  by (simp add: initial_panel_def)

end
