(* ===== verification/Conversion.thy ===== *)
theory Conversion
  imports App_State Decimal_Math
begin

text \<open>
  The conversion of token amounts to a currency (\<^verbatim>\<open>helpers/conversion.js\<close>), the hooks that
  fetch the rates and build the items of the token carousel (\<^verbatim>\<open>hooks/useConvertRates.js\<close>,
  \<^verbatim>\<open>hooks/useSuperTokenItems.js\<close>), and the warnings to the senders of incoming flows
  (\<^verbatim>\<open>components/IncomingFlowsWarnings.js\<close>).
\<close>

section \<open>Conversion\<close>

definition BASE_URL :: string where
  "BASE_URL = ''https://api.coingecko.com/api/v3/simple/token_price''"

definition DEFAULT_CURRENCY :: string where
  "DEFAULT_CURRENCY = ''usd''"

text \<open>\<open>None\<close> is \<^verbatim>\<open>undefined\<close>; upper-casing a missing symbol throws.\<close>

definition getNativeCurrencyContractEquivalent :: "string option \<Rightarrow> string option result" where
  "getNativeCurrencyContractEquivalent symbol =
     (case symbol of
        None \<Rightarrow> Inl TypeError
      | Some s \<Rightarrow> Inr
          (if toUpperCase s = ''ETH'' then Some ''0xc02aaa39b223fe8d0a0e5c4f27ead9083c756cc2''
           else if toUpperCase s = ''XDAI'' then Some ''0xe91d153e0b41518a2ce8dd3d7944fa863463a97d''
           else if toUpperCase s = ''MATIC'' then Some ''0x0000000000000000000000000000000000001010''
           else None))"

definition chainIdToAssetPlatform :: "int \<Rightarrow> string option" where
  "chainIdToAssetPlatform chainId =
     (if chainId = 1 \<or> chainId = 4 \<or> chainId = LOCAL_NETWORK_ID then Some ''ethereum''
      else if chainId = 100 then Some ''xdai''
      else if chainId = 137 \<or> chainId = 80001 then Some ''polygon-pos''
      else None)"

definition getConvertRatesUrl :: "string \<Rightarrow> string \<Rightarrow> int \<Rightarrow> string" where
  "getConvertRatesUrl tokenAddresses currencies chainId =
     (let assetPlatform = (case chainIdToAssetPlatform chainId of None \<Rightarrow> ''null'' | Some p \<Rightarrow> p)
      in BASE_URL @ ''/'' @ assetPlatform @ ''?vs_currencies='' @ currencies @ ''&contract_addresses='' @ tokenAddresses)"

definition getConvertRateToken :: "libs \<Rightarrow> view_token \<Rightarrow> bool \<Rightarrow> string option result" where
  "getConvertRateToken L superToken isTestNet =
     (if addr_eq L (ut_address (vt_underlyingToken superToken)) ZERO_ADDRESS
      then getNativeCurrencyContractEquivalent (ut_symbol (vt_underlyingToken superToken))
      else (let convertRateToken =
                  (if isTestNet then vt_mainnetTokenEquivalentAddress superToken
                   else Some (ut_address (vt_underlyingToken superToken)))
            in Inr (if truthy convertRateToken then map_option toLowerCase convertRateToken else None)))"

definition getConvertedAmount :: "libs \<Rightarrow> int \<Rightarrow> js_number \<Rightarrow> int result" where
  "getConvertedAmount L amount convertRate =
     (let (whole, dec) = split_dot (num_toString convertRate);
          parsedDec = strip_trailing_zeros dec;
          rate_text = strip_leading_zeros (whole @ parsedDec);
          carryAmount = length parsedDec;
          expCarryAmount = 10 ^ carryAmount;
          oneDecimal = 10 ^ 18
      in await (bn_fromString L rate_text) (\<lambda>rate_bn.
           Inr (bn_div L (amount * (rate_bn * oneDecimal)) (oneDecimal * expCarryAmount))))"

section \<open>Rates\<close>

text \<open>
  The rates by token address, each with its rate in the default currency if it has one.
  The hook keeps the rates, the delay before the next retry and whether a retry is scheduled.
\<close>

type_synonym rate_table = "(string \<times> js_number option) list"

record rates_state =
  rt_rates :: rate_table
  rt_retryDelay :: js_number
  rt_retryScheduled :: bool
  rt_cancelled :: bool

definition CONVERT_API_RETRY_DELAY :: js_number where
  "CONVERT_API_RETRY_DELAY = num_of_int 2000"

definition CONVERT_API_RETRY_DELAY_MAX :: js_number where
  "CONVERT_API_RETRY_DELAY_MAX = num_of_int 60000"

definition normalizedRates :: "rate_table \<Rightarrow> rate_table" where
  "normalizedRates rates_obj = foldl (\<lambda>newRates (key, v). dict_put (toLowerCase key) v newRates) [] rates_obj"

definition num_min :: "js_number \<Rightarrow> js_number \<Rightarrow> js_number" where
  "num_min a b = (if a = NaN \<or> b = NaN then NaN else if num_less b a then b else a)"

text \<open>The outcome of one run of \<^verbatim>\<open>update\<close>; \<open>response\<close> is what the request gave. The query
  values are \<open>None\<close> for \<^verbatim>\<open>null\<close>.\<close>

definition rates_update ::
  "string option \<Rightarrow> string \<Rightarrow> int option \<Rightarrow> rates_state \<Rightarrow> rate_table result \<Rightarrow> rates_state" where
  "rates_update tokenAddresses currencies chainId s response =
     (if \<not> truthy tokenAddresses \<or> currencies = [] \<or> chainId = None \<or> chainId = Some 0
      then s\<lparr> rt_rates := [] \<rparr>
      else if rt_cancelled s then s
      else (case response of
              Inr rates_obj \<Rightarrow> s\<lparr> rt_rates := normalizedRates rates_obj, rt_retryDelay := CONVERT_API_RETRY_DELAY \<rparr>
            | Inl _ \<Rightarrow> s\<lparr> rt_retryDelay := num_min CONVERT_API_RETRY_DELAY_MAX
                                (num_mul (rt_retryDelay s) (to_number ''1.2'')),
                          rt_retryScheduled := True \<rparr>))"

definition rates_cleanup :: "rates_state \<Rightarrow> rates_state" where
  "rates_cleanup s = s\<lparr> rt_cancelled := True, rt_retryScheduled := False, rt_retryDelay := CONVERT_API_RETRY_DELAY \<rparr>"

section \<open>The items of the carousel\<close>

record token_item =
  ti_token :: view_token
  ti_convertedAmount :: "int option"
  ti_convertedNetFlow :: "int option"

text \<open>The addresses asked for: those that are addresses. \<open>isTestNet\<close> is false without a network.\<close>

definition rate_addresses :: "libs \<Rightarrow> network option \<Rightarrow> view_token list \<Rightarrow> string list result" where
  "rate_addresses L network superTokens_list =
     (let isTestNet = (case network of None \<Rightarrow> False | Some n \<Rightarrow> isTestNetwork n)
      in await (map_result (\<lambda>t. getConvertRateToken L t isTestNet) superTokens_list) (\<lambda>addresses.
           Inr (List.map_filter (\<lambda>a. case a of None \<Rightarrow> None | Some s \<Rightarrow> if isAddress L s then Some s else None) addresses)))"

definition num_truthy :: "js_number \<Rightarrow> bool" where
  "num_truthy x \<longleftrightarrow> x \<noteq> NaN \<and> \<not> num_isZero x"

definition balance_item :: "libs \<Rightarrow> bool \<Rightarrow> rate_table \<Rightarrow> view_token \<Rightarrow> token_item result" where
  "balance_item L isTestNet convertRates t =
     await (getConvertRateToken L t isTestNet) (\<lambda>rateToken.
     (case (case rateToken of None \<Rightarrow> None | Some a \<Rightarrow> (case map_of convertRates a of None \<Rightarrow> None | Some r \<Rightarrow> r)) of
        None \<Rightarrow> Inr \<lparr> ti_token = t, ti_convertedAmount = None, ti_convertedNetFlow = None \<rparr>
      | Some conversionRate \<Rightarrow>
          if num_truthy conversionRate then
            await (getConvertedAmount L (vt_balance t) conversionRate) (\<lambda>convertedAmount.
            await (getConvertedAmount L (vt_netFlow t) conversionRate) (\<lambda>convertedNetFlow.
              Inr \<lparr> ti_token = t, ti_convertedAmount = Some convertedAmount,
                    ti_convertedNetFlow = Some convertedNetFlow \<rparr>))
          else Inr \<lparr> ti_token = t, ti_convertedAmount = None, ti_convertedNetFlow = None \<rparr>))"

definition useSuperTokenItems ::
  "libs \<Rightarrow> js_date \<Rightarrow> network option \<Rightarrow> rate_table \<Rightarrow> view_token list \<Rightarrow> token_item list result" where
  "useSuperTokenItems L now network convertRates superTokens_list =
     (let isTestNet = (case network of None \<Rightarrow> False | Some n \<Rightarrow> isTestNetwork n)
      in await (getAvailableSuperTokens L now superTokens_list) (\<lambda>available.
           map_result (balance_item L isTestNet convertRates) available))"

section \<open>Warnings\<close>

definition WARNING_THRESHOLD_DAYS :: int where
  "WARNING_THRESHOLD_DAYS = 15"

text \<open>An entry with its depletion date, \<^verbatim>\<open>undefined\<close> when it does not drain; the difference
  of an undefined date is \<^verbatim>\<open>NaN\<close>, which is below no threshold.\<close>

type_synonym warning = "view_sender_entry \<times> js_date option"

definition depletion_entry :: "libs \<Rightarrow> js_date \<Rightarrow> view_sender_entry \<Rightarrow> warning result" where
  "depletion_entry L now e =
     await (calculateDepletionDate L (vse_balance e) (vse_netFlow e) now (vse_lastUpdateDate e)) (\<lambda>d. Inr (e, d))"

definition as_date :: "js_date option \<Rightarrow> js_date" where
  "as_date d = (case d of None \<Rightarrow> InvalidDate | Some x \<Rightarrow> x)"

definition below_threshold :: "libs \<Rightarrow> js_date \<Rightarrow> warning \<Rightarrow> bool" where
  "below_threshold L now w =
     (case differenceInDays L (as_date (snd w)) now of None \<Rightarrow> False | Some n \<Rightarrow> n < WARNING_THRESHOLD_DAYS)"

definition compareWarnings :: "libs \<Rightarrow> warning \<Rightarrow> warning \<Rightarrow> int" where
  "compareWarnings L a b = (case compareAsc L (as_date (snd a)) (as_date (snd b)) of None \<Rightarrow> 0 | Some c \<Rightarrow> c)"

definition filteredSuperTokens :: "libs \<Rightarrow> js_date \<Rightarrow> view_sender_entry list \<Rightarrow> warning list result" where
  "filteredSuperTokens L now incomingFlowTokens =
     await (map_result (depletion_entry L now) incomingFlowTokens) (\<lambda>entries.
       Inr (js_sort (compareWarnings L) (filter (below_threshold L now) entries)))"

text \<open>The symbol a warning shows; a token that is not listed makes the component throw.\<close>

definition warning_symbol :: "libs \<Rightarrow> view_token list \<Rightarrow> warning \<Rightarrow> (string \<times> js_date option) result" where
  "warning_symbol L superTokens_list w =
     (case find (\<lambda>t. addressesEqual L (vt_address t) (Some (vse_address (fst w)))) superTokens_list of
        None \<Rightarrow> Inl TypeError
      | Some t \<Rightarrow> Inr (vt_symbol t, snd w))"

definition IncomingFlowsWarnings ::
  "libs \<Rightarrow> js_date \<Rightarrow> view_sender_entry list \<Rightarrow> view_token list \<Rightarrow> (string \<times> js_date option) list result" where
  "IncomingFlowsWarnings L now incomingFlowTokens superTokens_list =
     await (filteredSuperTokens L now incomingFlowTokens) (map_result (warning_symbol L superTokens_list))"

section \<open>Lemmas\<close>

definition dated :: "warning \<Rightarrow> bool" where
  "dated w \<longleftrightarrow> (\<exists>d. snd w = Some (Date d))"

lemma compareWarnings_le:
  assumes "dates_ordered L" and "snd v = Some (Date a)" and "snd w = Some (Date b)"
  shows "compareWarnings L v w \<le> 0 \<longleftrightarrow> a \<le> b"
  using assms by (auto simp: compareWarnings_def as_date_def dates_ordered_def)

interpretation warnings: comparator "compareWarnings L" "\<lambda>w. dates_ordered L \<and> dated w" for L
  by unfold_locales (auto simp: dated_def compareWarnings_le)

lemma below_threshold_dated:
  assumes "days_of_invalid L" and "below_threshold L now w"
  shows "dated w"
proof (cases "snd w")
  case None
  with assms show ?thesis by (simp add: below_threshold_def as_date_def days_of_invalid_def)
next
  case (Some d)
  with assms show ?thesis by (cases d) (auto simp: below_threshold_def as_date_def days_of_invalid_def dated_def)
qed

end
