(* ===== verification/Conversion_Properties.thy ===== *)
theory Conversion_Properties
  imports Conversion Samples
begin

text \<open>
  The properties of currency conversion and of the warnings to senders.
\<close>

section \<open>Helper lemmas\<close>

lemma trunc_div_cancel: "0 < c \<Longrightarrow> trunc_div (a * c) (b * c) = trunc_div a b"
  by (simp add: trunc_div_def sgn_mult abs_mult)

lemma filteredSuperTokens_Inr:
  assumes "filteredSuperTokens L now es = Inr ws"
  shows "w \<in> set ws \<longleftrightarrow> (\<exists>e \<in> set es. depletion_entry L now e = Inr w \<and> below_threshold L now w)"
proof -
  from assms obtain entries where e: "list_all2 (\<lambda>x y. depletion_entry L now x = Inr y) es entries"
    "ws = js_sort (compareWarnings L) (filter (below_threshold L now) entries)"
    by (auto simp: filteredSuperTokens_def map_result_Inr)
  have "w \<in> set entries \<longleftrightarrow> (\<exists>x \<in> set es. depletion_entry L now x = Inr w)"
    using e(1) by (induction rule: list_all2_induct) auto
  with e(2) show ?thesis by auto
qed

section \<open>Conversion\<close>

text \<open>
  The converted amount is exact up to the last unit: for a rate that JavaScript prints as
  plain decimal digits, \<^verbatim>\<open>getConvertedAmount\<close> gives the amount times the rate, truncated
  towards zero, with no loss from the intermediate steps.
\<close>

theorem converted_amount_exact:
  assumes "bn_div_truncates L" and "bn_fromString_decimal L"
    and "num_toString r = ds @ (if fs = [] then [] else CHR ''.'' # fs)"
    and "list_all is_digit ds" and "list_all is_digit fs" and "dec_val (ds @ fs) \<noteq> 0"
  shows "getConvertedAmount L amount r = Inr (trunc_div (amount * dec_val (ds @ fs)) (10 ^ length fs))"
proof -
  define p where "p = strip_trailing_zeros fs"
  obtain k where k: "fs = p @ replicate k (CHR ''0'')" using strip_trailing_split p_def by blast
  have val: "dec_val (ds @ fs) = dec_val (ds @ p) * 10 ^ k" "length fs = length p + k"
    using dec_val_append [of "ds @ p" "replicate k (CHR ''0'')"] unfolding k by simp_all
  have "split_dot (num_toString r) = (ds, fs)"
    using assms(3-5) by (auto simp: split_dot_plain split_dot_point)
  moreover have "bn_fromString L (strip_leading_zeros (ds @ p)) = Inr (dec_val (ds @ p))"
  proof -
    have "list_all is_digit (ds @ p)" using assms(4,5) by (simp add: p_def)
    moreover have "strip_leading_zeros (ds @ p) \<noteq> []"
      using dec_val_strip_leading [of "ds @ p"] assms(6) val(1) by (metis dec_val_Nil mult_zero_left)
    ultimately show ?thesis
      using assms(2) strip_digits(1) [of "ds @ p"] by (simp add: bn_fromString_decimal_def)
  qed
  ultimately have "getConvertedAmount L amount r =
      Inr (trunc_div (amount * dec_val (ds @ p) * 10 ^ 18) (10 ^ length p * 10 ^ 18))"
    using assms(1) by (simp add: getConvertedAmount_def Let_def p_def bn_div_truncates_def mult.assoc mult.commute)
  also have "\<dots> = Inr (trunc_div (amount * dec_val (ds @ p) * 10 ^ k) (10 ^ length p * 10 ^ k))"
    by (simp only: trunc_div_cancel zero_less_power zero_less_numeral)
  finally show ?thesis using val by (simp add: power_add mult.assoc)
qed

theorem converted_amount_exact_witness:
  "getConvertedAmount sample_libs 1000 (to_number ''1.25'') = Inr 1250"
proof -
  have "num_toString (to_number ''1.25'') = ''1.25''" "list_all is_digit ''1''" "list_all is_digit ''25''"
    "dec_val (''1'' @ ''25'') = 125"
    by code_simp+
  then show ?thesis
    using converted_amount_exact [of sample_libs "to_number ''1.25''" "''1''" "''25''" 1000]
    by (simp add: trunc_div_def)
qed

section \<open>Warnings\<close>

text \<open>
  C33. The warnings name exactly the tokens about to run out, in the order in which they do: an
  entry of the sender is listed if and only if its balance drains and the date it runs dry is
  less than 15 days away, and the list is sorted by that date.
\<close>

theorem warnings_exact:
  assumes "days_of_invalid L" and "dates_ordered L" and "filteredSuperTokens L now es = Inr ws"
  shows "(\<forall>w. w \<in> set ws \<longleftrightarrow> (\<exists>e \<in> set es. \<exists>d n. w = (e, Some (Date d)) \<and> vse_netFlow e < 0 \<and>
      calculateDepletionDate L (vse_balance e) (vse_netFlow e) now (vse_lastUpdateDate e) = Inr (Some (Date d)) \<and>
      differenceInDays L (Date d) now = Some n \<and> n < 15)) \<and>
    sorted_wrt (\<lambda>v w. \<exists>a b. snd v = Some (Date a) \<and> snd w = Some (Date b) \<and> a \<le> b) ws"
proof (intro conjI allI)
  fix w
  have "depletion_entry L now e = Inr w \<and> below_threshold L now w \<longleftrightarrow>
      (\<exists>d n. w = (e, Some (Date d)) \<and> vse_netFlow e < 0 \<and>
      calculateDepletionDate L (vse_balance e) (vse_netFlow e) now (vse_lastUpdateDate e) = Inr (Some (Date d)) \<and>
      differenceInDays L (Date d) now = Some n \<and> n < 15)" for e
  proof (cases "dated w")
    case True
    then obtain d where d: "snd w = Some (Date d)" by (auto simp: dated_def)
    have neg: "vse_netFlow e < 0" if "calculateDepletionDate L (vse_balance e) (vse_netFlow e) now (vse_lastUpdateDate e) = Inr (Some x)" for x
      using that by (auto simp: calculateDepletionDate_def split: if_splits)
    from d show ?thesis
      by (cases w) (auto simp: depletion_entry_def below_threshold_def as_date_def WARNING_THRESHOLD_DAYS_def
          intro: neg split: option.splits)
  next
    case False
    then have "\<not> below_threshold L now w" using below_threshold_dated [OF assms(1)] by blast
    with False show ?thesis by (auto simp: dated_def)
  qed
  then show "w \<in> set ws \<longleftrightarrow> (\<exists>e \<in> set es. \<exists>d n. w = (e, Some (Date d)) \<and> vse_netFlow e < 0 \<and>
      calculateDepletionDate L (vse_balance e) (vse_netFlow e) now (vse_lastUpdateDate e) = Inr (Some (Date d)) \<and>
      differenceInDays L (Date d) now = Some n \<and> n < 15)"
    unfolding filteredSuperTokens_Inr [OF assms(3)] by (simp only:)
next
  have dated: "\<forall>w \<in> set ws. dated w"
    using filteredSuperTokens_Inr [OF assms(3)] below_threshold_dated [OF assms(1)] by blast
  obtain xs where xs: "ws = js_sort (compareWarnings L) xs"
    using assms(3) by (auto simp: filteredSuperTokens_def)
  have "sorted_wrt (\<lambda>v w. compareWarnings L v w \<le> 0) ws"
    unfolding xs
  proof (rule warnings.sorted_js_sort)
    show "\<forall>w \<in> set xs. dates_ordered L \<and> dated w" using dated assms(2) unfolding xs by simp
  qed
  then show "sorted_wrt (\<lambda>v w. \<exists>a b. snd v = Some (Date a) \<and> snd w = Some (Date b) \<and> a \<le> b) ws"
  proof (rule sorted_wrt_mono_rel [rotated])
    fix v w assume vw: "v \<in> set ws" "w \<in> set ws" "compareWarnings L v w \<le> 0"
    obtain a b where "snd v = Some (Date a)" "snd w = Some (Date b)"
      using vw(1,2) dated unfolding dated_def by blast
    then show "\<exists>a b. snd v = Some (Date a) \<and> snd w = Some (Date b) \<and> a \<le> b"
      using compareWarnings_le [OF assms(2)] vw(3) by blast
  qed
qed

theorem warnings_exact_witness:
  "\<exists>ws. filteredSuperTokens sample_libs (Date 0)
      [\<lparr> vse_address = s_token, vse_balance = 100, vse_lastUpdateDate = Date 0, vse_netFlow = 5 \<rparr>] = Inr ws \<and> ws = []"
proof -
  let ?e = "\<lparr> vse_address = s_token, vse_balance = 100, vse_lastUpdateDate = Date 0, vse_netFlow = 5 \<rparr>"
  have "isOk (filteredSuperTokens sample_libs (Date 0) [?e])" by code_simp
  then obtain ws where ws: "filteredSuperTokens sample_libs (Date 0) [?e] = Inr ws" by blast
  have "w \<notin> set ws" for w
    using warnings_exact [OF sample_libs_documented(5,6) ws] by auto
  then have "ws = []" by (cases ws) auto
  with ws show ?thesis by blast
qed

end
