(* ===== verification/Panels.thy ===== *)
theory Panels
  imports App_Logic Decimal_Math
begin

text \<open>
  The forms of the side panels: the amount input (\<^verbatim>\<open>AmountInput.js\<close>), the token selector
  (\<^verbatim>\<open>TokenSelector/index.js\<close>) and the panels for deposits and withdrawals
  (\<^verbatim>\<open>Transfer/Deposit.js\<close>, \<^verbatim>\<open>Transfer/Withdrawal.js\<close>) and for conversions
  (\<^verbatim>\<open>Convert/Upgrade.js\<close>, \<^verbatim>\<open>Convert/Downgrade.js\<close>). The state of a form is a record, a
  handler gives the next state, and submitting gives an error message to show or the
  arguments of the action.
\<close>

section \<open>Amounts typed\<close>

text \<open>Whether the input takes over a text: the others leave the amount as it was.\<close>

definition amount_accepted :: "string \<Rightarrow> bool" where
  "amount_accepted value_text \<longleftrightarrow>
     value_text = [] \<or> \<not> isNaN_string value_text \<and> num_le (Fin 0 0) (to_number value_text)"

section \<open>The token selector\<close>

datatype token_error = INVALID_TOKEN_ERROR | NO_TOKEN_BALANCE_ERROR | FETCH_TOKEN_ERROR

text \<open>The selected token; the fields of its data are \<^verbatim>\<open>undefined\<close> until they are known.\<close>

record selected_token =
  sel_index :: int
  sel_address :: string
  sel_decimals :: "js_amount option"
  sel_name :: "string option"
  sel_symbol :: "string option"
  sel_userBalance :: "js_amount option"
  sel_loadingData :: bool
  sel_error :: "token_error option"

definition CUSTOM_TOKEN_INDEX :: int where
  "CUSTOM_TOKEN_INDEX = - 1"

definition INITIAL_SELECTED_TOKEN :: selected_token where
  "INITIAL_SELECTED_TOKEN = \<lparr> sel_index = - 2, sel_address = [], sel_decimals = None, sel_name = None,
     sel_symbol = None, sel_userBalance = None, sel_loadingData = False, sel_error = None \<rparr>"

text \<open>What the selector reads of the tokens it is given.\<close>

record selectable =
  sb_address :: "string option"
  sb_decimals :: "js_amount option"
  sb_name :: "string option"
  sb_symbol :: "string option"

definition super_selectable :: "view_token \<Rightarrow> selectable" where
  "super_selectable t = \<lparr> sb_address = vt_address t, sb_decimals = Some (JNum (vt_decimals t)),
     sb_name = Some (vt_name t), sb_symbol = Some (vt_symbol t) \<rparr>"

definition underlyingTokens :: "view_token list \<Rightarrow> selectable list" where
  "underlyingTokens superTokens_list =
     map (\<lambda>t. \<lparr> sb_address = Some (ut_address (vt_underlyingToken t)),
                sb_decimals = map_option JNum (vt_underlyingDecimals t),
                sb_name = ut_name (vt_underlyingToken t),
                sb_symbol = ut_symbol (vt_underlyingToken t) \<rparr>) superTokens_list"

definition toTokenItemsIndex :: "int \<Rightarrow> bool \<Rightarrow> int" where
  "toTokenItemsIndex index allowCustomToken = (if allowCustomToken then index + 1 else index)"

definition fromTokenItemsIndex :: "int \<Rightarrow> bool \<Rightarrow> int" where
  "fromTokenItemsIndex index allowCustomToken = (if allowCustomToken then index - 1 else index)"

definition customTokenEnabled :: "selected_token \<Rightarrow> bool \<Rightarrow> bool" where
  "customTokenEnabled selectedToken allowCustomToken \<longleftrightarrow>
     allowCustomToken \<and> toTokenItemsIndex (sel_index selectedToken) allowCustomToken = 0"

text \<open>The token a choice in the menu selects; a listed token without an address would have
  \<^verbatim>\<open>undefined\<close> for it, which is falsy like the empty string.\<close>

definition handleDropDownChange :: "selectable list \<Rightarrow> bool \<Rightarrow> bool \<Rightarrow> int \<Rightarrow> selected_token" where
  "handleDropDownChange tokens allowCustomToken loadUserBalance index =
     (let tokenIndex = fromTokenItemsIndex index allowCustomToken in
      case js_nth tokens tokenIndex of
        None \<Rightarrow> INITIAL_SELECTED_TOKEN\<lparr> sel_index := tokenIndex, sel_loadingData := loadUserBalance \<rparr>
      | Some token \<Rightarrow> \<lparr> sel_index = tokenIndex,
          sel_address = (case sb_address token of None \<Rightarrow> [] | Some a \<Rightarrow> a),
          sel_decimals = sb_decimals token, sel_name = sb_name token, sel_symbol = sb_symbol token,
          sel_userBalance = None, sel_loadingData = loadUserBalance, sel_error = None \<rparr>)"

definition handleCustomTokenAddressChange :: "string \<Rightarrow> selected_token" where
  "handleCustomTokenAddressChange value_text =
     INITIAL_SELECTED_TOKEN\<lparr> sel_index := CUSTOM_TOKEN_INDEX, sel_address := value_text, sel_loadingData := True \<rparr>"

definition falsy_or_zero_balance :: "js_amount option \<Rightarrow> bool" where
  "falsy_or_zero_balance b =
     (case b of None \<Rightarrow> True | Some (JNum n) \<Rightarrow> n = 0 | Some (JDec n) \<Rightarrow> n = 0)"

text \<open>The two stages of the \<^verbatim>\<open>try\<close> block of \<^verbatim>\<open>fetchTokenData\<close>: the data of a custom token, then the
  balance; a stage that fails leaves the token as the one before it made it.\<close>

definition fetch_data ::
  "libs \<Rightarrow> app_api \<Rightarrow> network \<Rightarrow> string \<Rightarrow> bool \<Rightarrow> selected_token \<Rightarrow> selected_token result" where
  "fetch_data L app network processedAddress isCustomToken updatedToken =
     (if isCustomToken then
        await (loadTokenData L app processedAddress (Some network)) (\<lambda>(decimals, name, symbol).
          Inr (updatedToken\<lparr> sel_decimals := decimals, sel_name := name, sel_symbol := symbol,
                 sel_userBalance := None \<rparr>))
      else Inr updatedToken)"

definition fetch_balance ::
  "libs \<Rightarrow> app_api \<Rightarrow> bool \<Rightarrow> string \<Rightarrow> string \<Rightarrow> selected_token \<Rightarrow> selected_token result" where
  "fetch_balance L app loadUserBalance processedAddress holder updatedToken =
     (if loadUserBalance then
        await (loadTokenHolderBalance L app processedAddress holder) (\<lambda>userBalance.
          Inr (updatedToken\<lparr> sel_userBalance := Some userBalance \<rparr>))
      else Inr updatedToken)"

definition fetch_stages ::
  "libs \<Rightarrow> app_api \<Rightarrow> network \<Rightarrow> bool \<Rightarrow> string \<Rightarrow> string \<Rightarrow> bool \<Rightarrow> selected_token \<Rightarrow> selected_token" where
  "fetch_stages L app network loadUserBalance processedAddress holder isCustomToken updatedToken =
     (case fetch_data L app network processedAddress isCustomToken updatedToken of
        Inl _ \<Rightarrow> updatedToken\<lparr> sel_error := Some FETCH_TOKEN_ERROR \<rparr>
      | Inr withData \<Rightarrow>
          (case fetch_balance L app loadUserBalance processedAddress holder withData of
             Inl _ \<Rightarrow> withData\<lparr> sel_error := Some FETCH_TOKEN_ERROR \<rparr>
           | Inr withBalance \<Rightarrow>
               if falsy_or_zero_balance (sel_userBalance withBalance)
               then withBalance\<lparr> sel_error := Some NO_TOKEN_BALANCE_ERROR \<rparr>
               else withBalance))"

text \<open>
  \<^verbatim>\<open>fetchTokenData\<close>: the token it passes to \<^verbatim>\<open>onChange\<close>, or the error its promise is rejected
  with. Only \<^verbatim>\<open>processCustomToken\<close> runs outside of the \<^verbatim>\<open>try\<close> block.
\<close>

definition fetchTokenData ::
  "libs \<Rightarrow> app_api \<Rightarrow> network \<Rightarrow> (string \<Rightarrow> string result) \<Rightarrow> bool \<Rightarrow> string \<Rightarrow> selected_token \<Rightarrow> string \<Rightarrow> bool \<Rightarrow>
     selected_token result" where
  "fetchTokenData L app network processCustomToken loadUserBalance address selectedToken holder isCustomToken =
     (if isCustomToken \<and> \<not> isSuperToken app address
      then Inr (selectedToken\<lparr> sel_loadingData := False, sel_error := Some INVALID_TOKEN_ERROR \<rparr>)
      else await (if isCustomToken then processCustomToken address else Inr address) (\<lambda>processedAddress.
        Inr (fetch_stages L app network loadUserBalance processedAddress holder isCustomToken
          (selectedToken\<lparr> sel_address := address, sel_loadingData := False \<rparr>))))"

text \<open>The effect of the selector: nothing, or a call of \<^verbatim>\<open>fetchTokenData\<close>.\<close>

definition selector_effect ::
  "libs \<Rightarrow> app_api \<Rightarrow> network \<Rightarrow> (string \<Rightarrow> string result) \<Rightarrow> bool \<Rightarrow> string option \<Rightarrow> string \<Rightarrow> selected_token \<Rightarrow>
     selected_token result option" where
  "selector_effect L app network processCustomToken loadUserBalance connectedAccount customTokenAddress selectedToken =
     (let isCustomToken = (customTokenAddress \<noteq> [] \<and> sel_index selectedToken = CUSTOM_TOKEN_INDEX);
          tokenAddress = (if isCustomToken then customTokenAddress else sel_address selectedToken)
      in if \<not> sel_loadingData selectedToken \<or> tokenAddress = [] \<or> \<not> isAddress L tokenAddress \<or> \<not> truthy connectedAccount
         then None
         else Some (fetchTokenData L app network processCustomToken loadUserBalance tokenAddress selectedToken
                      (case connectedAccount of None \<Rightarrow> [] | Some a \<Rightarrow> a) isCustomToken))"

section \<open>Forms with a token and an amount\<close>

record token_form =
  tf_token :: selected_token
  tf_recipient :: string
  tf_amount :: string
  tf_error :: string

definition clear_form :: token_form where
  "clear_form = \<lparr> tf_token = INITIAL_SELECTED_TOKEN, tf_recipient = [], tf_amount = [], tf_error = [] \<rparr>"

datatype form_event =
    SelectToken selected_token
  | SetRecipient string
  | SetAmount string
  | MaxAmount
  | Unmount

text \<open>The decimals as \<^verbatim>\<open>fromDecimals\<close> and \<^verbatim>\<open>toDecimals\<close> take them: 18 when undefined.\<close>

definition decimals_arg :: "js_amount option \<Rightarrow> nat" where
  "decimals_arg d = (case d of None \<Rightarrow> 18 | Some v \<Rightarrow> nat (amount_int v))"

definition amount_text :: "js_amount \<Rightarrow> num_arg" where
  "amount_text v = (case v of JDec n \<Rightarrow> ArgStr (show_int n) | JNum n \<Rightarrow> ArgNum (num_of_int n))"

text \<open>Without decimals (\<^verbatim>\<open>undefined\<close>, or the number 0), or without a balance, the button does
  nothing.\<close>

definition handleMaxAmount :: "libs \<Rightarrow> token_form \<Rightarrow> token_form" where
  "handleMaxAmount L s =
     (case (sel_decimals (tf_token s), sel_userBalance (tf_token s)) of
        (Some decimals, Some userBalance) \<Rightarrow>
          if decimals = JNum 0 \<or> falsy_or_zero_balance (Some userBalance) then s
          else s\<lparr> tf_amount := fromDecimals L (amount_text userBalance) (decimals_arg (Some decimals)) True \<rparr>
      | _ \<Rightarrow> s)"

text \<open>Each panel's handlers; every change but that by the maximum button removes the error.\<close>

fun deposit_handler :: "libs \<Rightarrow> token_form \<Rightarrow> form_event \<Rightarrow> token_form" where
  "deposit_handler L s (SelectToken token) = s\<lparr> tf_token := token, tf_error := [] \<rparr>"
| "deposit_handler L s (SetAmount amount) = s\<lparr> tf_amount := amount, tf_error := [] \<rparr>"
| "deposit_handler L s MaxAmount = handleMaxAmount L s"
| "deposit_handler L s Unmount = clear_form"
| "deposit_handler L s (SetRecipient recipient) = s"

fun upgrade_handler :: "libs \<Rightarrow> token_form \<Rightarrow> form_event \<Rightarrow> token_form" where
  "upgrade_handler L s (SelectToken token) = s\<lparr> tf_token := token, tf_error := [] \<rparr>"
| "upgrade_handler L s (SetAmount amount) = s\<lparr> tf_amount := amount, tf_error := [] \<rparr>"
| "upgrade_handler L s MaxAmount = handleMaxAmount L s"
| "upgrade_handler L s Unmount = clear_form"
| "upgrade_handler L s (SetRecipient recipient) = s"

fun downgrade_handler :: "libs \<Rightarrow> token_form \<Rightarrow> form_event \<Rightarrow> token_form" where
  "downgrade_handler L s (SelectToken token) = s\<lparr> tf_token := token, tf_error := [] \<rparr>"
| "downgrade_handler L s (SetAmount amount) = s\<lparr> tf_amount := amount, tf_error := [] \<rparr>"
| "downgrade_handler L s MaxAmount = handleMaxAmount L s"
| "downgrade_handler L s Unmount = clear_form"
| "downgrade_handler L s (SetRecipient recipient) = s"

fun withdrawal_handler :: "token_form \<Rightarrow> form_event \<Rightarrow> token_form" where
  "withdrawal_handler s (SelectToken token) = s\<lparr> tf_token := token, tf_error := [] \<rparr>"
| "withdrawal_handler s (SetRecipient recipient) = s\<lparr> tf_recipient := recipient, tf_error := [] \<rparr>"
| "withdrawal_handler s (SetAmount amount) = s\<lparr> tf_amount := amount, tf_error := [] \<rparr>"
| "withdrawal_handler s Unmount = clear_form"
| "withdrawal_handler s MaxAmount = s"

text \<open>Whether the submit button is disabled.\<close>

definition form_disabled :: "token_form \<Rightarrow> bool" where
  "form_disabled s \<longleftrightarrow> tf_error s \<noteq> [] \<or> sel_address (tf_token s) = [] \<or> tf_amount s = []"

definition withdrawal_disabled :: "token_form \<Rightarrow> bool" where
  "withdrawal_disabled s \<longleftrightarrow> tf_error s \<noteq> [] \<or> tf_recipient s = [] \<or> sel_address (tf_token s) = [] \<or> tf_amount s = []"

text \<open>The first complaint about the token and the amount; the wording depends on the panel.\<close>

definition validate_token_fields ::
  "libs \<Rightarrow> string \<Rightarrow> string \<Rightarrow> selected_token \<Rightarrow> string \<Rightarrow> string option" where
  "validate_token_fields L no_balance bad_address token amount =
     (if sel_error token = Some INVALID_TOKEN_ERROR
      then Some ''Super Token address provided must be a valid Super Token contract.''
      else if sel_error token = Some NO_TOKEN_BALANCE_ERROR then Some no_balance
      else if \<not> isAddress L (sel_address token) then Some bad_address
      else if num_le (to_number amount) (Fin 0 0) then Some ''Amount provided can't be negative nor zero.''
      else None)"

definition deposit_validateFields :: "libs \<Rightarrow> selected_token \<Rightarrow> string \<Rightarrow> string option" where
  "deposit_validateFields L = validate_token_fields L ''You don't have super tokens to deposit.''
     ''Super Token address must be a valid Ethereum address.''"

definition upgrade_validateFields :: "libs \<Rightarrow> selected_token \<Rightarrow> string \<Rightarrow> string option" where
  "upgrade_validateFields L = validate_token_fields L ''You don't have tokens to upgrade.''
     ''Token address must be a valid Ethereum address.''"

definition downgrade_validateFields :: "libs \<Rightarrow> selected_token \<Rightarrow> string \<Rightarrow> string option" where
  "downgrade_validateFields L = validate_token_fields L ''You don't have super tokens to downgrade.''
     ''Super Token address must be a valid Ethereum address.''"

definition withdrawal_validateFields :: "libs \<Rightarrow> string \<Rightarrow> string \<Rightarrow> string option" where
  "withdrawal_validateFields L recipient amount =
     (if \<not> isAddress L recipient then Some ''Recipient must be a valid Ethereum address.''
      else if num_le (to_number amount) (Fin 0 0) then Some ''Amount provided can't be negative nor zero.''
      else None)"

text \<open>The outcome of submitting: the form with an error message, or the arguments of the action.\<close>

datatype 'a submission = ShowError token_form | Submitted 'a

definition submit_form :: "libs \<Rightarrow> string option \<Rightarrow> token_form \<Rightarrow> (string \<Rightarrow> 'a result) \<Rightarrow> 'a submission result" where
  "submit_form L complaint s k =
     (case complaint of
        Some message \<Rightarrow> Inr (ShowError (s\<lparr> tf_error := message \<rparr>))
      | None \<Rightarrow>
          await (toDecimals L (ArgStr (tf_amount s)) (decimals_arg (sel_decimals (tf_token s))) True) (\<lambda>adjustedAmount.
          await (k adjustedAmount) (\<lambda>args. Inr (Submitted args))))"

definition deposit_handleSubmit :: "libs \<Rightarrow> token_form \<Rightarrow> (string \<times> string \<times> bool) submission result" where
  "deposit_handleSubmit L s =
     submit_form L (deposit_validateFields L (tf_token s) (tf_amount s)) s (\<lambda>adjustedAmount.
       Inr (sel_address (tf_token s), adjustedAmount, True))"

definition withdrawal_handleSubmit :: "libs \<Rightarrow> token_form \<Rightarrow> (string \<times> string \<times> string) submission result" where
  "withdrawal_handleSubmit L s =
     submit_form L (withdrawal_validateFields L (tf_recipient s) (tf_amount s)) s (\<lambda>adjustedAmount.
       Inr (sel_address (tf_token s), tf_recipient s, adjustedAmount))"

definition downgrade_handleSubmit :: "libs \<Rightarrow> token_form \<Rightarrow> (token_operation \<times> string \<times> string) submission result" where
  "downgrade_handleSubmit L s =
     submit_form L (downgrade_validateFields L (tf_token s) (tf_amount s)) s (\<lambda>adjustedAmount.
       Inr (DOWNGRADE, sel_address (tf_token s), adjustedAmount))"

text \<open>The selected token of an upgrade is the underlying one; a listed token's super token has
  the same index.\<close>

definition upgrade_handleSubmit ::
  "libs \<Rightarrow> view_token list \<Rightarrow> token_form \<Rightarrow> (token_operation \<times> string option \<times> string) submission result" where
  "upgrade_handleSubmit L superTokens_list s =
     submit_form L (upgrade_validateFields L (tf_token s) (tf_amount s)) s (\<lambda>adjustedAmount.
       await (if sel_index (tf_token s) = - 1 then Inr (Some (sel_address (tf_token s)))
              else (case js_nth superTokens_list (sel_index (tf_token s)) of
                      None \<Rightarrow> Inl TypeError
                    | Some t \<Rightarrow> Inr (vt_address t))) (\<lambda>address.
         Inr (UPGRADE, address, adjustedAmount)))"

definition processCustomSuperToken :: "app_api \<Rightarrow> string \<Rightarrow> string result" where
  "processCustomSuperToken app address =
     await (app_external app (Some address)) (call_getUnderlyingToken app)"

text \<open>The token that the preset of the deposit panel selects; one that is not listed throws.\<close>

definition findSuperTokenByAddress :: "libs \<Rightarrow> string \<Rightarrow> view_token list \<Rightarrow> bool \<Rightarrow> selected_token result" where
  "findSuperTokenByAddress L address superTokens_list loading =
     (case findIndex (\<lambda>t. addressesEqual L (vt_address t) (Some address)) superTokens_list of
        None \<Rightarrow> Inl TypeError
      | Some i \<Rightarrow> (let superToken = superTokens_list ! i in
          Inr \<lparr> sel_index = int i, sel_address = (case vt_address superToken of None \<Rightarrow> [] | Some a \<Rightarrow> a),
                sel_decimals = Some (JNum (vt_decimals superToken)), sel_name = Some (vt_name superToken),
                sel_symbol = Some (vt_symbol superToken), sel_userBalance = None, sel_loadingData = loading,
                sel_error = None \<rparr>))"

definition deposit_preset :: "libs \<Rightarrow> string option \<Rightarrow> view_token list \<Rightarrow> token_form \<Rightarrow> token_form result" where
  "deposit_preset L presetTokenAddress superTokens_list s =
     (if \<not> truthy presetTokenAddress then Inr s
      else await (findSuperTokenByAddress L (the presetTokenAddress) superTokens_list True) (\<lambda>token.
        Inr (s\<lparr> tf_token := token \<rparr>)))"

end
