(* ===== verification/Update_Flow.thy ===== *)
theory Update_Flow
  imports Panels
begin

text \<open>
  The panel that creates and updates flows (\<^verbatim>\<open>UpdateFlow/index.js\<close>), its field for the rate
  (\<^verbatim>\<open>FlowRateField.js\<close>), its boxes (\<^verbatim>\<open>InfoBoxes.js\<close>) and the helpers on rates and deposits
  (\<^verbatim>\<open>helpers/superfluid.js\<close>). Rates typed by the user are texts of numbers of tokens per
  second; the arithmetic on them is that of IEEE doubles.
\<close>

section \<open>Rates and deposits\<close>

definition calculateNewFlowRate :: "libs \<Rightarrow> view_flow option \<Rightarrow> string \<Rightarrow> string" where
  "calculateNewFlowRate L existing flowRate_text =
     (case existing of
        Some f \<Rightarrow> num_toString (num_add (to_number (fromDecimals L (ArgBN (vf_flowRate f)) 18 True)) (to_number flowRate_text))
      | None \<Rightarrow> flowRate_text)"

definition toMonthlyRate :: "libs \<Rightarrow> num_arg \<Rightarrow> js_number result" where
  "toMonthlyRate L flowRate_arg =
     await (case flowRate_arg of
              ArgBN n \<Rightarrow> await (bn_toNumber L n) (\<lambda>m. Inr (num_of_int m))
            | ArgStr s \<Rightarrow> Inr (to_number s)
            | ArgNum x \<Rightarrow> Inr x) (\<lambda>normalizedFlowRate.
     Inr (num_mul normalizedFlowRate (num_of_int MONTH)))"

text \<open>\<open>None\<close> is \<^verbatim>\<open>undefined\<close>.\<close>

definition calculateRequiredDeposit :: "string \<Rightarrow> int \<Rightarrow> js_number option" where
  "calculateRequiredDeposit flowRate_text liquidationPeriod =
     (if flowRate_text = [] \<or> isNaN_string flowRate_text \<or> liquidationPeriod = 0 then None
      else Some (num_mul (to_number flowRate_text) (num_of_int liquidationPeriod)))"

section \<open>The field for the rate\<close>

definition RATE_IN_SECONDS :: "int list" where
  "RATE_IN_SECONDS = [HOUR, DAY, WEEK, MONTH, YEAR]"

definition DEFAULT_RATE_ITEM :: nat where
  "DEFAULT_RATE_ITEM = 3"

definition per_second :: "string \<Rightarrow> nat \<Rightarrow> js_number" where
  "per_second value_text item =
     (if item < length RATE_IN_SECONDS then num_div (to_number value_text) (num_of_int (RATE_IN_SECONDS ! item)) else NaN)"

text \<open>The text shown below the field.\<close>

definition computeFlowRate :: "string \<Rightarrow> nat \<Rightarrow> string result" where
  "computeFlowRate value_text item = num_toFixed (per_second value_text item) 8"

record rate_field =
  rf_selectedRate :: nat
  rf_rateValue :: string

definition initial_rate_field :: rate_field where
  "initial_rate_field = \<lparr> rf_selectedRate = DEFAULT_RATE_ITEM, rf_rateValue = [] \<rparr>"

datatype rate_event = RateInput string | RateDropdown nat

text \<open>The next state and, where the handler runs, the rate passed to \<^verbatim>\<open>onChange\<close>; the amount
  input passes on only the texts it accepts.\<close>

fun rate_handler :: "rate_field \<Rightarrow> rate_event \<Rightarrow> rate_field \<times> string option" where
  "rate_handler s (RateInput value_text) =
     (if amount_accepted value_text
      then (s\<lparr> rf_rateValue := value_text \<rparr>, Some (num_toString (per_second value_text (rf_selectedRate s))))
      else (s, None))"
| "rate_handler s (RateDropdown index) =
     (s\<lparr> rf_selectedRate := index \<rparr>, Some (num_toString (per_second (rf_rateValue s) index)))"

section \<open>The form\<close>

record update_form =
  uf_flowType :: int
  uf_recipient :: string
  uf_token :: selected_token
  uf_flowRate :: string
  uf_description :: string
  uf_error :: string

definition initial_update_form :: "view_token list \<Rightarrow> update_form" where
  "initial_update_form availableSuperTokens =
     \<lparr> uf_flowType = (if availableSuperTokens \<noteq> [] then 1 else 0), uf_recipient = [],
       uf_token = INITIAL_SELECTED_TOKEN, uf_flowRate = ''0'', uf_description = [], uf_error = [] \<rparr>"

definition outgoingFlowSelected :: "update_form \<Rightarrow> bool" where
  "outgoingFlowSelected s \<longleftrightarrow> uf_flowType s = 1"

definition clear_update_form :: update_form where
  "clear_update_form = \<lparr> uf_flowType = 1, uf_recipient = [], uf_token = INITIAL_SELECTED_TOKEN, uf_flowRate = ''0'',
     uf_description = [], uf_error = [] \<rparr>"

datatype update_event =
    FlowTypeChange int
  | RecipientChange string
  | TokenChange selected_token
  | FlowRateChange string
  | DescriptionChange string
  | UnmountForm

text \<open>The handlers; \<open>agent\<close> is the agent's address of the app's state.\<close>

fun update_handler :: "string \<Rightarrow> update_form \<Rightarrow> update_event \<Rightarrow> update_form" where
  "update_handler agent s (FlowTypeChange index) =
     s\<lparr> uf_recipient := (if index = 0 then agent else []), uf_token := INITIAL_SELECTED_TOKEN, uf_flowType := index,
        uf_error := [] \<rparr>"
| "update_handler agent s (RecipientChange value_text) = s\<lparr> uf_recipient := value_text, uf_error := [] \<rparr>"
| "update_handler agent s (TokenChange token) = s\<lparr> uf_token := token, uf_error := [] \<rparr>"
| "update_handler agent s (FlowRateChange value_text) = s\<lparr> uf_flowRate := value_text, uf_error := [] \<rparr>"
| "update_handler agent s (DescriptionChange value_text) = s\<lparr> uf_description := value_text, uf_error := [] \<rparr>"
| "update_handler agent s UnmountForm = clear_update_form"

text \<open>Which of these the rendered form offers: the menu of flow types is disabled for an update and
  without available tokens, the recipient is asked for only for an outgoing flow, and the menu
  of tokens is disabled for an update, where the selection changes only by its own loading.\<close>

definition event_offered :: "view_token list \<Rightarrow> bool \<Rightarrow> update_form \<Rightarrow> update_event \<Rightarrow> bool" where
  "event_offered availableSuperTokens isUpdate s e =
     (case e of
        FlowTypeChange _ \<Rightarrow> \<not> isUpdate \<and> availableSuperTokens \<noteq> []
      | RecipientChange _ \<Rightarrow> outgoingFlowSelected s
      | TokenChange token \<Rightarrow> isUpdate \<longrightarrow> sel_index token = sel_index (uf_token s)
      | _ \<Rightarrow> True)"

inductive form_run :: "string \<Rightarrow> view_token list \<Rightarrow> bool \<Rightarrow> update_form \<Rightarrow> update_event list \<Rightarrow> update_form \<Rightarrow> bool"
  for agent availableSuperTokens isUpdate where
  form_stop: "form_run agent availableSuperTokens isUpdate s [] s"
| form_step: "event_offered availableSuperTokens isUpdate s e \<Longrightarrow>
    form_run agent availableSuperTokens isUpdate (update_handler agent s e) es s' \<Longrightarrow>
    form_run agent availableSuperTokens isUpdate s (e # es) s'"

text \<open>The tokens the form offers, and the deposit it computes while rendering: \<open>None\<close> is
  \<^verbatim>\<open>null\<close>, \<open>Some None\<close> is \<^verbatim>\<open>undefined\<close>; a selected index outside of the list throws.\<close>

definition offered :: "view_token list \<Rightarrow> view_token list \<Rightarrow> update_form \<Rightarrow> view_token list" where
  "offered availableSuperTokens allSuperTokens s =
     (if outgoingFlowSelected s then availableSuperTokens else allSuperTokens)"

definition requiredDeposit :: "view_token list \<Rightarrow> update_form \<Rightarrow> js_number option option result" where
  "requiredDeposit tokens s =
     (if 0 \<le> sel_index (uf_token s) then
        (case js_nth tokens (sel_index (uf_token s)) of
           None \<Rightarrow> Inl TypeError
         | Some t \<Rightarrow> Inr (Some (calculateRequiredDeposit (uf_flowRate s) (vt_liquidationPeriodSeconds t))))
      else Inr None)"

text \<open>How a deposit takes part in a comparison.\<close>

definition deposit_number :: "js_number option option \<Rightarrow> js_number" where
  "deposit_number d = (case d of None \<Rightarrow> Fin 0 0 | Some None \<Rightarrow> NaN | Some (Some x) \<Rightarrow> x)"

text \<open>Whether the panel updates a flow of the table, from the preset parameters it was opened with.\<close>

definition isFlowUpdateOperation :: "update_args option \<Rightarrow> bool" where
  "isFlowUpdateOperation presets =
     (case presets of None \<Rightarrow> False | Some a \<Rightarrow> ua_presetSuperTokenAddress a \<noteq> [] \<and> ua_presetRecipient a \<noteq> [])"

definition update_disabled :: "update_args option \<Rightarrow> update_form \<Rightarrow> bool" where
  "update_disabled presets s \<longleftrightarrow>
     uf_error s \<noteq> [] \<or>
     uf_recipient s = [] \<and> (case presets of None \<Rightarrow> True | Some a \<Rightarrow> ua_presetRecipient a = []) \<or>
     sel_address (uf_token s) = [] \<and> (case presets of None \<Rightarrow> True | Some a \<Rightarrow> ua_presetSuperTokenAddress a = []) \<or>
     uf_flowRate s = ''0''"

definition existing_match :: "libs \<Rightarrow> string option \<Rightarrow> update_form \<Rightarrow> view_flow \<Rightarrow> bool" where
  "existing_match L connectedAccount s f \<longleftrightarrow>
     \<not> vf_isCancelled f \<and>
     (if outgoingFlowSelected s then \<not> vf_isIncoming f else vf_isIncoming f) \<and>
     addressesEqual L (Some (vf_entity f)) (if outgoingFlowSelected s then Some (uf_recipient s) else connectedAccount) \<and>
     addr_eq L (vf_superTokenAddress f) (sel_address (uf_token s))"

definition existingFlow :: "libs \<Rightarrow> string option \<Rightarrow> view_flow list \<Rightarrow> update_args option \<Rightarrow> update_form \<Rightarrow> view_flow option" where
  "existingFlow L connectedAccount flows_list presets s =
     (if isFlowUpdateOperation presets \<or> \<not> isAddress L (uf_recipient s) \<or> \<not> isAddress L (sel_address (uf_token s)) then None
      else map_option ((!) flows_list) (findIndex (existing_match L connectedAccount s) flows_list))"

section \<open>Validation and submission\<close>

text \<open>What the validation is given: the selection itself for a custom token, otherwise the
  token of the list.\<close>

datatype flow_token = CustomToken selected_token | ListedToken "view_token option"

text \<open>The balance that has to cover the deposit, the decimals and the symbol. A balance that
  is \<^verbatim>\<open>undefined\<close> makes the formatting throw.\<close>

definition flow_balance ::
  "libs \<Rightarrow> js_date \<Rightarrow> flow_token \<Rightarrow> js_amount option \<Rightarrow> bool \<Rightarrow> (num_arg option \<times> nat \<times> string) result" where
  "flow_balance L now token userBalance isOutgoingFlow =
     (case token of
        ListedToken None \<Rightarrow> Inl TypeError
      | ListedToken (Some t) \<Rightarrow>
          await (if isOutgoingFlow
                 then await (calculateCurrentAmount L (vt_balance t) (vt_netFlow t) (vt_lastUpdateDate t) now) (\<lambda>n. Inr (Some (ArgBN n)))
                 else Inr (map_option amount_text userBalance)) (\<lambda>currentBalance.
          Inr (currentBalance, nat (vt_decimals t), vt_symbol t))
      | CustomToken t \<Rightarrow>
          Inr (map_option amount_text userBalance, decimals_arg (sel_decimals t),
            (case sel_symbol t of None \<Rightarrow> ''undefined'' | Some symbol \<Rightarrow> symbol)))"

definition update_validateFields ::
  "libs \<Rightarrow> js_date \<Rightarrow> flow_token \<Rightarrow> string \<Rightarrow> string \<Rightarrow> string \<Rightarrow> js_number option option \<Rightarrow> js_amount option \<Rightarrow> bool \<Rightarrow>
     string option result" where
  "update_validateFields L now token recipient flowRate_text agent deposit userBalance isOutgoingFlow =
     (if \<not> isAddress L recipient then Inr (Some ''Recipient must be a valid Ethereum address.'')
      else if isOutgoingFlow \<and> addr_eq L recipient agent then Inr (Some ''You can't create a flow to the app's agent.'')
      else if num_le (to_number flowRate_text) (Fin 0 0) then Inr (Some ''Flow rate provided can't be negative nor zero.'')
      else await (flow_balance L now token userBalance isOutgoingFlow) (\<lambda>(currentBalance, decimals, symbol).
        (case currentBalance of
           None \<Rightarrow> Inl TypeError
         | Some b \<Rightarrow>
             Inr (if num_less (to_number (fromDecimals L b decimals True)) (deposit_number deposit)
                  then Some (''Required deposit exceeds current '' @ symbol @ '' balance.'') else None))))"

record update_request =
  ur_tokenAddress :: string
  ur_recipient :: string
  ur_flowRate :: string
  ur_description :: "string option"
  ur_isOutgoing :: bool
  ur_isCreate :: bool

datatype update_submission = UpdateError update_form | UpdateRequest update_request

text \<open>The environment of the form: the date, the agent, the connected account, the tokens it
  offers, the flows and the preset parameters.\<close>

record update_env =
  ue_now :: js_date
  ue_agent :: string
  ue_account :: "string option"
  ue_tokens :: "view_token list"
  ue_flows :: "view_flow list"
  ue_presets :: "update_args option"

definition selected_flow_token :: "update_env \<Rightarrow> update_form \<Rightarrow> flow_token" where
  "selected_flow_token env s =
     (if sel_index (uf_token s) = - 1 then CustomToken (uf_token s)
      else ListedToken (js_nth (ue_tokens env) (sel_index (uf_token s))))"

definition update_handleSubmit :: "libs \<Rightarrow> update_env \<Rightarrow> update_form \<Rightarrow> update_submission result" where
  "update_handleSubmit L env s =
     await (requiredDeposit (ue_tokens env) s) (\<lambda>deposit.
     await (update_validateFields L (ue_now env) (selected_flow_token env s) (uf_recipient s) (uf_flowRate s) (ue_agent env)
              deposit (sel_userBalance (uf_token s)) (outgoingFlowSelected s)) (\<lambda>complaint.
     (case complaint of
        Some message \<Rightarrow> Inr (UpdateError (s\<lparr> uf_error := message \<rparr>))
      | None \<Rightarrow>
          (let existing = existingFlow L (ue_account env) (ue_flows env) (ue_presets env) s in
           await (toDecimals L (ArgStr (calculateNewFlowRate L existing (uf_flowRate s)))
                    (decimals_arg (sel_decimals (uf_token s))) True) (\<lambda>adjustedFlowRate.
           Inr (UpdateRequest \<lparr>
             ur_tokenAddress = sel_address (uf_token s),
             ur_recipient = uf_recipient s,
             ur_flowRate = adjustedFlowRate,
             ur_description = (if uf_description s \<noteq> [] then Some (encodeString L (uf_description s)) else None),
             ur_isOutgoing = outgoingFlowSelected s,
             ur_isCreate = (\<not> isFlowUpdateOperation (ue_presets env) \<and> existing = None) \<rparr>))))))"

section \<open>Effects\<close>

definition flow_findSuperTokenByAddress :: "libs \<Rightarrow> string \<Rightarrow> view_token list \<Rightarrow> selected_token result" where
  "flow_findSuperTokenByAddress L address tokens = findSuperTokenByAddress L address tokens False"

text \<open>The effect that sets up the preset parameters. \<open>tokens\<close> are the tokens offered
  before it runs; a token that is not among them throws.\<close>

definition update_preset :: "libs \<Rightarrow> update_args option \<Rightarrow> view_token list \<Rightarrow> update_form \<Rightarrow> update_form result" where
  "update_preset L presets tokens s =
     (case presets of
        None \<Rightarrow> Inr s
      | Some a \<Rightarrow>
          if \<not> isFlowUpdateOperation presets then Inr s
          else await (flow_findSuperTokenByAddress L (ua_presetSuperTokenAddress a) tokens) (\<lambda>fetchedToken.
            Inr (s\<lparr> uf_flowType := ua_presetFlowTypeIndex a, uf_recipient := ua_presetRecipient a,
                    uf_token := (if ua_presetFlowTypeIndex a = 0 then fetchedToken\<lparr> sel_loadingData := True \<rparr> else fetchedToken),
                    uf_description := ua_presetDescription a \<rparr>)))"

definition existing_flow_effect :: "update_args option \<Rightarrow> view_flow option \<Rightarrow> update_form \<Rightarrow> update_form" where
  "existing_flow_effect presets existing s =
     (if isFlowUpdateOperation presets then s
      else (case existing of
              None \<Rightarrow> s\<lparr> uf_description := [] \<rparr>
            | Some f \<Rightarrow> s\<lparr> uf_description := vf_description f \<rparr>))"

section \<open>The boxes\<close>

text \<open>The current and the new monthly rate of \<^verbatim>\<open>ExistingFlowInfo\<close>, rounded to two digits.\<close>

definition rounded_monthly :: "libs \<Rightarrow> string \<Rightarrow> js_number result" where
  "rounded_monthly L text =
     await (toMonthlyRate L (ArgStr text)) (\<lambda>monthly. await (num_toFixed monthly 2) (\<lambda>s. Inr (to_number s)))"

definition ExistingFlowInfo :: "libs \<Rightarrow> view_flow \<Rightarrow> string \<Rightarrow> (js_number \<times> js_number) result" where
  "ExistingFlowInfo L f flowRate_text =
     await (rounded_monthly L (fromDecimals L (ArgBN (vf_flowRate f)) 18 True)) (\<lambda>currentMonthlyFlowRate.
     await (rounded_monthly L (calculateNewFlowRate L (Some f) flowRate_text)) (\<lambda>newMonthlyFlowRate.
     Inr (currentMonthlyFlowRate, newMonthlyFlowRate)))"

definition RequiredDepositInfo :: "js_number \<Rightarrow> js_number result" where
  "RequiredDepositInfo deposit = await (num_toFixed deposit 8) (\<lambda>s. Inr (to_number s))"

end
