(* ===== verification/Panel_Properties.thy ===== *)
theory Panel_Properties
  imports Panels Samples
begin

text \<open>
  The properties of the side panels with a token and an amount: what the maximum button
  submits, how the token selector settles, and which token an upgrade is for.
\<close>

section \<open>The maximum amount\<close>

text \<open>The text of an integer does not depend on the library that prints it.\<close>

lemma fromDecimals_show_int: "fromDecimals L (ArgStr (show_int n)) d t = fromDecimals sample_libs (ArgBN n) d t"
  by (simp add: fromDecimals_def normalizedNum_def sample_libs_def)

lemma max_text:
  assumes "0 < n" and "d \<le> 255"
  obtains r where "toDecimals L (ArgStr (fromDecimals L (ArgStr (show_int n)) d True)) d True = Inr r"
    and "list_all is_digit r" and "dec_val r = n"
    and "num_less (Fin 0 0) (to_number (fromDecimals L (ArgStr (show_int n)) d True))"
proof (rule fromDecimals_text [OF sample_libs_documented(3), of n d])
  show "0 \<le> n" using assms by simp
  fix ds fs
  assume *: "fromDecimals sample_libs (ArgBN n) d True = decimal_text ds fs" "digits ds" "digits fs" "ds \<noteq> []"
    "length fs \<le> d" "dec_val (ds @ fs) * 10 ^ (d - length fs) = n"
  obtain r where r: "toDecimals L (ArgStr (decimal_text ds fs)) d True = Inr r" "digits r"
    "dec_val r = dec_val (ds @ fs) * 10 ^ d div 10 ^ length fs"
    by (rule toDecimals_value [OF *(2,3)])
  have "(10 :: int) ^ d = 10 ^ (d - length fs) * 10 ^ length fs"
    using *(5) by (simp add: power_add [symmetric])
  then have "dec_val r = n" using r(3) *(6) by (simp add: mult.assoc [symmetric])
  moreover have "0 < dec_val (ds @ fs)" using *(6) assms(1) by (metis zero_less_mult_pos2 zero_less_power zero_less_numeral)
  then have "num_less (Fin 0 0) (to_number (decimal_text ds fs))"
    using to_number_text_pos [OF *(2-4)] *(5) assms(2) by simp
  ultimately show thesis using that [of r] r by (simp add: fromDecimals_show_int *(1))
qed

text \<open>Validation passes for a loaded token and a positive amount, whatever the wording.\<close>

lemma validate_token_fields_ok:
  assumes "sel_error token = None" and "isAddress L (sel_address token)" and "num_less (Fin 0 0) (to_number amount)"
  shows "validate_token_fields L no_balance bad_address token amount = None"
  using assms by (simp add: validate_token_fields_def num_le_def)

text \<open>Pressing the button and submitting, on each of the forms.\<close>

lemma max_submits:
  assumes "sel_decimals (tf_token s) = Some d" and "d \<noteq> JNum 0" and "0 \<le> amount_int d" and "amount_int d \<le> 255"
    and "sel_userBalance (tf_token s) = Some (JDec n)" and "0 < n"
    and "sel_error (tf_token s) = None" and "isAddress L (sel_address (tf_token s))"
  shows "\<exists>r. list_all is_digit r \<and> dec_val r = n \<and>
    deposit_handleSubmit L (deposit_handler L s MaxAmount) = Inr (Submitted (sel_address (tf_token s), r, True)) \<and>
    downgrade_handleSubmit L (downgrade_handler L s MaxAmount) = Inr (Submitted (DOWNGRADE, sel_address (tf_token s), r)) \<and>
    (sel_index (tf_token s) = CUSTOM_TOKEN_INDEX \<longrightarrow>
       upgrade_handleSubmit L tokens (upgrade_handler L s MaxAmount) = Inr (Submitted (UPGRADE, Some (sel_address (tf_token s)), r)))"
proof -
  let ?k = "nat (amount_int d)"
  let ?text = "fromDecimals L (ArgStr (show_int n)) ?k True"
  obtain r where r: "toDecimals L (ArgStr ?text) ?k True = Inr r" "list_all is_digit r" "dec_val r = n"
    "num_less (Fin 0 0) (to_number ?text)"
    by (rule max_text [of n ?k L]) (use assms(4,6) in auto)
  have form: "handleMaxAmount L s = s\<lparr> tf_amount := ?text \<rparr>"
    using assms by (simp add: handleMaxAmount_def falsy_or_zero_balance_def amount_text_def decimals_arg_def)
  have "validate_token_fields L m m' (tf_token s) ?text = None" for m m'
    using assms(7,8) r(4) by (rule validate_token_fields_ok)
  then show ?thesis
    using r assms(1) form
    by (intro exI [of _ r])
      (simp add: deposit_handleSubmit_def downgrade_handleSubmit_def upgrade_handleSubmit_def submit_form_def
        deposit_validateFields_def downgrade_validateFields_def upgrade_validateFields_def decimals_arg_def CUSTOM_TOKEN_INDEX_def)
qed

text \<open>
  C34. The maximum button submits the whole balance. On a form whose token has loaded without
  an error, with its decimals and a positive balance, pressing the button and submitting
  passes the validation, and the amount handed to the action is a string of digits whose
  value is the balance, for deposits, for downgrades and for upgrades: no rounding of
  the displayed text is lost on the way back.
\<close>

theorem max_amount_is_submitted:
  assumes "sel_decimals (tf_token s) = Some d" and "d \<noteq> JNum 0" and "0 \<le> amount_int d" and "amount_int d \<le> 255"
    and "sel_userBalance (tf_token s) = Some (JDec n)" and "0 < n"
    and "sel_error (tf_token s) = None" and "isAddress L (sel_address (tf_token s))"
  shows "\<exists>r. list_all is_digit r \<and> dec_val r = n \<and>
    deposit_handleSubmit L (deposit_handler L s MaxAmount) = Inr (Submitted (sel_address (tf_token s), r, True)) \<and>
    downgrade_handleSubmit L (downgrade_handler L s MaxAmount) = Inr (Submitted (DOWNGRADE, sel_address (tf_token s), r)) \<and>
    (sel_index (tf_token s) = CUSTOM_TOKEN_INDEX \<longrightarrow>
       upgrade_handleSubmit L tokens (upgrade_handler L s MaxAmount) = Inr (Submitted (UPGRADE, Some (sel_address (tf_token s)), r)))"
  using assms by (rule max_submits)

definition s_custom_token :: selected_token where
  "s_custom_token = \<lparr> sel_index = CUSTOM_TOKEN_INDEX, sel_address = ZERO_ADDRESS, sel_decimals = Some (JDec 6),
     sel_name = None, sel_symbol = Some ''SUPx'', sel_userBalance = Some (JDec 1234500), sel_loadingData = False,
     sel_error = None \<rparr>"

definition s_form :: token_form where
  "s_form = clear_form\<lparr> tf_token := s_custom_token \<rparr>"

theorem max_amount_is_submitted_witness:
  "\<exists>r. dec_val r = 1234500 \<and>
     deposit_handleSubmit sample_libs (deposit_handler sample_libs s_form MaxAmount) = Inr (Submitted (ZERO_ADDRESS, r, True))"
proof -
  have token: "sel_decimals (tf_token s_form) = Some (JDec 6)" "sel_userBalance (tf_token s_form) = Some (JDec 1234500)"
    "sel_error (tf_token s_form) = None" "sel_address (tf_token s_form) = ZERO_ADDRESS"
    by (simp_all add: s_form_def s_custom_token_def)
  have address: "isAddress sample_libs (sel_address (tf_token s_form))" unfolding token(4) by code_simp
  have nums: "JDec 6 \<noteq> JNum 0" "0 \<le> amount_int (JDec 6)" "amount_int (JDec 6) \<le> 255" "0 < (1234500 :: int)"
    by simp_all
  show ?thesis
    using max_amount_is_submitted [OF token(1) nums(1-3) token(2) nums(4) token(3) address, of "[]"]
    unfolding token(4) by (elim exE conjE) (intro exI conjI)
qed

section \<open>The token selector\<close>

lemma fetch_data_keeps:
  assumes "fetch_data L app network address custom t = Inr t'"
  shows "sel_index t' = sel_index t" "sel_address t' = sel_address t" "sel_loadingData t' = sel_loadingData t"
    "sel_error t' = sel_error t" "\<not> custom \<Longrightarrow> sel_decimals t' = sel_decimals t"
  using assms by (auto simp: fetch_data_def split: if_splits)

lemma fetch_balance_keeps:
  assumes "fetch_balance L app load address holder t = Inr t'"
  shows "sel_index t' = sel_index t" "sel_address t' = sel_address t" "sel_loadingData t' = sel_loadingData t"
    "sel_error t' = sel_error t" "sel_decimals t' = sel_decimals t"
  using assms by (auto simp: fetch_balance_def split: if_splits)

lemma fetch_stages_keep:
  fixes L app network load address holder custom t
  defines "t' \<equiv> fetch_stages L app network load address holder custom t"
  shows "sel_index t' = sel_index t" "sel_address t' = sel_address t" "sel_loadingData t' = sel_loadingData t"
    "\<not> custom \<Longrightarrow> sel_decimals t' = sel_decimals t"
  unfolding t'_def fetch_stages_def
  by (simp_all split: sum.split add: fetch_data_keeps fetch_balance_keeps)

lemma fetch_stages_balance:
  assumes "sel_error (fetch_stages L app network True address holder custom t) = None"
  shows "sel_error t = None \<and> (\<exists>b. loadTokenHolderBalance L app address holder = Inr b \<and> amount_int b \<noteq> 0 \<and>
    sel_userBalance (fetch_stages L app network True address holder custom t) = Some b)"
proof (cases "fetch_data L app network address custom t")
  case (Inl e)
  with assms show ?thesis by (simp add: fetch_stages_def)
next
  case data: (Inr t1)
  show ?thesis
  proof (cases "loadTokenHolderBalance L app address holder")
    case (Inl e)
    with data assms show ?thesis by (simp add: fetch_stages_def fetch_balance_def)
  next
    case (Inr b)
    with data assms show ?thesis
      using fetch_data_keeps(4) [OF data]
      by (cases b) (auto simp: fetch_stages_def fetch_balance_def falsy_or_zero_balance_def split: if_splits)
  qed
qed

lemma fetchTokenData_cases:
  assumes "fetchTokenData L app network p load address t holder custom = r"
  obtains (invalid) "custom" "\<not> isSuperToken app address"
      "r = Inr (t\<lparr> sel_loadingData := False, sel_error := Some INVALID_TOKEN_ERROR \<rparr>)"
  | (rejected) e where "custom" "isSuperToken app address" "p address = Inl e" "r = Inl e"
  | (fetched) a where "(if custom then p address else Inr address) = Inr a"
      "r = Inr (fetch_stages L app network load a holder custom (t\<lparr> sel_address := address, sel_loadingData := False \<rparr>))"
  using assms by (cases "p address") (auto simp: fetchTokenData_def split: if_splits)

text \<open>The address a selection is loaded from.\<close>

definition loaded_address :: "(string \<Rightarrow> string result) \<Rightarrow> string \<Rightarrow> selected_token \<Rightarrow> string result" where
  "loaded_address processCustomToken customTokenAddress t =
     (if customTokenAddress \<noteq> [] \<and> sel_index t = CUSTOM_TOKEN_INDEX then processCustomToken customTokenAddress
      else Inr (sel_address t))"

lemma selector_effect_fetches:
  assumes "selector_effect L app network p load account custom_address t = Some r"
  obtains a holder where "account = Some holder" "isAddress L a"
    "a = (if custom_address \<noteq> [] \<and> sel_index t = CUSTOM_TOKEN_INDEX then custom_address else sel_address t)"
    "fetchTokenData L app network p load a t holder (custom_address \<noteq> [] \<and> sel_index t = CUSTOM_TOKEN_INDEX) = r"
  using assms by (auto simp: selector_effect_def Let_def truthy_def split: if_splits option.splits)

lemma selector_effect_idle: "\<not> sel_loadingData t \<Longrightarrow> selector_effect L app network p load account a t = None"
  by (simp add: selector_effect_def Let_def)


text \<open>A listed token that the account holds.\<close>

definition s_view_token :: view_token where
  "s_view_token = \<lparr> vt_address = Some (''0x1'' @ replicate 39 (CHR ''0'')), vt_name = ''Super'', vt_symbol = ''SUPx'',
     vt_underlyingToken = \<lparr> ut_address = ZERO_ADDRESS, ut_name = Some ''Sup'', ut_decimals = Some (JNum 18),
       ut_symbol = Some ''SUP'' \<rparr>, vt_underlyingDecimals = Some 18, vt_logoURI = None,
     vt_mainnetTokenEquivalentAddress = None, vt_balance = 50, vt_lastUpdateDate = Date 100000,
     vt_liquidationPeriodSeconds = 3600, vt_inflowRate = 5, vt_outflowRate = 0, vt_netFlow = 5, vt_decimals = 18,
     vt_depletionDate = None \<rparr>"

definition s_selection :: selected_token where
  "s_selection = handleDropDownChange (underlyingTokens [s_view_token]) True True 1"

lemma s_selection_loads:
  "selector_effect sample_libs (s_app 50) \<lparr> net_id = 137, net_type = ''main'' \<rparr> (processCustomSuperToken (s_app 50)) True
     (Some s_alice) [] s_selection =
   Some (Inr (s_selection\<lparr> sel_userBalance := Some (JDec 50), sel_loadingData := False \<rparr>))"
  by code_simp


text \<open>
  An upgrade is for the super token of the chosen entry. The menu of the upgrade panel
  lists the underlying tokens; whatever the selector loaded in between, submitting a listed
  entry with success requests an upgrade of the super token at the same place of the list,
  while the selection's address and decimals are those of its underlying token.
\<close>

theorem upgrade_targets_super_token:
  assumes "i < length superTokens_list" and "t = handleDropDownChange (underlyingTokens superTokens_list) True True (int i + 1)"
    and "tf_token s = t \<or> selector_effect L app network p True account [] t = Some (Inr (tf_token s))"
    and "upgrade_handleSubmit L superTokens_list s = Inr (Submitted (operation, address, amount))"
  shows "operation = UPGRADE \<and> address = vt_address (superTokens_list ! i) \<and>
    sel_address (tf_token s) = ut_address (vt_underlyingToken (superTokens_list ! i)) \<and>
    toDecimals L (ArgStr (tf_amount s)) (case vt_underlyingDecimals (superTokens_list ! i) of None \<Rightarrow> 18 | Some d \<Rightarrow> nat d) True =
      Inr amount"
proof -
  have nth: "js_nth superTokens_list (int i) = Some (superTokens_list ! i)"
    "js_nth (underlyingTokens superTokens_list) (int i) = Some (underlyingTokens superTokens_list ! i)"
    using assms(1) by (simp_all add: js_nth_def underlyingTokens_def)
  have t: "sel_index t = int i" "sel_address t = ut_address (vt_underlyingToken (superTokens_list ! i))"
    "sel_decimals t = map_option JNum (vt_underlyingDecimals (superTokens_list ! i))"
    using assms(1) nth(2) by (simp_all add: assms(2) handleDropDownChange_def fromTokenItemsIndex_def underlyingTokens_def)
  have same: "sel_index (tf_token s) = sel_index t \<and> sel_address (tf_token s) = sel_address t \<and>
      sel_decimals (tf_token s) = sel_decimals t"
  proof (cases "tf_token s = t")
    case False
    then have "selector_effect L app network p True account [] t = Some (Inr (tf_token s))" using assms(3) by blast
    then obtain holder where "fetchTokenData L app network p True (sel_address t) t holder False = Inr (tf_token s)"
      by (rule selector_effect_fetches) simp
    then show ?thesis by (cases rule: fetchTokenData_cases) (simp_all add: fetch_stages_keep)
  qed simp
  have "sel_index (tf_token s) \<noteq> - 1" using same t(1) by simp
  with assms(4) show ?thesis
    using same t nth(1)
    by (auto simp: upgrade_handleSubmit_def submit_form_def decimals_arg_def split: option.splits)
qed

theorem upgrade_targets_super_token_witness:
  "\<exists>amount. toDecimals sample_libs (ArgStr ''1.5'') 18 True = Inr amount \<and>
     upgrade_handleSubmit sample_libs [s_view_token] (clear_form\<lparr> tf_token := s_selection, tf_amount := ''1.5'' \<rparr>) =
       Inr (Submitted (UPGRADE, vt_address s_view_token, amount))"
proof -
  let ?s = "clear_form\<lparr> tf_token := s_selection, tf_amount := ''1.5'' \<rparr>"
  have "isOk (upgrade_handleSubmit sample_libs [s_view_token] ?s) \<and>
      (case upgrade_handleSubmit sample_libs [s_view_token] ?s of Inr (Submitted _) \<Rightarrow> True | _ \<Rightarrow> False)"
    by code_simp
  then obtain operation address amount
    where "upgrade_handleSubmit sample_libs [s_view_token] ?s = Inr (Submitted (operation, address, amount))"
    by (auto split: sum.splits submission.splits)
  then show ?thesis
    using upgrade_targets_super_token [of 0 "[s_view_token]" s_selection ?s sample_libs "s_app 50"
        "\<lparr> net_id = 137, net_type = ''main'' \<rparr>" Inr "Some s_alice" operation address amount]
    by (auto simp: s_selection_def s_view_token_def)
qed

end
