(* ===== verification/Update_Flow_Properties.thy ===== *)
theory Update_Flow_Properties
  imports Update_Flow App_Logic_Properties Panel_Properties
begin

text \<open>
  The properties of the panel that creates and updates flows: which operation it requests and
  on which stream, how it is opened from a row of the table, and when it cannot be submitted.
\<close>

section \<open>The operation requested\<close>

text \<open>Whether a transaction creates a flow.\<close>

fun creates_flow :: "transaction \<Rightarrow> bool" where
  "creates_flow (CallAgreement cfa operation params d) = (operation = createFlowABI)"
| "creates_flow (ApiCreateFlow token receiver fr d) = True"
| "creates_flow t = False"

lemma useUpdateFlow_requests:
  obtains t where "requested (useUpdateFlow (Some host) agent cfa token entity fr descr outgoing create) = [t]"
    and "creates_flow t = create"
    and "acts_on agent user t = Some (token, if outgoing then agent else user, if outgoing then entity else agent)"
  by (cases outgoing; cases create) (simp_all add: useUpdateFlow_def callAgreement_def Let_def)

lemma submitted_valid:
  assumes "update_handleSubmit L env s = Inr (UpdateRequest r)"
  shows "isAddress L (uf_recipient s)" and "outgoingFlowSelected s \<Longrightarrow> \<not> addr_eq L (uf_recipient s) (ue_agent env)"
    and "\<not> num_le (to_number (uf_flowRate s)) (Fin 0 0)"
  using assms
  by (auto simp: update_handleSubmit_def update_validateFields_def Let_def split: if_splits option.splits)

lemma submitted_request:
  assumes "update_handleSubmit L env s = Inr (UpdateRequest r)"
  shows "ur_tokenAddress r = sel_address (uf_token s)" and "ur_recipient r = uf_recipient s"
    and "ur_isOutgoing r = outgoingFlowSelected s"
    and "ur_isCreate r = (\<not> isFlowUpdateOperation (ue_presets env) \<and>
      existingFlow L (ue_account env) (ue_flows env) (ue_presets env) s = None)"
    and "toDecimals L (ArgStr (calculateNewFlowRate L
      (existingFlow L (ue_account env) (ue_flows env) (ue_presets env) s) (uf_flowRate s)))
      (decimals_arg (sel_decimals (uf_token s))) True = Inr (ur_flowRate r)"
  using assms by (auto simp: update_handleSubmit_def Let_def split: option.splits)

text \<open>The stream the form is about, as a key of the store's ledger.\<close>

definition form_key :: "string \<Rightarrow> update_form \<Rightarrow> flow_key" where
  "form_key user s = (\<not> outgoingFlowSelected s, sel_address (uf_token s),
     if outgoingFlowSelected s then uf_recipient s else user)"

lemma existing_match_key:
  "existing_match L (Some user) s (format_flow f) \<longleftrightarrow> is_open f \<and> same_key L (form_key user s) (key_of_flow f)"
  by (auto simp: existing_match_def is_open_def format_flow_def same_key_def form_key_def key_of_flow_def
      intro: addressesEqual_sym)

lemma findIndex_map: "findIndex P (map f xs) = findIndex (\<lambda>x. P (f x)) xs"
  by (induction xs) simp_all

lemma existingFlow_lookup:
  assumes "\<not> isFlowUpdateOperation presets" and "isAddress L (uf_recipient s)" and "isAddress L (sel_address (uf_token s))"
  shows "existingFlow L (Some user) (map format_flow fs) presets s = map_option format_flow (lookup_flow L fs (form_key user s))"
proof -
  have "findIndex (existing_match L (Some user) s) (map format_flow fs) =
      findIndex (\<lambda>f. is_open f \<and> same_key L (form_key user s) (key_of_flow f)) fs"
    by (simp add: findIndex_map existing_match_key)
  then show ?thesis
    using assms
    by (auto simp: existingFlow_def lookup_flow_def fk.lookup_by_findIndex option.map_comp intro!: map_option_cong
      dest!: findIndex_SomeD(1))
qed

text \<open>
  C37. The panel creates a flow exactly when there is none. When a form that was not opened from
  a row is submitted with success over the flows of a rendered store, the action requests one
  transaction; it acts on the stream of the chosen token between the agent and the recipient,
  or between the connected account and the agent for an incoming flow, and it creates a flow
  if and only if the store's ledger has no open stream of that key. The recipient is a valid
  address and, for an outgoing flow, not the agent itself.
\<close>

theorem flow_request_matches_ledger:
  assumes "appStateReducer L now (Some st) = Inr v" and "ue_flows env = vs_flows v" and "ue_account env = Some user"
    and "\<not> isFlowUpdateOperation (ue_presets env)" and "isAddress L (sel_address (uf_token s))"
    and "update_handleSubmit L env s = Inr (UpdateRequest r)"
  shows "\<exists>t. requested (useUpdateFlow (Some host) (ue_agent env) cfa (ur_tokenAddress r) (ur_recipient r) (ur_flowRate r)
        (ur_description r) (ur_isOutgoing r) (ur_isCreate r)) = [t] \<and>
      (creates_flow t \<longleftrightarrow> ledger_of L (flows st) (form_key user s) = None) \<and>
      acts_on (ue_agent env) user t = Some (sel_address (uf_token s),
        if outgoingFlowSelected s then ue_agent env else user,
        if outgoingFlowSelected s then uf_recipient s else ue_agent env) \<and>
      isAddress L (uf_recipient s) \<and> (outgoingFlowSelected s \<longrightarrow> \<not> addr_eq L (uf_recipient s) (ue_agent env))"
proof -
  have flows: "vs_flows v = map format_flow (flows st)" using assms(1) by (rule appStateReducer_InrE)
  have "existingFlow L (Some user) (map format_flow (flows st)) (ue_presets env) s =
      map_option format_flow (lookup_flow L (flows st) (form_key user s))"
    using assms(4) submitted_valid(1) [OF assms(6)] assms(5) by (rule existingFlow_lookup)
  then have create: "ur_isCreate r \<longleftrightarrow> ledger_of L (flows st) (form_key user s) = None"
    using submitted_request(4) [OF assms(6)] assms(2-4) flows by (simp add: ledger_of_def)
  obtain t where "requested (useUpdateFlow (Some host) (ue_agent env) cfa (ur_tokenAddress r) (ur_recipient r) (ur_flowRate r)
        (ur_description r) (ur_isOutgoing r) (ur_isCreate r)) = [t]" "creates_flow t = ur_isCreate r"
      "acts_on (ue_agent env) user t = Some (ur_tokenAddress r,
        if ur_isOutgoing r then ue_agent env else user, if ur_isOutgoing r then ur_recipient r else ue_agent env)"
    by (rule useUpdateFlow_requests)
  then show ?thesis
    using create submitted_request(1-3) [OF assms(6)] submitted_valid(1,2) [OF assms(6)] by auto
qed

text \<open>A form for an incoming flow of the sample token.\<close>

definition s_user :: string where
  "s_user = ''0x2'' @ replicate 39 (CHR ''0'')"

definition s_flow_form :: update_form where
  "s_flow_form = \<lparr> uf_flowType = 0, uf_recipient = ''0x3'' @ replicate 39 (CHR ''0''), uf_token = s_custom_token,
     uf_flowRate = ''0.5'', uf_description = [], uf_error = [] \<rparr>"

definition s_flow_env :: "update_args option \<Rightarrow> update_env" where
  "s_flow_env presets = \<lparr> ue_now = Date 200000, ue_agent = ''0x3'' @ replicate 39 (CHR ''0''), ue_account = Some s_user,
     ue_tokens = [s_view_token], ue_flows = [], ue_presets = presets \<rparr>"

lemma s_flow_submitted:
  "\<exists>r. update_handleSubmit sample_libs (s_flow_env None) s_flow_form = Inr (UpdateRequest r)"
proof -
  have "case update_handleSubmit sample_libs (s_flow_env None) s_flow_form of Inr (UpdateRequest r) \<Rightarrow> True | _ \<Rightarrow> False"
    by code_simp
  then show ?thesis by (auto split: sum.splits update_submission.splits)
qed

theorem flow_request_matches_ledger_witness:
  "\<exists>(r :: update_request) t. requested (useUpdateFlow (Some None) (ue_agent (s_flow_env None)) ''0x1'' (ur_tokenAddress r) (ur_recipient r)
      (ur_flowRate r) (ur_description r) (ur_isOutgoing r) (ur_isCreate r)) = [t] \<and> creates_flow t"
proof -
  obtain r where r: "update_handleSubmit sample_libs (s_flow_env None) s_flow_form = Inr (UpdateRequest r)"
    using s_flow_submitted by blast
  have "isOk (appStateReducer sample_libs (Date 0) (Some s_store))" by code_simp
  then obtain v where v: "appStateReducer sample_libs (Date 0) (Some s_store) = Inr v" by blast
  then have "vs_flows v = []" by (rule appStateReducer_InrE) (simp add: s_store_def)
  then have env: "ue_flows (s_flow_env None) = vs_flows v" "ue_account (s_flow_env None) = Some s_user"
    "\<not> isFlowUpdateOperation (ue_presets (s_flow_env None))"
    by (simp_all add: s_flow_env_def isFlowUpdateOperation_def)
  have "isAddress sample_libs (sel_address (uf_token s_flow_form))"
    by (simp add: s_flow_form_def s_custom_token_def sample_libs_def ZERO_ADDRESS_def)
  from flow_request_matches_ledger [OF v env this r, of None "''0x1''"]
  have "\<exists>t. requested (useUpdateFlow (Some None) (ue_agent (s_flow_env None)) ''0x1'' (ur_tokenAddress r) (ur_recipient r)
      (ur_flowRate r) (ur_description r) (ur_isOutgoing r) (ur_isCreate r)) = [t] \<and>
      (creates_flow t \<longleftrightarrow> ledger_of sample_libs (flows s_store) (form_key s_user s_flow_form) = None)"
    by (elim exE conjE) (intro exI conjI)
  moreover have "ledger_of sample_libs (flows s_store) (form_key s_user s_flow_form) = None"
    by (simp add: s_store_def ledger_of_def lookup_flow_def lookup_by_def)
  ultimately show ?thesis by blast
qed

section \<open>Updating the flow of a row\<close>

text \<open>What can happen to a form opened from a row before it is submitted: a new rate, a new
  description, or the selector's loading of the token.\<close>

inductive row_edit :: "libs \<Rightarrow> app_api \<Rightarrow> network \<Rightarrow> (string \<Rightarrow> string result) \<Rightarrow> string option \<Rightarrow> string \<Rightarrow> update_form \<Rightarrow> update_form \<Rightarrow> bool"
  for L app network p account agent where
  edit_rate: "row_edit L app network p account agent s (update_handler agent s (FlowRateChange x))"
| edit_description: "row_edit L app network p account agent s (update_handler agent s (DescriptionChange x))"
| edit_loaded: "selector_effect L app network p load account [] (uf_token s) = Some (Inr t) \<Longrightarrow>
    row_edit L app network p account agent s (update_handler agent s (TokenChange t))"

definition same_target :: "update_form \<Rightarrow> update_form \<Rightarrow> bool" where
  "same_target s s' \<longleftrightarrow> uf_flowType s' = uf_flowType s \<and> uf_recipient s' = uf_recipient s \<and>
     sel_address (uf_token s') = sel_address (uf_token s) \<and> sel_decimals (uf_token s') = sel_decimals (uf_token s)"

lemma loaded_same_token:
  assumes "selector_effect L app network p load account [] t = Some (Inr t')"
  shows "sel_address t' = sel_address t \<and> sel_decimals t' = sel_decimals t"
proof -
  from assms obtain holder where "fetchTokenData L app network p load (sel_address t) t holder False = Inr t'"
    by (rule selector_effect_fetches) simp
  then show ?thesis by (cases rule: fetchTokenData_cases) (simp_all add: fetch_stages_keep)
qed

lemma row_edit_same_target: "row_edit L app network p account agent s s' \<Longrightarrow> same_target s s'"
  by (induction rule: row_edit.induct) (auto simp: same_target_def dest: loaded_same_token)

lemma row_edits_same_target: "(row_edit L app network p account agent)\<^sup>*\<^sup>* s s' \<Longrightarrow> same_target s s'"
proof (induction rule: rtranclp_induct)
  case (step s1 s2)
  from step.IH row_edit_same_target [OF step.hyps(2)] show ?case by (simp add: same_target_def)
qed (simp add: same_target_def)

lemma findSuperTokenByAddress_found:
  assumes "findSuperTokenByAddress L a tokens loading = Inr t"
  obtains x where "x \<in> set tokens" and "addressesEqual L (vt_address x) (Some a)" and "vt_address x = Some (sel_address t)"
    and "sel_decimals t = Some (JNum (vt_decimals x))"
proof -
  obtain i where i: "findIndex (\<lambda>t. addressesEqual L (vt_address t) (Some a)) tokens = Some i"
    and t: "sel_address t = (case vt_address (tokens ! i) of None \<Rightarrow> [] | Some a \<Rightarrow> a)"
      "sel_decimals t = Some (JNum (vt_decimals (tokens ! i)))"
    using assms
    by (auto simp: findSuperTokenByAddress_def Let_def simp del: findIndex_None_iff split: option.splits)
  have "tokens ! i \<in> set tokens" "addressesEqual L (vt_address (tokens ! i)) (Some a)"
    using findIndex_SomeD [OF i] by auto
  moreover from this(2) obtain b where "vt_address (tokens ! i) = Some b"
    by (cases "vt_address (tokens ! i)") auto
  ultimately show thesis using that [of "tokens ! i"] t by simp
qed


text \<open>An outgoing flow of a token that the agent holds enough of.\<close>

definition s_rich_token :: view_token where
  "s_rich_token = s_view_token\<lparr> vt_balance := 10 ^ 22 \<rparr>"

definition s_out_flow :: view_flow where
  "s_out_flow = \<lparr> vf_isCancelled = False, vf_isIncoming = False, vf_entity = s_user,
     vf_superTokenAddress = ''0x1'' @ replicate 39 (CHR ''0''), vf_description = [], vf_accumulatedAmount = 0,
     vf_creationDate = Date 100000, vf_flowRate = 5, vf_lastUpdateDate = Date 100000 \<rparr>"

definition s_row_args :: update_args where
  "s_row_args = \<lparr> ua_presetSuperTokenAddress = ''0x1'' @ replicate 39 (CHR ''0''), ua_presetRecipient = s_user,
     ua_presetSender = s_agent, ua_presetFlowTypeIndex = 1, ua_presetDescription = [] \<rparr>"

definition s_row_env :: update_env where
  "s_row_env = (s_flow_env (Some s_row_args))\<lparr> ue_agent := s_agent, ue_tokens := [s_rich_token] \<rparr>"

definition s_row_form :: update_form where
  "s_row_form = (initial_update_form [s_rich_token])\<lparr> uf_recipient := s_user,
     uf_token := \<lparr> sel_index = 0, sel_address = ''0x1'' @ replicate 39 (CHR ''0''), sel_decimals = Some (JNum 18),
       sel_name = Some ''Super'', sel_symbol = Some ''SUPx'', sel_userBalance = None, sel_loadingData = False,
       sel_error = None \<rparr> \<rparr>"


section \<open>Dead ends\<close>

lemma filter_result_set:
  assumes "filter_result P xs = Inr ys"
  shows "set ys = {x \<in> set xs. P x = Inr True}"
  using assms by (induction xs arbitrary: ys) (auto split: if_splits)

lemma available_set:
  assumes "getAvailableSuperTokens L now tokens = Inr available"
  shows "set available = {t \<in> set tokens. \<exists>n. calculateCurrentAmount L (vt_balance t) (vt_netFlow t) (vt_lastUpdateDate t) now = Inr n \<and> 0 < n}"
  using filter_result_set [OF assms [unfolded getAvailableSuperTokens_def]] by auto

lemma update_preset_ok:
  assumes "isFlowUpdateOperation (Some u)"
  shows "isOk (update_preset L (Some u) tokens s) \<longleftrightarrow>
    (\<exists>t \<in> set tokens. addressesEqual L (vt_address t) (Some (ua_presetSuperTokenAddress u)))"
proof -
  let ?P = "\<lambda>t. addressesEqual L (vt_address t) (Some (ua_presetSuperTokenAddress u))"
  have "isOk (update_preset L (Some u) tokens s) \<longleftrightarrow> findIndex ?P tokens \<noteq> None"
    using assms
    by (auto simp: update_preset_def flow_findSuperTokenByAddress_def findSuperTokenByAddress_def Let_def isOk_iff
        simp del: findIndex_None_iff split: option.splits)
  then show ?thesis by simp
qed

lemma form_run_no_recipient:
  assumes "form_run agent [] False s es s'" and "UnmountForm \<notin> set es" and "\<not> outgoingFlowSelected s" and "uf_recipient s = []"
  shows "\<not> outgoingFlowSelected s' \<and> uf_recipient s' = []"
  using assms
proof (induction rule: form_run.induct)
  case (form_step s e es s')
  then have "\<not> outgoingFlowSelected (update_handler agent s e) \<and> uf_recipient (update_handler agent s e) = []"
    by (cases e) (auto simp: event_offered_def outgoingFlowSelected_def)
  with form_step show ?case by simp
qed simp

text \<open>
  C39. Two dead ends of the panel. Opening it from a row succeeds, while some token is available,
  exactly when the row's own token is one of the available tokens, those of a positive balance:
  the panel starts with the outgoing flow type and looks the token up among the tokens for
  it, so that for an incoming flow into an empty balance the set-up throws. And without any
  available token, when the panel starts with the incoming type and its menu disabled, the
  recipient is never set to the agent: whatever the user does, the form cannot be submitted.
\<close>

theorem update_panel_dead_ends:
  "(renderEntryActions L (Some user) agent f = Some (u, d) \<and> isFlowUpdateOperation (Some u) \<and>
      getAvailableSuperTokens L now tokens = Inr available \<and> available \<noteq> [] \<longrightarrow>
      (isOk (update_preset L (Some u) (offered available tokens (initial_update_form available)) (initial_update_form available)) \<longleftrightarrow>
         (\<exists>t \<in> set tokens. addressesEqual L (vt_address t) (Some (vf_superTokenAddress f)) \<and>
            (\<exists>n. calculateCurrentAmount L (vt_balance t) (vt_netFlow t) (vt_lastUpdateDate t) now = Inr n \<and> 0 < n)))) \<and>
   (form_run agent [] False (initial_update_form []) es s \<and> UnmountForm \<notin> set es \<longrightarrow> update_disabled None s)"
proof (intro conjI impI)
  assume *: "renderEntryActions L (Some user) agent f = Some (u, d) \<and> isFlowUpdateOperation (Some u) \<and>
      getAvailableSuperTokens L now tokens = Inr available \<and> available \<noteq> []"
  then have "offered available tokens (initial_update_form available) = available"
    by (simp add: offered_def outgoingFlowSelected_def initial_update_form_def)
  moreover have "ua_presetSuperTokenAddress u = vf_superTokenAddress f"
    using * by (auto simp: renderEntryActions_def split: if_splits)
  moreover have "set available = {t \<in> set tokens. \<exists>n. calculateCurrentAmount L (vt_balance t) (vt_netFlow t) (vt_lastUpdateDate t) now = Inr n \<and> 0 < n}"
    using * by (intro available_set) blast
  ultimately show "isOk (update_preset L (Some u) (offered available tokens (initial_update_form available)) (initial_update_form available)) \<longleftrightarrow>
         (\<exists>t \<in> set tokens. addressesEqual L (vt_address t) (Some (vf_superTokenAddress f)) \<and>
            (\<exists>n. calculateCurrentAmount L (vt_balance t) (vt_netFlow t) (vt_lastUpdateDate t) now = Inr n \<and> 0 < n))"
    using * update_preset_ok [of u L available "initial_update_form available"] by auto
next
  assume "form_run agent [] False (initial_update_form []) es s \<and> UnmountForm \<notin> set es"
  then have "uf_recipient s = []"
    using form_run_no_recipient [of agent "initial_update_form []" es s]
    by (simp add: outgoingFlowSelected_def initial_update_form_def)
  then show "update_disabled None s" by (simp add: update_disabled_def)
qed

theorem update_panel_dead_ends_witness:
  "isOk (update_preset sample_libs (Some s_row_args) (offered [s_rich_token] [s_rich_token] (initial_update_form [s_rich_token]))
      (initial_update_form [s_rich_token])) \<and>
   update_disabled None (update_handler s_agent (initial_update_form []) (FlowRateChange ''0.5''))"
proof -
  obtain d where d: "renderEntryActions sample_libs (Some s_alice) s_agent s_out_flow = Some (s_row_args, d)"
    by (simp add: renderEntryActions_def s_out_flow_def s_row_args_def)
  have operation: "isFlowUpdateOperation (Some s_row_args)"
    by (simp add: isFlowUpdateOperation_def s_row_args_def s_user_def)
  have amount: "calculateCurrentAmount sample_libs (vt_balance s_rich_token) (vt_netFlow s_rich_token)
      (vt_lastUpdateDate s_rich_token) (Date 200000) = Inr (10 ^ 22 + 500)"
    by (simp add: s_rich_token_def s_view_token_def calculateCurrentAmount_valid trunc_div_nonneg)
  then have available: "getAvailableSuperTokens sample_libs (Date 200000) [s_rich_token] = Inr [s_rich_token]"
    by (simp add: getAvailableSuperTokens_def)
  have "vt_address s_rich_token = Some (vf_superTokenAddress s_out_flow)"
    by (simp add: s_rich_token_def s_view_token_def s_out_flow_def)
  moreover have "form_run s_agent [] False (initial_update_form []) [FlowRateChange ''0.5'']
      (update_handler s_agent (initial_update_form []) (FlowRateChange ''0.5''))"
    by (rule form_step [OF _ form_stop]) (simp add: event_offered_def)
  moreover have "UnmountForm \<notin> set [FlowRateChange ''0.5'']" by simp
  ultimately show ?thesis
    using update_panel_dead_ends [of sample_libs s_alice s_agent s_out_flow s_row_args d "Date 200000" "[s_rich_token]"
        "[s_rich_token]" "[FlowRateChange ''0.5'']" "update_handler s_agent (initial_update_form []) (FlowRateChange ''0.5'')"]
      d operation available amount by simp
qed

section \<open>Rates\<close>

text \<open>The rate reported last by the field is always that of the value and the unit it shows.\<close>

fun rate_run :: "rate_field \<times> string \<Rightarrow> rate_event list \<Rightarrow> rate_field \<times> string" where
  "rate_run (s, last_rate) [] = (s, last_rate)"
| "rate_run (s, last_rate) (e # es) =
     (let (s', reported) = rate_handler s e
      in rate_run (s', case reported of None \<Rightarrow> last_rate | Some x \<Rightarrow> x) es)"

lemma rate_field_reports:
  assumes "last_rate = num_toString (per_second (rf_rateValue s) (rf_selectedRate s))"
  shows "snd (rate_run (s, last_rate) es) =
    (let s' = fst (rate_run (s, last_rate) es) in num_toString (per_second (rf_rateValue s') (rf_selectedRate s')))"
  using assms
proof (induction es arbitrary: s last_rate)
  case (Cons e es)
  obtain s' reported where h: "rate_handler s e = (s', reported)" by fastforce
  have "(case reported of None \<Rightarrow> last_rate | Some x \<Rightarrow> x) = num_toString (per_second (rf_rateValue s') (rf_selectedRate s'))"
    using Cons.prems h by (cases e) (auto split: if_splits)
  from Cons.IH [OF this] show ?case by (simp add: h)
qed simp

text \<open>Adding to an existing flow of a token with 6 decimals: the existing rate, 5 tokens per
  second, is read with 18 decimals, and the sum requested for one more token per second is 1.\<close>

lemma existing_rate_lost:
  "toDecimals sample_libs (ArgStr (calculateNewFlowRate sample_libs (Some (s_out_flow\<lparr> vf_flowRate := 5000000 \<rparr>)) ''1'')) 6 True =
     Inr ''1000000''"
  by code_simp

end
