(* ===== verification/App_Contract.thy ===== *)
theory App_Contract
  imports Prelude "HOL-Library.Word"
begin

text \<open>
  The app's contract (\<^verbatim>\<open>contracts/Superfluid.sol\<close>). Its storage is a record; a function takes the
  sender, its arguments and the state of the chain and gives the next state, or the reason it
  reverts with. The Aragon base contract, the agent, the tokens, the host and the agreement are
  other contracts: the record \<open>evm\<close> holds the calls the app makes to them, which may do
  anything to the chain, the app's own storage included.
\<close>

section \<open>The chain\<close>

type_synonym eth_address = "160 word"
type_synonym uint256 = "256 word"
type_synonym int96 = "96 word"
type_synonym bytes32 = "256 word"
type_synonym bytes = "8 word list"

record app_storage =
  sto_host :: eth_address
  sto_cfa :: eth_address
  sto_agent :: eth_address

datatype app_event = NewAgentSet eth_address

text \<open>\<open>ch_app\<close> and \<open>ch_events\<close> are the storage of the app and the events it emitted, \<open>ch_ext\<close>
  everything else.\<close>

record 'e chain =
  ch_app :: app_storage
  ch_events :: "app_event list"
  ch_ext :: 'e

text \<open>Encoded calls: a selector and its arguments.\<close>

datatype call_data =
    getHost_selector
  | createFlow_selector eth_address eth_address int96 bytes
  | updateFlow_selector eth_address eth_address int96 bytes
  | deleteFlow_selector eth_address eth_address eth_address bytes
  | callAgreement_selector eth_address call_data bytes

text \<open>
  The calls of other contracts. The first address of a call of a token, the agent or the
  agreement is the contract called, the second the account that calls it. \<open>canInit\<close>,
  \<open>hasInitialized\<close>, \<open>canPerform\<close> and \<open>setInitialized\<close> are the modifiers \<^verbatim>\<open>onlyInit\<close>,
  \<^verbatim>\<open>isInitialized\<close>, \<^verbatim>\<open>auth\<close> and the function \<^verbatim>\<open>initialized\<close> of the base contract.
\<close>

record 'e evm =
  isContract :: "'e chain \<Rightarrow> eth_address \<Rightarrow> bool"
  canInit :: "'e chain \<Rightarrow> bool"
  hasInitialized :: "'e chain \<Rightarrow> bool"
  canPerform :: "'e chain \<Rightarrow> eth_address \<Rightarrow> bytes32 \<Rightarrow> bool"
  setInitialized :: "'e chain \<Rightarrow> 'e chain result"
  staticcall :: "'e chain \<Rightarrow> eth_address \<Rightarrow> call_data \<Rightarrow> uint256 option"
  token_transferFrom :: "'e chain \<Rightarrow> eth_address \<Rightarrow> eth_address \<Rightarrow> eth_address \<Rightarrow> eth_address \<Rightarrow> uint256 \<Rightarrow> (bool \<times> 'e chain) result"
  token_approve :: "'e chain \<Rightarrow> eth_address \<Rightarrow> eth_address \<Rightarrow> eth_address \<Rightarrow> uint256 \<Rightarrow> (bool \<times> 'e chain) result"
  token_transfer :: "'e chain \<Rightarrow> eth_address \<Rightarrow> eth_address \<Rightarrow> eth_address \<Rightarrow> uint256 \<Rightarrow> (bool \<times> 'e chain) result"
  token_getUnderlyingToken :: "'e chain \<Rightarrow> eth_address \<Rightarrow> eth_address result"
  token_upgrade :: "'e chain \<Rightarrow> eth_address \<Rightarrow> eth_address \<Rightarrow> uint256 \<Rightarrow> 'e chain result"
  token_downgrade :: "'e chain \<Rightarrow> eth_address \<Rightarrow> eth_address \<Rightarrow> uint256 \<Rightarrow> 'e chain result"
  agent_deposit :: "'e chain \<Rightarrow> eth_address \<Rightarrow> eth_address \<Rightarrow> eth_address \<Rightarrow> uint256 \<Rightarrow> 'e chain result"
  agent_transfer :: "'e chain \<Rightarrow> eth_address \<Rightarrow> eth_address \<Rightarrow> eth_address \<Rightarrow> eth_address \<Rightarrow> uint256 \<Rightarrow> 'e chain result"
  agent_safeExecute :: "'e chain \<Rightarrow> eth_address \<Rightarrow> eth_address \<Rightarrow> eth_address \<Rightarrow> call_data \<Rightarrow> 'e chain result"
  cfa_getFlow :: "'e chain \<Rightarrow> eth_address \<Rightarrow> eth_address \<Rightarrow> eth_address \<Rightarrow> eth_address \<Rightarrow> (uint256 \<times> int96 \<times> uint256 \<times> uint256) result"

section \<open>Constants\<close>

definition MANAGE_STREAMS_ROLE :: bytes32 where
  "MANAGE_STREAMS_ROLE = 0x56c3496db27efc6d83ab1a24218f016191aab8835d442bc0fa8502f327132cbe"

definition SET_AGENT_ROLE :: bytes32 where
  "SET_AGENT_ROLE = 0xf57d195c0663dd0e8a2210bb519e2b7de35301795015198efff16e9a2be238c8"

definition MANAGE_SUPERTOKENS_ROLE :: bytes32 where
  "MANAGE_SUPERTOKENS_ROLE = 0xc3785b41f0ebb77bd89636ecae52c950cee1cd359f0a1e5fababbcb5a0bfcb97"

definition require :: "bool \<Rightarrow> string \<Rightarrow> unit result" where
  "require condition reason = (if condition then Inr () else Inl (GenericError reason))"

section \<open>Modifiers and internal functions\<close>

text \<open>A failed static call gives \<open>None\<close>; the word returned is read only after a success.\<close>

definition staticInvoke :: "'e evm \<Rightarrow> 'e chain \<Rightarrow> eth_address \<Rightarrow> call_data \<Rightarrow> bool \<times> uint256" where
  "staticInvoke E ch addr calldata =
     (case staticcall E ch addr calldata of None \<Rightarrow> (False, 0) | Some ret \<Rightarrow> (True, ret))"

definition isValidSuperToken :: "'e evm \<Rightarrow> 'e chain \<Rightarrow> eth_address \<Rightarrow> unit result" where
  "isValidSuperToken E ch token =
     await (require (isContract E ch token) ''SUPERFLUID_SUPERTOKEN_NOT_CONTRACT'') (\<lambda>_.
       require (fst (staticInvoke E ch token getHost_selector)) ''SUPERFLUID_INVALID_SUPERTOKEN'')"

definition auth :: "'e evm \<Rightarrow> 'e chain \<Rightarrow> eth_address \<Rightarrow> bytes32 \<Rightarrow> unit result" where
  "auth E ch sender role = require (canPerform E ch sender role) ''APP_AUTH_FAILED''"

text \<open>The body of a function with the given role that takes a super token.\<close>

definition authorised ::
  "'e evm \<Rightarrow> 'e chain \<Rightarrow> eth_address \<Rightarrow> bytes32 \<Rightarrow> eth_address \<Rightarrow> 'e chain result \<Rightarrow> 'e chain result" where
  "authorised E ch sender role token body =
     await (auth E ch sender role) (\<lambda>_. await (isValidSuperToken E ch token) (\<lambda>_. body))"

definition open_to_all :: "'e evm \<Rightarrow> 'e chain \<Rightarrow> eth_address \<Rightarrow> 'e chain result \<Rightarrow> 'e chain result" where
  "open_to_all E ch token body =
     await (require (hasInitialized E ch) ''INIT_NOT_INITIALIZED'') (\<lambda>_. await (isValidSuperToken E ch token) (\<lambda>_. body))"

definition contract_callAgreement :: "'e evm \<Rightarrow> eth_address \<Rightarrow> 'e chain \<Rightarrow> call_data \<Rightarrow> bytes \<Rightarrow> 'e chain result" where
  "contract_callAgreement E this ch encodedAgreementCall description =
     agent_safeExecute E ch (sto_agent (ch_app ch)) this (sto_host (ch_app ch))
       (callAgreement_selector (sto_cfa (ch_app ch)) encodedAgreementCall description)"

section \<open>External functions\<close>

definition initialize :: "'e evm \<Rightarrow> 'e chain \<Rightarrow> eth_address \<Rightarrow> eth_address \<Rightarrow> eth_address \<Rightarrow> 'e chain result" where
  "initialize E ch agent host cfa =
     await (require (canInit E ch) ''INIT_ALREADY_INITIALIZED'') (\<lambda>_.
     await (require (isContract E ch agent) ''SUPERFLUID_AGENT_NOT_CONTRACT'') (\<lambda>_.
     await (require (isContract E ch host) ''SUPERFLUID_HOST_NOT_CONTRACT'') (\<lambda>_.
     await (require (isContract E ch cfa) ''SUPERFLUID_CFA_NOT_CONTRACT'') (\<lambda>_.
       setInitialized E (ch\<lparr> ch_app := (ch_app ch)\<lparr> sto_agent := agent, sto_host := host, sto_cfa := cfa \<rparr> \<rparr>)))))"

definition deposit ::
  "'e evm \<Rightarrow> eth_address \<Rightarrow> 'e chain \<Rightarrow> eth_address \<Rightarrow> eth_address \<Rightarrow> uint256 \<Rightarrow> bool \<Rightarrow> 'e chain result" where
  "deposit E this ch sender token amount isExternalDeposit =
     open_to_all E ch token (
     await (require (0 < amount) ''SUPERFLUID_DEPOSIT_AMOUNT_ZERO'') (\<lambda>_.
     await (if isExternalDeposit
            then await (token_transferFrom E ch token this sender this amount) (\<lambda>(ok, ch1).
                 await (require ok ''SUPERFLUID_SUPERTOKEN_TRANSFER_FROM_REVERT'') (\<lambda>_. Inr ch1))
            else Inr ch) (\<lambda>ch1.
     await (token_approve E ch1 token this (sto_agent (ch_app ch1)) amount) (\<lambda>(ok, ch2).
     await (require ok ''SUPERFLUID_SUPERTOKEN_APPROVE_FAILED'') (\<lambda>_.
       agent_deposit E ch2 (sto_agent (ch_app ch2)) this token amount)))))"

definition withdraw ::
  "'e evm \<Rightarrow> eth_address \<Rightarrow> 'e chain \<Rightarrow> eth_address \<Rightarrow> eth_address \<Rightarrow> eth_address \<Rightarrow> uint256 \<Rightarrow> 'e chain result" where
  "withdraw E this ch sender token receiver amount =
     authorised E ch sender MANAGE_STREAMS_ROLE token (
     await (require (0 < amount) ''SUPERFLUID_WITHDRAW_AMOUNT_ZERO'') (\<lambda>_.
       agent_transfer E ch (sto_agent (ch_app ch)) this token receiver amount))"

text \<open>The results of \<^verbatim>\<open>approve\<close> and of the last transfer are not looked at.\<close>

definition upgrade :: "'e evm \<Rightarrow> eth_address \<Rightarrow> 'e chain \<Rightarrow> eth_address \<Rightarrow> eth_address \<Rightarrow> uint256 \<Rightarrow> 'e chain result" where
  "upgrade E this ch sender token amount =
     authorised E ch sender MANAGE_SUPERTOKENS_ROLE token (
     await (require (0 < amount) ''SUPERFLUID_UPGRADE_AMOUNT_ZERO'') (\<lambda>_.
     await (token_getUnderlyingToken E ch token) (\<lambda>underlying.
     await (agent_transfer E ch (sto_agent (ch_app ch)) this underlying this amount) (\<lambda>ch1.
     await (token_getUnderlyingToken E ch1 token) (\<lambda>underlying1.
     await (token_approve E ch1 underlying1 this token amount) (\<lambda>(_, ch2).
     await (token_upgrade E ch2 token this amount) (\<lambda>ch3.
     await (token_transfer E ch3 token this (sto_agent (ch_app ch3)) amount) (\<lambda>(_, ch4). Inr ch4))))))))"

definition downgrade :: "'e evm \<Rightarrow> eth_address \<Rightarrow> 'e chain \<Rightarrow> eth_address \<Rightarrow> eth_address \<Rightarrow> uint256 \<Rightarrow> 'e chain result" where
  "downgrade E this ch sender token amount =
     authorised E ch sender MANAGE_SUPERTOKENS_ROLE token (
     await (require (0 < amount) ''SUPERFLUID_DOWNGRADE_AMOUNT_ZERO'') (\<lambda>_.
     await (agent_transfer E ch (sto_agent (ch_app ch)) this token this amount) (\<lambda>ch1.
     await (token_downgrade E ch1 token this amount) (\<lambda>ch2.
     await (token_getUnderlyingToken E ch2 token) (\<lambda>underlying.
     await (token_transfer E ch2 underlying this (sto_agent (ch_app ch2)) amount) (\<lambda>(_, ch3). Inr ch3))))))"

definition createFlow ::
  "'e evm \<Rightarrow> eth_address \<Rightarrow> 'e chain \<Rightarrow> eth_address \<Rightarrow> eth_address \<Rightarrow> eth_address \<Rightarrow> int96 \<Rightarrow> bytes \<Rightarrow> 'e chain result" where
  "createFlow E this ch sender token receiver flowRate description =
     authorised E ch sender MANAGE_STREAMS_ROLE token
       (contract_callAgreement E this ch (createFlow_selector token receiver flowRate []) description)"

definition updateFlow ::
  "'e evm \<Rightarrow> eth_address \<Rightarrow> 'e chain \<Rightarrow> eth_address \<Rightarrow> eth_address \<Rightarrow> eth_address \<Rightarrow> int96 \<Rightarrow> bytes \<Rightarrow> 'e chain result" where
  "updateFlow E this ch sender token receiver flowRate description =
     authorised E ch sender MANAGE_STREAMS_ROLE token
       (contract_callAgreement E this ch (updateFlow_selector token receiver flowRate []) description)"

definition deleteFlow :: "'e evm \<Rightarrow> eth_address \<Rightarrow> 'e chain \<Rightarrow> eth_address \<Rightarrow> eth_address \<Rightarrow> eth_address \<Rightarrow> 'e chain result" where
  "deleteFlow E this ch sender token receiver =
     authorised E ch sender MANAGE_STREAMS_ROLE token
       (contract_callAgreement E this ch (deleteFlow_selector token (sto_agent (ch_app ch)) receiver []) [])"

definition deleteOwnFlow :: "'e evm \<Rightarrow> eth_address \<Rightarrow> 'e chain \<Rightarrow> eth_address \<Rightarrow> eth_address \<Rightarrow> 'e chain result" where
  "deleteOwnFlow E this ch sender token =
     open_to_all E ch token (
     await (cfa_getFlow E ch (sto_cfa (ch_app ch)) token (sto_agent (ch_app ch)) sender) (\<lambda>(timestamp, _, _, _).
     await (require (timestamp \<noteq> 0) ''SUPERFLUID_SENDER_CAN_NOT_DELETE_FLOW'') (\<lambda>_.
       contract_callAgreement E this ch (deleteFlow_selector token (sto_agent (ch_app ch)) sender []) [])))"

definition setAgent :: "'e evm \<Rightarrow> 'e chain \<Rightarrow> eth_address \<Rightarrow> eth_address \<Rightarrow> 'e chain result" where
  "setAgent E ch sender agent =
     await (auth E ch sender SET_AGENT_ROLE) (\<lambda>_.
     await (require (isContract E ch agent) ''SUPERFLUID_AGENT_NOT_CONTRACT'') (\<lambda>_.
       Inr (ch\<lparr> ch_app := (ch_app ch)\<lparr> sto_agent := agent \<rparr>, ch_events := ch_events ch @ [NewAgentSet agent] \<rparr>)))"

section \<open>Transactions\<close>

datatype contract_call =
    Initialize eth_address eth_address eth_address
  | Deposit eth_address uint256 bool
  | Withdraw eth_address eth_address uint256
  | Upgrade_token eth_address uint256
  | Downgrade_token eth_address uint256
  | CreateFlow eth_address eth_address int96 bytes
  | UpdateFlow eth_address eth_address int96 bytes
  | DeleteFlow eth_address eth_address
  | DeleteOwnFlow eth_address
  | SetAgent eth_address

fun contract_step :: "'e evm \<Rightarrow> eth_address \<Rightarrow> 'e chain \<Rightarrow> eth_address \<Rightarrow> contract_call \<Rightarrow> 'e chain result" where
  "contract_step E this ch sender (Initialize agent host cfa) = initialize E ch agent host cfa"
| "contract_step E this ch sender (Deposit token amount ext) = deposit E this ch sender token amount ext"
| "contract_step E this ch sender (Withdraw token receiver amount) = withdraw E this ch sender token receiver amount"
| "contract_step E this ch sender (Upgrade_token token amount) = upgrade E this ch sender token amount"
| "contract_step E this ch sender (Downgrade_token token amount) = downgrade E this ch sender token amount"
| "contract_step E this ch sender (CreateFlow token receiver r d) = createFlow E this ch sender token receiver r d"
| "contract_step E this ch sender (UpdateFlow token receiver r d) = updateFlow E this ch sender token receiver r d"
| "contract_step E this ch sender (DeleteFlow token receiver) = deleteFlow E this ch sender token receiver"
| "contract_step E this ch sender (DeleteOwnFlow token) = deleteOwnFlow E this ch sender token"
| "contract_step E this ch sender (SetAgent agent) = setAgent E ch sender agent"

text \<open>A transaction that reverts leaves the chain as it was.\<close>

definition transact :: "'e evm \<Rightarrow> eth_address \<Rightarrow> 'e chain \<Rightarrow> eth_address \<times> contract_call \<Rightarrow> 'e chain" where
  "transact E this ch tx = (case contract_step E this ch (fst tx) (snd tx) of Inl _ \<Rightarrow> ch | Inr ch' \<Rightarrow> ch')"

section \<open>Lemmas\<close>

lemma require_Inr [simp]: "require b reason = Inr u \<longleftrightarrow> b"
  by (simp add: require_def)

lemma isValidSuperToken_Inr [simp]:
  "isValidSuperToken E ch token = Inr u \<longleftrightarrow> isContract E ch token \<and> staticcall E ch token getHost_selector \<noteq> None"
  by (auto simp: isValidSuperToken_def staticInvoke_def split: option.split)

lemma authorised_Inr:
  "authorised E ch sender role token body = Inr ch' \<longleftrightarrow>
     canPerform E ch sender role \<and> isContract E ch token \<and> staticcall E ch token getHost_selector \<noteq> None \<and> body = Inr ch'"
  by (auto simp: authorised_def auth_def)

lemma open_to_all_Inr:
  "open_to_all E ch token body = Inr ch' \<longleftrightarrow>
     hasInitialized E ch \<and> isContract E ch token \<and> staticcall E ch token getHost_selector \<noteq> None \<and> body = Inr ch'"
  by (auto simp: open_to_all_def)

lemma roles_distinct:
  "distinct [MANAGE_STREAMS_ROLE, SET_AGENT_ROLE, MANAGE_SUPERTOKENS_ROLE]"
  by (simp add: MANAGE_STREAMS_ROLE_def SET_AGENT_ROLE_def MANAGE_SUPERTOKENS_ROLE_def)

end
