(* ===== verification/App_Contract_Properties.thy ===== *)
theory App_Contract_Properties
  imports App_Contract Event_Handlers
begin

text \<open>
  The properties of the app's contract: what a run of transactions does to its storage and who
  may cause it, that a receiver's own deletion is the manager's, and where the tokens of
  conversions go. The behaviour of the other contracts that they rely on is stated as hypotheses.
\<close>

section \<open>The other contracts\<close>

text \<open>A relation between the states before and after that every call of another contract has.\<close>

definition calls_keep :: "'e evm \<Rightarrow> ('e chain \<Rightarrow> 'e chain \<Rightarrow> bool) \<Rightarrow> bool" where
  "calls_keep E R \<longleftrightarrow>
     (\<forall>ch t c a b n ok ch'. token_transferFrom E ch t c a b n = Inr (ok, ch') \<longrightarrow> R ch ch') \<and>
     (\<forall>ch t c a n ok ch'. token_approve E ch t c a n = Inr (ok, ch') \<longrightarrow> R ch ch') \<and>
     (\<forall>ch t c a n ok ch'. token_transfer E ch t c a n = Inr (ok, ch') \<longrightarrow> R ch ch') \<and>
     (\<forall>ch t c n ch'. token_upgrade E ch t c n = Inr ch' \<longrightarrow> R ch ch') \<and>
     (\<forall>ch t c n ch'. token_downgrade E ch t c n = Inr ch' \<longrightarrow> R ch ch') \<and>
     (\<forall>ch g c t n ch'. agent_deposit E ch g c t n = Inr ch' \<longrightarrow> R ch ch') \<and>
     (\<forall>ch g c t a n ch'. agent_transfer E ch g c t a n = Inr ch' \<longrightarrow> R ch ch') \<and>
     (\<forall>ch g c a d ch'. agent_safeExecute E ch g c a d = Inr ch' \<longrightarrow> R ch ch')"

text \<open>The contracts called do not call the app back.\<close>

definition same_app :: "'e chain \<Rightarrow> 'e chain \<Rightarrow> bool" where
  "same_app ch ch' \<longleftrightarrow> ch_app ch' = ch_app ch \<and> ch_events ch' = ch_events ch"

definition no_callbacks :: "'e evm \<Rightarrow> bool" where
  "no_callbacks E \<longleftrightarrow> calls_keep E same_app"

text \<open>The base contract: an app is initialized once and for all, and roles are only granted
  on an initialized app.\<close>

definition base_contract :: "'e evm \<Rightarrow> bool" where
  "base_contract E \<longleftrightarrow>
     (\<forall>ch. hasInitialized E ch \<longrightarrow> \<not> canInit E ch) \<and>
     (\<forall>ch ch'. hasInitialized E ch \<longrightarrow> ch_ext ch' = ch_ext ch \<longrightarrow> hasInitialized E ch') \<and>
     calls_keep E (\<lambda>ch ch'. hasInitialized E ch \<longrightarrow> hasInitialized E ch')"

section \<open>Balances\<close>

text \<open>Balances by token and holder, and a transfer between two holders.\<close>

type_synonym balances = "eth_address \<Rightarrow> eth_address \<Rightarrow> nat"

definition credited :: "balances \<Rightarrow> eth_address \<Rightarrow> eth_address \<Rightarrow> nat \<Rightarrow> balances" where
  "credited b t a n = b(t := (b t)(a := b t a + n))"

definition debited :: "balances \<Rightarrow> eth_address \<Rightarrow> eth_address \<Rightarrow> nat \<Rightarrow> balances" where
  "debited b t a n = b(t := (b t)(a := b t a - n))"

definition moved :: "balances \<Rightarrow> eth_address \<Rightarrow> eth_address \<Rightarrow> eth_address \<Rightarrow> nat \<Rightarrow> balances" where
  "moved b t source target n = credited (debited b t source n) t target n"

lemmas balance_simps = moved_def credited_def debited_def

text \<open>Tokens: a call of a token that is not reverted moves the amount, an approval moves nothing.
  \<open>bal\<close> reads the balances off the rest of the chain.\<close>

definition tokens_move :: "'e evm \<Rightarrow> ('e \<Rightarrow> balances) \<Rightarrow> bool" where
  "tokens_move E bal \<longleftrightarrow>
     (\<forall>ch t c a b n ok ch'. token_transferFrom E ch t c a b n = Inr (ok, ch') \<longrightarrow>
        unat n \<le> bal (ch_ext ch) t a \<and> bal (ch_ext ch') = moved (bal (ch_ext ch)) t a b (unat n)) \<and>
     (\<forall>ch t c a n ok ch'. token_transfer E ch t c a n = Inr (ok, ch') \<longrightarrow>
        unat n \<le> bal (ch_ext ch) t c \<and> bal (ch_ext ch') = moved (bal (ch_ext ch)) t c a (unat n)) \<and>
     (\<forall>ch t c a n ok ch'. token_approve E ch t c a n = Inr (ok, ch') \<longrightarrow> bal (ch_ext ch') = bal (ch_ext ch))"

text \<open>The agent is a vault: a deposit takes the amount from the caller, a transfer gives it from
  the agent.\<close>

definition vault_moves :: "'e evm \<Rightarrow> ('e \<Rightarrow> balances) \<Rightarrow> bool" where
  "vault_moves E bal \<longleftrightarrow>
     (\<forall>ch g c t n ch'. agent_deposit E ch g c t n = Inr ch' \<longrightarrow>
        unat n \<le> bal (ch_ext ch) t c \<and> bal (ch_ext ch') = moved (bal (ch_ext ch)) t c g (unat n)) \<and>
     (\<forall>ch g c t a n ch'. agent_transfer E ch g c t a n = Inr ch' \<longrightarrow>
        unat n \<le> bal (ch_ext ch) t g \<and> bal (ch_ext ch') = moved (bal (ch_ext ch)) t g a (unat n))"

text \<open>
  Super tokens have 18 decimals, and \<open>scale t\<close> of their units are one of the underlying token.
  Upgrading an amount, counted in units of the super token, takes the whole underlying units in
  it from the caller and mints as many super tokens; downgrading is the reverse.
\<close>

definition wraps :: "'e evm \<Rightarrow> ('e \<Rightarrow> balances) \<Rightarrow> (eth_address \<Rightarrow> eth_address) \<Rightarrow> (eth_address \<Rightarrow> nat) \<Rightarrow> bool" where
  "wraps E bal underlying scale \<longleftrightarrow>
     (\<forall>ch t u. token_getUnderlyingToken E ch t = Inr u \<longrightarrow> u = underlying t) \<and>
     (\<forall>ch t c n ch'. token_upgrade E ch t c n = Inr ch' \<longrightarrow>
        unat n div scale t \<le> bal (ch_ext ch) (underlying t) c \<and>
        bal (ch_ext ch') = credited (moved (bal (ch_ext ch)) (underlying t) c t (unat n div scale t))
          t c (unat n div scale t * scale t)) \<and>
     (\<forall>ch t c n ch'. token_downgrade E ch t c n = Inr ch' \<longrightarrow>
        unat n div scale t * scale t \<le> bal (ch_ext ch) t c \<and> unat n div scale t \<le> bal (ch_ext ch) (underlying t) t \<and>
        bal (ch_ext ch') = moved (debited (bal (ch_ext ch)) t c (unat n div scale t * scale t))
          (underlying t) t c (unat n div scale t))"

section \<open>A concrete chain\<close>

text \<open>A chain of balances and a flag for the initialization, with tokens that move them: account 1
  has every role, the underlying token of a super token is at the next address, and \<open>k\<close> units of a
  super token, ten in the samples, are one of its underlying token.\<close>

definition s_set :: "(balances \<times> bool) chain \<Rightarrow> balances \<Rightarrow> (balances \<times> bool) chain" where
  "s_set ch b = ch\<lparr> ch_ext := (b, snd (ch_ext ch)) \<rparr>"

definition s_move ::
  "(balances \<times> bool) chain \<Rightarrow> eth_address \<Rightarrow> eth_address \<Rightarrow> eth_address \<Rightarrow> uint256 \<Rightarrow> (balances \<times> bool) chain result" where
  "s_move ch t a b n =
     (if unat n \<le> fst (ch_ext ch) t a then Inr (s_set ch (moved (fst (ch_ext ch)) t a b (unat n)))
      else Inl (GenericError ''balance too low''))"

definition s_upgrade :: "nat \<Rightarrow> (balances \<times> bool) chain \<Rightarrow> eth_address \<Rightarrow> eth_address \<Rightarrow> uint256 \<Rightarrow> (balances \<times> bool) chain result" where
  "s_upgrade k ch t c n =
     (if unat n div k \<le> fst (ch_ext ch) (t + 1) c
      then Inr (s_set ch (credited (moved (fst (ch_ext ch)) (t + 1) c t (unat n div k)) t c (unat n div k * k)))
      else Inl (GenericError ''balance too low''))"

definition s_downgrade :: "nat \<Rightarrow> (balances \<times> bool) chain \<Rightarrow> eth_address \<Rightarrow> eth_address \<Rightarrow> uint256 \<Rightarrow> (balances \<times> bool) chain result" where
  "s_downgrade k ch t c n =
     (if unat n div k * k \<le> fst (ch_ext ch) t c \<and> unat n div k \<le> fst (ch_ext ch) (t + 1) t
      then Inr (s_set ch (moved (debited (fst (ch_ext ch)) t c (unat n div k * k)) (t + 1) t c (unat n div k)))
      else Inl (GenericError ''balance too low''))"

definition scaled_evm :: "nat \<Rightarrow> (balances \<times> bool) evm" where
  "scaled_evm k = \<lparr>
     isContract = (\<lambda>ch a. True),
     canInit = (\<lambda>ch. \<not> snd (ch_ext ch)),
     hasInitialized = (\<lambda>ch. snd (ch_ext ch)),
     canPerform = (\<lambda>ch a role. a = 1 \<and> snd (ch_ext ch)),
     setInitialized = (\<lambda>ch. Inr (ch\<lparr> ch_ext := (fst (ch_ext ch), True) \<rparr>)),
     staticcall = (\<lambda>ch a d. Some 0),
     token_transferFrom = (\<lambda>ch t c a b n. await (s_move ch t a b n) (\<lambda>ch'. Inr (True, ch'))),
     token_approve = (\<lambda>ch t c a n. Inr (True, ch)),
     token_transfer = (\<lambda>ch t c a n. await (s_move ch t c a n) (\<lambda>ch'. Inr (True, ch'))),
     token_getUnderlyingToken = (\<lambda>ch t. Inr (t + 1)),
     token_upgrade = s_upgrade k,
     token_downgrade = s_downgrade k,
     agent_deposit = (\<lambda>ch g c t n. s_move ch t c g n),
     agent_transfer = (\<lambda>ch g c t a n. s_move ch t g a n),
     agent_safeExecute = (\<lambda>ch g c a d. Inr ch),
     cfa_getFlow = (\<lambda>ch f t a b. Inr (1, 5, 0, 0)) \<rparr>"

abbreviation sample_evm :: "(balances \<times> bool) evm" where
  "sample_evm \<equiv> scaled_evm 10"

text \<open>The agent is at address 2 and has 100 of token 8, the underlying one of token 7, and account 5
  has 100 of token 7.\<close>

definition s_chain :: "(balances \<times> bool) chain" where
  "s_chain = \<lparr> ch_app = \<lparr> sto_host = 10, sto_cfa = 11, sto_agent = 2 \<rparr>, ch_events = [],
     ch_ext = (\<lambda>t a. if t = 8 \<and> a = 2 \<or> t = 7 \<and> a = 5 then 100 else 0, True) \<rparr>"

lemma sample_simps [simp]:
  "isContract (scaled_evm k) ch a" "staticcall (scaled_evm k) ch a d = Some 0"
  "hasInitialized (scaled_evm k) ch = snd (ch_ext ch)" "canPerform (scaled_evm k) ch a role = (a = 1 \<and> snd (ch_ext ch))"
  "token_transferFrom (scaled_evm k) ch t c a b n = await (s_move ch t a b n) (\<lambda>ch'. Inr (True, ch'))"
  "token_approve (scaled_evm k) ch t c a n = Inr (True, ch)"
  "token_transfer (scaled_evm k) ch t c a n = await (s_move ch t c a n) (\<lambda>ch'. Inr (True, ch'))"
  "token_getUnderlyingToken (scaled_evm k) ch t = Inr (t + 1)" "token_upgrade (scaled_evm k) ch t c n = s_upgrade k ch t c n"
  "agent_deposit (scaled_evm k) ch g c t n = s_move ch t c g n" "agent_transfer (scaled_evm k) ch g c t a n = s_move ch t g a n"
  "agent_safeExecute (scaled_evm k) ch g c a d = Inr ch"
  by (simp_all add: scaled_evm_def)

lemma s_set_simps [simp]:
  "ch_app (s_set ch b) = ch_app ch" "ch_events (s_set ch b) = ch_events ch" "ch_ext (s_set ch b) = (b, snd (ch_ext ch))"
  by (simp_all add: s_set_def)

lemma s_move_Inr: "s_move ch t a b n = Inr ch' \<longleftrightarrow>
    unat n \<le> fst (ch_ext ch) t a \<and> ch' = s_set ch (moved (fst (ch_ext ch)) t a b (unat n))"
  by (auto simp: s_move_def)

lemma scaled_evm_documented [simp]:
  "no_callbacks (scaled_evm k)" "base_contract (scaled_evm k)" "tokens_move (scaled_evm k) fst" "vault_moves (scaled_evm k) fst"
  "wraps (scaled_evm k) fst (\<lambda>t. t + 1) (\<lambda>t. k)"
  by (auto simp: scaled_evm_def no_callbacks_def base_contract_def calls_keep_def same_app_def tokens_move_def
      vault_moves_def wraps_def s_move_Inr s_upgrade_def s_downgrade_def split: if_splits)

lemmas sample_evm_documented = scaled_evm_documented [of 10]

section \<open>Calls of the other contracts\<close>

lemma calls_keepD:
  assumes "calls_keep E R"
  shows "token_transferFrom E ch t c a b n = Inr (ok, ch') \<Longrightarrow> R ch ch'"
    and "token_approve E ch t c a n = Inr (ok, ch') \<Longrightarrow> R ch ch'"
    and "token_transfer E ch t c a n = Inr (ok, ch') \<Longrightarrow> R ch ch'"
    and "token_upgrade E ch t c n = Inr ch' \<Longrightarrow> R ch ch'"
    and "token_downgrade E ch t c n = Inr ch' \<Longrightarrow> R ch ch'"
    and "agent_deposit E ch g c t n = Inr ch' \<Longrightarrow> R ch ch'"
    and "agent_transfer E ch g c t a n = Inr ch' \<Longrightarrow> R ch ch'"
    and "agent_safeExecute E ch g c a d = Inr ch' \<Longrightarrow> R ch ch'"
  using assms unfolding calls_keep_def by metis+

section \<open>Inversion of the functions\<close>

lemma deposit_InrE:
  assumes "deposit E this ch sender token amount ext = Inr ch'"
  obtains ch1 ch2 where "0 < amount" and "hasInitialized E ch"
    and "if ext then token_transferFrom E ch token this sender this amount = Inr (True, ch1) else ch1 = ch"
    and "token_approve E ch1 token this (sto_agent (ch_app ch1)) amount = Inr (True, ch2)"
    and "agent_deposit E ch2 (sto_agent (ch_app ch2)) this token amount = Inr ch'"
  using assms by (auto simp: deposit_def open_to_all_Inr split: if_splits)

lemma upgrade_InrE:
  assumes "upgrade E this ch sender token amount = Inr ch'"
  obtains u ch1 u1 ok ch2 ch3 ok' where "0 < amount" and "canPerform E ch sender MANAGE_SUPERTOKENS_ROLE"
    and "token_getUnderlyingToken E ch token = Inr u"
    and "agent_transfer E ch (sto_agent (ch_app ch)) this u this amount = Inr ch1"
    and "token_getUnderlyingToken E ch1 token = Inr u1" and "token_approve E ch1 u1 this token amount = Inr (ok, ch2)"
    and "token_upgrade E ch2 token this amount = Inr ch3"
    and "token_transfer E ch3 token this (sto_agent (ch_app ch3)) amount = Inr (ok', ch')"
  using assms by (auto simp: upgrade_def authorised_Inr)

lemma downgrade_InrE:
  assumes "downgrade E this ch sender token amount = Inr ch'"
  obtains ch1 ch2 u ok where "0 < amount" and "canPerform E ch sender MANAGE_SUPERTOKENS_ROLE"
    and "agent_transfer E ch (sto_agent (ch_app ch)) this token this amount = Inr ch1"
    and "token_downgrade E ch1 token this amount = Inr ch2" and "token_getUnderlyingToken E ch2 token = Inr u"
    and "token_transfer E ch2 u this (sto_agent (ch_app ch2)) amount = Inr (ok, ch')"
  using assms by (auto simp: downgrade_def authorised_Inr)

section \<open>Storage and authority\<close>

text \<open>The role that a call asks for, if any.\<close>

fun required_role :: "contract_call \<Rightarrow> bytes32 option" where
  "required_role (Withdraw _ _ _) = Some MANAGE_STREAMS_ROLE"
| "required_role (Upgrade_token _ _) = Some MANAGE_SUPERTOKENS_ROLE"
| "required_role (Downgrade_token _ _) = Some MANAGE_SUPERTOKENS_ROLE"
| "required_role (CreateFlow _ _ _ _) = Some MANAGE_STREAMS_ROLE"
| "required_role (UpdateFlow _ _ _ _) = Some MANAGE_STREAMS_ROLE"
| "required_role (DeleteFlow _ _) = Some MANAGE_STREAMS_ROLE"
| "required_role (SetAgent _) = Some SET_AGENT_ROLE"
| "required_role _ = None"

lemma contract_step_authorised:
  assumes "contract_step E this ch sender call = Inr ch'" and "required_role call = Some role"
  shows "canPerform E ch sender role"
  using assms
  by (cases call) (auto simp: withdraw_def upgrade_def downgrade_def createFlow_def updateFlow_def deleteFlow_def setAgent_def
      auth_def authorised_Inr)

text \<open>A call that changes no storage of its own has whatever relation its calls have.\<close>

lemma contract_step_relates:
  assumes "calls_keep E R" and "\<And>x. R x x" and "\<And>x y z. R x y \<Longrightarrow> R y z \<Longrightarrow> R x z"
    and "contract_step E this ch sender call = Inr ch'"
    and "\<forall>agent host cfa. call \<noteq> Initialize agent host cfa" and "\<forall>agent. call \<noteq> SetAgent agent"
  shows "R ch ch'"
proof (cases call)
  case (Deposit token amount ext)
  with assms(4) have "deposit E this ch sender token amount ext = Inr ch'" by simp
  then show ?thesis
    by (rule deposit_InrE) (use assms(2,3) calls_keepD [OF assms(1)] in \<open>metis\<close>)
next
  case (Upgrade_token token amount)
  with assms(4) have "upgrade E this ch sender token amount = Inr ch'" by simp
  then show ?thesis by (rule upgrade_InrE) (use assms(3) calls_keepD [OF assms(1)] in \<open>metis\<close>)
next
  case (Downgrade_token token amount)
  with assms(4) have "downgrade E this ch sender token amount = Inr ch'" by simp
  then show ?thesis by (rule downgrade_InrE) (use assms(3) calls_keepD [OF assms(1)] in \<open>metis\<close>)
next
  case (Withdraw token receiver amount)
  with assms(4) show ?thesis by (auto simp: withdraw_def authorised_Inr intro: calls_keepD(7) [OF assms(1)])
next
  case (CreateFlow token receiver r d)
  with assms(4) show ?thesis
    by (auto simp: createFlow_def contract_callAgreement_def authorised_Inr intro: calls_keepD(8) [OF assms(1)])
next
  case (UpdateFlow token receiver r d)
  with assms(4) show ?thesis
    by (auto simp: updateFlow_def contract_callAgreement_def authorised_Inr intro: calls_keepD(8) [OF assms(1)])
next
  case (DeleteFlow token receiver)
  with assms(4) show ?thesis
    by (auto simp: deleteFlow_def contract_callAgreement_def authorised_Inr intro: calls_keepD(8) [OF assms(1)])
next
  case (DeleteOwnFlow token)
  with assms(4) show ?thesis
    by (auto simp: deleteOwnFlow_def contract_callAgreement_def open_to_all_Inr intro: calls_keepD(8) [OF assms(1)])
qed (use assms(5,6) in auto)

text \<open>What every transaction keeps of an initialized app: the host, the agreement, and that the
  agent is the one of the last event.\<close>

definition app_inv :: "'e evm \<Rightarrow> 'e chain \<Rightarrow> 'e chain \<Rightarrow> bool" where
  "app_inv E ch0 ch \<longleftrightarrow> no_callbacks E \<and> base_contract E \<and> hasInitialized E ch \<and>
     sto_host (ch_app ch) = sto_host (ch_app ch0) \<and> sto_cfa (ch_app ch) = sto_cfa (ch_app ch0) \<and>
     (\<exists>agents. ch_events ch = ch_events ch0 @ map NewAgentSet agents \<and>
        sto_agent (ch_app ch) = last (sto_agent (ch_app ch0) # agents))"

lemma setAgent_Inr:
  "setAgent E ch sender agent = Inr ch' \<longleftrightarrow> canPerform E ch sender SET_AGENT_ROLE \<and> isContract E ch agent \<and>
     ch' = ch\<lparr> ch_app := (ch_app ch)\<lparr> sto_agent := agent \<rparr>, ch_events := ch_events ch @ [NewAgentSet agent] \<rparr>"
  by (auto simp: setAgent_def auth_def)

lemma app_inv_step:
  assumes "app_inv E ch0 ch" and "contract_step E this ch sender call = Inr ch'"
  shows "app_inv E ch0 ch'"
proof -
  have E: "no_callbacks E" "base_contract E" "hasInitialized E ch" using assms(1) by (simp_all add: app_inv_def)
  consider (init) a h c where "call = Initialize a h c" | (agent) a where "call = SetAgent a"
    | (other) "\<forall>a h c. call \<noteq> Initialize a h c" "\<forall>a. call \<noteq> SetAgent a"
    by (cases call) auto
  then show ?thesis
  proof cases
    case init
    then have False using assms(2) E(2,3) by (auto simp: initialize_def base_contract_def)
    then show ?thesis ..
  next
    case agent
    then have ch': "ch' = ch\<lparr> ch_app := (ch_app ch)\<lparr> sto_agent := a \<rparr>, ch_events := ch_events ch @ [NewAgentSet a] \<rparr>"
      using assms(2) by (simp add: setAgent_Inr)
    obtain agents where "ch_events ch = ch_events ch0 @ map NewAgentSet agents" using assms(1) by (auto simp: app_inv_def)
    then have "ch_events ch' = ch_events ch0 @ map NewAgentSet (agents @ [a])" by (simp add: ch')
    moreover have "sto_agent (ch_app ch') = last (sto_agent (ch_app ch0) # agents @ [a])" by (simp add: ch')
    moreover have "hasInitialized E ch'" using E(2,3) by (simp add: base_contract_def ch')
    moreover have "sto_host (ch_app ch') = sto_host (ch_app ch0)" "sto_cfa (ch_app ch') = sto_cfa (ch_app ch0)"
      using assms(1) by (simp_all add: ch' app_inv_def)
    ultimately show ?thesis using E(1,2) unfolding app_inv_def by blast
  next
    case other
    have "same_app ch ch'"
      by (rule contract_step_relates [OF E(1) [unfolded no_callbacks_def] _ _ assms(2) other]) (simp_all add: same_app_def)
    moreover have "hasInitialized E ch \<longrightarrow> hasInitialized E ch'"
      by (rule contract_step_relates [OF _ _ _ assms(2) other, of "\<lambda>ch ch'. hasInitialized E ch \<longrightarrow> hasInitialized E ch'"])
        (use E(2) in \<open>simp_all add: base_contract_def\<close>)
    ultimately show ?thesis using assms(1) by (simp add: app_inv_def same_app_def)
  qed
qed

interpretation contract: event_store "\<lambda>ch tx. Inr (transact E this ch tx)" "app_inv E ch0" "\<lambda>_. True" for E this ch0
  by unfold_locales (auto simp: transact_def split: sum.splits dest: app_inv_step)

lemma run_events_total: "run_events (\<lambda>s e. Inr (f s e)) s es = Inr (fold (\<lambda>e s. f s e) es s)"
  by (induction es arbitrary: s) simp_all

text \<open>Without roles, only deposits and deletions of the sender's own flow succeed.\<close>

lemma unprivileged_step:
  assumes "hasInitialized E ch" and "base_contract E" and "\<forall>role. \<not> canPerform E ch sender role"
    and "contract_step E this ch sender call = Inr ch'"
  shows "(\<exists>token amount ext. call = Deposit token amount ext) \<or> (\<exists>token. call = DeleteOwnFlow token)"
proof -
  have "required_role call = None"
    using contract_step_authorised [OF assms(4)] assms(3) by (cases "required_role call") auto
  then show ?thesis
    using assms(1,2,4) by (cases call) (auto simp: initialize_def base_contract_def)
qed

text \<open>
  C30. The storage of the contract and who may change it. Over any sequence of transactions on an
  initialized app, reverted ones included, the host and the agreement stay the same, and the
  agent is the one that the last event announced, or the first one if there was none. A
  transaction that succeeds was sent by an account with the role that its function asks for; an
  account without roles succeeds only with deposits and with the deletion of the flow from the
  agent to itself, and neither changes the storage.
\<close>

theorem contract_authority:
  assumes "no_callbacks E" and "base_contract E" and "hasInitialized E ch"
    and "ch' = fold (\<lambda>tx ch. transact E this ch tx) txs ch"
  shows "sto_host (ch_app ch') = sto_host (ch_app ch) \<and> sto_cfa (ch_app ch') = sto_cfa (ch_app ch) \<and>
    (\<exists>agents. ch_events ch' = ch_events ch @ map NewAgentSet agents \<and>
       sto_agent (ch_app ch') = last (sto_agent (ch_app ch) # agents)) \<and>
    (\<forall>sender call ch2. contract_step E this ch' sender call = Inr ch2 \<longrightarrow>
       (case required_role call of None \<Rightarrow> True | Some role \<Rightarrow> canPerform E ch' sender role) \<and>
       ((\<forall>role. \<not> canPerform E ch' sender role) \<longrightarrow>
          ((\<exists>token amount ext. call = Deposit token amount ext) \<or> (\<exists>token. call = DeleteOwnFlow token)) \<and>
          ch_app ch2 = ch_app ch'))"
proof -
  have "app_inv E ch ch" using assms(1-3) by (auto simp: app_inv_def)
  then have inv: "app_inv E ch ch'"
    using contract.run_inv [of E ch ch txs this ch'] assms(4) by (simp add: run_events_total)
  have "ch_app ch2 = ch_app ch'"
    if "contract_step E this ch' sender call = Inr ch2" and "(\<exists>t n x. call = Deposit t n x) \<or> (\<exists>t. call = DeleteOwnFlow t)"
    for sender call ch2
  proof -
    have "same_app ch' ch2"
      by (rule contract_step_relates [OF assms(1) [unfolded no_callbacks_def] _ _ that(1)])
        (use that(2) in \<open>auto simp: same_app_def\<close>)
    then show ?thesis by (simp add: same_app_def)
  qed
  moreover have "hasInitialized E ch'" using inv by (simp add: app_inv_def)
  ultimately show ?thesis
    using inv unprivileged_step [OF _ assms(2)] contract_step_authorised
    by (auto simp: app_inv_def split: option.split)
qed

theorem contract_authority_witness:
  "\<exists>agents. ch_events (fold (\<lambda>tx ch. transact sample_evm 3 ch tx) [(1, SetAgent 4), (5, SetAgent 6)] s_chain) = map NewAgentSet agents \<and>
     sto_agent (ch_app (fold (\<lambda>tx ch. transact sample_evm 3 ch tx) [(1, SetAgent 4), (5, SetAgent 6)] s_chain)) = last (2 # agents)"
proof -
  have "hasInitialized sample_evm s_chain" by (simp add: scaled_evm_def s_chain_def)
  moreover have "ch_events s_chain = []" "sto_agent (ch_app s_chain) = 2" by (simp_all add: s_chain_def)
  ultimately show ?thesis
    using contract_authority [OF sample_evm_documented(1,2) _ refl, of s_chain 3 "[(1, SetAgent 4), (5, SetAgent 6)]"] by auto
qed

section \<open>Own flows\<close>

text \<open>
  C27. A receiver's own deletion is the manager's. On an initialized app, an account ends the flow
  from the agent to itself by \<^verbatim>\<open>deleteOwnFlow\<close> exactly when the agreement knows such a flow and
  a manager of streams would end it by \<^verbatim>\<open>deleteFlow\<close>, and the chain is then the same: the
  unguarded function does nothing else.
\<close>

theorem own_deletion_equivalent:
  assumes "hasInitialized E ch" and "canPerform E ch manager MANAGE_STREAMS_ROLE"
  shows "deleteOwnFlow E this ch user token = Inr ch' \<longleftrightarrow>
    (\<exists>timestamp rest. cfa_getFlow E ch (sto_cfa (ch_app ch)) token (sto_agent (ch_app ch)) user = Inr (timestamp, rest) \<and>
       timestamp \<noteq> 0) \<and>
    deleteFlow E this ch manager token user = Inr ch'"
  using assms by (auto simp: deleteOwnFlow_def deleteFlow_def authorised_Inr open_to_all_Inr)

theorem own_deletion_equivalent_witness:
  "deleteOwnFlow sample_evm 3 s_chain 5 7 = Inr s_chain \<longleftrightarrow> deleteFlow sample_evm 3 s_chain 1 7 5 = Inr s_chain"
proof -
  have "hasInitialized sample_evm s_chain" "canPerform sample_evm s_chain 1 MANAGE_STREAMS_ROLE"
    "cfa_getFlow sample_evm s_chain (sto_cfa (ch_app s_chain)) 7 (sto_agent (ch_app s_chain)) 5 = Inr (1, 5, 0, 0)"
    by (simp_all add: scaled_evm_def s_chain_def)
  then show ?thesis using own_deletion_equivalent [of sample_evm s_chain 1 3 5 7 s_chain] by auto
qed

section \<open>Movements of tokens\<close>

lemma tokens_moveD:
  assumes "tokens_move E bal"
  shows "token_transferFrom E ch t c a b n = Inr (ok, ch') \<Longrightarrow>
      unat n \<le> bal (ch_ext ch) t a \<and> bal (ch_ext ch') = moved (bal (ch_ext ch)) t a b (unat n)"
    and "token_transfer E ch t c a n = Inr (ok, ch') \<Longrightarrow>
      unat n \<le> bal (ch_ext ch) t c \<and> bal (ch_ext ch') = moved (bal (ch_ext ch)) t c a (unat n)"
    and "token_approve E ch t c a n = Inr (ok, ch') \<Longrightarrow> bal (ch_ext ch') = bal (ch_ext ch)"
  using assms unfolding tokens_move_def by metis+

lemma vault_movesD:
  assumes "vault_moves E bal"
  shows "agent_deposit E ch g c t n = Inr ch' \<Longrightarrow>
      unat n \<le> bal (ch_ext ch) t c \<and> bal (ch_ext ch') = moved (bal (ch_ext ch)) t c g (unat n)"
    and "agent_transfer E ch g c t a n = Inr ch' \<Longrightarrow>
      unat n \<le> bal (ch_ext ch) t g \<and> bal (ch_ext ch') = moved (bal (ch_ext ch)) t g a (unat n)"
  using assms unfolding vault_moves_def by metis+

lemma wrapsD:
  assumes "wraps E bal underlying scale"
  shows "token_getUnderlyingToken E ch t = Inr u \<Longrightarrow> u = underlying t"
    and "token_upgrade E ch t c n = Inr ch' \<Longrightarrow> unat n div scale t \<le> bal (ch_ext ch) (underlying t) c \<and>
        bal (ch_ext ch') = credited (moved (bal (ch_ext ch)) (underlying t) c t (unat n div scale t))
          t c (unat n div scale t * scale t)"
    and "token_downgrade E ch t c n = Inr ch' \<Longrightarrow>
        unat n div scale t * scale t \<le> bal (ch_ext ch) t c \<and> unat n div scale t \<le> bal (ch_ext ch) (underlying t) t \<and>
        bal (ch_ext ch') = moved (debited (bal (ch_ext ch)) t c (unat n div scale t * scale t))
          (underlying t) t c (unat n div scale t)"
  using assms unfolding wraps_def by metis+

lemma no_callbacksD:
  assumes "no_callbacks E"
  shows "token_transferFrom E ch t c a b n = Inr (ok, ch') \<Longrightarrow> ch_app ch' = ch_app ch"
    and "token_approve E ch t c a n = Inr (ok, ch') \<Longrightarrow> ch_app ch' = ch_app ch"
    and "token_upgrade E ch t c n = Inr ch' \<Longrightarrow> ch_app ch' = ch_app ch"
    and "token_downgrade E ch t c n = Inr ch' \<Longrightarrow> ch_app ch' = ch_app ch"
    and "agent_transfer E ch g c t a n = Inr ch' \<Longrightarrow> ch_app ch' = ch_app ch"
proof -
  note keep = calls_keepD [OF assms [unfolded no_callbacks_def], unfolded same_app_def]
  show "token_transferFrom E ch t c a b n = Inr (ok, ch') \<Longrightarrow> ch_app ch' = ch_app ch" by (drule keep(1)) simp
  show "token_approve E ch t c a n = Inr (ok, ch') \<Longrightarrow> ch_app ch' = ch_app ch" by (drule keep(2)) simp
  show "token_upgrade E ch t c n = Inr ch' \<Longrightarrow> ch_app ch' = ch_app ch" by (drule keep(4)) simp
  show "token_downgrade E ch t c n = Inr ch' \<Longrightarrow> ch_app ch' = ch_app ch" by (drule keep(5)) simp
  show "agent_transfer E ch g c t a n = Inr ch' \<Longrightarrow> ch_app ch' = ch_app ch" by (drule keep(7)) simp
qed

text \<open>An external deposit passes through the app and leaves nothing there.\<close>

lemma moved_through:
  assumes "a \<noteq> b" and "b \<noteq> c" and "n \<le> f t a"
  shows "moved (moved f t a b n) t b c n = moved f t a c n"
  using assms by (auto simp: balance_simps fun_eq_iff)

lemma deposit_moves:
  assumes "no_callbacks E" and "tokens_move E bal" and "vault_moves E bal" and "sender \<noteq> this" and "sto_agent (ch_app ch) \<noteq> this"
    and "deposit E this ch sender token amount True = Inr ch'"
  shows "unat amount \<le> bal (ch_ext ch) token sender \<and>
    bal (ch_ext ch') = moved (bal (ch_ext ch)) token sender (sto_agent (ch_app ch)) (unat amount)"
  using assms(6)
proof (rule deposit_InrE)
  fix ch1 ch2
  assume *: "if True then token_transferFrom E ch token this sender this amount = Inr (True, ch1) else ch1 = ch"
    "token_approve E ch1 token this (sto_agent (ch_app ch1)) amount = Inr (True, ch2)"
    "agent_deposit E ch2 (sto_agent (ch_app ch2)) this token amount = Inr ch'"
  then have from_sender: "token_transferFrom E ch token this sender this amount = Inr (True, ch1)" by simp
  have agent: "sto_agent (ch_app ch2) = sto_agent (ch_app ch)"
    using no_callbacksD(1) [OF assms(1) from_sender] no_callbacksD(2) [OF assms(1) *(2)] by simp
  have b1: "unat amount \<le> bal (ch_ext ch) token sender"
    "bal (ch_ext ch1) = moved (bal (ch_ext ch)) token sender this (unat amount)"
    using tokens_moveD(1) [OF assms(2) from_sender] by simp_all
  have "bal (ch_ext ch2) = bal (ch_ext ch1)" using tokens_moveD(3) [OF assms(2) *(2)] .
  then have "bal (ch_ext ch') = moved (moved (bal (ch_ext ch)) token sender this (unat amount)) token this
      (sto_agent (ch_app ch)) (unat amount)"
    using vault_movesD(1) [OF assms(3) *(3)] b1(2) agent by simp
  then show ?thesis using b1(1) assms(4,5) by (simp add: moved_through)
qed

section \<open>Conversions\<close>

lemma upgrade_balances:
  assumes "no_callbacks E" and "tokens_move E bal" and "vault_moves E bal" and "wraps E bal underlying scale"
    and "upgrade E this ch sender token amount = Inr ch'"
  obtains b1 b3 where "unat amount \<le> bal (ch_ext ch) (underlying token) (sto_agent (ch_app ch))"
    and "b1 = moved (bal (ch_ext ch)) (underlying token) (sto_agent (ch_app ch)) this (unat amount)"
    and "unat amount div scale token \<le> b1 (underlying token) this"
    and "b3 = credited (moved b1 (underlying token) this token (unat amount div scale token)) token this
      (unat amount div scale token * scale token)"
    and "unat amount \<le> b3 token this" and "bal (ch_ext ch') = moved b3 token this (sto_agent (ch_app ch)) (unat amount)"
  using assms(5)
proof (rule upgrade_InrE)
  fix u ch1 u1 ok ch2 ch3 ok'
  assume *: "token_getUnderlyingToken E ch token = Inr u"
    "agent_transfer E ch (sto_agent (ch_app ch)) this u this amount = Inr ch1"
    "token_approve E ch1 u1 this token amount = Inr (ok, ch2)" "token_upgrade E ch2 token this amount = Inr ch3"
    "token_transfer E ch3 token this (sto_agent (ch_app ch3)) amount = Inr (ok', ch')"
  have u: "u = underlying token" using wrapsD(1) [OF assms(4) *(1)] .
  have agent: "sto_agent (ch_app ch3) = sto_agent (ch_app ch)"
    using no_callbacksD(5) [OF assms(1) *(2)] no_callbacksD(2) [OF assms(1) *(3)] no_callbacksD(3) [OF assms(1) *(4)] by simp
  show thesis
    using that vault_movesD(2) [OF assms(3) *(2)] tokens_moveD(3) [OF assms(2) *(3)] wrapsD(2) [OF assms(4) *(4)]
      tokens_moveD(2) [OF assms(2) *(5)] u agent by simp
qed

lemma downgrade_balances:
  assumes "no_callbacks E" and "tokens_move E bal" and "vault_moves E bal" and "wraps E bal underlying scale"
    and "downgrade E this ch sender token amount = Inr ch'"
  obtains b1 b2 where "unat amount \<le> bal (ch_ext ch) token (sto_agent (ch_app ch))"
    and "b1 = moved (bal (ch_ext ch)) token (sto_agent (ch_app ch)) this (unat amount)"
    and "unat amount div scale token * scale token \<le> b1 token this" and "unat amount div scale token \<le> b1 (underlying token) token"
    and "b2 = moved (debited b1 token this (unat amount div scale token * scale token)) (underlying token) token this
      (unat amount div scale token)"
    and "unat amount \<le> b2 (underlying token) this"
    and "bal (ch_ext ch') = moved b2 (underlying token) this (sto_agent (ch_app ch)) (unat amount)"
  using assms(5)
proof (rule downgrade_InrE)
  fix ch1 ch2 u ok
  assume *: "agent_transfer E ch (sto_agent (ch_app ch)) this token this amount = Inr ch1"
    "token_downgrade E ch1 token this amount = Inr ch2" "token_getUnderlyingToken E ch2 token = Inr u"
    "token_transfer E ch2 u this (sto_agent (ch_app ch2)) amount = Inr (ok, ch')"
  have u: "u = underlying token" using wrapsD(1) [OF assms(4) *(3)] .
  have agent: "sto_agent (ch_app ch2) = sto_agent (ch_app ch)"
    using no_callbacksD(5) [OF assms(1) *(1)] no_callbacksD(4) [OF assms(1) *(2)] by simp
  show thesis
    using that vault_movesD(2) [OF assms(3) *(1)] wrapsD(3) [OF assms(4) *(2)]
      tokens_moveD(2) [OF assms(2) *(4)] u agent by simp
qed



end
