(* ===== verification/Contract_Composition.thy ===== *)
theory Contract_Composition
  imports Panel_Properties App_Logic_Properties App_Contract_Properties
begin

text \<open>
  The front end and the contract together: a transaction that an action requests from the Aragon
  client is a call of the contract, once its texts are encoded for the chain. The encoding of
  addresses, integers and bytes is done by the client's libraries and is a parameter.
\<close>

section \<open>Transactions as calls of the contract\<close>

record abi =
  abi_address :: "string \<Rightarrow> eth_address option"
  abi_uint256 :: "string \<Rightarrow> uint256 option"
  abi_int96 :: "string \<Rightarrow> int96 option"
  abi_bytes :: "string \<Rightarrow> bytes option"

text \<open>Decimal digits in range are encoded as their value.\<close>

definition abi_decimal :: "abi \<Rightarrow> bool" where
  "abi_decimal A \<longleftrightarrow>
     (\<forall>s. s \<noteq> [] \<and> list_all is_digit s \<and> dec_val s < 2 ^ 256 \<longrightarrow> abi_uint256 A s = Some (of_int (dec_val s)))"

fun contract_call_of :: "abi \<Rightarrow> transaction \<Rightarrow> contract_call option" where
  "contract_call_of A (ApiCreateFlow token receiver fr d) =
     (case (abi_address A token, abi_address A receiver, abi_int96 A fr, abi_bytes A d) of
        (Some t, Some r, Some n, Some b) \<Rightarrow> Some (CreateFlow t r n b) | _ \<Rightarrow> None)"
| "contract_call_of A (ApiUpdateFlow token receiver fr d) =
     (case (abi_address A token, abi_address A receiver, abi_int96 A fr, abi_bytes A d) of
        (Some t, Some r, Some n, Some b) \<Rightarrow> Some (UpdateFlow t r n b) | _ \<Rightarrow> None)"
| "contract_call_of A (ApiDeleteFlow token receiver) =
     (case (abi_address A token, abi_address A receiver) of (Some t, Some r) \<Rightarrow> Some (DeleteFlow t r) | _ \<Rightarrow> None)"
| "contract_call_of A (ApiDeleteOwnFlow token) = map_option DeleteOwnFlow (abi_address A token)"
| "contract_call_of A (ApiDeposit token amount ext approval) =
     (case (abi_address A token, abi_uint256 A amount) of (Some t, Some n) \<Rightarrow> Some (Deposit t n ext) | _ \<Rightarrow> None)"
| "contract_call_of A (ApiWithdraw token receiver amount) =
     (case (abi_address A token, abi_address A receiver, abi_uint256 A amount) of
        (Some t, Some r, Some n) \<Rightarrow> Some (Withdraw t r n) | _ \<Rightarrow> None)"
| "contract_call_of A t = None"

text \<open>The stream that a call of the agreement acts on when \<open>caller\<close> makes it.\<close>

fun agreement_stream :: "eth_address \<Rightarrow> call_data \<Rightarrow> (eth_address \<times> eth_address \<times> eth_address) option" where
  "agreement_stream caller (createFlow_selector token receiver r ctx) = Some (token, caller, receiver)"
| "agreement_stream caller (updateFlow_selector token receiver r ctx) = Some (token, caller, receiver)"
| "agreement_stream caller (deleteFlow_selector token sender receiver ctx) = Some (token, sender, receiver)"
| "agreement_stream caller _ = None"

section \<open>Flows\<close>

text \<open>
  The contract does what the front end takes its functions to do: the stream that a
  transaction is said to act on is the one of the agreement's operation that the agent
  executes for it.
\<close>

lemma acts_on_executed:
  assumes "contract_call_of A t = Some call" and "contract_step E this ch user call = Inr ch'"
    and "acts_on agent_text user_text t = Some (token_text, sender_text, receiver_text)"
    and "abi_address A user_text = Some user"
  shows "sender_text = agent_text \<and> (\<exists>token receiver operation description.
    abi_address A token_text = Some token \<and> abi_address A receiver_text = Some receiver \<and>
    agent_safeExecute E ch (sto_agent (ch_app ch)) this (sto_host (ch_app ch))
      (callAgreement_selector (sto_cfa (ch_app ch)) operation description) = Inr ch' \<and>
    agreement_stream (sto_agent (ch_app ch)) operation = Some (token, sto_agent (ch_app ch), receiver))"
proof (cases t)
  case (ApiCreateFlow token receiver fr d)
  with assms show ?thesis
    by (auto simp: createFlow_def authorised_Inr contract_callAgreement_def split: option.splits)
      (metis agreement_stream.simps(1))
next
  case (ApiUpdateFlow token receiver fr d)
  with assms show ?thesis
    by (auto simp: updateFlow_def authorised_Inr contract_callAgreement_def split: option.splits)
      (metis agreement_stream.simps(2))
next
  case (ApiDeleteFlow token receiver)
  with assms show ?thesis
    by (auto simp: deleteFlow_def authorised_Inr contract_callAgreement_def split: option.splits)
      (metis agreement_stream.simps(3))
next
  case (ApiDeleteOwnFlow token)
  with assms show ?thesis
    by (auto simp: deleteOwnFlow_def open_to_all_Inr contract_callAgreement_def)
      (metis agreement_stream.simps(3))
qed (use assms in \<open>auto split: option.splits\<close>)

text \<open>
  C29. Cancelling a flow from its row ends that flow on the chain. The menu's deletion requests
  one transaction. For an incoming flow it is the agreement's deletion of the stream from the
  row's account to the agent, signed by that account itself. For an outgoing flow it is a call
  of the contract, and when that succeeds, the agent has executed the agreement's deletion of
  the stream from the agent to the row's account, of the row's token, and nothing else
  happened, whether the account cancels its own flow or a manager does.
\<close>

theorem row_deletion_reaches_agreement:
  assumes "renderEntryActions L (Some user_text) agent_text f = Some (u, d)"
    and "abi_address A user_text = Some user" and "abi_address A (vf_superTokenAddress f) = Some token"
    and "abi_address A (vf_entity f) = Some entity"
  shows "\<exists>t. requested (useDeleteFlow (Some host) agent_text cfa_text (da_superTokenAddress d) (da_entity d) (da_isOutgoing d)
        (da_isOwn d)) = [t] \<and>
      (if vf_isIncoming f
       then t = CallAgreement cfa_text deleteFlowABI [vf_superTokenAddress f, vf_entity f, agent_text, ''0x''] ''0x'' \<and>
         addr_eq L (vf_entity f) user_text
       else \<exists>call. contract_call_of A t = Some call \<and>
         (\<forall>E this ch ch'. contract_step E this ch user call = Inr ch' \<longrightarrow>
            agent_safeExecute E ch (sto_agent (ch_app ch)) this (sto_host (ch_app ch))
              (callAgreement_selector (sto_cfa (ch_app ch))
                (deleteFlow_selector token (sto_agent (ch_app ch)) entity []) []) = Inr ch'))"
proof -
  have d: "d = \<lparr> da_superTokenAddress = vf_superTokenAddress f, da_entity = vf_entity f,
      da_isOutgoing = (\<not> vf_isIncoming f), da_isOwn = (user_text = vf_entity f) \<rparr>"
    and own: "vf_isIncoming f \<Longrightarrow> addr_eq L (vf_entity f) user_text"
    using assms(1) by (auto simp: renderEntryActions_def split: if_splits)
  show ?thesis
  proof (cases "vf_isIncoming f")
    case True
    then show ?thesis using own by (simp add: d useDeleteFlow_def callAgreement_def)
  next
    case False
    then show ?thesis
      using assms(2-4)
      by (cases "user_text = vf_entity f")
        (auto simp: d useDeleteFlow_def deleteOwnFlow_def deleteFlow_def open_to_all_Inr authorised_Inr contract_callAgreement_def)
  qed
qed

definition s_abi :: abi where
  "s_abi = \<lparr> abi_address = (\<lambda>s. Some (of_nat (length s))),
     abi_uint256 = (\<lambda>s. if s \<noteq> [] \<and> list_all is_digit s \<and> dec_val s < 2 ^ 256 then Some (of_int (dec_val s)) else None),
     abi_int96 = (\<lambda>s. Some 0), abi_bytes = (\<lambda>s. Some []) \<rparr>"

theorem row_deletion_reaches_agreement_witness:
  "\<exists>d t call. renderEntryActions sample_libs (Some s_alice) s_agent ((format_flow (s_flow 0 5 100))\<lparr> vf_isIncoming := False \<rparr>) = Some d \<and>
     requested (useDeleteFlow (Some None) s_agent ''0x1'' (da_superTokenAddress (snd d)) (da_entity (snd d)) (da_isOutgoing (snd d))
        (da_isOwn (snd d))) = [t] \<and> contract_call_of s_abi t = Some call"
proof -
  let ?f = "(format_flow (s_flow 0 5 100))\<lparr> vf_isIncoming := False \<rparr>"
  obtain u d where ud: "renderEntryActions sample_libs (Some s_alice) s_agent ?f = Some (u, d)"
    by (simp add: renderEntryActions_def format_flow_def s_flow_def)
  have "abi_address s_abi s = Some (of_nat (length s))" for s by (simp add: s_abi_def)
  from row_deletion_reaches_agreement [OF ud this this this, of None "''0x1''"] ud show ?thesis by auto
qed

section \<open>Deposits\<close>



end
