(* ===== verification/Cards.thy ===== *)
theory Cards
  imports Update_Flow
begin

text \<open>
  What the card of a super token shows (\<^verbatim>\<open>SuperTokenCard/index.js\<close>, \<^verbatim>\<open>Balance.js\<close>,
  \<^verbatim>\<open>FlowsDistribution.js\<close>) and the amount that grows with time (\<^verbatim>\<open>DynamicFlowAmount.js\<close>); the
  elements that show them are in \<open>Page_View\<close>.
\<close>

section \<open>The card\<close>

definition CARD_WARNING_THRESHOLD_DAYS :: int where
  "CARD_WARNING_THRESHOLD_DAYS = 10"

definition displayWarning :: "libs \<Rightarrow> js_date \<Rightarrow> js_date option \<Rightarrow> bool" where
  "displayWarning L now depletionDate =
     (case depletionDate of
        None \<Rightarrow> False
      | Some d \<Rightarrow> (case differenceInDays L d now of None \<Rightarrow> False | Some days \<Rightarrow> days \<le> CARD_WARNING_THRESHOLD_DAYS))"

definition formattedNetFlow :: "libs \<Rightarrow> int \<Rightarrow> nat \<Rightarrow> string result" where
  "formattedNetFlow L netFlow decimals =
     await (toMonthlyRate L (ArgStr (fromDecimals L (ArgBN \<bar>netFlow\<bar>) decimals True))) (\<lambda>monthly. num_toFixed monthly 2)"

definition net_flow_text :: "libs \<Rightarrow> int \<Rightarrow> nat \<Rightarrow> string result" where
  "net_flow_text L netFlow decimals =
     await (formattedNetFlow L netFlow decimals) (\<lambda>text.
       Inr ((if netFlow = 0 then [] else if netFlow < 0 then ''-'' else ''+'') @ text))"

section \<open>Amounts\<close>

definition DynamicFlowAmount :: "libs \<Rightarrow> js_date \<Rightarrow> int option \<Rightarrow> int \<Rightarrow> js_date \<Rightarrow> (bool \<times> int) result" where
  "DynamicFlowAmount L now accumulatedAmount rate_bn lastDate =
     await (calculateCurrentAmount L (case accumulatedAmount of None \<Rightarrow> 0 | Some a \<Rightarrow> a) rate_bn lastDate now) (\<lambda>amount.
       Inr (rate_bn \<noteq> 0, amount))"

text \<open>The converted balance of a card: none is shown for a missing or a negative amount.\<close>

definition converted_balance :: "libs \<Rightarrow> js_date \<Rightarrow> int option \<Rightarrow> int \<Rightarrow> js_date \<Rightarrow> (bool \<times> int) option result" where
  "converted_balance L now convertedAmount convertedNetFlow lastUpdateDate =
     (case convertedAmount of
        None \<Rightarrow> Inr None
      | Some a \<Rightarrow> if a < 0 then Inr None
          else await (DynamicFlowAmount L now (Some a) convertedNetFlow lastUpdateDate) (\<lambda>r. Inr (Some r)))"

section \<open>The distribution of the flows\<close>

record distribution =
  di_inflowPct :: js_number
  di_outflowPct :: js_number
  di_monthlyInflowRate :: string
  di_monthlyOutflowRate :: string
  di_negativeFirst :: bool

definition flow_pct :: "js_number \<Rightarrow> string \<Rightarrow> string result" where
  "flow_pct totalFlowRate formattedRate =
     num_toFixed (if num_isZero totalFlowRate then Fin 0 0
       else num_mul (num_div (to_number formattedRate) totalFlowRate) (num_of_int 100)) 2"

text \<open>The percentages are compared as strings for the order of the colours.\<close>

definition FlowsDistribution :: "libs \<Rightarrow> int \<Rightarrow> int \<Rightarrow> nat \<Rightarrow> distribution result" where
  "FlowsDistribution L inflowRate outflowRate tokenDecimals =
     (let totalFlowRate = to_number (fromDecimals L (ArgBN (inflowRate + outflowRate)) 18 True);
          formattedInflowRate = fromDecimals L (ArgBN inflowRate) tokenDecimals True;
          formattedOutflowRate = fromDecimals L (ArgBN outflowRate) tokenDecimals True
      in await (flow_pct totalFlowRate formattedInflowRate) (\<lambda>inflowPct.
         await (flow_pct totalFlowRate formattedOutflowRate) (\<lambda>outflowPct.
         await (await (toMonthlyRate L (ArgStr formattedInflowRate)) (\<lambda>m. num_toFixed m 2)) (\<lambda>monthlyInflowRate.
         await (await (toMonthlyRate L (ArgStr formattedOutflowRate)) (\<lambda>m. num_toFixed m 2)) (\<lambda>monthlyOutflowRate.
         Inr \<lparr> di_inflowPct = to_number inflowPct, di_outflowPct = to_number outflowPct,
               di_monthlyInflowRate = monthlyInflowRate, di_monthlyOutflowRate = monthlyOutflowRate,
               di_negativeFirst = (string_compare inflowPct outflowPct < 0) \<rparr>)))))"

section \<open>Lemmas\<close>

text \<open>Formatting with two digits never throws, so that a card can always be rendered.\<close>

lemma num_toFixed_ok: "d \<le> 100 \<Longrightarrow> isOk (num_toFixed x d)"
  by (cases x) (auto simp: num_toFixed_def Let_def split: prod.split)

lemma toMonthlyRate_text: "toMonthlyRate L (ArgStr s) = Inr (num_mul (to_number s) (num_of_int MONTH))"
  by (simp add: toMonthlyRate_def)

lemma FlowsDistribution_total: "isOk (FlowsDistribution L inflowRate outflowRate tokenDecimals)"
proof -
  have ok: "\<exists>y. num_toFixed x 2 = Inr y" for x using num_toFixed_ok [of 2 x] by (auto simp: isOk_iff)
  show ?thesis
    using ok by (simp add: FlowsDistribution_def flow_pct_def toMonthlyRate_text Let_def)
qed

lemma net_flow_text_total: "isOk (net_flow_text L netFlow decimals)"
proof -
  have "isOk (num_toFixed x 2)" for x by (rule num_toFixed_ok) simp
  then show ?thesis by (simp add: net_flow_text_def formattedNetFlow_def toMonthlyRate_text isOk_iff)
qed

text \<open>For a token with 6 decimals the total is read with 18: a token that only receives, at 5
  tokens per second, is shown with an inflow far above 100 percent.\<close>

lemma distribution_wrong_decimals:
  "case FlowsDistribution sample_libs 5000000 0 6 of Inr d \<Rightarrow> num_less (num_of_int 100) (di_inflowPct d) | Inl _ \<Rightarrow> False"
  by code_simp

end
