(* ===== verification/Carousel.thy ===== *)
theory Carousel
  imports Complex_Main
begin

text \<open>
  The carousel of the super token cards (\<^verbatim>\<open>SuperTokens/Carousel/index.js\<close>): the selected item, the
  number of visible items, the buttons and the drag. Widths are whole pixels; positions may be
  half pixels and are rationals. The spring that animates the position is left out: \<open>ca_x\<close> is
  the position it moves to.
\<close>

section \<open>State\<close>

record carousel_props =
  cp_compactMode :: bool
  cp_itemWidth :: int
  cp_itemSpacing :: int
  cp_customSideSpace :: "int option"

record carousel =
  ca_items :: int
  ca_selected :: int
  ca_containerWidth :: int
  ca_visibleItems :: int
  ca_x :: rat

section \<open>Layout\<close>

definition computed_visibleItems :: "carousel_props \<Rightarrow> carousel \<Rightarrow> int" where
  "computed_visibleItems P s =
     max 1 ((ca_containerWidth s - cp_itemSpacing P * 2) div (cp_itemWidth P + cp_itemSpacing P))"

definition lastSelectionableItem :: "carousel_props \<Rightarrow> carousel \<Rightarrow> int" where
  "lastSelectionableItem P s =
     (if 0 < ca_items s - computed_visibleItems P s then ca_items s - computed_visibleItems P s else 0)"

text \<open>The effect that runs when the width of the container or the items change.\<close>

definition visible_effect :: "carousel_props \<Rightarrow> carousel \<Rightarrow> carousel" where
  "visible_effect P s =
     s\<lparr> ca_visibleItems := computed_visibleItems P s,
        ca_selected := (if lastSelectionableItem P s < ca_selected s then lastSelectionableItem P s else ca_selected s) \<rparr>"

definition sideSpace :: "carousel_props \<Rightarrow> carousel \<Rightarrow> rat" where
  "sideSpace P s =
     (let visibleItemsWidth = ca_visibleItems s * cp_itemWidth P + (ca_visibleItems s - 1) * cp_itemSpacing P;
          balancedSideSpace = of_int (ca_containerWidth s - visibleItemsWidth) / 2
      in if \<not> cp_compactMode P \<and> ca_selected s = 0 then 0
         else (case cp_customSideSpace P of
                 None \<Rightarrow> balancedSideSpace
               | Some c \<Rightarrow> if c \<noteq> 0 \<and> 0 \<le> c then of_int c else balancedSideSpace))"

definition xFromItem :: "carousel_props \<Rightarrow> carousel \<Rightarrow> int \<Rightarrow> rat" where
  "xFromItem P s index = sideSpace P s - of_int ((cp_itemWidth P + cp_itemSpacing P) * index)"

definition selectedX :: "carousel_props \<Rightarrow> carousel \<Rightarrow> rat" where
  "selectedX P s = xFromItem P s (ca_selected s)"

definition lastX :: "carousel_props \<Rightarrow> carousel \<Rightarrow> rat" where
  "lastX P s = xFromItem P s (ca_items s - ca_visibleItems s)"

definition allowDrag :: "carousel_props \<Rightarrow> carousel \<Rightarrow> bool" where
  "allowDrag P s \<longleftrightarrow> cp_compactMode P \<or> ca_visibleItems s < ca_items s"

text \<open>Whether an item is shown in full, not faded out.\<close>

definition item_shown :: "carousel \<Rightarrow> int \<Rightarrow> bool" where
  "item_shown s i \<longleftrightarrow> ca_selected s \<le> i \<and> i < ca_selected s + ca_visibleItems s"

section \<open>Handlers\<close>

definition prev :: "carousel \<Rightarrow> carousel" where
  "prev s = s\<lparr> ca_selected := max 0 (ca_selected s - ca_visibleItems s) \<rparr>"

definition next_items :: "carousel \<Rightarrow> carousel" where
  "next_items s = s\<lparr> ca_selected := min (ca_items s - ca_visibleItems s) (ca_selected s + ca_visibleItems s) \<rparr>"

text \<open>\<^verbatim>\<open>Math.round\<close> rounds halves up.\<close>

definition js_round :: "rat \<Rightarrow> int" where
  "js_round x = \<lfloor>x + 1 / 2\<rfloor>"

definition drag_target :: "carousel_props \<Rightarrow> carousel \<Rightarrow> int \<Rightarrow> int" where
  "drag_target P s delta =
     (if cp_itemWidth P < 2 * \<bar>delta\<bar> then
        (let sP = (if 0 < delta then - sideSpace P s else sideSpace P s);
             deltaSelected = \<bar>js_round ((of_int delta + sP) / of_int (cp_itemWidth P + cp_itemSpacing P))\<bar>
         in if 0 < delta then max 0 (ca_selected s - deltaSelected)
            else min (ca_items s - ca_visibleItems s) (ca_selected s + deltaSelected))
      else ca_selected s)"

definition bindDrag :: "carousel_props \<Rightarrow> bool \<Rightarrow> int \<Rightarrow> carousel \<Rightarrow> carousel" where
  "bindDrag P down delta s =
     (let updatedX = max (lastX P s) (min (sideSpace P s) (selectedX P s + of_int delta)) in
      if \<not> allowDrag P s then s
      else if down then s\<lparr> ca_x := updatedX \<rparr>
      else s\<lparr> ca_x := xFromItem P s (drag_target P s delta), ca_selected := drag_target P s delta \<rparr>)"

datatype carousel_event =
    ContainerWidth int
  | ItemsChange int
  | Prev
  | Next
  | Drag bool int

fun carousel_handler :: "carousel_props \<Rightarrow> carousel \<Rightarrow> carousel_event \<Rightarrow> carousel" where
  "carousel_handler P s (ContainerWidth width) = visible_effect P (s\<lparr> ca_containerWidth := width \<rparr>)"
| "carousel_handler P s (ItemsChange n) = visible_effect P (s\<lparr> ca_items := n \<rparr>)"
| "carousel_handler P s Prev = prev s"
| "carousel_handler P s Next = next_items s"
| "carousel_handler P s (Drag down delta) = bindDrag P down delta s"

text \<open>Which events the rendered carousel offers: the buttons are shown only where they lead
  somewhere. The number of items is never negative.\<close>

fun carousel_offers :: "carousel \<Rightarrow> carousel_event \<Rightarrow> bool" where
  "carousel_offers s Prev = (0 < ca_selected s)"
| "carousel_offers s Next = (ca_selected s < ca_items s - ca_visibleItems s)"
| "carousel_offers s (ItemsChange n) = (0 \<le> n)"
| "carousel_offers s e = True"

text \<open>The effect on the position, which runs when the position of the selected item changed.\<close>

definition position_effect :: "carousel_props \<Rightarrow> carousel \<Rightarrow> carousel \<Rightarrow> carousel" where
  "position_effect P s s' = (if selectedX P s' = selectedX P s then s' else s'\<lparr> ca_x := selectedX P s' \<rparr>)"

definition initial_carousel :: "carousel_props \<Rightarrow> int \<Rightarrow> carousel" where
  "initial_carousel P n = visible_effect P
     \<lparr> ca_items = n, ca_selected = 0, ca_containerWidth = 0, ca_visibleItems = 0,
       ca_x = selectedX P \<lparr> ca_items = n, ca_selected = 0, ca_containerWidth = 0, ca_visibleItems = 0, ca_x = 0 \<rparr> \<rparr>"

inductive carousel_run :: "carousel_props \<Rightarrow> carousel \<Rightarrow> carousel_event list \<Rightarrow> carousel \<Rightarrow> bool" for P where
  carousel_stop: "carousel_run P s [] s"
| carousel_step: "carousel_offers s e \<Longrightarrow>
    carousel_run P (position_effect P s (carousel_handler P s e)) es s' \<Longrightarrow> carousel_run P s (e # es) s'"

inductive_simps carousel_run_Nil [simp]: "carousel_run P s [] s'"
inductive_simps carousel_run_Cons: "carousel_run P s (e # es) s'"

section \<open>The selection stays in range\<close>

definition in_range :: "carousel \<Rightarrow> bool" where
  "in_range s \<longleftrightarrow> 0 \<le> ca_items s \<and> 1 \<le> ca_visibleItems s \<and> 0 \<le> ca_selected s \<and>
     ca_selected s \<le> max 0 (ca_items s - ca_visibleItems s)"

lemma position_effect_keeps [simp]:
  "ca_items (position_effect P s s') = ca_items s'" "ca_selected (position_effect P s s') = ca_selected s'"
  "ca_visibleItems (position_effect P s s') = ca_visibleItems s'"
  by (simp_all add: position_effect_def)

lemma in_range_position_effect [simp]: "in_range (position_effect P s s') = in_range s'"
  by (simp add: in_range_def)

lemma visible_effect_in_range: "0 \<le> ca_items s \<Longrightarrow> 0 \<le> ca_selected s \<Longrightarrow> in_range (visible_effect P s)"
  by (auto simp: visible_effect_def in_range_def lastSelectionableItem_def computed_visibleItems_def)

lemma drag_target_in_range:
  assumes "in_range s" and "ca_visibleItems s < ca_items s"
  shows "0 \<le> drag_target P s delta" and "drag_target P s delta \<le> ca_items s - ca_visibleItems s"
  using assms by (auto simp: drag_target_def in_range_def Let_def)

lemma carousel_handler_in_range:
  assumes "in_range s" and "carousel_offers s e" and "\<not> cp_compactMode P"
  shows "in_range (carousel_handler P s e)"
proof -
  have nonneg: "0 \<le> ca_items s" "0 \<le> ca_selected s" using assms(1) by (simp_all add: in_range_def)
  show ?thesis
  proof (cases e)
    case (Drag down delta)
    show ?thesis
    proof (cases "ca_visibleItems s < ca_items s")
      case True
      with assms(1) drag_target_in_range [OF assms(1) True, of P delta] Drag show ?thesis
        by (auto simp: bindDrag_def in_range_def Let_def)
    next
      case False
      with assms Drag show ?thesis by (simp add: bindDrag_def allowDrag_def)
    qed
  next
    case (ItemsChange n)
    with assms(2) nonneg show ?thesis by (simp add: visible_effect_in_range)
  next
    case (ContainerWidth w)
    with assms(2) nonneg show ?thesis by (simp add: visible_effect_in_range)
  qed (use assms in \<open>auto simp: prev_def next_items_def in_range_def\<close>)
qed

lemma carousel_run_in_range:
  "carousel_run P s es s' \<Longrightarrow> in_range s \<Longrightarrow> \<not> cp_compactMode P \<Longrightarrow> in_range s'"
  by (induction rule: carousel_run.induct) (simp_all add: carousel_handler_in_range)

section \<open>Every item can be reached\<close>

lemma carousel_run_append:
  "carousel_run P s es s1 \<Longrightarrow> carousel_run P s1 fs s2 \<Longrightarrow> carousel_run P s (es @ fs) s2"
  by (induction rule: carousel_run.induct) (auto intro: carousel_step)

text \<open>Pressing the left button leads to the first item, for a selection of any size.\<close>

lemma reach_first:
  assumes "in_range s"
  shows "\<exists>es s'. set es \<subseteq> {Prev} \<and> carousel_run P s es s' \<and> ca_selected s' = 0 \<and>
    ca_items s' = ca_items s \<and> ca_visibleItems s' = ca_visibleItems s"
  using assms
proof (induction "nat (ca_selected s)" arbitrary: s rule: less_induct)
  case less
  show ?case
  proof (cases "ca_selected s = 0")
    case True
    then show ?thesis by (intro exI [of _ "[]"]) auto
  next
    case False
    let ?s = "position_effect P s (prev s)"
    have *: "in_range ?s" "nat (ca_selected ?s) < nat (ca_selected s)"
      "ca_items ?s = ca_items s" "ca_visibleItems ?s = ca_visibleItems s"
      using less.prems False by (auto simp: in_range_def prev_def)
    obtain es s' where es: "set es \<subseteq> {Prev}" "carousel_run P ?s es s'" "ca_selected s' = 0"
      "ca_items s' = ca_items s" "ca_visibleItems s' = ca_visibleItems s"
      using less.hyps [OF *(2,1)] *(3,4) by auto
    have "carousel_run P s (Prev # es) s'"
      using es(2) less.prems False by (auto simp: carousel_run_Cons in_range_def)
    with es show ?thesis by (intro exI [of _ "Prev # es"] exI [of _ s']) auto
  qed
qed

text \<open>Pressing the right button brings a hidden item to the right nearer.\<close>

lemma reach_right:
  assumes "in_range s" and "ca_selected s \<le> i" and "i < ca_items s"
  shows "\<exists>es s'. set es \<subseteq> {Next} \<and> carousel_run P s es s' \<and> item_shown s' i"
  using assms
proof (induction "nat (i - ca_selected s)" arbitrary: s rule: less_induct)
  case less
  show ?case
  proof (cases "item_shown s i")
    case True
    then show ?thesis by (intro exI [of _ "[]"]) auto
  next
    case False
    let ?s = "position_effect P s (next_items s)"
    have right: "ca_selected s + ca_visibleItems s \<le> i" using False less.prems(2) by (simp add: item_shown_def)
    have *: "in_range ?s" "ca_selected ?s \<le> i" "i < ca_items ?s" "nat (i - ca_selected ?s) < nat (i - ca_selected s)"
      using less.prems right by (auto simp: in_range_def next_items_def min_def max_def split: if_splits)
    obtain es s' where es: "set es \<subseteq> {Next}" "carousel_run P ?s es s'" "item_shown s' i"
      using less.hyps [OF *(4,1-3)] by blast
    have "carousel_run P s (Next # es) s'"
      using es(2) less.prems right by (auto simp: carousel_run_Cons in_range_def)
    with es show ?thesis by (intro exI [of _ "Next # es"] exI [of _ s']) auto
  qed
qed

lemma reach_item:
  assumes "in_range s" and "0 \<le> i" and "i < ca_items s"
  shows "\<exists>es s'. set es \<subseteq> {Prev, Next} \<and> carousel_run P s es s' \<and> item_shown s' i"
proof -
  obtain es s1 where 1: "set es \<subseteq> {Prev}" "carousel_run P s es s1" "ca_selected s1 = 0"
    "ca_items s1 = ca_items s" "ca_visibleItems s1 = ca_visibleItems s"
    using reach_first [OF assms(1)] by blast
  then have "in_range s1" using assms(1) by (simp add: in_range_def)
  then obtain fs s2 where 2: "set fs \<subseteq> {Next}" "carousel_run P s1 fs s2" "item_shown s2 i"
    using reach_right [of s1 i P] 1 assms by auto
  from 1(2) 2(2) have "carousel_run P s (es @ fs) s2" by (rule carousel_run_append)
  moreover have "set (es @ fs) \<subseteq> {Prev, Next}" using 1(1) 2(1) by auto
  ultimately show ?thesis using 2(3) by blast
qed

section \<open>Properties\<close>


definition s_props :: carousel_props where
  "s_props = \<lparr> cp_compactMode = False, cp_itemWidth = 286, cp_itemSpacing = 16, cp_customSideSpace = Some 64 \<rparr>"


end
