(* ===== verification/Identities.thy ===== *)
theory Identities
  imports Address
begin

text \<open>
  Labels of addresses: the field that completes them
  (\<^verbatim>\<open>components/LocalIdentitiesAutoComplete.js\<close>) and the names of the badges
  (\<^verbatim>\<open>providers/IdentityManager.js\<close>). The Aragon API's search and resolution are parameters,
  \<open>searchIdentities\<close> and \<open>resolve\<close>.
\<close>

section \<open>The completing field\<close>

record identity =
  id_address :: string
  id_name :: string

record autocomplete =
  ac_items :: "identity list"
  ac_selected :: "identity option"
  ac_searchTerm :: string

definition initial_autocomplete :: autocomplete where
  "initial_autocomplete = \<lparr> ac_items = [], ac_selected = None, ac_searchTerm = [] \<rparr>"

definition sortAlphAsc :: "libs \<Rightarrow> identity \<Rightarrow> identity \<Rightarrow> int" where
  "sortAlphAsc L a b = localeCompare L (id_name a) (id_name b)"

text \<open>A rejected search leaves the items as they are.\<close>

definition handleSearch :: "libs \<Rightarrow> (string \<Rightarrow> identity list result) \<Rightarrow> string \<Rightarrow> autocomplete \<Rightarrow> autocomplete" where
  "handleSearch L searchIdentities search s =
     (if length search < 3 then s\<lparr> ac_items := [] \<rparr>
      else (case searchIdentities search of
              Inl _ \<Rightarrow> s
            | Inr items \<Rightarrow> s\<lparr> ac_items := js_sort (sortAlphAsc L) items \<rparr>))"

datatype autocomplete_event = TermChange string | SelectItem identity | SelectedClick

text \<open>The handlers, each with the value it passes to \<^verbatim>\<open>onChange\<close>; the click on a selection is
  offered only when there is one.\<close>

fun autocomplete_handler ::
  "libs \<Rightarrow> (string \<Rightarrow> identity list result) \<Rightarrow> autocomplete \<Rightarrow> autocomplete_event \<Rightarrow> autocomplete \<times> string option" where
  "autocomplete_handler L search s (TermChange v) =
     (handleSearch L search v (s\<lparr> ac_searchTerm := v \<rparr>), Some v)"
| "autocomplete_handler L search s (SelectItem item) =
     ((handleSearch L search (id_name item) (s\<lparr> ac_searchTerm := id_name item \<rparr>))\<lparr> ac_selected := Some item \<rparr>,
      Some (id_address item))"
| "autocomplete_handler L search s SelectedClick =
     (case ac_selected s of
        None \<Rightarrow> (s, None)
      | Some item \<Rightarrow> (s\<lparr> ac_selected := None \<rparr>, Some (id_name item)))"

definition value_names :: "identity \<Rightarrow> string \<Rightarrow> bool" where
  "value_names item v \<longleftrightarrow> toLowerCase (id_name item) = toLowerCase v \<or> toLowerCase (id_address item) = toLowerCase v"

text \<open>The effect that follows the value given from above.\<close>

definition value_effect :: "libs \<Rightarrow> (string \<Rightarrow> identity list result) \<Rightarrow> string \<Rightarrow> autocomplete \<Rightarrow> autocomplete" where
  "value_effect L search v s =
     (if v = [] then handleSearch L search v (s\<lparr> ac_selected := None, ac_searchTerm := v \<rparr>)
      else if ac_searchTerm s = [] then
        (case search v of
           Inl _ \<Rightarrow> s
         | Inr [item] \<Rightarrow>
             if value_names item v
             then handleSearch L search (id_name item) (s\<lparr> ac_selected := Some item, ac_searchTerm := id_name item \<rparr>)
             else s\<lparr> ac_searchTerm := v \<rparr>
         | Inr _ \<Rightarrow> s\<lparr> ac_searchTerm := v \<rparr>)
      else s)"

section \<open>The names of badges\<close>

text \<open>A badge shows the name its address resolves to; a failed resolution changes nothing.\<close>

record badge =
  ba_address :: string
  ba_name :: "string option"

definition handleNameChange :: "string option result \<Rightarrow> badge \<Rightarrow> badge" where
  "handleNameChange metadata b = (case metadata of Inl _ \<Rightarrow> b | Inr name \<Rightarrow> b\<lparr> ba_name := name \<rparr>)"

text \<open>The subscription of a badge: an update of its own address, up to case, resolves it anew.\<close>

definition identity_updated :: "(string \<Rightarrow> string option result) \<Rightarrow> string \<Rightarrow> badge \<Rightarrow> badge" where
  "identity_updated resolve updatedAddress b =
     (if toLowerCase updatedAddress = toLowerCase (ba_address b)
      then handleNameChange (resolve (ba_address b)) b else b)"

text \<open>A modification of an identity notifies every badge when it succeeds.\<close>

definition handleModifyLocalIdentity ::
  "unit result \<Rightarrow> (string \<Rightarrow> string option result) \<Rightarrow> string \<Rightarrow> badge list \<Rightarrow> badge list" where
  "handleModifyLocalIdentity modified resolve address badges =
     (case modified of Inl _ \<Rightarrow> badges | Inr _ \<Rightarrow> map (identity_updated resolve address) badges)"

text \<open>The effect of a badge runs when it appears and when its address changes; until the name of the
  new address is there the old one stays.\<close>

definition identity_effect :: "(string \<Rightarrow> string option result) \<Rightarrow> string \<Rightarrow> badge \<Rightarrow> badge" where
  "identity_effect resolve address b = handleNameChange (resolve address) (b\<lparr> ba_address := address \<rparr>)"

definition useIdentity :: "(string \<Rightarrow> string option result) \<Rightarrow> string \<Rightarrow> badge" where
  "useIdentity resolve address = identity_effect resolve address \<lparr> ba_address = address, ba_name = None \<rparr>"

section \<open>Lemmas\<close>

text \<open>While every name can be resolved, the badges on the page show the current names: those that
  appear, and all of them after a modification, which may change the names of an address in
  any spelling.\<close>

definition badges_current :: "(string \<Rightarrow> string option result) \<Rightarrow> badge list \<Rightarrow> bool" where
  "badges_current resolve badges \<longleftrightarrow> (\<forall>b \<in> set badges. resolve (ba_address b) = Inr (ba_name b))"

lemma badges_current_mount:
  assumes "badges_current resolve badges" and "resolve address = Inr name"
  shows "badges_current resolve (badges @ [useIdentity resolve address])"
  using assms by (simp add: badges_current_def useIdentity_def identity_effect_def handleNameChange_def)

lemma badges_current_modified:
  assumes "badges_current resolve badges" and "\<And>a. toLowerCase a \<noteq> toLowerCase address \<Longrightarrow> resolve' a = resolve a"
    and "\<And>a. isOk (resolve' a)"
  shows "badges_current resolve' (handleModifyLocalIdentity (Inr ()) resolve' address badges)"
proof -
  have "resolve' (ba_address (identity_updated resolve' address b)) = Inr (ba_name (identity_updated resolve' address b))"
    if "b \<in> set badges" for b
    using assms(1) assms(2) [of "ba_address b"] assms(3) [of "ba_address b"] that
    by (cases "resolve' (ba_address b)") (auto simp: badges_current_def identity_updated_def handleNameChange_def)
  then show ?thesis by (simp add: badges_current_def handleModifyLocalIdentity_def)
qed

text \<open>A badge whose new address cannot be resolved goes on showing the name of the old one.\<close>

lemma failed_resolution_keeps_name: "resolve address = Inl e \<Longrightarrow> ba_name (identity_effect resolve address b) = ba_name b"
  by (simp add: identity_effect_def handleNameChange_def)

lemma handleSearch_keeps [simp]:
  "ac_selected (handleSearch L search t s) = ac_selected s"
  "ac_searchTerm (handleSearch L search t s) = ac_searchTerm s"
  by (auto simp: handleSearch_def split: sum.split)

text \<open>The items offered are the ones found, and sorted by name.\<close>

interpretation names: comparator "sortAlphAsc L" "\<lambda>_. locale_orders L" for L
  by unfold_locales (auto simp: sortAlphAsc_def locale_orders_def)

lemma handleSearch_sorted:
  assumes "locale_orders L" and "3 \<le> length t" and "search t = Inr found"
  shows "mset (ac_items (handleSearch L search t s)) = mset found"
    and "sorted_wrt (\<lambda>a b. localeCompare L (id_name a) (id_name b) \<le> 0) (ac_items (handleSearch L search t s))"
  using assms names.sorted_js_sort [of found L] by (auto simp: handleSearch_def sortAlphAsc_def)

text \<open>A selection reports its address, and the effect that this value causes keeps it.\<close>

lemma selection_kept:
  assumes "autocomplete_handler L search s (SelectItem item) = (s', Some v)" and "id_name item \<noteq> []" and "v \<noteq> []"
  shows "v = id_address item \<and> ac_selected (value_effect L search v s') = Some item"
  using assms by (auto simp: value_effect_def)

text \<open>After a modification every badge of the address shows the name it resolves to, whatever the
  case of the letters, and no other badge changes.\<close>

lemma modified_badges:
  assumes "\<forall>a. toLowerCase a = toLowerCase address \<longrightarrow> resolve a = Inr name"
  shows "handleModifyLocalIdentity (Inr ()) resolve address badges =
    map (\<lambda>b. if toLowerCase (ba_address b) = toLowerCase address then b\<lparr> ba_name := name \<rparr> else b) badges"
  using assms by (auto simp: handleModifyLocalIdentity_def identity_updated_def handleNameChange_def)

end
