(* ===== verification/Elements.thy ===== *)
theory Elements
  imports Prelude
begin

text \<open>
  Rendered elements. What a component renders is a tree: texts, and elements with a tag or the
  name of a component of the UI package, attributes, handlers and children. Styles and the
  positions of elements are left out. A handler takes the value of the browser's event and gives
  the action it calls, if any.
\<close>

section \<open>Trees\<close>

datatype ui_value =
    NoValue
  | IndexValue int
  | TextValue string
  | RangeValue "js_date option \<times> js_date option"

datatype 'a node =
    Txt string
  | El string "(string \<times> string) list" "(string \<times> (ui_value \<Rightarrow> 'a option)) list" "'a node list"

text \<open>Handlers that ignore the value, that take the index of a menu or the text of an input.\<close>

definition on_click :: "'a \<Rightarrow> ui_value \<Rightarrow> 'a option" where
  "on_click a v = Some a"

definition on_index :: "(int \<Rightarrow> 'a) \<Rightarrow> ui_value \<Rightarrow> 'a option" where
  "on_index f v = (case v of IndexValue i \<Rightarrow> Some (f i) | _ \<Rightarrow> None)"

definition on_text :: "(string \<Rightarrow> 'a) \<Rightarrow> ui_value \<Rightarrow> 'a option" where
  "on_text f v = (case v of TextValue s \<Rightarrow> Some (f s) | _ \<Rightarrow> None)"

definition on_range :: "(js_date option \<times> js_date option \<Rightarrow> 'a) \<Rightarrow> ui_value \<Rightarrow> 'a option" where
  "on_range f v = (case v of RangeValue r \<Rightarrow> Some (f r) | _ \<Rightarrow> None)"

lemmas on_defs = on_click_def on_index_def on_text_def on_range_def

text \<open>A boolean attribute is there or not.\<close>

definition flag :: "string \<Rightarrow> bool \<Rightarrow> (string \<times> string) list" where
  "flag name b = (if b then [(name, ''true'')] else [])"

definition has_flag :: "string \<Rightarrow> (string \<times> string) list \<Rightarrow> bool" where
  "has_flag name attrs \<longleftrightarrow> (name, ''true'') \<in> set attrs"

text \<open>What is rendered only under a condition.\<close>

definition show_if :: "bool \<Rightarrow> 'a node \<Rightarrow> 'a node list" where
  "show_if b n = (if b then [n] else [])"

section \<open>What a user sees and can do\<close>

fun node_texts :: "'a node \<Rightarrow> string list" where
  "node_texts (Txt s) = [s]"
| "node_texts (El tag attrs handlers children) = concat (map node_texts children)"

text \<open>A form can be submitted while it has a submit button that is not disabled.\<close>

fun enabled_submit :: "'a node \<Rightarrow> bool" where
  "enabled_submit (Txt s) = False"
| "enabled_submit (El tag attrs handlers children) =
     ((''type'', ''submit'') \<in> set attrs \<and> \<not> has_flag ''disabled'' attrs \<or> list_ex enabled_submit children)"

text \<open>The handlers that the browser may run: none of a disabled element.\<close>

fun live_handlers :: "'a node \<Rightarrow> (ui_value \<Rightarrow> 'a option) list" where
  "live_handlers (Txt s) = []"
| "live_handlers (El tag attrs handlers children) =
     (if has_flag ''disabled'' attrs then []
      else map snd (filter (\<lambda>h. fst h = ''onSubmit'' \<longrightarrow> list_ex enabled_submit children) handlers))
     @ concat (map live_handlers children)"

definition actions_of :: "(ui_value \<Rightarrow> 'a option) list \<Rightarrow> 'a set" where
  "actions_of handlers = {a. \<exists>h \<in> set handlers. \<exists>v. h v = Some a}"

definition user_actions :: "'a node \<Rightarrow> 'a set" where
  "user_actions n = actions_of (live_handlers n)"

lemma actions_of_append: "actions_of (xs @ ys) = actions_of xs \<union> actions_of ys"
  by (auto simp: actions_of_def)

lemma actions_of_concat: "actions_of (concat xss) = (\<Union>xs \<in> set xss. actions_of xs)"
  by (auto simp: actions_of_def)

definition handler_actions :: "(ui_value \<Rightarrow> 'a option) \<Rightarrow> 'a set" where
  "handler_actions h = {a. \<exists>v. h v = Some a}"

definition own_actions :: "bool \<Rightarrow> (string \<times> (ui_value \<Rightarrow> 'a option)) list \<Rightarrow> 'a set" where
  "own_actions submits handlers = {a. \<exists>e h v. (e, h) \<in> set handlers \<and> (e = ''onSubmit'' \<longrightarrow> submits) \<and> h v = Some a}"

lemma own_actions_simps [simp]:
  "own_actions submits [] = {}"
  "own_actions submits ((e, h) # handlers) =
     (if e = ''onSubmit'' \<longrightarrow> submits then handler_actions h else {}) \<union> own_actions submits handlers"
  by (auto simp: own_actions_def handler_actions_def)

lemma own_actions_append [simp]: "own_actions submits (xs @ ys) = own_actions submits xs \<union> own_actions submits ys"
  by (induction xs) auto

lemma set_live: "set (map snd (filter P handlers)) = {h. \<exists>e. (e, h) \<in> set handlers \<and> P (e, h)}"
  by force

lemma user_actions_El [simp]:
  "user_actions (El tag attrs handlers children) =
     (if has_flag ''disabled'' attrs then {} else own_actions (list_ex enabled_submit children) handlers)
     \<union> (\<Union>c \<in> set children. user_actions c)"
proof -
  define submits where "submits = list_ex enabled_submit children"
  have own: "actions_of (map snd (filter (\<lambda>h. fst h = ''onSubmit'' \<longrightarrow> submits) handlers)) = own_actions submits handlers"
    unfolding actions_of_def set_live own_actions_def by auto
  have none: "actions_of ([] :: (ui_value \<Rightarrow> 'a option) list) = {}" by (simp add: actions_of_def)
  show ?thesis
    unfolding user_actions_def live_handlers.simps submits_def [symmetric] actions_of_append actions_of_concat if_distrib [of actions_of]
      own none set_map image_image ..
qed

lemma user_actions_Txt [simp]: "user_actions (Txt s) = {}"
  by (simp add: user_actions_def actions_of_def)

lemma user_actions_show_if [simp]: "(\<Union>c \<in> set (show_if b n). user_actions c) = (if b then user_actions n else {})"
  by (simp add: show_if_def)

lemma handler_actions_simps [simp]:
  "handler_actions (on_click a) = {a}" "handler_actions (on_index f) = range f" "handler_actions (on_text g) = range g"
  "handler_actions (on_range r) = range r"
proof -
  have index: "on_index f v = Some a \<longleftrightarrow> (\<exists>i. v = IndexValue i \<and> a = f i)" for v a by (auto simp: on_index_def split: ui_value.splits)
  have typed: "on_text g v = Some a \<longleftrightarrow> (\<exists>t. v = TextValue t \<and> a = g t)" for v a by (auto simp: on_text_def split: ui_value.splits)
  have date: "on_range r v = Some a \<longleftrightarrow> (\<exists>d. v = RangeValue d \<and> a = r d)" for v a by (auto simp: on_range_def split: ui_value.splits)
  show "handler_actions (on_click a) = {a}" by (auto simp: handler_actions_def on_click_def)
  show "handler_actions (on_index f) = range f" unfolding handler_actions_def index by blast
  show "handler_actions (on_text g) = range g" unfolding handler_actions_def typed by blast
  show "handler_actions (on_range r) = range r" unfolding handler_actions_def date by blast
qed

lemma set_flag [simp]: "set (flag name b) = (if b then {(name, ''true'')} else {})"
  by (simp add: flag_def)

end
