(* ===== verification/Panel_View.thy ===== *)
theory Panel_View
  imports Elements Update_Flow Identities
begin

text \<open>
  What the side panels render: \<^verbatim>\<open>components/SidePanels/\<close>, with the field that completes labels and
  the badges of addresses. The forms' state, handlers and validation are in \<open>Panels\<close> and
  \<open>Update_Flow\<close>; here are the elements, which of them are shown or disabled, and which handler is
  behind each. Styles, icons' colours and the network's name, which badges take for their links, are
  left out. Punctuation outside of ASCII is written with the nearest ASCII characters.
\<close>

section \<open>The UI package and small elements\<close>

text \<open>\<^verbatim>\<open>formatTokenAmount\<close> of the UI package takes the amount, the decimals, the digits and whether
  to show the sign, \<open>dataview_page\<close> is the part of the entries that its data view shows on a page, as
  the first index and the number; \<^verbatim>\<open>format\<close> and \<^verbatim>\<open>formatDistance\<close> are of the dates package.\<close>

record ui_libs =
  formatTokenAmount :: "int \<Rightarrow> int option \<Rightarrow> nat \<Rightarrow> bool \<Rightarrow> string"
  dataview_page :: "int \<Rightarrow> nat \<Rightarrow> nat \<times> nat"
  format_date :: "js_date \<Rightarrow> string \<Rightarrow> string"
  formatDistance :: "js_date \<Rightarrow> js_date \<Rightarrow> string"

definition field_view :: "string \<Rightarrow> 'a node list \<Rightarrow> 'a node" where
  "field_view label children = El ''Field'' [(''label'', label)] [] children"

definition required_field :: "string \<Rightarrow> 'a node list \<Rightarrow> 'a node" where
  "required_field label children = El ''Field'' ([(''label'', label)] @ flag ''required'' True) [] children"

definition UnknownTokenLogo :: "string \<Rightarrow> string \<Rightarrow> 'a node" where
  "UnknownTokenLogo width height = El ''div'' [(''width'', width), (''height'', height)] [] []"

definition InfoBox :: "string option \<Rightarrow> 'a node list \<Rightarrow> 'a node" where
  "InfoBox mode children = El ''Info'' (case mode of None \<Rightarrow> [] | Some m \<Rightarrow> [(''mode'', m)]) [] children"

definition SUPER_TOKEN_URL :: string where
  "SUPER_TOKEN_URL = ''https://docs.superfluid.finance/superfluid/docs/super-tokens''"

definition SuperTokensLink :: "'a node" where
  "SuperTokensLink = El ''Link'' ([(''href'', SUPER_TOKEN_URL)] @ flag ''external'' True) [] [Txt ''Super Tokens'']"

definition SubmitButton :: "bool \<Rightarrow> string \<Rightarrow> bool \<Rightarrow> 'a node" where
  "SubmitButton waitTxPanel label disabled =
     El ''Button'' ([(''mode'', ''strong''), (''type'', ''submit'')] @ flag ''disabled'' (disabled \<or> waitTxPanel) @ flag ''wide'' True) []
       (show_if waitTxPanel (El ''LoadingRing'' [] [] []) @ [Txt label])"

definition BaseSidePanel :: "string \<Rightarrow> 'p panel_state \<Rightarrow> ('p panel_event \<Rightarrow> 'a) \<Rightarrow> 'a node list \<Rightarrow> 'a node" where
  "BaseSidePanel title ps act children =
     El ''SidePanel'' ([(''title'', title)] @ flag ''opened'' (ps_visible ps))
       [(''onClose'', on_click (act RequestClose)),
        (''onTransitionEnd'', \<lambda>v. case v of TextValue s \<Rightarrow> Some (act (TransitionEnd (s = ''opened''))) | _ \<Rightarrow> None)]
       [El ''div'' [] [] children]"

definition MAX_BUTTON :: string where
  "MAX_BUTTON = ''Max''"

text \<open>The input passes on only the texts it accepts, and a menu the indices it has.\<close>

definition on_amount :: "(string \<Rightarrow> 'a) \<Rightarrow> ui_value \<Rightarrow> 'a option" where
  "on_amount f v = (case v of TextValue t \<Rightarrow> if amount_accepted t then Some (f t) else None | _ \<Rightarrow> None)"

definition on_index_below :: "nat \<Rightarrow> (int \<Rightarrow> 'a) \<Rightarrow> ui_value \<Rightarrow> 'a option" where
  "on_index_below n f v = (case v of IndexValue i \<Rightarrow> if 0 \<le> i \<and> i < int n then Some (f i) else None | _ \<Rightarrow> None)"

lemma on_amount_actions [simp]: "handler_actions (on_amount f) = f ` Collect amount_accepted"
proof -
  have "on_amount f v = Some a \<longleftrightarrow> (\<exists>t. v = TextValue t \<and> amount_accepted t \<and> a = f t)" for v a
    by (auto simp: on_amount_def split: ui_value.splits if_splits)
  then show ?thesis unfolding handler_actions_def by blast
qed

lemma on_index_below_actions [simp]: "handler_actions (on_index_below n f) = f ` {0..<int n}"
proof -
  have "on_index_below n f v = Some a \<longleftrightarrow> (\<exists>i. v = IndexValue i \<and> i \<in> {0..<int n} \<and> a = f i)" for v a
    by (auto simp: on_index_below_def split: ui_value.splits if_splits)
  then show ?thesis unfolding handler_actions_def by blast
qed

definition AmountInput :: "string \<Rightarrow> bool \<Rightarrow> (string \<Rightarrow> 'a) \<Rightarrow> 'a option \<Rightarrow> 'a node" where
  "AmountInput amount showMax onChange onMaxClick =
     El ''TextInput'' ([(''value'', amount), (''step'', ''any'')] @ flag ''wide'' True)
       [(''onChange'', on_amount onChange)]
       (show_if showMax (El ''ButtonBase'' [] (case onMaxClick of None \<Rightarrow> [] | Some a \<Rightarrow> [(''onClick'', on_click a)]) [Txt MAX_BUTTON]))"

section \<open>Badges and the completing field\<close>

definition LocalLabelPopoverActionLabel :: "bool \<Rightarrow> 'a node" where
  "LocalLabelPopoverActionLabel hasLabel =
     El ''div'' [] [] [El ''div'' [] [] [El ''IconLabel'' [] [] []], Txt (if hasLabel then ''Edit'' else ''Add''), Txt '' custom label'']"

definition LocalLabelPopoverTitle :: "string \<Rightarrow> 'a node" where
  "LocalLabelPopoverTitle label =
     El ''div'' [] [] [El ''span'' [] [] [Txt label], El ''Tag'' [(''mode'', ''identifier'')] [] [Txt ''Custom label'']]"

text \<open>The popover's action and title are children of the badge.\<close>

definition LocalIdentityBadge :: "string option \<Rightarrow> string option \<Rightarrow> string \<Rightarrow> bool \<Rightarrow> (string \<Rightarrow> 'a) \<Rightarrow> 'a node" where
  "LocalIdentityBadge name defaultLabel entity connectedAccount showLocalIdentityModal =
     El ''IdentityBadge''
       ((case if truthy name then name else defaultLabel of None \<Rightarrow> [] | Some l \<Rightarrow> [(''label'', l)])
        @ [(''entity'', entity)] @ flag ''connectedAccount'' connectedAccount) []
       (El ''popoverAction'' [] [(''onClick'', on_click (showLocalIdentityModal entity))] [LocalLabelPopoverActionLabel (truthy name)]
        # (if truthy name then [LocalLabelPopoverTitle (the name)] else []))"

definition renderItem :: "identity \<Rightarrow> string \<Rightarrow> 'a node" where
  "renderItem item searchTerm =
     (let badge = El ''IdentityBadge'' ([(''entity'', id_address item)] @ flag ''compact'' True @ flag ''badgeOnly'' True) [] [];
          name = El ''Name'' [] [] [Txt (id_name item)]
      in El ''Option'' [] [] (if take 2 searchTerm = ''0x'' then [badge, name] else [name, badge]))"

definition renderSelected :: "identity \<Rightarrow> 'a node" where
  "renderSelected item =
     El ''Option'' (flag ''selected'' True) [] [El ''EthIdenticon'' [(''address'', id_address item)] [] [], El ''Name'' [] [] [Txt (id_name item)]]"

text \<open>The completing element of the UI package shows the items, and the selection if there is one.\<close>

definition LocalIdentitiesAutoComplete :: "autocomplete \<Rightarrow> bool \<Rightarrow> bool \<Rightarrow> (autocomplete_event \<Rightarrow> 'a) \<Rightarrow> 'a node" where
  "LocalIdentitiesAutoComplete s required wide act =
     El ''AutoCompleteSelected'' ([(''value'', ac_searchTerm s)] @ flag ''required'' required @ flag ''wide'' wide)
       ([(''onChange'', on_text (\<lambda>t. act (TermChange t))),
         (''onSelect'', \<lambda>v. case v of
            IndexValue i \<Rightarrow> map_option (\<lambda>item. act (SelectItem item)) (js_nth (ac_items s) i) | _ \<Rightarrow> None)]
        @ (case ac_selected s of None \<Rightarrow> [] | Some _ \<Rightarrow> [(''onSelectedClick'', on_click (act SelectedClick))]))
       (map (\<lambda>item. renderItem item (ac_searchTerm s)) (ac_items s)
        @ (case ac_selected s of None \<Rightarrow> [] | Some item \<Rightarrow> [renderSelected item]))"

section \<open>The token selector\<close>

definition TOKEN_ICON_SIZE :: string where
  "TOKEN_ICON_SIZE = ''18''"

definition text_span :: "string option \<Rightarrow> (string \<Rightarrow> string) \<Rightarrow> 'a node list" where
  "text_span t f = (if truthy t then [El ''span'' [] [] [Txt (f (the t))]] else [])"

definition TokenSelectorInstance :: "string option \<Rightarrow> string option \<Rightarrow> string option \<Rightarrow> string option \<Rightarrow> bool \<Rightarrow> 'a node" where
  "TokenSelectorInstance address logoURI name symbol showIcon =
     El ''div'' [] []
       (show_if showIcon (El ''div'' [] []
          [if truthy logoURI
           then El ''img'' [(''width'', TOKEN_ICON_SIZE), (''height'', TOKEN_ICON_SIZE), (''src'', the logoURI)] [] []
           else UnknownTokenLogo TOKEN_ICON_SIZE TOKEN_ICON_SIZE])
        @ text_span symbol (\<lambda>s. s) @ text_span name (\<lambda>n. ''('' @ n @ '')'')
        @ [El ''IdentityBadge'' (flag ''badgeOnly'' True @ flag ''compact'' True
             @ (case address of None \<Rightarrow> [] | Some a \<Rightarrow> [(''entity'', a)])) [] []])"

definition tokenItems :: "(selectable \<times> string option) list \<Rightarrow> bool \<Rightarrow> 'a node list" where
  "tokenItems tokens allowCustomToken =
     (if allowCustomToken then [Txt ''Other...''] else [])
     @ map (\<lambda>(t, logoURI). TokenSelectorInstance (sb_address t) logoURI (sb_name t) (sb_symbol t) True) tokens"

definition SelectedTokenBalance :: "libs \<Rightarrow> ui_libs \<Rightarrow> selected_token \<Rightarrow> 'a node list" where
  "SelectedTokenBalance L U token =
     (case sel_userBalance token of
        None \<Rightarrow> []
      | Some userBalance \<Rightarrow>
          if \<not> isAddress L (sel_address token) \<or> userBalance = JNum 0 then []
          else [El ''div'' [] [] [El ''div'' [] []
            [Txt ''You have '',
             Txt (if userBalance = JDec 0 then ''no''
                  else formatTokenAmount U (amount_int userBalance) (map_option amount_int (sel_decimals token)) 6 False),
             El ''span'' [] [] [El ''TokenBadge'' ([(''address'', sel_address token)]
                @ (case sel_symbol token of None \<Rightarrow> [] | Some s \<Rightarrow> [(''symbol'', s)])) [] []],
             Txt ''available.'']]])"

text \<open>The parameters of the selector that the forms set.\<close>

record selector_props =
  sp_tokens :: "(selectable \<times> string option) list"
  sp_disabled :: bool
  sp_label :: string
  sp_allowCustomToken :: bool
  sp_loadUserBalance :: bool

definition TokenSelector ::
  "libs \<Rightarrow> ui_libs \<Rightarrow> selector_props \<Rightarrow> string \<Rightarrow> selected_token \<Rightarrow> (selected_token \<Rightarrow> 'a) \<Rightarrow> 'a node list" where
  "TokenSelector L U props customTokenAddress selectedToken onChange =
     [field_view (sp_label props)
        [El ''DropDown'' ([(''header'', sp_label props), (''placeholder'', ''Select a token''),
              (''selected'', show_int (toTokenItemsIndex (sel_index selectedToken) (sp_allowCustomToken props)))]
              @ flag ''required'' True @ flag ''wide'' True @ flag ''disabled'' (sp_disabled props))
           [(''onChange'', on_index (\<lambda>i. onChange
               (handleDropDownChange (map fst (sp_tokens props)) (sp_allowCustomToken props) (sp_loadUserBalance props) i)))]
           (tokenItems (sp_tokens props) (sp_allowCustomToken props))]]
     @ show_if (customTokenEnabled selectedToken (sp_allowCustomToken props))
         (field_view ''Super Token address''
           [El ''TextInput'' ([(''value'', customTokenAddress)] @ flag ''required'' True @ flag ''wide'' True)
              [(''onChange'', on_text (\<lambda>t. onChange (handleCustomTokenAddressChange t)))] []])
     @ (if sp_loadUserBalance props then SelectedTokenBalance L U selectedToken else [])"

section \<open>The forms with a token and an amount\<close>

datatype form_action = FormChange form_event | FormSubmit

definition super_items :: "view_token list \<Rightarrow> (selectable \<times> string option) list" where
  "super_items tokens = map (\<lambda>t. (super_selectable t, vt_logoURI t)) tokens"

definition underlying_items :: "view_token list \<Rightarrow> (selectable \<times> string option) list" where
  "underlying_items tokens = zip (underlyingTokens tokens) (map vt_logoURI tokens)"

definition error_info :: "string \<Rightarrow> 'a node list" where
  "error_info errorMessage = show_if (errorMessage \<noteq> []) (El ''Info'' [(''mode'', ''error'')] [] [Txt errorMessage])"

definition Deposit_view ::
  "libs \<Rightarrow> ui_libs \<Rightarrow> string option \<Rightarrow> bool \<Rightarrow> view_token list \<Rightarrow> string \<Rightarrow> token_form \<Rightarrow> form_action node" where
  "Deposit_view L U presetTokenAddress waitTxPanel superTokens_list customTokenAddress s =
     El ''div'' [] []
       ([El ''form'' [] [(''onSubmit'', on_click FormSubmit)]
          (TokenSelector L U \<lparr> sp_tokens = super_items superTokens_list, sp_disabled = truthy presetTokenAddress,
               sp_label = ''Super Token'', sp_allowCustomToken = True, sp_loadUserBalance = True \<rparr>
             customTokenAddress (tf_token s) (\<lambda>t. FormChange (SelectToken t))
           @ [required_field ''Amount'' [AmountInput (tf_amount s) True (\<lambda>t. FormChange (SetAmount t)) (Some (FormChange MaxAmount))],
              SubmitButton waitTxPanel ''Deposit'' (form_disabled s)])]
        @ error_info (tf_error s)
        @ [El ''Info'' [] [] [Txt ''The Superfluid app expects to receive '', SuperTokensLink, Txt ''.'', El ''br'' [] [] [],
             Txt ''If you don't have any, go to the \"Convert Token\" side panel to convert some of your ERC20 to their Super Token version.'']])"

definition addressPattern :: string where
  "addressPattern = ''(0x)?[0-9a-fA-F]{40}''"

text \<open>The pattern is a property that the completing field does not read, so its input is not restricted
  to addresses. The recipient's field passes on what its own handlers pass.\<close>

definition recipient_action :: "libs \<Rightarrow> (string \<Rightarrow> identity list result) \<Rightarrow> autocomplete \<Rightarrow> (string \<Rightarrow> 'a) \<Rightarrow> autocomplete_event \<Rightarrow> 'a option" where
  "recipient_action L search ac onChange e = map_option onChange (snd (autocomplete_handler L search ac e))"

fun merge_handlers :: "'a option node \<Rightarrow> 'a node" where
  "merge_handlers (Txt s) = Txt s"
| "merge_handlers (El tag attrs handlers children) =
     El tag attrs (map (\<lambda>(e, h). (e, \<lambda>v. Option.bind (h v) (\<lambda>a. a))) handlers) (map merge_handlers children)"

definition recipient_field ::
  "libs \<Rightarrow> (string \<Rightarrow> identity list result) \<Rightarrow> autocomplete \<Rightarrow> (string \<Rightarrow> 'a) \<Rightarrow> 'a node" where
  "recipient_field L search ac onChange =
     field_view ''Recipient (must be a valid Ethereum address)''
       [merge_handlers (LocalIdentitiesAutoComplete ac True True (recipient_action L search ac onChange))]"

definition Withdrawal_view ::
  "libs \<Rightarrow> ui_libs \<Rightarrow> (string \<Rightarrow> identity list result) \<Rightarrow> autocomplete \<Rightarrow> bool \<Rightarrow> view_token list \<Rightarrow> token_form \<Rightarrow> form_action node" where
  "Withdrawal_view L U search ac waitTxPanel superTokens_list s =
     El ''div'' [] []
       ([El ''form'' [] [(''onSubmit'', on_click FormSubmit)]
          ([recipient_field L search ac (\<lambda>t. FormChange (SetRecipient t))]
           @ TokenSelector L U \<lparr> sp_tokens = super_items superTokens_list, sp_disabled = False,
               sp_label = ''Super Token'', sp_allowCustomToken = False, sp_loadUserBalance = False \<rparr>
             [] (tf_token s) (\<lambda>t. FormChange (SelectToken t))
           @ [required_field ''Amount'' [AmountInput (tf_amount s) False (\<lambda>t. FormChange (SetAmount t)) None],
              SubmitButton waitTxPanel ''Withdraw'' (withdrawal_disabled s)])]
        @ error_info (tf_error s)
        @ [El ''div'' [] [] [El ''Info'' [] [] [Txt ''The receipient will receive '', SuperTokensLink,
             Txt '' from the Flow Finance app. '', El ''br'' [] [] [],
             Txt ''This tokens can be converted to their ERC20 version by going to the \"Convert Tokens\" side panel.'']]])"

definition Upgrade_view :: "libs \<Rightarrow> ui_libs \<Rightarrow> bool \<Rightarrow> view_token list \<Rightarrow> string \<Rightarrow> token_form \<Rightarrow> form_action node" where
  "Upgrade_view L U waitTxPanel superTokens_list customTokenAddress s =
     El ''div'' [] []
       ([El ''form'' [] [(''onSubmit'', on_click FormSubmit)]
          (TokenSelector L U \<lparr> sp_tokens = underlying_items superTokens_list, sp_disabled = False,
               sp_label = ''Token'', sp_allowCustomToken = True, sp_loadUserBalance = True \<rparr>
             customTokenAddress (tf_token s) (\<lambda>t. FormChange (SelectToken t))
           @ [required_field ''Amount'' [AmountInput (tf_amount s) True (\<lambda>t. FormChange (SetAmount t)) (Some (FormChange MaxAmount))],
              SubmitButton waitTxPanel ''Update'' (form_disabled s)])]
        @ error_info (tf_error s)
        @ [El ''Info'' [] [] [Txt ''Upgrade your ERC20 tokens to their '', SuperTokensLink, Txt '' version.'']])"

definition Downgrade_view :: "libs \<Rightarrow> ui_libs \<Rightarrow> bool \<Rightarrow> view_token list \<Rightarrow> string \<Rightarrow> token_form \<Rightarrow> form_action node" where
  "Downgrade_view L U waitTxPanel superTokens_list customTokenAddress s =
     El ''div'' [] []
       ([El ''form'' [] [(''onSubmit'', on_click FormSubmit)]
          (TokenSelector L U \<lparr> sp_tokens = super_items superTokens_list, sp_disabled = False,
               sp_label = ''Super Token'', sp_allowCustomToken = True, sp_loadUserBalance = True \<rparr>
             customTokenAddress (tf_token s) (\<lambda>t. FormChange (SelectToken t))
           @ [required_field ''Amount'' [AmountInput (tf_amount s) True (\<lambda>t. FormChange (SetAmount t)) (Some (FormChange MaxAmount))],
              SubmitButton waitTxPanel ''Downgrade'' (form_disabled s)])]
        @ error_info (tf_error s)
        @ [El ''Info'' [] [] [Txt ''Downgrade your '', SuperTokensLink, Txt '' to their ERC20 version.'']])"

section \<open>The panel for flows\<close>

datatype update_action = UpdateChange update_event | RateChange rate_event | UpdateSubmit

definition RATE_ITEMS :: "string list" where
  "RATE_ITEMS = [''/hour'', ''/day'', ''/week'', ''/month'', ''/year'']"

text \<open>The rate per second is shown when its rounded text is a number other than zero.\<close>

definition FlowRateField :: "rate_field \<Rightarrow> (rate_event \<Rightarrow> 'a) \<Rightarrow> 'a node result" where
  "FlowRateField r act =
     await (computeFlowRate (rf_rateValue r) (rf_selectedRate r)) (\<lambda>valueInSeconds.
       Inr (required_field ''Flow Rate''
         ([El ''div'' [] []
            [El ''div'' [] [] [AmountInput (rf_rateValue r) False (\<lambda>t. act (RateInput t)) None],
             El ''div'' [] [] [El ''DropDown'' [(''header'', ''Rate''), (''selected'', show_int (int (rf_selectedRate r)))]
                [(''onChange'', on_index_below (length RATE_ITEMS) (\<lambda>i. act (RateDropdown (nat i))))]
                (map Txt RATE_ITEMS)]]]
          @ show_if (\<not> num_isZero (to_number valueInSeconds) \<and> to_number valueInSeconds \<noteq> NaN)
              (El ''div'' [] [] [El ''span'' [] [] [Txt valueInSeconds], El ''span'' [] [] [Txt ''tokens per second.'']]))))"

definition BoldUnderline :: "string list \<Rightarrow> 'a node" where
  "BoldUnderline texts = El ''BoldUnderline'' [] [] (map Txt texts)"

definition symbol_text :: "selected_token \<Rightarrow> string" where
  "symbol_text token = (case sel_symbol token of None \<Rightarrow> [] | Some s \<Rightarrow> s)"

definition ExistingFlowInfo_view :: "libs \<Rightarrow> view_flow \<Rightarrow> selected_token \<Rightarrow> string \<Rightarrow> bool \<Rightarrow> 'a node result" where
  "ExistingFlowInfo_view L f selectedToken flowRate_text isOutgoingFlow =
     await (ExistingFlowInfo L f flowRate_text) (\<lambda>(currentMonthlyFlowRate, newMonthlyFlowRate).
       Inr (InfoBox None
         [Txt ''There is already a flow of '',
          BoldUnderline [num_toString currentMonthlyFlowRate, '' '', symbol_text selectedToken, ''/month''],
          Txt '' opened '', Txt (if isOutgoingFlow then ''to'' else ''from''),
          El ''IdentityBadge'' ([(''entity'', vf_entity f)] @ flag ''connectedAccount'' True @ flag ''compact'' True) [] [],
          Txt ''. This amount will be added to the current flow for a total of '',
          BoldUnderline [num_toString newMonthlyFlowRate, '' '', symbol_text selectedToken, ''/month.'']]))"

definition RequiredDepositInfo_view :: "js_number \<Rightarrow> selected_token \<Rightarrow> bool \<Rightarrow> 'a node result" where
  "RequiredDepositInfo_view deposit selectedToken isOutgoingFlow =
     await (RequiredDepositInfo deposit) (\<lambda>formattedRequiredDeposit.
       Inr (InfoBox (Some ''warning'')
         [Txt ''Starting this flow will take a security Deposit of '',
          BoldUnderline [num_toString formattedRequiredDeposit, '' '', symbol_text selectedToken],
          Txt '' from '', Txt (if isOutgoingFlow then ''the app Agent's balance'' else ''your account''),
          Txt ''. The Deposit will be refunded in full when the flow gets closed or lost if the '',
          Txt (symbol_text selectedToken), Txt '' balance hits zero with the flow still open.'']))"

text \<open>\<open>requiredDeposit\<close> is null without a token of the list, and the box is shown for a number
  other than zero.\<close>

definition deposit_shown :: "js_number option option \<Rightarrow> js_number option" where
  "deposit_shown d = (case d of Some (Some x) \<Rightarrow> if num_isZero x \<or> x = NaN then None else Some x | _ \<Rightarrow> None)"

definition flow_explanation :: "bool \<Rightarrow> 'a node" where
  "flow_explanation outgoing =
     InfoBox None (if outgoing
       then [Txt ''By creating an '', El ''strong'' [] [] [Txt ''Outgoing Flow''], Txt '', the app will stream '', SuperTokensLink,
             Txt '' from itself to the provided recipient account.'']
       else [Txt ''By creating an '', El ''strong'' [] [] [Txt ''Incoming Flow''], Txt '', you will stream '', SuperTokensLink,
             Txt '' from your account to the app.''])"

definition optional_node :: "('x \<Rightarrow> 'a node result) \<Rightarrow> 'x option \<Rightarrow> 'a node list result" where
  "optional_node f x = (case x of None \<Rightarrow> Inr [] | Some y \<Rightarrow> await (f y) (\<lambda>n. Inr [n]))"

text \<open>The parts of the form above the rate; \<open>env\<close> has the tokens that the form offers.\<close>

definition update_fields ::
  "libs \<Rightarrow> ui_libs \<Rightarrow> update_env \<Rightarrow> (string \<Rightarrow> identity list result) \<Rightarrow> autocomplete \<Rightarrow> bool \<Rightarrow> string \<Rightarrow> update_form \<Rightarrow> update_action node list" where
  "update_fields L U env search ac anyAvailable customTokenAddress s =
     [required_field ''Flow Type''
        [El ''DropDown'' ([(''header'', ''Flow Type''), (''selected'', show_int (uf_flowType s))]
              @ flag ''disabled'' (isFlowUpdateOperation (ue_presets env) \<or> \<not> anyAvailable) @ flag ''wide'' True)
           [(''onChange'', on_index (\<lambda>i. UpdateChange (FlowTypeChange i)))] [Txt ''Incoming'', Txt ''Outgoing'']]]
     @ show_if (outgoingFlowSelected s) (recipient_field L search ac (\<lambda>t. UpdateChange (RecipientChange t)))
     @ TokenSelector L U \<lparr> sp_tokens = super_items (ue_tokens env), sp_disabled = isFlowUpdateOperation (ue_presets env),
           sp_label = ''Super Token'', sp_allowCustomToken = (\<not> outgoingFlowSelected s),
           sp_loadUserBalance = (\<not> outgoingFlowSelected s) \<rparr> customTokenAddress (uf_token s) (\<lambda>t. UpdateChange (TokenChange t))
     @ [field_view ''Description (optional)''
          [El ''TextInput'' ([(''value'', uf_description s)] @ flag ''wide'' True)
             [(''onChange'', on_text (\<lambda>t. UpdateChange (DescriptionChange t)))] []]]"

definition InnerUpdateFlow_view ::
  "libs \<Rightarrow> ui_libs \<Rightarrow> update_env \<Rightarrow> (string \<Rightarrow> identity list result) \<Rightarrow> autocomplete \<Rightarrow> bool \<Rightarrow> bool \<Rightarrow> string \<Rightarrow> rate_field \<Rightarrow>
   update_form \<Rightarrow> update_action node list result" where
  "InnerUpdateFlow_view L U env search ac anyAvailable waitTxPanel customTokenAddress r s =
     (let existing = existingFlow L (ue_account env) (ue_flows env) (ue_presets env) s;
          isUpdate = isFlowUpdateOperation (ue_presets env) in
      await (requiredDeposit (ue_tokens env) s) (\<lambda>deposit.
      await (FlowRateField r RateChange) (\<lambda>rate.
      await (optional_node (\<lambda>f. ExistingFlowInfo_view L f (uf_token s) (uf_flowRate s) (outgoingFlowSelected s)) existing) (\<lambda>existing_info.
      await (optional_node (\<lambda>d. RequiredDepositInfo_view d (uf_token s) (outgoingFlowSelected s)) (deposit_shown deposit)) (\<lambda>deposit_info.
        Inr ([El ''form'' [] [(''onSubmit'', on_click UpdateSubmit)]
               (update_fields L U env search ac anyAvailable customTokenAddress s
                @ [rate, SubmitButton waitTxPanel (if isUpdate \<or> existing \<noteq> None then ''Update'' else ''Create'')
                     (update_disabled (ue_presets env) s)])]
             @ show_if (uf_error s \<noteq> []) (InfoBox (Some ''error'') [Txt (uf_error s)])
             @ show_if (\<not> isUpdate) (flow_explanation (outgoingFlowSelected s))
             @ existing_info @ deposit_info))))))"

definition UpdateFlow_title :: "update_args option \<Rightarrow> string" where
  "UpdateFlow_title presets = (if isFlowUpdateOperation presets then ''Update Flow'' else ''Create Flow'')"

section \<open>The panels with tabs\<close>

text \<open>The selected tab is the panels' own state, kept while the panel is closed.\<close>

definition DEFAULT_SELECTED_TAB :: int where
  "DEFAULT_SELECTED_TAB = 0"

datatype tab_action = SelectTab int | TabForm form_action

definition tabs_view :: "string list \<Rightarrow> int \<Rightarrow> tab_action node" where
  "tabs_view items selectedTab =
     El ''div'' [] [] [El ''Tabs'' [(''selected'', show_int selectedTab)]
       [(''onChange'', on_index_below (length items) SelectTab)]
       (map Txt items)]"

definition transfer_tabs :: "view_token list \<Rightarrow> string list" where
  "transfer_tabs availableSuperTokens =
     (if availableSuperTokens \<noteq> [] then [''Deposit'', ''Withdrawal''] else [''Deposit''])"

fun lift_action :: "('b \<Rightarrow> 'a) \<Rightarrow> 'b node \<Rightarrow> 'a node" where
  "lift_action f (Txt s) = Txt s"
| "lift_action f (El tag attrs handlers children) =
     El tag attrs (map (\<lambda>(e, h). (e, \<lambda>v. map_option f (h v))) handlers) (map (lift_action f) children)"

text \<open>The content of the transfer panel: the deposit on the first tab, the withdrawal on any other.
  Either form is given the tokens it offers.\<close>

definition Transfer_content ::
  "libs \<Rightarrow> js_date \<Rightarrow> (view_token list \<Rightarrow> form_action node) \<Rightarrow> (view_token list \<Rightarrow> form_action node) \<Rightarrow> view_token list \<Rightarrow> int \<Rightarrow> tab_action node list result" where
  "Transfer_content L now deposit_form withdrawal_form superTokens_list selectedTab =
     await (getAvailableSuperTokens L now superTokens_list) (\<lambda>availableSuperTokens.
       Inr [tabs_view (transfer_tabs availableSuperTokens) selectedTab,
            lift_action TabForm (if selectedTab = 0 then deposit_form superTokens_list
              else withdrawal_form availableSuperTokens)])"

definition Convert_content ::
  "(view_token list \<Rightarrow> form_action node) \<Rightarrow> (view_token list \<Rightarrow> form_action node) \<Rightarrow> view_token list \<Rightarrow> int \<Rightarrow> tab_action node list" where
  "Convert_content upgrade_form downgrade_form superTokens_list selectedTab =
     [tabs_view [''Upgrade'', ''Downgrade''] selectedTab,
      lift_action TabForm (if selectedTab = 0 then upgrade_form superTokens_list else downgrade_form superTokens_list)]"

fun tab_handler :: "int \<Rightarrow> tab_action \<Rightarrow> int" where
  "tab_handler selectedTab (SelectTab i) = i"
| "tab_handler selectedTab (TabForm a) = selectedTab"

end
