(* ===== verification/Page_View.thy ===== *)
theory Page_View
  imports Panel_View Cards Carousel Conversion
begin

text \<open>
  What the page renders: \<^verbatim>\<open>App.js\<close>, the cards of the super tokens, the table of flows, the warnings
  and the error boundary. The numbers on the page are in \<open>Cards\<close>, \<open>Flow_View\<close> and \<open>Conversion\<close>; here are
  the elements with their handlers.
\<close>

datatype page_action =
    OpenConvert
  | OpenTransfer
  | OpenCreateFlow
  | CardDeposit "string option"
  | PopoverVisible bool
  | RowUpdate update_args
  | RowDelete delete_args
  | FilterAction filter_event
  | CarouselAction carousel_event
  | EditIdentity string
  | ReloadPage

section \<open>The error boundary\<close>

text \<open>The message and the stack of the error caught, and whether the boundary listens to changes of
  the hash, on which it reloads the page.\<close>

record error_boundary =
  eb_error :: "string option"
  eb_errorStack :: "string option"
  eb_listening :: bool

definition initial_boundary :: error_boundary where
  "initial_boundary = \<lparr> eb_error = None, eb_errorStack = None, eb_listening = False \<rparr>"

definition newline :: char where
  "newline = CHR 0x0A"

text \<open>The two replacements on the stack: newlines at either end, then four spaces at the start of
  every line.\<close>

definition trim_newlines :: "string \<Rightarrow> string" where
  "trim_newlines s = rev (dropWhile (\<lambda>c. c = newline) (rev (dropWhile (\<lambda>c. c = newline) s)))"

definition line_end :: "char \<Rightarrow> bool" where
  "line_end c \<longleftrightarrow> c = newline \<or> c = CHR 0x0D"

fun unindent :: "bool \<Rightarrow> string \<Rightarrow> string" where
  "unindent line_start [] = []"
| "unindent line_start (c # cs) =
     (if line_start \<and> take 4 (c # cs) = ''    '' then unindent False (drop 3 cs)
      else c # unindent (line_end c) cs)"

definition componentDidCatch :: "string \<Rightarrow> string \<Rightarrow> error_boundary \<Rightarrow> error_boundary" where
  "componentDidCatch message componentStack s =
     s\<lparr> eb_error := Some message, eb_errorStack := Some (unindent True (trim_newlines componentStack)), eb_listening := True \<rparr>"

definition componentWillUnmount :: "error_boundary \<Rightarrow> error_boundary" where
  "componentWillUnmount s = s\<lparr> eb_listening := False \<rparr>"

text \<open>A change of the hash reloads the page, which starts with a new boundary.\<close>

definition handleHashchange :: "error_boundary \<Rightarrow> error_boundary" where
  "handleHashchange s = (if eb_listening s then initial_boundary else s)"

definition GenericError_view :: "string \<Rightarrow> string option \<Rightarrow> page_action node list" where
  "GenericError_view detailsTitle detailsContent =
     [El ''h1'' [] [] [Txt ''An unexpected error has occurred''], El ''p'' [] [] [Txt ''Something went wrong!'']]
     @ show_if (detailsTitle \<noteq> [] \<or> truthy detailsContent)
         (El ''div'' [] [] [El ''Details'' [(''label'', ''Click here to see more'')] []
           [El ''div'' [] [] (show_if (detailsTitle \<noteq> []) (El ''h2'' [] [] [Txt detailsTitle])
              @ (case detailsContent of None \<Rightarrow> [] | Some c \<Rightarrow> [Txt c]))]])
     @ [El ''Button'' (flag ''wide'' True) [(''onClick'', on_click ReloadPage)] [Txt ''Reload'']]"

definition ErrorModal :: "bool \<Rightarrow> string \<Rightarrow> string option \<Rightarrow> page_action node" where
  "ErrorModal compactMode detailsTitle detailsContent =
     (let errorIconSize = (if compactMode then ''70px'' else ''100px'') in
      El ''Modal'' (flag ''visible'' True) []
        [El ''div'' [] []
           (El ''img'' [(''width'', errorIconSize), (''height'', errorIconSize)] [] [] # GenericError_view detailsTitle detailsContent)])"

definition GlobalErrorHandler :: "bool \<Rightarrow> error_boundary \<Rightarrow> page_action node list \<Rightarrow> page_action node list" where
  "GlobalErrorHandler compactMode s children =
     (case eb_error s of None \<Rightarrow> children | Some message \<Rightarrow> [ErrorModal compactMode message (eb_errorStack s)])"

section \<open>Cards\<close>

definition CARD_ICON_SIZE :: string where
  "CARD_ICON_SIZE = ''25''"

definition DEFAULT_CURRENCY_SYMBOL :: string where
  "DEFAULT_CURRENCY_SYMBOL = ''$''"

text \<open>The integer and the fractional digits of a formatted amount; nothing but 0 is shown below zero.\<close>

definition SplitAmount :: "ui_libs \<Rightarrow> int \<Rightarrow> int \<Rightarrow> nat \<Rightarrow> string \<Rightarrow> 'a node" where
  "SplitAmount U dynamicAmount decimals digitsDisplayed prefix_text =
     (let (integer, fractional) = split_dot (formatTokenAmount U dynamicAmount (Some decimals) digitsDisplayed False) in
      El ''div'' [] []
        ((if prefix_text \<noteq> [] then [Txt prefix_text] else [])
         @ (if dynamicAmount < 0 then [Txt ''0'']
            else El ''span'' [] [] [Txt integer] # show_if (fractional \<noteq> []) (El ''div'' [] [] [Txt ''.'', Txt fractional]))))"

definition dynamic_view :: "bool \<Rightarrow> 'a node \<Rightarrow> 'a node" where
  "dynamic_view redraws n = (if redraws then El ''Redraw'' [(''interval'', ''1000'')] [] [n] else El ''div'' [] [] [n])"

definition Balance_view :: "libs \<Rightarrow> ui_libs \<Rightarrow> js_date \<Rightarrow> token_item \<Rightarrow> 'a node list result" where
  "Balance_view L U now item =
     (let t = ti_token item in
      await (DynamicFlowAmount L now (Some (vt_balance t)) (vt_netFlow t) (vt_lastUpdateDate t)) (\<lambda>(redraws, amount).
      await (converted_balance L now (ti_convertedAmount item) (case ti_convertedNetFlow item of None \<Rightarrow> 0 | Some r \<Rightarrow> r) (vt_lastUpdateDate t))
        (\<lambda>converted.
        Inr [El ''div'' [] [] [dynamic_view redraws (SplitAmount U amount (vt_decimals t) 6 [])],
             El ''div'' [] [] [case converted of
               None \<Rightarrow> Txt ''-''
             | Some (redraws, value) \<Rightarrow> dynamic_view redraws (SplitAmount U value (vt_decimals t) 2 DEFAULT_CURRENCY_SYMBOL)]])))"

definition legend_item :: "string \<Rightarrow> string \<Rightarrow> js_number \<Rightarrow> 'a node" where
  "legend_item item monthly percentage =
     El ''div'' [] []
       [El ''span'' [] [] [El ''div'' [] [] [], El ''strong'' [] [] [Txt item]],
        El ''span'' [] [] [El ''span'' [] [] [Txt monthly], El ''span'' [] [] [Txt ''('', Txt (num_toString percentage), Txt ''%)'']]]"

definition FlowsDistribution_view :: "libs \<Rightarrow> int \<Rightarrow> int \<Rightarrow> nat \<Rightarrow> 'a node result" where
  "FlowsDistribution_view L inflowRate outflowRate tokenDecimals =
     await (FlowsDistribution L inflowRate outflowRate tokenDecimals) (\<lambda>d.
       Inr (El ''Distribution'' [(''colors'', if di_negativeFirst d then ''negative positive'' else ''positive negative'')] []
         [legend_item ''IN'' (di_monthlyInflowRate d) (di_inflowPct d), legend_item ''OUT'' (di_monthlyOutflowRate d) (di_outflowPct d)]))"

text \<open>The warning of a card: a popover that opens under the mouse, or on a click in compact mode, with
  a button that closes it and opens the transfer panel with the card's token.\<close>

definition DepletionWarningPopover :: "ui_libs \<Rightarrow> js_date \<Rightarrow> bool \<Rightarrow> js_date option \<Rightarrow> bool \<Rightarrow> page_action \<Rightarrow> page_action node list" where
  "DepletionWarningPopover U now isCompact depletionDate visible onDeposit =
     show_if visible (El ''Popover'' [(''placement'', if isCompact then ''bottom'' else ''right'')] [(''onClose'', on_click (PopoverVisible False))]
       [El ''div'' [] [] [El ''div'' [] []
          [El ''span'' [] [] [El ''IconWarning'' [] [] []], Txt ''The balance is going to run out on '',
           El ''strong'' [] []
             [Txt (case depletionDate of None \<Rightarrow> ''soon'' | Some d \<Rightarrow> format_date U d ''PPPPpp''), Txt '' '',
              Txt (case depletionDate of None \<Rightarrow> [] | Some d \<Rightarrow> ''('' @ formatDistance U d now @ '')'')],
           Txt ''. All flows will stop, make a deposit to keep them open.''],
          El ''Button'' ([(''mode'', ''strong''), (''label'', ''Make a deposit'')] @ flag ''wide'' True) [(''onClick'', on_click onDeposit)] []]])"

definition TokenDepletionWarning ::
  "ui_libs \<Rightarrow> js_date \<Rightarrow> bool \<Rightarrow> js_date option \<Rightarrow> bool \<Rightarrow> page_action \<Rightarrow> page_action node" where
  "TokenDepletionWarning U now compactMode depletionDate visible onDeposit =
     El ''div'' []
       [(''onMouseLeave'', on_click (PopoverVisible False)), (''onMouseEnter'', on_click (PopoverVisible True))]
       (El ''div'' [] (if compactMode then [(''onClick'', on_click (PopoverVisible True))] else []) [El ''Lottie'' [] [] []]
        # DepletionWarningPopover U now compactMode depletionDate visible onDeposit)"

text \<open>The popover's state after an action; the button closes it before the panel opens.\<close>

fun popover_handler :: "bool \<Rightarrow> page_action \<Rightarrow> bool" where
  "popover_handler visible (PopoverVisible b) = b"
| "popover_handler visible (CardDeposit a) = False"
| "popover_handler visible _ = visible"

definition card_field :: "string \<Rightarrow> 'a node list \<Rightarrow> 'a node" where
  "card_field label children = El ''div'' [] [] [El ''div'' [] [] [El ''strong'' [] [] [Txt label]], El ''div'' [] [] children]"

definition card_header :: "ui_libs \<Rightarrow> libs \<Rightarrow> js_date \<Rightarrow> bool \<Rightarrow> bool \<Rightarrow> view_token \<Rightarrow> page_action node" where
  "card_header U L now compactMode visible t =
     (let address = (case vt_address t of None \<Rightarrow> ''undefined'' | Some a \<Rightarrow> a) in
      El ''div'' [] []
        (El ''div'' [] []
           ([El ''div'' [] [] [if truthy (vt_logoURI t)
               then El ''img'' [(''width'', CARD_ICON_SIZE), (''height'', CARD_ICON_SIZE), (''src'', the (vt_logoURI t))] [] []
               else UnknownTokenLogo CARD_ICON_SIZE CARD_ICON_SIZE],
             El ''strong'' [] [] [El ''div'' [(''title'', if vt_name t \<noteq> [] then vt_name t @ '' - '' @ address else address)] []
               [Txt (if vt_symbol t \<noteq> [] then vt_symbol t else ''?'')]]]
            @ show_if (vt_netFlow t \<noteq> 0) (El (if vt_netFlow t < 0 then ''IconArrowDown'' else ''IconArrowUp'') [] [] []))
         # show_if (displayWarning L now (vt_depletionDate t))
             (El ''div'' [] [] [TokenDepletionWarning U now compactMode (vt_depletionDate t) visible (CardDeposit (vt_address t))])))"

definition SuperTokenCard :: "libs \<Rightarrow> ui_libs \<Rightarrow> js_date \<Rightarrow> bool \<Rightarrow> bool \<Rightarrow> token_item \<Rightarrow> page_action node result" where
  "SuperTokenCard L U now compactMode visible item =
     (let t = ti_token item; decimals = nat (vt_decimals t) in
      await (net_flow_text L (vt_netFlow t) decimals) (\<lambda>netFlow.
      await (Balance_view L U now item) (\<lambda>balance.
      await (FlowsDistribution_view L (vt_inflowRate t) (vt_outflowRate t) decimals) (\<lambda>distribution.
        Inr (El ''Card'' [] []
          [card_header U L now compactMode visible t,
           card_field ''Balance'' balance,
           card_field ''Monthly Net flow'' [El ''div'' [] [] [Txt netFlow]],
           card_field ''Streaming IN and OUT'' [distribution]])))))"

section \<open>The carousel and the list of cards\<close>

definition PrevNext :: "bool \<Rightarrow> page_action \<Rightarrow> page_action node" where
  "PrevNext isNext onClick =
     El ''ButtonIcon'' [(''label'', if isNext then ''Next'' else ''Previous'')] [(''onClick'', on_click onClick)]
       [El (if isNext then ''IconRight'' else ''IconLeft'') [] [] []]"

text \<open>The buttons are there while there are items on their side; the items out of sight are faded.\<close>

definition Carousel_view :: "carousel \<Rightarrow> page_action node list \<Rightarrow> page_action node" where
  "Carousel_view s items =
     El ''div'' [] []
       (show_if (0 < ca_selected s) (PrevNext False (CarouselAction Prev))
        @ show_if (ca_selected s < int (length items) - ca_visibleItems s) (PrevNext True (CarouselAction Next))
        @ [El ''AnimatedDiv'' [] []
             (map (\<lambda>(i, item). El ''AnimatedDiv'' [(''opacity'', if item_shown s (int i) then ''1'' else ''0.25'')] [] [item])
                (enumerate 0 items))])"

definition SuperTokens_view ::
  "libs \<Rightarrow> ui_libs \<Rightarrow> js_date \<Rightarrow> bool \<Rightarrow> bool \<Rightarrow> (nat \<Rightarrow> bool) \<Rightarrow> carousel \<Rightarrow> token_item list \<Rightarrow> page_action node result" where
  "SuperTokens_view L U now isCompact syncing visible s superTokenItems =
     (if superTokenItems = [] then
        Inr (El ''div'' [] [] [El ''div'' [] [] [El ''div'' [] []
          (if syncing then [El ''LoadingRing'' [(''mode'', ''half-circle'')] [] [], Txt '' Loading super tokens.'']
           else [El ''div'' [] [] [Txt ''No Super Tokens yet.'']])]])
      else
        await (map_result (\<lambda>(i, item). SuperTokenCard L U now isCompact (visible i) item) (enumerate 0 superTokenItems)) (\<lambda>cards.
          Inr (El ''div'' [] [] [Carousel_view s cards])))"

section \<open>The table of flows\<close>

definition dropdown :: "string \<Rightarrow> string list \<Rightarrow> int \<Rightarrow> (int \<Rightarrow> 'a) \<Rightarrow> 'a node" where
  "dropdown label items selected onChange =
     El ''DropDown'' [(''placeholder'', label), (''header'', label), (''selected'', show_int selected)]
       [(''onChange'', on_index_below (length items) onChange)] (map Txt items)"

definition FlowsFilters :: "filter_state \<Rightarrow> string list \<Rightarrow> page_action node" where
  "FlowsFilters s symbols =
     El ''div'' [] []
       [dropdown ''State'' FLOW_STATES_LABELS (fi_flowState s) (\<lambda>i. FilterAction (Flow_View.FlowStateChange i)),
        dropdown ''Type'' FLOW_TYPES_LABELS (fi_flowType s) (\<lambda>i. FilterAction (Flow_View.FlowTypeChange i)),
        dropdown ''Token'' symbols (fi_token s) (\<lambda>i. FilterAction (Flow_View.TokenChange i)),
        El ''DateRangePicker'' [(''format'', ''YYYY-MM-DD'')] [(''onChange'', on_range (\<lambda>r. FilterAction (DateRangeChange r)))] []]"

definition BaseContextMenuItem :: "string \<Rightarrow> string \<Rightarrow> 'a node" where
  "BaseContextMenuItem icon label = El ''div'' [] [] [El ''div'' [] [] [El icon [] [] []], El ''span'' [] [] [Txt label]]"

definition ContextMenuDeleteFlow :: "'a \<Rightarrow> 'a node" where
  "ContextMenuDeleteFlow onDeleteFlow =
     El ''ContextMenuItem'' [] [(''onClick'', on_click onDeleteFlow)] [BaseContextMenuItem ''IconRemove'' ''Cancel Flow'']"

definition ContextMenuUpdateFlow :: "'a \<Rightarrow> 'a node" where
  "ContextMenuUpdateFlow onUpdateFlow =
     El ''ContextMenuItem'' [] [(''onClick'', on_click onUpdateFlow)] [BaseContextMenuItem ''IconEdit'' ''Update Flow'']"

definition FlowDate :: "ui_libs \<Rightarrow> string \<Rightarrow> js_date \<Rightarrow> 'a node" where
  "FlowDate U dateTime date =
     El ''time'' [(''dateTime'', dateTime), (''title'', dateTime)] [] [Txt (format_date U date ''yyyy-MM-dd'')]"

definition TotalSoFar :: "ui_libs \<Rightarrow> int \<Rightarrow> int \<Rightarrow> 'a node" where
  "TotalSoFar U signedAmount decimals =
     (let (integer, fractional) = split_dot (formatTokenAmount U signedAmount (Some decimals) 6 True) in
      El ''div'' [] [] (El ''span'' [] [] [Txt integer] # show_if (fractional \<noteq> []) (El ''div'' [] [] [Txt ''.'', Txt fractional])))"

text \<open>The cells of a row. Both dates carry the time of the creation.\<close>

definition entry_cells :: "ui_libs \<Rightarrow> string option \<Rightarrow> view_flow \<Rightarrow> flow_row \<Rightarrow> page_action node list" where
  "entry_cells U name f row =
     (let formattedDate = format_date U (vf_creationDate f) ''yyyy-MM-dd'T'HH:mm:ss.SSSxxx'' in
      [El ''div'' [] [] [LocalIdentityBadge name None (row_entity row) (row_isConnected row) EditIdentity],
       El ''div'' [] [] [FlowDate U formattedDate (row_from row), El ''span'' [] [] [Txt ''-''],
         (case row_until row of Some d \<Rightarrow> FlowDate U formattedDate d | None \<Rightarrow> Txt ''Present'')],
       El ''div'' [] [] [Txt (row_type row)],
       El ''TokenBadge'' [(''address'', vf_superTokenAddress f), (''symbol'', row_symbol row)] [] [],
       El ''div'' [] [] [Txt (formatTokenAmount U (row_monthlyRate row) (Some 18) 2 True)],
       El ''div'' [] [] [(if vf_isCancelled f then TotalSoFar U (row_total row) (row_decimals row)
         else dynamic_view (vf_flowRate f \<noteq> 0) (TotalSoFar U (row_total row) (row_decimals row)))]])"

definition renderEntryExpansion :: "view_flow \<Rightarrow> 'a node list" where
  "renderEntryExpansion f =
     show_if (vf_description f \<noteq> [])
       (El ''div'' [] [] [El ''div'' [] [] [Txt ''Description:''], El ''div'' [] [] [Txt (vf_description f)]])"

definition row_menu :: "bool \<Rightarrow> (update_args \<times> delete_args) option \<Rightarrow> page_action node list" where
  "row_menu disableMenu actions =
     (case actions of
        None \<Rightarrow> []
      | Some (u, d) \<Rightarrow> [El ''ContextMenu'' (flag ''disabled'' disableMenu) []
          (if disableMenu then [] else [ContextMenuUpdateFlow (RowUpdate u), ContextMenuDeleteFlow (RowDelete d)])])"

definition flow_entry ::
  "libs \<Rightarrow> ui_libs \<Rightarrow> js_date \<Rightarrow> string option \<Rightarrow> string \<Rightarrow> (string \<Rightarrow> string option) \<Rightarrow> bool \<Rightarrow> (string \<times> int \<times> string) list \<Rightarrow>
   view_flow \<Rightarrow> page_action node result" where
  "flow_entry L U now account agent names disableMenu details f =
     await (renderEntry L now account details f) (\<lambda>row.
       Inr (El ''entry'' [] []
         (entry_cells U (names (vf_entity f)) f row @ renderEntryExpansion f
          @ row_menu disableMenu (renderEntryActions L account agent f))))"

definition flow_fields :: "bool \<Rightarrow> string list" where
  "flow_fields compactMode =
     [''To/From'', ''Start/End Date'', ''Type'', ''Token'',
      (if compactMode then ''Incoming/Outgoing'' else ''INC/OG'') @ '' (Per Month)'', ''Total So Far'']"

text \<open>The table; the data view of the UI package shows a page of the entries, and offers to clear the
  filters while its status is \<^verbatim>\<open>empty-filters\<close>.\<close>

definition page_of :: "ui_libs \<Rightarrow> int \<Rightarrow> 'a list \<Rightarrow> 'a list" where
  "page_of U page entries = (case dataview_page U page (length entries) of (first, number) \<Rightarrow> take number (drop first entries))"

definition flows_table :: "bool \<Rightarrow> string \<Rightarrow> filter_state \<Rightarrow> string list \<Rightarrow> page_action node list \<Rightarrow> page_action node" where
  "flows_table compactMode status s symbols entries =
     El ''DataView'' [(''mode'', if compactMode then ''list'' else ''table''), (''status'', status)]
       ((''onPageChange'', on_index (\<lambda>i. FilterAction (SetPage i)))
        # (if status = ''empty-filters'' then [(''onStatusEmptyClear'', on_click (FilterAction ClearFilters))] else []))
       ([El ''heading'' [] []
           (El ''div'' [] [] [El ''div'' [] [] [Txt ''Flows'']] # show_if (\<not> compactMode) (FlowsFilters s symbols))]
        @ map (\<lambda>label. El ''label'' [] [] [Txt label]) (flow_fields compactMode) @ entries)"

definition Flows_view ::
  "libs \<Rightarrow> ui_libs \<Rightarrow> js_date \<Rightarrow> bool \<Rightarrow> string option \<Rightarrow> (string \<Rightarrow> string option) \<Rightarrow> bool \<Rightarrow> filter_state \<Rightarrow> view_state \<Rightarrow>
   page_action node result" where
  "Flows_view L U now compactMode account names disableMenu s state =
     await (filteredFlows L s (vs_superTokens state) (vs_flows state)) (\<lambda>filtered.
     await (tokenDetails L [] (vs_superTokens state)) (\<lambda>details.
     await (map_result (flow_entry L U now account (vs_agentAddress state) names disableMenu details)
         (page_of U (fi_page s) (sortedFlows L filtered))) (\<lambda>entries.
       Inr (flows_table compactMode (dataViewStatus (emptyResultsViaFilters s filtered) (vs_flows state) (vs_isSyncing state)) s
         (map snd (tokensToFilter (vs_superTokens state))) entries))))"

section \<open>Warnings and the page\<close>

definition warning_view :: "ui_libs \<Rightarrow> js_date \<Rightarrow> string \<times> js_date option \<Rightarrow> 'a node" where
  "warning_view U now w =
     El ''Info'' [(''mode'', ''warning'')] []
       [El ''span'' [] [] [El ''IconWarning'' [] [] []], Txt ''Your '', El ''strong'' [] [] [Txt (fst w)],
        Txt '' balance is going to run out on '',
        El ''strong'' [] [] [Txt (format_date U (as_date (snd w)) ''PPPPpp''), Txt '' ('', Txt (formatDistance U (as_date (snd w)) now), Txt '') ''],
        Txt '' and all your incoming flows will stop. Get more Super Tokens to keep them open.'']"

definition IncomingFlowsWarnings_view ::
  "libs \<Rightarrow> ui_libs \<Rightarrow> js_date \<Rightarrow> view_sender_entry list \<Rightarrow> view_token list \<Rightarrow> 'a node list result" where
  "IncomingFlowsWarnings_view L U now incomingFlowTokens superTokens_list =
     await (IncomingFlowsWarnings L now incomingFlowTokens superTokens_list) (\<lambda>warnings.
       Inr (case map (warning_view U now) warnings of
              [] \<Rightarrow> []
            | first # others \<Rightarrow> [El ''div'' [] [] (first # show_if (others \<noteq> [])
                (El ''div'' [] [] [El ''Details'' [(''label'', ''Show all ('' @ show_int (int (length others)) @ '')'')] [] others]))]))"

text \<open>The connected account's own entries, by the exact text of the account.\<close>

definition senderSuperTokens :: "view_state \<Rightarrow> string option \<Rightarrow> view_sender_entry list" where
  "senderSuperTokens state connectedAccount =
     (case connectedAccount of None \<Rightarrow> []
      | Some a \<Rightarrow> (case map_of (vs_sendersSuperTokens state) a of None \<Rightarrow> [] | Some entries \<Rightarrow> entries))"

definition header_view :: "page_action node" where
  "header_view =
     El ''Header'' [(''primary'', ''Superfluid'')] []
       [El ''div'' [] []
          [El ''Button'' [(''label'', ''Convert'')] [(''onClick'', on_click OpenConvert)] [El ''IconCoin'' [] [] []],
           El ''Button'' [(''label'', ''Transfer'')] [(''onClick'', on_click OpenTransfer)] [El ''IconSwap'' [] [] []],
           El ''Button'' [(''mode'', ''strong''), (''label'', ''Create Flow'')] [(''onClick'', on_click OpenCreateFlow)] [El ''IconAdd'' [] [] []]]]"

text \<open>The page without the side panels, which are closed or lie over it. The environment has what the
  hooks give: the date, the layout, the connected account, the network, the names of addresses,
  the rates and the states of the cards, the carousel and the filters.\<close>

record page_env =
  pe_now :: js_date
  pe_layout :: string
  pe_account :: "string option"
  pe_network :: "network option"
  pe_names :: "string \<Rightarrow> string option"
  pe_rates :: rate_table
  pe_popovers :: "nat \<Rightarrow> bool"
  pe_carousel :: carousel
  pe_filters :: filter_state

definition App_view :: "libs \<Rightarrow> ui_libs \<Rightarrow> page_env \<Rightarrow> view_state \<Rightarrow> page_action node list result" where
  "App_view L U env state =
     (let own = senderSuperTokens state (pe_account env); isCompact = (pe_layout env = ''small'') in
      await (if own \<noteq> [] then IncomingFlowsWarnings_view L U (pe_now env) own (vs_superTokens state) else Inr []) (\<lambda>warnings.
      await (useSuperTokenItems L (pe_now env) (pe_network env) (pe_rates env) (vs_superTokens state)) (\<lambda>items.
      await (SuperTokens_view L U (pe_now env) isCompact (vs_isSyncing state) (pe_popovers env) (pe_carousel env) items) (\<lambda>tokens.
      await (Flows_view L U (pe_now env) (isCompact \<or> pe_layout env = ''medium'') (pe_account env) (pe_names env) False (pe_filters env) state) (\<lambda>flows_table.
        Inr ([El ''SyncIndicator'' (flag ''visible'' (vs_isSyncing state)) [] [], header_view] @ warnings @ [tokens, flows_table]))))))"

text \<open>A rendering that throws is caught by the boundary.\<close>

definition page_view :: "libs \<Rightarrow> ui_libs \<Rightarrow> page_env \<Rightarrow> error_boundary \<Rightarrow> view_state \<Rightarrow> page_action node list result" where
  "page_view L U env boundary state =
     (case eb_error boundary of
        Some message \<Rightarrow> Inr (GlobalErrorHandler (pe_layout env = ''small'') boundary [])
      | None \<Rightarrow> App_view L U env state)"

section \<open>The panels behind the page's actions\<close>

text \<open>The buttons of the header pass the click's event on as the parameters, an object without any
  preset in it, so that a panel opened by them has none.\<close>

definition open_blank :: "'p panel_state \<Rightarrow> 'p panel_state" where
  "open_blank s = (panel_handler s (RequestOpen None))\<lparr> ps_presetParams := EmptyPreset \<rparr>"

fun transfer_panel :: "string panel_state \<Rightarrow> page_action \<Rightarrow> string panel_state" where
  "transfer_panel s OpenTransfer = open_blank s"
| "transfer_panel s (CardDeposit (Some address)) = panel_handler s (RequestOpen (Some address))"
| "transfer_panel s (CardDeposit None) = open_blank s"
| "transfer_panel s _ = s"

fun flow_panel :: "update_args panel_state \<Rightarrow> page_action \<Rightarrow> update_args panel_state" where
  "flow_panel s OpenCreateFlow = open_blank s"
| "flow_panel s (RowUpdate args) = panel_handler s (RequestOpen (Some args))"
| "flow_panel s _ = s"

fun convert_panel :: "unit panel_state \<Rightarrow> page_action \<Rightarrow> unit panel_state" where
  "convert_panel s OpenConvert = open_blank s"
| "convert_panel s _ = s"

end
