(* ===== verification/Panel_View_Properties.thy ===== *)
theory Panel_View_Properties
  imports Panel_View Panel_Properties
begin

text \<open>
  What a user can do in the rendered panels: exactly which actions each form offers, and what
  follows for a session of such actions.
\<close>

section \<open>The actions of small elements\<close>

lemma enabled_submit_simps [simp]:
  "enabled_submit (field_view label children) \<longleftrightarrow> list_ex enabled_submit children"
  "enabled_submit (required_field label children) \<longleftrightarrow> list_ex enabled_submit children"
  "enabled_submit (SubmitButton wait label disabled) \<longleftrightarrow> \<not> disabled \<and> \<not> wait"
  "\<not> enabled_submit (AmountInput amount showMax onChange onMax)"
  by (auto simp: field_view_def required_field_def SubmitButton_def AmountInput_def has_flag_def show_if_def)

lemma user_actions_field [simp]: "user_actions (field_view label children) = (\<Union>c \<in> set children. user_actions c)"
  by (simp add: field_view_def has_flag_def)

lemma user_actions_required [simp]: "user_actions (required_field label children) = (\<Union>c \<in> set children. user_actions c)"
  by (simp add: required_field_def)

lemma user_actions_submit [simp]: "user_actions (SubmitButton wait label disabled) = {}"
  by (simp add: SubmitButton_def has_flag_def show_if_def)

lemma user_actions_amount [simp]:
  "user_actions (AmountInput amount showMax onChange onMax) =
     onChange ` Collect amount_accepted \<union> (if showMax then set_option onMax else {})"
  by (cases onMax) (simp_all add: AmountInput_def has_flag_def show_if_def MAX_BUTTON_def)

lemma user_actions_link [simp]: "user_actions SuperTokensLink = {}"
  by (simp add: SuperTokensLink_def has_flag_def)

lemma error_info_silent [simp]: "c \<in> set (error_info m) \<Longrightarrow> user_actions c = {}"
  by (simp add: error_info_def has_flag_def show_if_def split: if_splits)

lemma TokenSelectorInstance_silent [simp]:
  "user_actions (TokenSelectorInstance a l n s b) = {}" "\<not> enabled_submit (TokenSelectorInstance a l n s b)"
  by (simp_all add: TokenSelectorInstance_def text_span_def UnknownTokenLogo_def show_if_def has_flag_def flag_def split: option.splits)

lemma tokenItems_silent [simp]:
  "c \<in> set (tokenItems tokens b) \<Longrightarrow> user_actions c = {}" "\<not> list_ex enabled_submit (tokenItems tokens b)"
  by (auto simp: tokenItems_def list_ex_iff)

lemma SelectedTokenBalance_silent [simp]:
  "c \<in> set (SelectedTokenBalance L U t) \<Longrightarrow> user_actions c = {}" "\<not> list_ex enabled_submit (SelectedTokenBalance L U t)"
  by (auto simp: SelectedTokenBalance_def has_flag_def flag_def split: option.splits if_splits)

text \<open>The selector lets choose an entry of its menu unless it is disabled, and type an address while
  the entry for another token is chosen.\<close>

lemma selector_actions:
  "(\<Union>c \<in> set (TokenSelector L U props custom t onChange). user_actions c) =
     (if sp_disabled props then {}
      else range (\<lambda>i. onChange (handleDropDownChange (map fst (sp_tokens props)) (sp_allowCustomToken props)
             (sp_loadUserBalance props) i)))
     \<union> (if customTokenEnabled t (sp_allowCustomToken props) then range (\<lambda>a. onChange (handleCustomTokenAddressChange a)) else {})"
  by (auto simp: TokenSelector_def has_flag_def flag_def show_if_def)

lemma selector_no_submit [simp]: "\<not> list_ex enabled_submit (TokenSelector L U props custom t onChange)"
  by (simp add: TokenSelector_def has_flag_def flag_def show_if_def)

text \<open>The deposit form: the token unless it is preset, the amounts the input accepts, the maximum,
  and the submission while nothing is missing and no transaction waits.\<close>

lemma deposit_actions:
  "user_actions (Deposit_view L U preset wait tokens custom s) =
     (if truthy preset then {}
      else range (\<lambda>i. FormChange (SelectToken (handleDropDownChange (map super_selectable tokens) True True i))))
     \<union> (if customTokenEnabled (tf_token s) True
        then range (\<lambda>a. FormChange (SelectToken (handleCustomTokenAddressChange a))) else {})
     \<union> (\<lambda>t. FormChange (SetAmount t)) ` Collect amount_accepted \<union> {FormChange MaxAmount}
     \<union> (if form_disabled s \<or> wait then {} else {FormSubmit})"
  by (simp add: Deposit_view_def has_flag_def selector_actions super_items_def comp_def) auto

section \<open>Sessions of the deposit form\<close>

text \<open>
  The state of the form and the answers of the selector's fetches that are under way. A step is a
  handler that the rendered form offers, a submission that shows an error, the start of a fetch,
  its answer, which replaces the selection of that moment, or the effect of the preset token, which
  runs again when the list of tokens changes.
\<close>

inductive deposit_step ::
  "libs \<Rightarrow> ui_libs \<Rightarrow> app_api \<Rightarrow> network \<Rightarrow> string option \<Rightarrow> string option \<Rightarrow>
   token_form \<times> selected_token list \<Rightarrow> token_form \<times> selected_token list \<Rightarrow> bool"
  for L U app network account preset where
  change: "FormChange e \<in> user_actions (Deposit_view L U preset wait tokens custom s) \<Longrightarrow>
    deposit_step L U app network account preset (s, fetched) (deposit_handler L s e, fetched)"
| complain: "FormSubmit \<in> user_actions (Deposit_view L U preset wait tokens custom s) \<Longrightarrow>
    deposit_handleSubmit L s = Inr (ShowError s') \<Longrightarrow> deposit_step L U app network account preset (s, fetched) (s', fetched)"
| fetch: "selector_effect L app network Inr True account custom (tf_token s) = Some (Inr t) \<Longrightarrow>
    deposit_step L U app network account preset (s, fetched) (s, fetched @ [t])"
| answer: "t \<in> set fetched \<Longrightarrow>
    deposit_step L U app network account preset (s, fetched) (deposit_handler L s (SelectToken t), remove1 t fetched)"
| preset: "truthy preset \<Longrightarrow> deposit_preset L preset tokens s = Inr s' \<Longrightarrow>
    deposit_step L U app network account preset (s, fetched) (s', fetched)"

text \<open>An answer may replace a later selection: the token fetched first is selected in the end.\<close>

lemma late_answer_replaces_selection:
  fixes tokens :: "view_token list" and i :: int
  assumes "selector_effect L app network Inr True account custom (tf_token s) = Some (Inr t)"
  defines "b \<equiv> handleDropDownChange (map super_selectable tokens) True True i"
  shows "deposit_step L U app network account None (s, []) (s, [t])"
    and "deposit_step L U app network account None (s, [t]) (s\<lparr> tf_token := b, tf_error := [] \<rparr>, [t])"
    and "deposit_step L U app network account None (s\<lparr> tf_token := b, tf_error := [] \<rparr>, [t]) (s\<lparr> tf_token := t, tf_error := [] \<rparr>, [])"
proof -
  show "deposit_step L U app network account None (s, []) (s, [t])" using deposit_step.fetch [OF assms(1), of U None "[]"] by simp
  have "FormChange (SelectToken b) \<in> user_actions (Deposit_view L U None False tokens custom s)"
    by (simp add: deposit_actions truthy_def b_def)
  from deposit_step.change [OF this, of app network account "[t]"]
  show "deposit_step L U app network account None (s, [t]) (s\<lparr> tf_token := b, tf_error := [] \<rparr>, [t])" by simp
  show "deposit_step L U app network account None (s\<lparr> tf_token := b, tf_error := [] \<rparr>, [t]) (s\<lparr> tf_token := t, tf_error := [] \<rparr>, [])"
    using deposit_step.answer [of t "[t]" L U app network account None "s\<lparr> tf_token := b, tf_error := [] \<rparr>"] by simp
qed

text \<open>The selection of a session with a preset token.\<close>

definition preset_token :: "libs \<Rightarrow> string option \<Rightarrow> selected_token \<Rightarrow> bool" where
  "preset_token L preset t \<longleftrightarrow> 0 \<le> sel_index t \<and> addressesEqual L (Some (sel_address t)) preset"

lemma deposit_preset_token:
  assumes "truthy preset" and "deposit_preset L preset tokens s = Inr s'"
  shows "preset_token L preset (tf_token s')"
  using assms
  by (auto simp: deposit_preset_def findSuperTokenByAddress_def preset_token_def truthy_def Let_def
      simp del: findIndex_None_iff split: option.splits dest!: findIndex_SomeD)

lemma preset_token_fetched:
  assumes "preset_token L preset t" and "selector_effect L app network Inr True account custom t = Some (Inr t')"
  shows "preset_token L preset t'"
  using assms(2)
proof (rule selector_effect_fetches)
  fix a holder
  assume *: "a = (if custom \<noteq> [] \<and> sel_index t = CUSTOM_TOKEN_INDEX then custom else sel_address t)"
    "fetchTokenData L app network Inr True a t holder (custom \<noteq> [] \<and> sel_index t = CUSTOM_TOKEN_INDEX) = Inr t'"
  have "sel_index t \<noteq> CUSTOM_TOKEN_INDEX" using assms(1) by (auto simp: preset_token_def CUSTOM_TOKEN_INDEX_def)
  then show ?thesis using * assms(1) by (auto simp: fetchTokenData_def preset_token_def fetch_stages_keep)
qed

lemma deposit_step_preset:
  assumes "deposit_step L U app network account preset x y" and "truthy preset"
    and "\<forall>t \<in> insert (tf_token (fst x)) (set (snd x)). preset_token L preset t"
  shows "\<forall>t \<in> insert (tf_token (fst y)) (set (snd y)). preset_token L preset t"
  using assms
proof cases
  case (change e wait tokens custom s fetched)
  have "\<not> customTokenEnabled (tf_token s) True"
    using assms(3) change by (auto simp: preset_token_def customTokenEnabled_def toTokenItemsIndex_def)
  then have "(\<exists>t. e = SetAmount t) \<or> e = MaxAmount" using change assms(2) by (auto simp: deposit_actions split: if_splits)
  then have "tf_token (deposit_handler L s e) = tf_token s" by (auto simp: handleMaxAmount_def split: option.splits)
  then show ?thesis using change assms(3) by simp
next
  case (complain wait tokens custom s s' fetched)
  then have "tf_token s' = tf_token s"
    by (auto simp: deposit_handleSubmit_def submit_form_def split: option.splits)
  then show ?thesis using complain assms(3) by simp
next
  case (fetch custom s t fetched)
  then show ?thesis using assms(3) preset_token_fetched [of L preset "tf_token s"] by auto
next
  case (answer t fetched s)
  then show ?thesis using assms(3) by (auto dest: set_remove1_subset [THEN subsetD])
next
  case (preset tokens s s' fetched)
  then show ?thesis using assms(3) deposit_preset_token by auto
qed

lemma deposit_run_preset:
  assumes "(deposit_step L U app network account preset)\<^sup>*\<^sup>* x y" and "truthy preset"
    and "\<forall>t \<in> insert (tf_token (fst x)) (set (snd x)). preset_token L preset t"
  shows "\<forall>t \<in> insert (tf_token (fst y)) (set (snd y)). preset_token L preset t"
  using assms by (induction rule: rtranclp_induct) (blast dest: deposit_step_preset)+


definition s_card_address :: string where
  "s_card_address = ''0x1'' @ replicate 39 (CHR ''0'')"

definition s_card_form :: token_form where
  "s_card_form = (case deposit_preset sample_libs (Some s_card_address) [s_view_token] clear_form of Inr s \<Rightarrow> s | Inl _ \<Rightarrow> clear_form)"

lemma s_card_form_ok:
  "case deposit_handleSubmit sample_libs (s_card_form\<lparr> tf_amount := ''1.5'' \<rparr>) of Inr (Submitted _) \<Rightarrow> True | _ \<Rightarrow> False"
  "isOk (deposit_preset sample_libs (Some s_card_address) [s_view_token] clear_form)"
  "\<not> form_disabled (s_card_form\<lparr> tf_amount := ''1.5'' \<rparr>)" "tf_error s_card_form = []" "amount_accepted ''1.5''" "s_card_address \<noteq> []"
  by code_simp+


end
