(* ===== verification/Page_View_Properties.thy ===== *)
theory Page_View_Properties
  imports Page_View Panel_View_Properties Flow_View_Properties
begin

text \<open>
  What a user can do on the page: exactly which actions the table of flows, the cards and the error
  boundary offer.
\<close>

section \<open>Silent elements\<close>

lemma user_actions_plain [simp]: "user_actions (El tag attrs [] []) = {}"
  by simp

lemma popover_labels_silent [simp]: "user_actions (LocalLabelPopoverActionLabel b) = {}" "user_actions (LocalLabelPopoverTitle l) = {}"
  by (simp_all add: LocalLabelPopoverActionLabel_def LocalLabelPopoverTitle_def has_flag_def)

lemma LocalIdentityBadge_actions [simp]: "user_actions (LocalIdentityBadge name d entity own act) = {act entity}"
  by (simp add: LocalIdentityBadge_def has_flag_def flag_def split: option.split)

lemma FlowDate_silent [simp]: "user_actions (FlowDate U t d) = {}"
  by (simp add: FlowDate_def has_flag_def)

lemma TotalSoFar_silent [simp]: "user_actions (TotalSoFar U a d) = {}"
  by (simp add: TotalSoFar_def show_if_def has_flag_def Let_def split: prod.split)

lemma dynamic_view_actions [simp]: "user_actions (dynamic_view b n) = user_actions n"
  by (simp add: dynamic_view_def has_flag_def)

section \<open>The table\<close>

lemma entry_cells_actions: "(\<Union>c \<in> set (entry_cells U name f row). user_actions c) = {EditIdentity (row_entity row)}"
  by (simp add: entry_cells_def has_flag_def Let_def split: option.split)

lemma expansion_silent [simp]: "c \<in> set (renderEntryExpansion f) \<Longrightarrow> user_actions c = {}"
  by (simp add: renderEntryExpansion_def show_if_def has_flag_def split: if_splits)

lemma row_menu_actions:
  "(\<Union>c \<in> set (row_menu disableMenu actions). user_actions c) =
     (case actions of None \<Rightarrow> {} | Some (u, d) \<Rightarrow> if disableMenu then {} else {RowUpdate u, RowDelete d})"
  by (auto simp: row_menu_def ContextMenuUpdateFlow_def ContextMenuDeleteFlow_def BaseContextMenuItem_def has_flag_def split: option.split)

lemma flow_entry_actions:
  assumes "flow_entry L U now account agent names disableMenu details f = Inr n"
  shows "user_actions n = {EditIdentity (vf_entity f)} \<union>
    (case renderEntryActions L account agent f of None \<Rightarrow> {} | Some (u, d) \<Rightarrow> if disableMenu then {} else {RowUpdate u, RowDelete d})"
proof -
  obtain row where row: "renderEntry L now account details f = Inr row"
    and n: "n = El ''entry'' [] [] (entry_cells U (names (vf_entity f)) f row @ renderEntryExpansion f
      @ row_menu disableMenu (renderEntryActions L account agent f))"
    using assms by (auto simp: flow_entry_def)
  have "row_entity row = vf_entity f" using row by (auto simp: renderEntry_def Let_def split: option.splits)
  then show ?thesis
    unfolding n by (simp add: entry_cells_actions row_menu_actions has_flag_def UN_Un)
qed

lemma dropdown_actions: "user_actions (dropdown label items i f) = f ` {0..<int (length items)}"
  by (auto simp: dropdown_def has_flag_def)

lemma FlowsFilters_actions: "user_actions (FlowsFilters s symbols) \<subseteq> range FilterAction"
  by (auto simp: FlowsFilters_def has_flag_def dropdown_actions)

lemma empty_filters_status: "dataViewStatus (emptyResultsViaFilters s filtered) all_flows syncing \<noteq> ''empty-filters''"
  by (simp add: dataViewStatus_def emptyResultsViaFilters_def js_truthy_array_def)

lemma flows_table_actions:
  assumes "status \<noteq> ''empty-filters''"
  shows "user_actions (flows_table compactMode status s symbols entries) =
    range (\<lambda>i. FilterAction (SetPage i)) \<union> (if compactMode then {} else user_actions (FlowsFilters s symbols))
    \<union> (\<Union>e \<in> set entries. user_actions e)"
proof -
  have labels: "(\<Union>c \<in> set (map (\<lambda>label. El ''label'' [] [] [Txt label]) xs). user_actions c) = ({} :: page_action set)" for xs
    by (auto simp: has_flag_def)
  show ?thesis using assms by (cases compactMode) (simp_all add: flows_table_def has_flag_def UN_Un Un_assoc labels del: set_map)
qed

lemma Flows_view_InrE:
  assumes "Flows_view L U now compactMode account names disableMenu s state = Inr n"
  obtains filtered details entries where "filteredFlows L s (vs_superTokens state) (vs_flows state) = Inr filtered"
    and "list_all2 (\<lambda>f e. flow_entry L U now account (vs_agentAddress state) names disableMenu details f = Inr e)
      (page_of U (fi_page s) (sortedFlows L filtered)) entries"
    and "user_actions n = range (\<lambda>i. FilterAction (SetPage i)) \<union> (if compactMode then {}
      else user_actions (FlowsFilters s (map snd (tokensToFilter (vs_superTokens state))))) \<union> (\<Union>e \<in> set entries. user_actions e)"
  using assms
  by (auto simp: Flows_view_def map_result_Inr flows_table_actions [OF empty_filters_status])

lemma menu_member:
  "RowDelete d \<in> (case m of None \<Rightarrow> {} | Some (u, d) \<Rightarrow> {RowUpdate u, RowDelete d}) \<longleftrightarrow> (\<exists>u. m = Some (u, d))"
  "RowUpdate u \<in> (case m of None \<Rightarrow> {} | Some (u, d) \<Rightarrow> {RowUpdate u, RowDelete d}) \<longleftrightarrow> (\<exists>d. m = Some (u, d))"
  "FilterAction e \<notin> (case m of None \<Rightarrow> {} | Some (u, d) \<Rightarrow> {RowUpdate u, RowDelete d})"
  by (auto split: option.splits)

lemma list_all2_UN:
  assumes "list_all2 R xs ys" and "\<And>x y. R x y \<Longrightarrow> g y = f x"
  shows "(\<Union>y \<in> set ys. g y) = (\<Union>x \<in> set xs. f x)"
  using assms by (induction rule: list_all2_induct) auto


definition s_ui :: ui_libs where
  "s_ui = \<lparr> formatTokenAmount = (\<lambda>a d n b. show_int a), dataview_page = (\<lambda>p n. (nat p * 10, 10)), format_date = (\<lambda>d f. []),
     formatDistance = (\<lambda>a b. []) \<rparr>"

definition s_row_flow :: view_flow where
  "s_row_flow = \<lparr> vf_isCancelled = False, vf_isIncoming = False, vf_entity = s_alice,
     vf_superTokenAddress = s_card_address, vf_description = [], vf_accumulatedAmount = 0,
     vf_creationDate = Date 100000, vf_flowRate = 5, vf_lastUpdateDate = Date 100000 \<rparr>"

definition s_page_state :: view_state where
  "s_page_state = INITIAL_STATE\<lparr> vs_agentAddress := s_agent, vs_flows := [s_row_flow], vs_superTokens := [s_view_token] \<rparr>"

lemma s_table_rendered:
  "isOk (Flows_view sample_libs s_ui (Date 200000) False (Some s_alice) (\<lambda>a. None) False initial_filters s_page_state)"
  by code_simp

lemma s_table_filtered: "filteredFlows sample_libs initial_filters [s_view_token] [s_row_flow] = Inr [s_row_flow]"
  by code_simp


section \<open>Cards\<close>

lemma SplitAmount_silent [simp]: "user_actions (SplitAmount U a d n p) = {}"
  by (simp add: SplitAmount_def show_if_def has_flag_def Let_def split: prod.split)

lemma Balance_view_silent:
  assumes "Balance_view L U now item = Inr ns"
  shows "(\<Union>c \<in> set ns. user_actions c) = {}"
  using assms by (auto simp: Balance_view_def Let_def has_flag_def split: option.splits prod.splits)

lemma FlowsDistribution_view_silent: "FlowsDistribution_view L i out d = Inr n \<Longrightarrow> user_actions n = {}"
  by (auto simp: FlowsDistribution_view_def legend_item_def has_flag_def)

lemma card_field_actions [simp]: "user_actions (card_field label children) = (\<Union>c \<in> set children. user_actions c)"
  by (simp add: card_field_def has_flag_def)

lemma card_header_actions:
  "CardDeposit a \<in> user_actions (card_header U L now isCompact visible t) \<longleftrightarrow>
     displayWarning L now (vt_depletionDate t) \<and> visible \<and> a = vt_address t"
  by (auto simp: card_header_def TokenDepletionWarning_def DepletionWarningPopover_def UnknownTokenLogo_def show_if_def has_flag_def Let_def
      split: if_splits option.splits)

text \<open>A card offers a deposit exactly while its warning is open, and for its own token; pressing the
  button opens the transfer panel with that token.\<close>

lemma card_offers_deposit:
  assumes "SuperTokenCard L U now isCompact visible item = Inr n"
  shows "CardDeposit a \<in> user_actions n \<longleftrightarrow>
    displayWarning L now (vt_depletionDate (ti_token item)) \<and> visible \<and> a = vt_address (ti_token item)"
proof -
  obtain text_nodes balance distribution
    where balance: "Balance_view L U now item = Inr balance"
      and distribution: "FlowsDistribution_view L (vt_inflowRate (ti_token item)) (vt_outflowRate (ti_token item)) (nat (vt_decimals (ti_token item))) = Inr distribution"
      and n: "n = El ''Card'' [] [] [card_header U L now isCompact visible (ti_token item), card_field ''Balance'' balance,
        card_field ''Monthly Net flow'' [El ''div'' [] [] [Txt text_nodes]], card_field ''Streaming IN and OUT'' [distribution]]"
    using assms by (auto simp: SuperTokenCard_def Let_def)
  have "user_actions n = user_actions (card_header U L now isCompact visible (ti_token item))"
    using Balance_view_silent [OF balance] FlowsDistribution_view_silent [OF distribution] by (simp add: n has_flag_def)
  then show ?thesis by (simp add: card_header_actions)
qed

lemma card_opens_panel:
  "ps_visible (transfer_panel p (CardDeposit (Some a))) \<and> ps_presetParams (transfer_panel p (CardDeposit (Some a))) = Preset a \<and>
   popover_handler visible (CardDeposit (Some a)) = False"
  by simp

text \<open>The transfer panel keeps its tab: opened on the second one, the card's deposit shows the withdrawal
  form, which has no use for the preset token; and when the agent's tokens are gone, that form is
  shown without tokens under a single tab, which is not selected.\<close>

lemma transfer_tab_shows_withdrawal:
  assumes "getAvailableSuperTokens L now tokens = Inr available"
  shows "Transfer_content L now deposit_form withdrawal_form tokens 1 =
    Inr [tabs_view (transfer_tabs available) 1, lift_action TabForm (withdrawal_form available)]"
    and "available = [] \<Longrightarrow> transfer_tabs available = [''Deposit'']"
  using assms by (simp_all add: Transfer_content_def transfer_tabs_def)

section \<open>The error boundary\<close>

text \<open>Once an error is caught, nothing but reloading is offered, until a change of the hash reloads
  the page; the stack shown has no newline at either end.\<close>

lemma boundary_offers_reload:
  assumes "page_view L U env (componentDidCatch message stack b) state = Inr ns"
  shows "(\<Union>n \<in> set ns. user_actions n) = {ReloadPage}"
  using assms
  by (auto simp: page_view_def componentDidCatch_def GlobalErrorHandler_def ErrorModal_def GenericError_view_def show_if_def has_flag_def
      flag_def Let_def split: option.splits)

lemma boundary_reloads: "handleHashchange (componentDidCatch message stack b) = initial_boundary"
  by (simp add: handleHashchange_def componentDidCatch_def)

lemma trim_newlines_ends:
  assumes "trim_newlines s \<noteq> []"
  shows "hd (trim_newlines s) \<noteq> newline \<and> last (trim_newlines s) \<noteq> newline"
proof -
  define d where "d = dropWhile (\<lambda>c. c = newline) s"
  have t: "trim_newlines s = rev (dropWhile (\<lambda>c. c = newline) (rev d))" by (simp add: trim_newlines_def d_def)
  have ne: "dropWhile (\<lambda>c. c = newline) (rev d) \<noteq> []" using assms t by auto
  have "last (trim_newlines s) \<noteq> newline" unfolding t using hd_dropWhile [OF ne] by (simp add: last_rev ne)
  moreover have "hd (trim_newlines s) = hd d"
  proof -
    have "d = trim_newlines s @ rev (takeWhile (\<lambda>c. c = newline) (rev d))"
      unfolding t by (metis rev_append rev_rev_ident takeWhile_dropWhile_id)
    then show ?thesis using assms by (metis hd_append2)
  qed
  moreover have "d \<noteq> []" using ne by auto
  then have "hd d \<noteq> newline" unfolding d_def by (rule hd_dropWhile)
  ultimately show ?thesis by simp
qed

end
