(* ===== verification/Page_Composition.thy ===== *)
theory Page_Composition
  imports Page_View_Properties
begin

text \<open>
  From the events to the page: after any run of the store, what the reducer gives can be rendered.
  The lemmas go from the parts of the page, each of which can fail for a few reasons only, to an
  invariant of the store that rules out the reasons that concern unlisted tokens.
\<close>

section \<open>When the parts of the page can be rendered\<close>

text \<open>The dates of everything shown are valid, as those of time stamps in JavaScript's range are.\<close>

definition dates_valid :: "view_state \<Rightarrow> bool" where
  "dates_valid v \<longleftrightarrow> (\<forall>f \<in> set (vs_flows v). vf_lastUpdateDate f \<noteq> InvalidDate) \<and>
     (\<forall>t \<in> set (vs_superTokens v). vt_lastUpdateDate t \<noteq> InvalidDate)"

lemma current_amount_ok:
  assumes "seconds_truncate L" and "d \<noteq> InvalidDate"
  shows "\<exists>n. calculateCurrentAmount L a r d (Date u) = Inr n"
  using assms calculateCurrentAmount_valid by (cases d) auto

lemma Balance_view_ok:
  assumes "seconds_truncate L" and "vt_lastUpdateDate (ti_token item) \<noteq> InvalidDate"
  shows "isOk (Balance_view L U (Date u) item)"
proof -
  have dynamic: "\<exists>r. DynamicFlowAmount L (Date u) a rate_bn (vt_lastUpdateDate (ti_token item)) = Inr r" for a rate_bn
    using current_amount_ok [OF assms] by (fastforce simp: DynamicFlowAmount_def)
  obtain r where "DynamicFlowAmount L (Date u) (Some (vt_balance (ti_token item))) (vt_netFlow (ti_token item))
      (vt_lastUpdateDate (ti_token item)) = Inr r"
    using dynamic by blast
  moreover have "\<exists>c. converted_balance L (Date u) a n (vt_lastUpdateDate (ti_token item)) = Inr c" for a n
    using dynamic [of a n] by (auto simp: converted_balance_def split: option.split)
  ultimately show ?thesis by (auto simp: Balance_view_def Let_def isOk_iff split: prod.split) 
qed

lemma SuperTokenCard_ok:
  assumes "seconds_truncate L" and "vt_lastUpdateDate (ti_token item) \<noteq> InvalidDate"
  shows "isOk (SuperTokenCard L U (Date u) compactMode visible item)"
proof -
  have "isOk (FlowsDistribution_view L i out d)" for i out d
    using FlowsDistribution_total [of L i out d] by (simp add: FlowsDistribution_view_def) (simp add: isOk_iff)
  then show ?thesis
    using Balance_view_ok [OF assms, of U u] net_flow_text_total unfolding SuperTokenCard_def Let_def isOk_await
    by (fastforce simp: isOk_iff)
qed

lemma SuperTokens_view_ok:
  assumes "seconds_truncate L" and "\<forall>item \<in> set items. vt_lastUpdateDate (ti_token item) \<noteq> InvalidDate"
  shows "isOk (SuperTokens_view L U (Date u) isCompact syncing visible s items)"
proof -
  have "isOk (map_result (\<lambda>(i, item). SuperTokenCard L U (Date u) isCompact (visible i) item) (enumerate 0 items))"
    using assms(2) by (auto simp: map_result_ok in_set_enumerate_eq intro!: SuperTokenCard_ok [OF assms(1)])
  then show ?thesis by (auto simp: SuperTokens_view_def isOk_iff)
qed

text \<open>The items of the cards are the tokens with a positive balance, converted.\<close>

lemma balance_item_token: "balance_item L b rates t = Inr item \<Longrightarrow> ti_token item = t"
  by (auto simp: balance_item_def split: option.splits if_splits)

definition holds_some :: "libs \<Rightarrow> js_date \<Rightarrow> view_token \<Rightarrow> bool" where
  "holds_some L now t \<longleftrightarrow>
     (case calculateCurrentAmount L (vt_balance t) (vt_netFlow t) (vt_lastUpdateDate t) now of Inr n \<Rightarrow> 0 < n | Inl _ \<Rightarrow> False)"

lemma available_tokens:
  assumes "seconds_truncate L" and "\<forall>t \<in> set ts. vt_lastUpdateDate t \<noteq> InvalidDate"
  shows "getAvailableSuperTokens L (Date u) ts = Inr (filter (holds_some L (Date u)) ts)"
  unfolding getAvailableSuperTokens_def
proof (rule filter_result_Inr)
  fix t assume "t \<in> set ts"
  then show "await (calculateCurrentAmount L (vt_balance t) (vt_netFlow t) (vt_lastUpdateDate t) (Date u)) (\<lambda>n. Inr (0 < n))
      = Inr (holds_some L (Date u) t)"
    using current_amount_ok [OF assms(1), of "vt_lastUpdateDate t"] assms(2) by (fastforce simp: holds_some_def)
qed

text \<open>A token can be converted unless its underlying native currency has no symbol, or the text
  of its rate is no number for bn.js.\<close>

definition convertible :: "libs \<Rightarrow> network option \<Rightarrow> rate_table \<Rightarrow> view_token \<Rightarrow> bool" where
  "convertible L network rates t \<longleftrightarrow>
     isOk (balance_item L (case network of None \<Rightarrow> False | Some n \<Rightarrow> isTestNetwork n) rates t)"

lemma convertible_without_rates:
  "convertible L network [] t \<longleftrightarrow>
     (addr_eq L (ut_address (vt_underlyingToken t)) ZERO_ADDRESS \<longrightarrow> ut_symbol (vt_underlyingToken t) \<noteq> None)"
  by (auto simp: convertible_def balance_item_def getConvertRateToken_def getNativeCurrencyContractEquivalent_def isOk_iff
      Let_def split: option.split)

lemma items_ok:
  assumes "seconds_truncate L" and "\<forall>t \<in> set ts. vt_lastUpdateDate t \<noteq> InvalidDate"
  shows "isOk (useSuperTokenItems L (Date u) network rates ts) \<longleftrightarrow>
    (\<forall>t \<in> set ts. holds_some L (Date u) t \<longrightarrow> convertible L network rates t)"
  by (auto simp: useSuperTokenItems_def available_tokens [OF assms] map_result_ok convertible_def Let_def)

lemma items_tokens:
  assumes "seconds_truncate L" and "\<forall>t \<in> set ts. vt_lastUpdateDate t \<noteq> InvalidDate"
    and "useSuperTokenItems L (Date u) network rates ts = Inr items"
  shows "ti_token ` set items \<subseteq> set ts"
proof -
  have "list_all2 (\<lambda>t item. balance_item L (case network of None \<Rightarrow> False | Some n \<Rightarrow> isTestNetwork n) rates t = Inr item)
      (filter (holds_some L (Date u)) ts) items"
    using assms(3) by (simp add: useSuperTokenItems_def available_tokens [OF assms(1,2)] Let_def map_result_Inr)
  then show ?thesis using balance_item_token by (fastforce elim: list_all2_in_set2)
qed

text \<open>Warnings need the token of every entry in the list.\<close>

definition entry_listed :: "libs \<Rightarrow> view_token list \<Rightarrow> view_sender_entry \<Rightarrow> bool" where
  "entry_listed L ts e \<longleftrightarrow> (\<exists>t \<in> set ts. addressesEqual L (vt_address t) (Some (vse_address e)))"

lemma warnings_ok:
  assumes "\<forall>e \<in> set es. entry_listed L ts e"
  shows "isOk (IncomingFlowsWarnings_view L U now es ts) \<longleftrightarrow>
    (\<forall>e \<in> set es. isOk (calculateDepletionDate L (vse_balance e) (vse_netFlow e) now (vse_lastUpdateDate e)))"
proof -
  have entries: "isOk (map_result (depletion_entry L now) es) \<longleftrightarrow>
      (\<forall>e \<in> set es. isOk (calculateDepletionDate L (vse_balance e) (vse_netFlow e) now (vse_lastUpdateDate e)))"
    by (simp add: map_result_ok depletion_entry_def) (auto simp: isOk_iff)
  have "isOk (map_result (warning_symbol L ts) (js_sort (compareWarnings L) (filter (below_threshold L now) ws)))"
    if "map_result (depletion_entry L now) es = Inr ws" for ws
  proof -
    have "isOk (warning_symbol L ts w)" if "w \<in> set ws" for w
    proof -
      have "list_all2 (\<lambda>e w. depletion_entry L now e = Inr w) es ws"
        using \<open>map_result (depletion_entry L now) es = Inr ws\<close> by (simp add: map_result_Inr)
      then obtain e where "e \<in> set es" "depletion_entry L now e = Inr w" using \<open>w \<in> set ws\<close> by (rule list_all2_in_set2)
      then have "entry_listed L ts (fst w)" using assms by (auto simp: depletion_entry_def)
      then have "find (\<lambda>t. addressesEqual L (vt_address t) (Some (vse_address (fst w)))) ts \<noteq> None"
        by (auto simp: entry_listed_def find_None_iff)
      then show ?thesis by (auto simp: warning_symbol_def)
    qed
    then show ?thesis by (simp add: map_result_ok)
  qed
  then show ?thesis
    unfolding entries [symmetric] by (auto simp: IncomingFlowsWarnings_view_def IncomingFlowsWarnings_def filteredSuperTokens_def isOk_iff)
qed

text \<open>The table needs the token of every flow in the list, and a token behind the chosen filter.\<close>

lemma Flows_view_ok:
  assumes "filters_wf (length (vs_superTokens v)) s" and "tokenDetails L [] (vs_superTokens v) = Inr d"
    and "\<forall>f \<in> set (vs_flows v). isOk (renderEntry L now account d f)"
  shows "isOk (Flows_view L U now compactMode account names disableMenu s v)"
proof -
  have filtered: "filteredFlows L s (vs_superTokens v) (vs_flows v) = Inr (filter (flow_matches L s (vs_superTokens v)) (vs_flows v))"
    unfolding filteredFlows_def by (intro filter_result_Inr flow_included_matches assms(1))
  have page: "set (page_of U p fs) \<subseteq> set fs" for p and fs :: "view_flow list"
    by (auto simp: page_of_def split: prod.split dest!: in_set_takeD in_set_dropD)
  have "isOk (flow_entry L U now account agent names disableMenu d f)" if "f \<in> set (vs_flows v)" for f agent
    using assms(3) that by (auto simp: flow_entry_def isOk_iff)
  then have "isOk (map_result (flow_entry L U now account agent names disableMenu d)
      (page_of U (fi_page s) (sortedFlows L (filter (flow_matches L s (vs_superTokens v)) (vs_flows v)))))" for agent
    using page by (fastforce simp: map_result_ok sortedFlows_def)
  then show ?thesis by (auto simp: Flows_view_def filtered assms(2) isOk_iff)
qed

section \<open>Listed tokens\<close>

text \<open>A token is listed in a store while the store's list of tokens is defined and has it.\<close>

definition token_listed :: "libs \<Rightarrow> app_store \<Rightarrow> string \<Rightarrow> bool" where
  "token_listed L st a \<longleftrightarrow> (\<forall>ts. superTokens st = Some ts \<longrightarrow> lookup_token L ts (Some a) \<noteq> None)"

definition senders_cover :: "libs \<Rightarrow> app_store \<Rightarrow> bool" where
  "senders_cover L st \<longleftrightarrow> (\<forall>(sender, es) \<in> set (sendersSuperTokens st). \<forall>e \<in> set es. se_address e \<noteq> [] \<and> token_listed L st (se_address e))"

lemma updated_listed:
  assumes "updateSuperTokens L cache (superTokens st) agent app settings (Some x) ts n = (superTokens st', cache')"
    and "store_wf L agent' st" and "token_listed L st a \<or> a = x"
  shows "token_listed L st' a"
  unfolding token_listed_def
proof (intro allI impI)
  fix new assume new: "superTokens st' = Some new"
  then obtain old where old: "superTokens st = Some old"
    using assms(1) updateSuperTokens_undefinedD by (metis option.exhaust option.distinct(1))
  then have "tokens_wf L old" using assms(2) by (simp add: store_wf_def)
  from updateSuperTokens_lookup [OF assms(1) [unfolded old new] this] obtain t where
    "\<forall>a'. lookup_token L new a' = (if addressesEqual L a' (Some x) then Some t else lookup_token L old a')"
    by blast
  then show "lookup_token L new (Some a) \<noteq> None" using assms(3) old by (auto simp: token_listed_def)
qed

lemma senders_cover_mono:
  assumes "senders_cover L st" and "\<And>a. token_listed L st a \<Longrightarrow> token_listed L st' a"
    and "\<And>sender es e. (sender, es) \<in> set (sendersSuperTokens st') \<Longrightarrow> e \<in> set es \<Longrightarrow>
      (\<exists>es'. (sender, es') \<in> set (sendersSuperTokens st) \<and> e \<in> set es') \<or> se_address e \<noteq> [] \<and> token_listed L st' (se_address e)"
  shows "senders_cover L st'"
  using assms unfolding senders_cover_def by fastforce

lemma dict_put_member: "p \<in> set (dict_put k v m) \<Longrightarrow> p = (k, v) \<or> p \<in> set m"
  by (induction m) (auto split: if_splits)

lemma store_step_senders_cover:
  assumes "senders_cover L (fst s)" and "store_wf L agent (fst s)" and "names_token (snd e)"
    and "store_step L settings s e = Inr s'"
  shows "senders_cover L (fst s')"
proof (cases "\<exists>ev. snd e = FlowUpdated ev")
  case True
  then obtain ev where ev: "snd e = FlowUpdated ev" by blast
  with store_step_InrE [OF assms(4)] have "handleFlowUpdated L (fst e) settings (snd s) (fst s) ev = (Inr (fst s'), snd s')" by simp
  then show ?thesis
  proof (cases rule: handleFlowUpdated_InrE)
    case ignored
    then show ?thesis using assms(1) by simp
  next
    case (handled ts cache1 senders fs newST)
    have upd: "updateSuperTokens L (snd s) (superTokens (fst s)) (agentAddress (fst s)) (fst e) settings (Some (ev_token ev)) ts
        (Some (if addr_eq L (agentAddress (fst s)) (ev_sender ev) then ev_totalSenderFlowRate ev else ev_totalReceiverFlowRate ev))
        = (superTokens (fst s'), cache1)"
      using handled(3,6) by simp
    note listed = updated_listed [OF upd assms(2)]
    show ?thesis
    proof (rule senders_cover_mono [OF assms(1)])
      show "token_listed L (fst s) a \<Longrightarrow> token_listed L (fst s') a" for a using listed by simp
      fix sender es e' assume "(sender, es) \<in> set (sendersSuperTokens (fst s'))" and "e' \<in> set es"
      then show "(\<exists>es'. (sender, es') \<in> set (sendersSuperTokens (fst s)) \<and> e' \<in> set es') \<or>
          se_address e' \<noteq> [] \<and> token_listed L (fst s') (se_address e')"
        using handled(4,6) listed [of "ev_token ev"] assms(3) ev
        by (cases rule: updateSendersSuperTokens_InrE [OF handled(4)])
          (auto simp: names_token_def dest!: dict_put_member split: option.splits dest: map_of_SomeD)
    qed
  qed
next
  case False
  then have senders: "sendersSuperTokens (fst s') = sendersSuperTokens (fst s)"
    using store_reducer_other [OF store_step_InrE [OF assms(4)]] by simp
  have listed: "token_listed L (fst s) a \<Longrightarrow> token_listed L (fst s') a" for a
  proof -
    assume a: "token_listed L (fst s) a"
    have vault: "token_listed L (fst s') a"
      if "handleVaultEvent L (fst e) settings (snd s) (fst s) token block = (Inr (fst s'), snd s')" for token block
    proof -
      from that obtain ts newST where st': "fst s' = (fst s)\<lparr> superTokens := newST \<rparr>"
        and upd: "updateSuperTokens L (snd s) (superTokens (fst s)) (agentAddress (fst s)) (fst e) settings (Some token) ts None
          = (newST, snd s')"
        by (auto simp: handleVaultEvent_def Let_def split: sum.splits prod.splits) metis
      from updated_listed [of L "snd s" "fst s" "agentAddress (fst s)" "fst e" settings token ts None "fst s'" "snd s'", OF _ assms(2)]
      show ?thesis using upd st' a by simp
    qed
    have same: "token_listed L (fst s') a" if "superTokens (fst s') = superTokens (fst s)"
      using a that by (simp add: token_listed_def)
    note step = store_step_InrE [OF assms(4)]
    show ?thesis
    proof (cases "snd e")
      case (SyncStatusSyncing to)
      with step have "fst s' = (fst s)\<lparr> isSyncing := True, cachedBlockNumber := Some to \<rparr>" by simp
      then show ?thesis by (intro same) simp
    next
      case ExternalSubscriptionSynced
      with step have "fst s' = (fst s)\<lparr> isSyncing := False \<rparr>" by simp
      then show ?thesis by (intro same) simp
    qed (use step False a vault in auto)
  qed
  show ?thesis by (rule senders_cover_mono [OF assms(1) listed]) (use senders in auto)
qed

interpretation senders: event_store "store_step L settings"
    "\<lambda>s. store_wf L agent (fst s) \<and> senders_cover L (fst s)"
    "\<lambda>e. no_self_flow L (snd e) \<and> names_token (snd e)" for L settings agent
  by unfold_locales (auto intro: es.step_inv store_step_senders_cover)

lemma list_all2_in_set1:
  assumes "list_all2 P xs ys" and "x \<in> set xs"
  obtains y where "y \<in> set ys" and "P x y"
  using assms by (metis in_set_conv_nth list_all2_conv_all_nth)

text \<open>The reducer keeps what is listed.\<close>

lemma reduced_entries_listed:
  assumes "senders_cover L st" and "appStateReducer L now (Some st) = Inr v" and "e \<in> set (senderSuperTokens v acct)"
  shows "entry_listed L (vs_superTokens v) e"
proof (rule appStateReducer_InrE [OF assms(2)])
  fix tokens formatted
  assume *: "superTokens st = Some tokens"
    "list_all2 (\<lambda>t f. format_super_token L now (fst (format_flows [] (flows st))) t = Inr f) tokens formatted"
    "vs_superTokens v = js_sort (compareSuperTokensBySymbol L) formatted"
    "vs_sendersSuperTokens v = map (\<lambda>(sender, es). (sender, map format_sender_entry es)) (sendersSuperTokens st)"
  have "senderSuperTokens v acct = (case acct of None \<Rightarrow> []
      | Some a \<Rightarrow> (case map_of (sendersSuperTokens st) a of None \<Rightarrow> [] | Some es \<Rightarrow> map format_sender_entry es))"
    by (cases acct; cases "map_of (sendersSuperTokens st) (the acct)") (simp_all add: senderSuperTokens_def *(4) map_of_map)
  with assms(3) obtain sender es e' where e': "(sender, es) \<in> set (sendersSuperTokens st)" "e' \<in> set es" "e = format_sender_entry e'"
    by (auto split: option.splits dest!: map_of_SomeD)
  then have "lookup_token L tokens (Some (se_address e')) \<noteq> None"
    using assms(1) *(1) by (fastforce simp: senders_cover_def token_listed_def)
  then obtain t where t: "t \<in> set tokens" "addressesEqual L (Some (se_address e')) (st_address t)"
    by (auto simp: lookup_token_def lookup_by_def find_Some_iff) (metis nth_mem)
  from *(2) t(1) obtain f where f: "f \<in> set formatted" "format_super_token L now (fst (format_flows [] (flows st))) t = Inr f"
    by (rule list_all2_in_set1)
  have "addressesEqual L (vt_address f) (Some (vse_address e))"
    using t(2) format_super_token_fields(1) [OF f(2)] by (simp add: e'(3) format_sender_entry_def) (rule addressesEqual_sym)
  then show ?thesis using f(1) *(3) by (auto simp: entry_listed_def)
qed

section \<open>The page\<close>

lemma four_parts_ok:
  assumes "\<And>i. I = Inr i \<Longrightarrow> isOk (S i)" and "isOk T"
  shows "isOk (await W (\<lambda>w. await I (\<lambda>i. await (S i) (\<lambda>s. await T (\<lambda>t. Inr (page w i s t)))))) \<longleftrightarrow> isOk W \<and> isOk I"
  using assms by (auto simp: isOk_iff)

text \<open>What an execution of the store needs for its flows and entries to be covered.\<close>

definition fresh_store :: "app_store \<Rightarrow> bool" where
  "fresh_store st \<longleftrightarrow> flows st = [] \<and> sendersSuperTokens st = [] \<and> (\<exists>ts. superTokens st = Some ts \<and> (\<forall>t \<in> set ts. addressed t))"

lemma run_covers:
  assumes "store_wf L agent st" and "fresh_store st" and "\<forall>e \<in> set es. no_self_flow L (snd e) \<and> names_token (snd e)"
    and "run_events (store_step L settings) (st, cache) es = Inr (st', cache')"
  shows "senders_cover L st'"
  using senders.run_inv [of L agent "(st, cache)" es settings "(st', cache')"] assms
  by (simp add: fresh_store_def senders_cover_def)


definition s_page_env :: page_env where
  "s_page_env = \<lparr> pe_now = Date 200000, pe_layout = ''large'', pe_account = Some s_alice, pe_network = None, pe_names = (\<lambda>a. None),
     pe_rates = [], pe_popovers = (\<lambda>i. False), pe_carousel = \<lparr> ca_items = 1, ca_selected = 0, ca_containerWidth = 300, ca_visibleItems = 1, ca_x = 0 \<rparr>, pe_filters = initial_filters \<rparr>"

lemma s_page_reduced:
  "case appStateReducer sample_libs (Date 120000) (Some (s_store_after 60 50 7 110)) of
     Inl _ \<Rightarrow> False
   | Inr v \<Rightarrow> (\<forall>f \<in> set (vs_flows v). vf_lastUpdateDate f \<noteq> InvalidDate) \<and>
       (\<forall>t \<in> set (vs_superTokens v). vt_lastUpdateDate t \<noteq> InvalidDate \<and> ut_address (vt_underlyingToken t) = ''0xE'') \<and>
       (\<forall>e \<in> set (senderSuperTokens v (Some s_alice)).
          isOk (calculateDepletionDate sample_libs (vse_balance e) (vse_netFlow e) (Date 200000) (vse_lastUpdateDate e)))"
  by code_simp


end
