(* ===== verification/App_Session.thy ===== *)
theory App_Session
  imports App_Logic_Properties
begin

text \<open>
  The actions joined to the panels: \<^verbatim>\<open>useAppLogic\<close> of \<^verbatim>\<open>app-logic.js\<close> and \<^verbatim>\<open>requestTransaction\<close> of
  \<^verbatim>\<open>hooks/usePanelState.js\<close>. A form's transaction runs while the panel lives on: the user may close the
  panel, open it again and submit anew before an earlier transaction settles. A session of a
  panel is a run of such steps in any order.
\<close>

section \<open>The actions with their panels\<close>

datatype panel_id = ConvertPanel | CreateFlowPanel | TransferPanel

datatype app_request =
    UpdateFlowRequest string string string "string option" bool bool
  | DeleteFlowRequest string string bool bool
  | DepositRequest string string bool
  | WithdrawRequest string string string
  | ConvertRequest token_operation string string

text \<open>What the hooks read: the host's handle, the state's addresses, the API, the network, and the
  outcome of a transaction.\<close>

record action_env =
  ae_host :: "contract option"
  ae_agent :: string
  ae_cfa :: string
  ae_api :: app_api
  ae_network :: network
  ae_submit :: "transaction \<Rightarrow> unit result"

text \<open>The action that a request runs, and the panel that its \<^verbatim>\<open>onDone\<close> closes.\<close>

definition useAppLogic :: "libs \<Rightarrow> action_env \<Rightarrow> app_request \<Rightarrow> action_outcome \<times> panel_id option" where
  "useAppLogic L env r =
     (case r of
        UpdateFlowRequest token entity fr description isOutgoing isCreate \<Rightarrow>
          (useUpdateFlow (ae_host env) (ae_agent env) (ae_cfa env) token entity fr description isOutgoing isCreate, Some CreateFlowPanel)
      | DeleteFlowRequest token entity isOutgoing isOwn \<Rightarrow>
          (useDeleteFlow (ae_host env) (ae_agent env) (ae_cfa env) token entity isOutgoing isOwn, None)
      | DepositRequest token amount isExternal \<Rightarrow> (useDeposit (ae_submit env) token amount isExternal, Some TransferPanel)
      | WithdrawRequest token receiver amount \<Rightarrow> (useWithdraw (ae_submit env) token receiver amount, Some TransferPanel)
      | ConvertRequest operation token amount \<Rightarrow>
          (useConvertTokens L (ae_api env) (ae_network env) (ae_submit env) operation token amount, Some ConvertPanel))"

section \<open>Sessions of a panel\<close>

text \<open>The panel with the transactions that have not settled, in the order they were requested, each
  with what its action will have done.\<close>

record 'p session =
  se_panel :: "'p panel_state"
  se_pending :: "action_outcome list"

definition initial_session :: "'p session" where
  "initial_session = \<lparr> se_panel = initial_panel, se_pending = [] \<rparr>"

datatype 'p session_event = OnPanel "'p panel_event" | Request action_outcome | Settle nat

text \<open>\<^verbatim>\<open>requestTransaction\<close>: the panel waits while the action runs, and no longer when its promise has
  settled; in between the action closes the panel if it is done.\<close>

definition requestTransaction :: "action_outcome \<Rightarrow> 'p session \<Rightarrow> 'p session" where
  "requestTransaction outcome s =
     s\<lparr> se_panel := panel_handler (se_panel s) RequestTransaction, se_pending := se_pending s @ [outcome] \<rparr>"

definition settled :: "action_outcome \<Rightarrow> 'p panel_state \<Rightarrow> 'p panel_state" where
  "settled outcome p = panel_handler (if doneCalled outcome then panel_handler p RequestClose else p) TransactionSettled"

definition settle :: "nat \<Rightarrow> 'p session \<Rightarrow> 'p session" where
  "settle i s = s\<lparr> se_panel := settled (se_pending s ! i) (se_panel s), se_pending := take i (se_pending s) @ drop (Suc i) (se_pending s) \<rparr>"

text \<open>A form can be submitted while its panel is visible and does not wait, since the button is
  disabled otherwise; transactions settle in any order.\<close>

inductive session_step :: "'p session \<Rightarrow> 'p session_event \<Rightarrow> 'p session \<Rightarrow> bool" where
  panel: "panel_step (se_panel s) e p \<Longrightarrow> e \<noteq> RequestTransaction \<Longrightarrow> e \<noteq> TransactionSettled \<Longrightarrow>
    session_step s (OnPanel e) (s\<lparr> se_panel := p \<rparr>)"
| request: "ps_visible (se_panel s) \<Longrightarrow> \<not> ps_waitTxPanel (se_panel s) \<Longrightarrow>
    session_step s (Request outcome) (requestTransaction outcome s)"
| settle: "i < length (se_pending s) \<Longrightarrow> session_step s (Settle i) (settle i s)"

inductive session_run :: "'p session \<Rightarrow> 'p session_event list \<Rightarrow> 'p session \<Rightarrow> bool" where
  stop: "session_run s [] s"
| more: "session_step s e s1 \<Longrightarrow> session_run s1 es s2 \<Longrightarrow> session_run s (e # es) s2"

inductive_simps session_run_Nil [simp]: "session_run s [] s'"
inductive_simps session_run_Cons: "session_run s (e # es) s'"

section \<open>Lemmas\<close>

lemma settled_fields [simp]:
  "ps_waitTxPanel (settled outcome p) = False"
  "ps_visible (settled outcome p) \<longleftrightarrow> ps_visible p \<and> \<not> doneCalled outcome"
  by (auto simp: settled_def)

text \<open>While the user does not close the panel, it waits exactly while its transaction is pending.\<close>

definition waits_for_pending :: "'p session \<Rightarrow> bool" where
  "waits_for_pending s \<longleftrightarrow> length (se_pending s) \<le> 1 \<and> (ps_waitTxPanel (se_panel s) \<longleftrightarrow> se_pending s \<noteq> [])"

lemma session_step_waits:
  assumes "session_step s e s'" and "waits_for_pending s" and "e \<noteq> OnPanel RequestClose"
  shows "waits_for_pending s'"
  using assms(1)
proof cases
  case (panel a p)
  then have "ps_waitTxPanel p = ps_waitTxPanel (se_panel s)"
    using assms(3) by (cases a) (auto elim!: panel_stepE)
  with panel assms(2) show ?thesis by (simp add: waits_for_pending_def)
next
  case (request outcome)
  then show ?thesis using assms(2) by (simp add: waits_for_pending_def requestTransaction_def)
next
  case (settle i)
  then show ?thesis using assms(2) by (auto simp: waits_for_pending_def settle_def)
qed

lemma session_run_waits:
  assumes "session_run s es s'" and "waits_for_pending s" and "OnPanel RequestClose \<notin> set es"
  shows "waits_for_pending s'"
  using assms by (induction rule: session_run.induct) (auto dest: session_step_waits)

text \<open>Every pending transaction came from a request of the run, and every request has settled or is
  pending.\<close>

lemma session_step_pending:
  assumes "session_step s e s'"
  shows "mset (se_pending s') + (case e of Settle i \<Rightarrow> {# se_pending s ! i #} | _ \<Rightarrow> {#}) =
    mset (se_pending s) + (case e of Request r \<Rightarrow> {# r #} | _ \<Rightarrow> {#})"
  using assms
proof cases
  case (settle i)
  then have "se_pending s = take i (se_pending s) @ se_pending s ! i # drop (Suc i) (se_pending s)"
    by (simp add: id_take_nth_drop)
  then have "mset (se_pending s) = mset (take i (se_pending s)) + {# se_pending s ! i #} + mset (drop (Suc i) (se_pending s))"
    by (metis add_mset_add_single mset.simps(2) mset_append union_mset_add_mset_left union_mset_add_mset_right)
  then show ?thesis using settle by (simp add: settle_def)
qed (auto simp: requestTransaction_def)

lemma session_steps [intro]:
  "session_step s (OnPanel (RequestOpen p)) (s\<lparr> se_panel := panel_handler (se_panel s) (RequestOpen p) \<rparr>)"
  "session_step s (OnPanel RequestClose) (s\<lparr> se_panel := panel_handler (se_panel s) RequestClose \<rparr>)"
  by (rule session_step.panel [OF panel_step.user]; simp)+

text \<open>Submitting, closing the panel while the transaction runs, and opening it again.\<close>

abbreviation reopened :: "'p \<Rightarrow> action_outcome \<Rightarrow> 'p \<Rightarrow> 'p session_event list" where
  "reopened p outcome q \<equiv> [OnPanel (RequestOpen (Some p)), Request outcome, OnPanel RequestClose, OnPanel (RequestOpen (Some q))]"

definition reopened_state :: "action_outcome \<Rightarrow> 'p \<Rightarrow> 'p session" where
  "reopened_state outcome q = \<lparr> se_panel = \<lparr> ps_visible = True, ps_presetParams = Preset q, ps_waitTxPanel = False,
     ps_didOpen = False, ps_timers = 1 \<rparr>, se_pending = [outcome] \<rparr>"

lemma reopened_run: "session_run initial_session (reopened p outcome q) (reopened_state outcome q)"
proof -
  let ?s1 = "initial_session\<lparr> se_panel := panel_handler initial_panel (RequestOpen (Some p)) \<rparr>"
  let ?s2 = "requestTransaction outcome ?s1"
  let ?s3 = "?s2\<lparr> se_panel := panel_handler (se_panel ?s2) RequestClose \<rparr>"
  have "session_step initial_session (OnPanel (RequestOpen (Some p))) ?s1"
    using session_steps(1) [of initial_session "Some p"] by (simp add: initial_session_def)
  moreover have "session_step ?s1 (Request outcome) ?s2"
    by (rule session_step.request) (simp_all add: initial_panel_def)
  moreover have "session_step ?s2 (OnPanel RequestClose) ?s3" by (rule session_steps)
  moreover have "session_step ?s3 (OnPanel (RequestOpen (Some q))) (?s3\<lparr> se_panel := panel_handler (se_panel ?s3) (RequestOpen (Some q)) \<rparr>)"
    by (rule session_steps)
  moreover have "?s3\<lparr> se_panel := panel_handler (se_panel ?s3) (RequestOpen (Some q)) \<rparr> = reopened_state outcome q"
    by (simp add: reopened_state_def requestTransaction_def initial_session_def initial_panel_def)
  ultimately show ?thesis by (auto intro!: session_run.intros)
qed

lemma session_run_append: "session_run s es s1 \<Longrightarrow> session_run s1 es' s2 \<Longrightarrow> session_run s (es @ es') s2"
  by (induction rule: session_run.induct) (auto intro: session_run.intros)

text \<open>
  C16. When a panel waits. As long as the user does not close the panel, it has at most one
  transaction pending, whatever settles when, and it waits exactly while there is one. If the
  user closes it while a transaction runs and opens it again, the earlier transaction still acts on
  it: done, it closes the panel under the user; and when the user has submitted again, it ends
  the waiting for the second transaction, so that after a rejection a third can be submitted beside it.
\<close>

theorem panel_waiting:
  "(session_run initial_session es s \<and> OnPanel RequestClose \<notin> set es \<longrightarrow>
      length (se_pending s) \<le> 1 \<and> (ps_waitTxPanel (se_panel s) \<longleftrightarrow> se_pending s \<noteq> [])) \<and>
   (doneCalled first \<longrightarrow> (\<exists>s. session_run initial_session (reopened p first q @ [Settle 0]) s \<and>
      se_pending s = [] \<and> \<not> ps_visible (se_panel s))) \<and>
   (\<exists>s. session_run initial_session (reopened p first q @ [Request second, Settle 0]) s \<and>
      se_pending s = [second] \<and> \<not> ps_waitTxPanel (se_panel s) \<and>
      (\<not> doneCalled first \<longrightarrow> session_step s (Request third) (requestTransaction third s)))"
proof (intro conjI impI)
  assume run: "session_run initial_session es s \<and> OnPanel RequestClose \<notin> set es"
  have "waits_for_pending (initial_session :: 'a session)"
    by (simp add: waits_for_pending_def initial_session_def initial_panel_def)
  then have "waits_for_pending s" using session_run_waits run by blast
  then show "length (se_pending s) \<le> 1" "ps_waitTxPanel (se_panel s) \<longleftrightarrow> se_pending s \<noteq> []"
    by (simp_all add: waits_for_pending_def)
next
  let ?r = "reopened_state first q"
  have settle: "session_step ?r (Settle 0) (settle 0 ?r)"
    by (rule session_step.settle) (simp add: reopened_state_def)
  assume "doneCalled first"
  then show "\<exists>s. session_run initial_session (reopened p first q @ [Settle 0]) s \<and> se_pending s = [] \<and> \<not> ps_visible (se_panel s)"
    using session_run_append [OF reopened_run session_run.more [OF settle session_run.stop]]
    by (intro exI [of _ "settle 0 ?r"]) (auto simp: settle_def reopened_state_def)
next
  let ?r = "requestTransaction second (reopened_state first q)"
  have request: "session_step (reopened_state first q) (Request second) ?r"
    by (rule session_step.request) (simp_all add: reopened_state_def)
  have settle: "session_step ?r (Settle 0) (settle 0 ?r)"
    by (rule session_step.settle) (simp add: reopened_state_def requestTransaction_def)
  have state: "se_pending (settle 0 ?r) = [second]" "\<not> ps_waitTxPanel (se_panel (settle 0 ?r))"
    "\<not> doneCalled first \<Longrightarrow> ps_visible (se_panel (settle 0 ?r))"
    by (simp_all add: settle_def reopened_state_def requestTransaction_def)
  show "\<exists>s. session_run initial_session (reopened p first q @ [Request second, Settle 0]) s \<and> se_pending s = [second] \<and>
      \<not> ps_waitTxPanel (se_panel s) \<and> (\<not> doneCalled first \<longrightarrow> session_step s (Request third) (requestTransaction third s))"
    using session_run_append [OF reopened_run session_run.more [OF request session_run.more [OF settle session_run.stop]]] state
    by (blast intro: session_step.request)
qed

theorem panel_waiting_witness:
  "\<exists>s. session_run initial_session (reopened (7 :: nat) (useDeposit (\<lambda>t. Inr ()) s_token ''5'' True) 8 @ [Settle 0]) s \<and>
     \<not> ps_visible (se_panel s)"
proof -
  have "doneCalled (useDeposit (\<lambda>t. Inr ()) s_token ''5'' True)" by (simp add: useDeposit_def awaited_def)
  then show ?thesis using panel_waiting [where first = "useDeposit (\<lambda>t. Inr ()) s_token ''5'' True" and p = "7 :: nat" and q = 8] by blast
qed

text \<open>The panel that an action closes is the one its form is in, and closing follows success for
  everything but flows, whose panel closes in any case.\<close>

lemma useAppLogic_done:
  "useAppLogic L env (DepositRequest token amount ext) =
     (useDeposit (ae_submit env) token amount ext, Some TransferPanel)"
  "doneCalled (fst (useAppLogic L env (DepositRequest token amount ext))) =
     isOk (ae_submit env (ApiDeposit token amount ext (token, amount)))"
  "doneCalled (fst (useAppLogic L env (UpdateFlowRequest token entity fr descr outgoing create)))"
  by (simp_all add: useAppLogic_def useDeposit_def awaited_def useUpdateFlow_def Let_def split: sum.split)

end
