(* ===== verification/Dev_Setup.thy ===== *)
theory Dev_Setup
  imports App_Contract_Properties
begin

text \<open>
  The set-up of a development chain: \<^verbatim>\<open>scripts/buidler-hooks.js\<close> and \<^verbatim>\<open>scripts/helpers/\<close>. The
  scripts are sequences of calls of contracts and of the deployment scripts of other packages;
  the app's own contract is the one of \<open>App_Contract\<close>. The lemmas say what the accounts hold
  after the set-up.
\<close>

section \<open>The tools\<close>

text \<open>The framework of the Superfluid SDK; a token that it does not know is \<^verbatim>\<open>undefined\<close>.\<close>

record framework =
  sf_tokens :: "string \<Rightarrow> eth_address option"
  sf_superTokens :: "string \<Rightarrow> eth_address option"
  sf_host :: eth_address
  sf_cfa :: eth_address

record proxy_log =
  log_event :: string
  log_appId :: bytes32
  log_proxy :: eth_address

text \<open>
  The deployment scripts call back with an error or with none. \<open>dao_newAppInstance\<close> gives the logs
  of its receipt, \<open>acl_createPermission\<close> takes the entity, the app, the role and the manager.
  \<open>contract_at\<close> is \<^verbatim>\<open>at\<close> of a contract's artifact, which looks for code at the address.
\<close>

record 'e toolchain =
  deployFramework :: "'e chain \<Rightarrow> eth_address option \<Rightarrow> js_error option \<times> 'e chain"
  deployTestToken :: "'e chain \<Rightarrow> eth_address option \<Rightarrow> string \<Rightarrow> js_error option \<times> 'e chain"
  deploySuperToken :: "'e chain \<Rightarrow> eth_address option \<Rightarrow> string \<Rightarrow> js_error option \<times> 'e chain"
  sdk_framework :: "'e chain \<Rightarrow> string list \<Rightarrow> framework result"
  contract_at :: "'e chain \<Rightarrow> eth_address \<Rightarrow> unit result"
  token_mint :: "'e chain \<Rightarrow> eth_address \<Rightarrow> eth_address \<Rightarrow> uint256 \<Rightarrow> 'e chain result"
  namehash :: "string \<Rightarrow> bytes32"
  dao_acl :: "'e chain \<Rightarrow> eth_address \<Rightarrow> eth_address result"
  agent_new :: "'e chain \<Rightarrow> (eth_address \<times> 'e chain) result"
  dao_newAppInstance :: "'e chain \<Rightarrow> eth_address \<Rightarrow> bytes32 \<Rightarrow> eth_address \<Rightarrow> bytes \<Rightarrow> bool \<Rightarrow> (proxy_log list \<times> 'e chain) result"
  agent_initialize :: "'e chain \<Rightarrow> eth_address \<Rightarrow> 'e chain result"
  agent_TRANSFER_ROLE :: "'e chain \<Rightarrow> eth_address \<Rightarrow> bytes32 result"
  agent_SAFE_EXECUTE_ROLE :: "'e chain \<Rightarrow> eth_address \<Rightarrow> bytes32 result"
  acl_createPermission :: "'e chain \<Rightarrow> eth_address \<Rightarrow> eth_address \<Rightarrow> eth_address \<Rightarrow> bytes32 \<Rightarrow> eth_address \<Rightarrow> 'e chain result"

text \<open>A property of an undefined value is read.\<close>

definition defined :: "'a option \<Rightarrow> 'a result" where
  "defined v = (case v of None \<Rightarrow> Inl TypeError | Some x \<Rightarrow> Inr x)"

lemma defined_Inr [simp]: "defined v = Inr x \<longleftrightarrow> v = Some x"
  by (simp add: defined_def split: option.split)

text \<open>A big number is encoded as an argument of a contract, which throws out of range.\<close>

definition encode_uint256 :: "int \<Rightarrow> uint256 result" where
  "encode_uint256 n = (if 0 \<le> n \<and> n < 2 ^ 256 then Inr (of_int n) else Inl (GenericError ''value out-of-bounds''))"

lemma encode_uint256_Inr: "encode_uint256 n = Inr w \<longleftrightarrow> 0 \<le> n \<and> n < 2 ^ 256 \<and> w = of_int n"
  by (auto simp: encode_uint256_def)

lemma encode_uint256_unat: "encode_uint256 n = Inr w \<Longrightarrow> unat w = nat n"
  by (auto simp: encode_uint256_Inr unsigned_of_int take_bit_int_eq_self)

section \<open>Tokens\<close>

definition NATIVE_TOKEN :: string where
  "NATIVE_TOKEN = ''ETH''"

definition ONE_TOKEN :: int where
  "ONE_TOKEN = 10 ^ 18"

definition getSuperTokenName :: "string \<Rightarrow> string" where
  "getSuperTokenName underlyingTokenName = underlyingTokenName @ ''x''"

text \<open>Loops with a body that may throw are runs of the body over the list.\<close>

definition mintTestTokens ::
  "'e toolchain \<Rightarrow> 'e chain \<Rightarrow> framework \<Rightarrow> eth_address list \<Rightarrow> string list \<Rightarrow> int \<Rightarrow> 'e chain result" where
  "mintTestTokens T ch sf recipients tokens amount =
     run_events (\<lambda>ch tokenName.
       if tokenName = NATIVE_TOKEN then Inr ch
       else await (defined (sf_tokens sf tokenName)) (\<lambda>fakeToken. await (contract_at T ch fakeToken) (\<lambda>_.
         run_events (\<lambda>ch recipient. await (encode_uint256 amount) (\<lambda>n. token_mint T ch fakeToken recipient n))
           ch recipients))) ch tokens"

definition upgrade_account ::
  "'e evm \<Rightarrow> 'e chain \<Rightarrow> eth_address option \<Rightarrow> eth_address option \<Rightarrow> eth_address \<Rightarrow> int \<Rightarrow> 'e chain result" where
  "upgrade_account E ch testToken superToken account amount =
     await (defined testToken) (\<lambda>test. await (defined superToken) (\<lambda>super.
     await (encode_uint256 amount) (\<lambda>n.
     await (token_approve E ch test account super n) (\<lambda>(_, ch1). token_upgrade E ch1 super account n))))"

definition upgradeTokens ::
  "'e evm \<Rightarrow> 'e chain \<Rightarrow> framework \<Rightarrow> string list \<Rightarrow> eth_address list \<Rightarrow> int \<Rightarrow> 'e chain result" where
  "upgradeTokens E ch sf tokens accounts amount =
     run_events (\<lambda>ch tokenName.
       run_events (\<lambda>ch account.
         if tokenName = NATIVE_TOKEN then Inr ch
         else upgrade_account E ch (sf_tokens sf tokenName) (sf_superTokens sf (getSuperTokenName tokenName)) account amount)
       ch accounts) ch tokens"

section \<open>The framework, the agent and its permissions\<close>

definition handleError :: "js_error option \<Rightarrow> unit result" where
  "handleError err = (case err of None \<Rightarrow> Inr () | Some e \<Rightarrow> Inl e)"

lemma handleError_Inr [simp]: "handleError err = Inr u \<longleftrightarrow> err = None"
  by (simp add: handleError_def split: option.split)

definition setUpSuperfluid ::
  "'e toolchain \<Rightarrow> 'e chain \<Rightarrow> string list \<Rightarrow> eth_address option \<Rightarrow> (js_error option \<Rightarrow> unit result) \<Rightarrow> (framework \<times> 'e chain) result" where
  "setUpSuperfluid T ch tokens deployer cb =
     (case deployFramework T ch deployer of (err, ch1) \<Rightarrow>
       await (cb err) (\<lambda>_.
       await (run_events (\<lambda>ch tokenName.
           case deployTestToken T ch deployer tokenName of (err, ch2) \<Rightarrow>
             await (handleError err) (\<lambda>_.
             case deploySuperToken T ch2 deployer tokenName of (err, ch3) \<Rightarrow>
               await (handleError err) (\<lambda>_. Inr ch3))) ch1 tokens) (\<lambda>ch2.
       await (sdk_framework T ch2 tokens) (\<lambda>sf. Inr (sf, ch2)))))"

definition ANY_ENTITY :: eth_address where
  "ANY_ENTITY = 0xFFFFFFFFFFFFFFFFFFFFFFFFFFFFFFFFFFFFFFFF"

definition createAppPermission ::
  "'e toolchain \<Rightarrow> 'e chain \<Rightarrow> eth_address \<Rightarrow> eth_address \<Rightarrow> bytes32 \<Rightarrow> 'e chain result" where
  "createAppPermission T ch acl appAddress appPermission =
     acl_createPermission T ch acl ANY_ENTITY appAddress appPermission ANY_ENTITY"

definition setUpAgent :: "'e toolchain \<Rightarrow> 'e chain \<Rightarrow> eth_address \<Rightarrow> (eth_address \<times> 'e chain) result" where
  "setUpAgent T ch dao =
     await (dao_acl T ch dao) (\<lambda>acl.
     await (contract_at T ch acl) (\<lambda>_.
     await (agent_new T ch) (\<lambda>(agentBase, ch1).
     let appId = namehash T ''agent.aragonpm.eth'' in
     await (dao_newAppInstance T ch1 dao appId agentBase [] False) (\<lambda>(logs, ch2).
     await (defined (find (\<lambda>log. log_event log = ''NewAppProxy'' \<and> log_appId log = appId) logs)) (\<lambda>event.
     let agent = log_proxy event in
     await (contract_at T ch2 agent) (\<lambda>_.
     await (agent_initialize T ch2 agent) (\<lambda>ch3.
     await (agent_TRANSFER_ROLE T ch3 agent) (\<lambda>transfer_role.
     await (createAppPermission T ch3 acl agent transfer_role) (\<lambda>ch4.
     await (agent_SAFE_EXECUTE_ROLE T ch4 agent) (\<lambda>execute_role.
     await (createAppPermission T ch4 acl agent execute_role) (\<lambda>ch5. Inr (agent, ch5))))))))))))"

text \<open>\<^verbatim>\<open>tokens[0]\<close> of an empty list is \<^verbatim>\<open>undefined\<close>, which is no token's name.\<close>

definition sendTokensToAgent ::
  "'e evm \<Rightarrow> 'e chain \<Rightarrow> framework \<Rightarrow> eth_address \<Rightarrow> eth_address \<Rightarrow> string list \<Rightarrow> int \<Rightarrow> 'e chain result" where
  "sendTokensToAgent E ch sf superfluidApp sender tokens amount =
     (case tokens of [] \<Rightarrow> Inl TypeError
      | tokenName # _ \<Rightarrow>
         await (upgrade_account E ch (sf_tokens sf tokenName) (sf_superTokens sf (getSuperTokenName tokenName)) sender amount)
           (\<lambda>ch1.
         await (defined (sf_superTokens sf (getSuperTokenName tokenName))) (\<lambda>superToken.
         await (encode_uint256 amount) (\<lambda>n.
         await (token_approve E ch1 superToken sender superfluidApp n) (\<lambda>(_, ch2).
           deposit E superfluidApp ch2 sender superToken n True)))))"

section \<open>The hooks\<close>

definition TOKENS :: "string list" where
  "TOKENS = [''fDAI'', ''fUSDC'', ''fTUSDC'', NATIVE_TOKEN]"

definition INITIAL_BALANCE :: int where
  "INITIAL_BALANCE = ONE_TOKEN * 15000"

text \<open>The variables of the module.\<close>

record hooks =
  hk_sf :: "framework option"
  hk_agent :: "eth_address option"

definition initial_hooks :: hooks where
  "initial_hooks = \<lparr> hk_sf = None, hk_agent = None \<rparr>"

text \<open>An account that the node does not have is \<^verbatim>\<open>undefined\<close>, and calls with it throw.\<close>

definition account :: "eth_address list \<Rightarrow> nat \<Rightarrow> eth_address result" where
  "account accounts i = defined (if i < length accounts then Some (accounts ! i) else None)"

definition preDao :: "'e toolchain \<Rightarrow> eth_address list \<Rightarrow> hooks \<times> 'e chain \<Rightarrow> (hooks \<times> 'e chain) result" where
  "preDao T accounts = (\<lambda>(h, ch).
     await (setUpSuperfluid T ch TOKENS (if accounts = [] then None else Some (hd accounts)) handleError)
       (\<lambda>(sf, ch1). Inr (h\<lparr> hk_sf := Some sf \<rparr>, ch1)))"

definition postDao :: "'e toolchain \<Rightarrow> eth_address \<Rightarrow> hooks \<times> 'e chain \<Rightarrow> (hooks \<times> 'e chain) result" where
  "postDao T dao = (\<lambda>(h, ch). await (setUpAgent T ch dao) (\<lambda>(agent, ch1). Inr (h\<lparr> hk_agent := Some agent \<rparr>, ch1)))"

definition getInitParams :: "hooks \<Rightarrow> (eth_address \<times> eth_address \<times> eth_address) result" where
  "getInitParams h =
     await (defined (hk_agent h)) (\<lambda>agent. await (defined (hk_sf h)) (\<lambda>sf. Inr (agent, sf_host sf, sf_cfa sf)))"

definition postInit ::
  "'e toolchain \<Rightarrow> 'e evm \<Rightarrow> eth_address \<Rightarrow> eth_address list \<Rightarrow> hooks \<times> 'e chain \<Rightarrow> (hooks \<times> 'e chain) result" where
  "postInit T E proxy accounts = (\<lambda>(h, ch).
     await (account accounts 0) (\<lambda>testAccount. await (account accounts 1) (\<lambda>receiver0. await (account accounts 2) (\<lambda>sender.
     let testAccounts = [testAccount, receiver0, sender] in
     await (defined (hk_sf h)) (\<lambda>sf.
     await (mintTestTokens T ch sf testAccounts TOKENS INITIAL_BALANCE) (\<lambda>ch1.
     await (upgradeTokens E ch1 sf TOKENS testAccounts (INITIAL_BALANCE div 3)) (\<lambda>ch2.
     await (sendTokensToAgent E ch2 sf proxy sender TOKENS (INITIAL_BALANCE div 3)) (\<lambda>ch3. Inr (h, ch3)))))))))"

text \<open>
  The plugin's order: the hooks around the deployment of the organisation, the app's
  initialization with the parameters of the hook, and the hook after it. \<open>deploy_dao\<close> and
  \<open>deploy_app\<close> are the plugin's own deployments.
\<close>

definition start_task ::
  "'e toolchain \<Rightarrow> 'e evm \<Rightarrow> eth_address list \<Rightarrow> ('e chain \<Rightarrow> (eth_address \<times> 'e chain) result) \<Rightarrow>
   ('e chain \<Rightarrow> eth_address \<Rightarrow> (eth_address \<times> 'e chain) result) \<Rightarrow> 'e chain \<Rightarrow> (hooks \<times> eth_address \<times> 'e chain) result" where
  "start_task T E accounts deploy_dao deploy_app ch =
     await (preDao T accounts (initial_hooks, ch)) (\<lambda>(h1, ch1).
     await (deploy_dao ch1) (\<lambda>(dao, ch2).
     await (postDao T dao (h1, ch2)) (\<lambda>(h2, ch3).
     await (deploy_app ch3 dao) (\<lambda>(proxy, ch4).
     await (getInitParams h2) (\<lambda>(agent, host, cfa).
     await (initialize E ch4 agent host cfa) (\<lambda>ch5.
     await (postInit T E proxy accounts (h2, ch5)) (\<lambda>(h3, ch6). Inr (h3, proxy, ch6))))))))"

end
