(* ===== verification/Dev_Setup_Properties.thy ===== *)
theory Dev_Setup_Properties
  imports Dev_Setup
begin

text \<open>
  What the accounts of a development chain hold after the set-up, counted along the loops of the
  scripts, and the storage of the app that the set-up initialized. The last step of the set-up is
  a deposit through the app's own contract.
\<close>

section \<open>Runs that add up\<close>

text \<open>A loop whose body adds to a measure, for every measure with that property.\<close>

lemma run_events_sum:
  assumes "\<And>s x s'. x \<in> set xs \<Longrightarrow> step s x = Inr s' \<Longrightarrow> m s' + (c x :: nat) = m s + d x"
    and "run_events step s xs = Inr s'"
  shows "m s' + sum_list (map c xs) = m s + sum_list (map d xs)"
  using assms
proof (induction xs arbitrary: s)
  case (Cons x xs)
  then obtain s1 where s1: "step s x = Inr s1" "run_events step s1 xs = Inr s'" by auto
  have "m s1 + c x = m s + d x" by (rule Cons.prems(1) [OF _ s1(1)]) simp
  moreover have "m s' + sum_list (map c xs) = m s1 + sum_list (map d xs)"
    by (rule Cons.IH [OF _ s1(2)]) (rule Cons.prems(1), simp_all)
  ultimately show ?case by simp
qed simp

lemma run_events_const:
  assumes "\<And>s x s'. x \<in> set xs \<Longrightarrow> step s x = Inr s' \<Longrightarrow> f s' = f s" and "run_events step s xs = Inr s'"
  shows "f s' = f s"
  using assms
proof (induction xs arbitrary: s)
  case (Cons x xs)
  then obtain s1 where s1: "step s x = Inr s1" "run_events step s1 xs = Inr s'" by auto
  then show ?case using Cons.IH [OF _ s1(2)] Cons.prems(1) by (metis list.set_intros)
qed simp

section \<open>Test tokens\<close>

text \<open>Minting adds to a balance, and does not call the app.\<close>

definition mints :: "'e toolchain \<Rightarrow> ('e \<Rightarrow> balances) \<Rightarrow> bool" where
  "mints T bal \<longleftrightarrow> (\<forall>ch t a n ch'. token_mint T ch t a n = Inr ch' \<longrightarrow>
     bal (ch_ext ch') = credited (bal (ch_ext ch)) t a (unat n) \<and> ch_app ch' = ch_app ch)"

text \<open>The framework knows the tokens by their names, and the super token of each.\<close>

definition knows :: "framework \<Rightarrow> (string \<Rightarrow> eth_address) \<Rightarrow> (string \<Rightarrow> eth_address) \<Rightarrow> string list \<Rightarrow> bool" where
  "knows sf test super tokens \<longleftrightarrow>
     (\<forall>name \<in> set tokens. name \<noteq> NATIVE_TOKEN \<longrightarrow>
        sf_tokens sf name = Some (test name) \<and> sf_superTokens sf (getSuperTokenName name) = Some (super name))"

definition share :: "(string \<Rightarrow> eth_address) \<Rightarrow> eth_address \<Rightarrow> string \<Rightarrow> nat \<Rightarrow> nat" where
  "share address t name n = (if name \<noteq> NATIVE_TOKEN \<and> address name = t then n else 0)"

lemma mint_recipients:
  assumes "mints T bal"
    and "run_events (\<lambda>ch recipient. await (encode_uint256 amount) (\<lambda>n. token_mint T ch fake recipient n)) ch recipients = Inr ch'"
  shows "bal (ch_ext ch') t a = bal (ch_ext ch) t a + (if t = fake then nat amount * count_list recipients a else 0)"
  using assms(2)
proof (induction recipients arbitrary: ch)
  case (Cons r rs)
  then obtain n ch1 where 1: "encode_uint256 amount = Inr n" "token_mint T ch fake r n = Inr ch1"
      "run_events (\<lambda>ch recipient. await (encode_uint256 amount) (\<lambda>n. token_mint T ch fake recipient n)) ch1 rs = Inr ch'"
    by auto
  have "bal (ch_ext ch1) = credited (bal (ch_ext ch)) fake r (nat amount)"
    using assms(1) 1(2) encode_uint256_unat [OF 1(1)] by (simp add: mints_def)
  with Cons.IH [OF 1(3)] show ?case by (auto simp: credited_def)
qed simp

lemma mintTestTokens_balances:
  assumes "mints T bal" and "knows sf test super tokens" and "mintTestTokens T ch sf recipients tokens amount = Inr ch'"
  shows "bal (ch_ext ch') t a =
    bal (ch_ext ch) t a + sum_list (map (\<lambda>name. share test t name (nat amount * count_list recipients a)) tokens)"
proof -
  have "bal (ch_ext ch') t a + sum_list (map (\<lambda>_. 0) tokens) =
      bal (ch_ext ch) t a + sum_list (map (\<lambda>name. share test t name (nat amount * count_list recipients a)) tokens)"
    by (rule run_events_sum [OF _ assms(3) [unfolded mintTestTokens_def]])
      (use assms(2) in \<open>auto simp: share_def knows_def mint_recipients [OF assms(1)] split: if_splits\<close>)
  then show ?thesis by simp
qed

lemma mintTestTokens_app:
  assumes "mints T bal" and "mintTestTokens T ch sf recipients tokens amount = Inr ch'"
  shows "ch_app ch' = ch_app ch"
proof -
  have "ch_app s' = ch_app s"
    if "run_events (\<lambda>ch r. await (encode_uint256 amount) (\<lambda>n. token_mint T ch fake r n)) s recipients = Inr s'" for s s' fake
    by (rule run_events_const [OF _ that]) (use assms(1) in \<open>auto simp: mints_def\<close>)
  then show ?thesis
    by (intro run_events_const [OF _ assms(2) [unfolded mintTestTokens_def], of ch_app]) (auto split: if_splits)
qed

section \<open>Conversions of the test accounts\<close>

lemma upgrade_account_balances:
  assumes "no_callbacks E" and "tokens_move E bal" and "wraps E bal underlying (\<lambda>_. 1)" and "underlying super = test"
    and "upgrade_account E ch (Some test) (Some super) c amount = Inr ch'" and "a \<noteq> super"
  shows "bal (ch_ext ch') t a + (if t = test \<and> a = c then nat amount else 0) =
      bal (ch_ext ch) t a + (if t = super \<and> a = c then nat amount else 0)"
proof -
  from assms(5) obtain n ok ch1 where 1: "encode_uint256 amount = Inr n" "token_approve E ch test c super n = Inr (ok, ch1)"
      "token_upgrade E ch1 super c n = Inr ch'"
    by (auto simp: upgrade_account_def defined_def)
  have n: "unat n = nat amount" using encode_uint256_unat [OF 1(1)] .
  note up = wrapsD(2) [OF assms(3) 1(3), unfolded assms(4) tokens_moveD(3) [OF assms(2) 1(2)] n]
  show "bal (ch_ext ch') t a + (if t = test \<and> a = c then nat amount else 0) =
      bal (ch_ext ch) t a + (if t = super \<and> a = c then nat amount else 0)"
    using up assms(6) by (auto simp: balance_simps)
qed

lemma count_list_sum: "sum_list (map (\<lambda>x. if P \<and> a = x then n else (0 :: nat)) xs) = (if P then n * count_list xs a else 0)"
  by (induction xs) auto

lemma upgradeTokens_balances:
  assumes "no_callbacks E" and "tokens_move E bal" and "wraps E bal underlying (\<lambda>_. 1)" and "knows sf test super tokens"
    and "\<forall>name \<in> set tokens. name \<noteq> NATIVE_TOKEN \<longrightarrow> underlying (super name) = test name \<and> a \<noteq> super name"
    and "upgradeTokens E ch sf tokens accounts amount = Inr ch'"
  shows "bal (ch_ext ch') t a + sum_list (map (\<lambda>name. share test t name (nat amount * count_list accounts a)) tokens) =
    bal (ch_ext ch) t a + sum_list (map (\<lambda>name. share super t name (nat amount * count_list accounts a)) tokens)"
proof (rule run_events_sum [OF _ assms(6) [unfolded upgradeTokens_def]])
  fix s name s'
  assume name: "name \<in> set tokens"
    and run: "run_events (\<lambda>ch account. if name = NATIVE_TOKEN then Inr ch else upgrade_account E ch (sf_tokens sf name)
        (sf_superTokens sf (getSuperTokenName name)) account amount) s accounts = Inr s'"
  let ?d = "\<lambda>address c. if (name \<noteq> NATIVE_TOKEN \<and> address name = t) \<and> a = c then nat amount else 0"
  have "bal (ch_ext s') t a + sum_list (map (?d test) accounts) = bal (ch_ext s) t a + sum_list (map (?d super) accounts)"
  proof (rule run_events_sum [OF _ run])
    fix s c s'
    assume step: "(if name = NATIVE_TOKEN then Inr s else upgrade_account E s (sf_tokens sf name)
        (sf_superTokens sf (getSuperTokenName name)) c amount) = Inr s'"
    show "bal (ch_ext s') t a + ?d test c = bal (ch_ext s) t a + ?d super c"
    proof (cases "name = NATIVE_TOKEN")
      case False
      then have "upgrade_account E s (Some (test name)) (Some (super name)) c amount = Inr s'"
        using step name assms(4) by (simp add: knows_def)
      from upgrade_account_balances [OF assms(1-3) _ this, of a t] assms(5) name False show ?thesis by auto
    qed (use step in simp)
  qed
  then show "bal (ch_ext s') t a + share test t name (nat amount * count_list accounts a) =
      bal (ch_ext s) t a + share super t name (nat amount * count_list accounts a)"
    unfolding count_list_sum by (simp add: share_def)
qed

lemma upgrade_account_app:
  assumes "no_callbacks E" and "upgrade_account E ch test super c amount = Inr ch'"
  shows "ch_app ch' = ch_app ch"
  using assms(2) by (auto simp: upgrade_account_def) (metis no_callbacksD(2,3) [OF assms(1)])

lemma deposit_app:
  assumes "no_callbacks E" and "deposit E this ch sender token n ext = Inr ch'"
  shows "ch_app ch' = ch_app ch"
proof -
  have "same_app ch ch'"
    by (rule contract_step_relates [OF assms(1) [unfolded no_callbacks_def], where call = "Deposit token n ext"])
      (use assms(2) in \<open>auto simp: same_app_def\<close>)
  then show ?thesis by (simp add: same_app_def)
qed

lemma upgradeTokens_app:
  assumes "no_callbacks E" and "upgradeTokens E ch sf tokens accounts amount = Inr ch'"
  shows "ch_app ch' = ch_app ch"
proof -
  have "ch_app s' = ch_app s"
    if "run_events (\<lambda>ch account. if name = NATIVE_TOKEN then Inr ch else upgrade_account E ch (sf_tokens sf name)
        (sf_superTokens sf (getSuperTokenName name)) account amount) s accounts = Inr s'" for s s' name
    by (rule run_events_const [OF _ that]) (auto split: if_splits dest: upgrade_account_app [OF assms(1)])
  then show ?thesis by (intro run_events_const [OF _ assms(2) [unfolded upgradeTokens_def], of ch_app]) blast
qed

section \<open>The set-up as a whole\<close>

lemma sendTokensToAgent_balances:
  assumes "no_callbacks E" and "tokens_move E bal" and "vault_moves E bal" and "wraps E bal underlying (\<lambda>_. 1)"
    and "knows sf test super (name # names)" and "name \<noteq> NATIVE_TOKEN" and "underlying (super name) = test name"
    and "sender \<noteq> this" and "sto_agent (ch_app ch) \<noteq> this"
    and "sendTokensToAgent E ch sf this sender (name # names) amount = Inr ch'"
  obtains b where "\<And>t a. a \<noteq> super name \<Longrightarrow> b t a + (if t = test name \<and> a = sender then nat amount else 0) =
      bal (ch_ext ch) t a + (if t = super name \<and> a = sender then nat amount else 0)"
    and "nat amount \<le> b (super name) sender" and "bal (ch_ext ch') = moved b (super name) sender (sto_agent (ch_app ch)) (nat amount)"
    and "ch_app ch' = ch_app ch"
proof -
  have names: "sf_tokens sf name = Some (test name)" "sf_superTokens sf (getSuperTokenName name) = Some (super name)"
    using assms(5,6) by (simp_all add: knows_def)
  from assms(10) obtain ch1 n ok ch2 where 1: "upgrade_account E ch (Some (test name)) (Some (super name)) sender amount = Inr ch1"
      "encode_uint256 amount = Inr n" "token_approve E ch1 (super name) sender this n = Inr (ok, ch2)"
      "deposit E this ch2 sender (super name) n True = Inr ch'"
    by (auto simp: sendTokensToAgent_def names defined_def)
  have n: "unat n = nat amount" using encode_uint256_unat [OF 1(2)] .
  note up = upgrade_account_balances [OF assms(1,2,4,7) 1(1)]
  have app2: "ch_app ch2 = ch_app ch" using no_callbacksD(2) [OF assms(1) 1(3)] upgrade_account_app [OF assms(1) 1(1)] by simp
  have b2: "bal (ch_ext ch2) = bal (ch_ext ch1)" using tokens_moveD(3) [OF assms(2) 1(3)] .
  have agent: "sto_agent (ch_app ch2) \<noteq> this" using assms(9) app2 by simp
  note dep = deposit_moves [OF assms(1-3,8) agent 1(4), unfolded n b2 app2]
  have "ch_app ch' = ch_app ch" using deposit_app [OF assms(1) 1(4)] app2 by simp
  then show thesis using that [of "bal (ch_ext ch1)"] up dep by simp
qed

text \<open>The test tokens, and addresses that the scripts do not confuse.\<close>

definition test_tokens :: "string list" where
  "test_tokens = [''fDAI'', ''fUSDC'', ''fTUSDC'']"

definition separate :: "(string \<Rightarrow> eth_address) \<Rightarrow> (string \<Rightarrow> eth_address) \<Rightarrow> eth_address list \<Rightarrow> bool" where
  "separate test super holders \<longleftrightarrow>
     distinct (map test test_tokens @ map super test_tokens) \<and> set holders \<inter> set (map super test_tokens) = {}"

lemma fDAI_first: "TOKENS = ''fDAI'' # [''fUSDC'', ''fTUSDC'', NATIVE_TOKEN]" "''fDAI'' \<noteq> NATIVE_TOKEN" "''fDAI'' \<in> set test_tokens"
  by (simp_all add: TOKENS_def NATIVE_TOKEN_def test_tokens_def)

lemma TOKENS_test_tokens: "name \<in> set TOKENS \<and> name \<noteq> NATIVE_TOKEN \<longleftrightarrow> name \<in> set test_tokens"
  by (auto simp: TOKENS_def test_tokens_def NATIVE_TOKEN_def)

lemma set_up_amounts: "nat INITIAL_BALANCE = 15000 * 10 ^ 18" "nat (INITIAL_BALANCE div 3) = 5000 * 10 ^ 18"
  by (simp_all add: INITIAL_BALANCE_def ONE_TOKEN_def)

lemma separate_tokens:
  assumes "separate test super holders" and "n \<in> set test_tokens" and "m \<in> set test_tokens"
  shows "test n \<noteq> super m" "test n = test m \<longleftrightarrow> n = m" "super n = super m \<longleftrightarrow> n = m"
  using assms by (auto simp: separate_def test_tokens_def)

lemma share_TOKENS:
  "sum_list (map (\<lambda>name. share f t name n) TOKENS) = sum_list (map (\<lambda>name. if f name = t then n else 0) test_tokens)"
  by (simp add: TOKENS_def test_tokens_def share_def NATIVE_TOKEN_def)

lemma separate_shares:
  assumes "separate test super holders" and "n \<in> set test_tokens"
  shows "sum_list (map (\<lambda>name. share test (test n) name k) TOKENS) = k"
    and "sum_list (map (\<lambda>name. share super (test n) name k) TOKENS) = 0"
    and "sum_list (map (\<lambda>name. share test (super n) name k) TOKENS) = 0"
    and "sum_list (map (\<lambda>name. share super (super n) name k) TOKENS) = k"
  using assms unfolding share_TOKENS by (auto simp: separate_def test_tokens_def)

text \<open>After the first two loops, an account has what was minted less what was upgraded.\<close>

lemma test_account_balances:
  assumes "no_callbacks E" and "tokens_move E bal" and "wraps E bal underlying (\<lambda>_. 1)" and "mints T bal"
    and "knows sf test super TOKENS" and "\<forall>name \<in> set test_tokens. underlying (super name) = test name"
    and "separate test super holders" and "a \<in> set holders"
    and "mintTestTokens T ch sf accounts TOKENS INITIAL_BALANCE = Inr ch1"
    and "upgradeTokens E ch1 sf TOKENS accounts (INITIAL_BALANCE div 3) = Inr ch2" and "n \<in> set test_tokens"
  shows "bal (ch_ext ch2) (test n) a = bal (ch_ext ch) (test n) a + 10000 * 10 ^ 18 * count_list accounts a"
    and "bal (ch_ext ch2) (super n) a = bal (ch_ext ch) (super n) a + 5000 * 10 ^ 18 * count_list accounts a"
proof -
  have "\<forall>name \<in> set TOKENS. name \<noteq> NATIVE_TOKEN \<longrightarrow> underlying (super name) = test name \<and> a \<noteq> super name"
    using assms(6-8) by (auto simp: separate_def TOKENS_test_tokens [symmetric])
  note balances = upgradeTokens_balances [OF assms(1-3,5) this assms(10), unfolded set_up_amounts]
    mintTestTokens_balances [OF assms(4,5,9), unfolded set_up_amounts]
  show "bal (ch_ext ch2) (test n) a = bal (ch_ext ch) (test n) a + 10000 * 10 ^ 18 * count_list accounts a"
    "bal (ch_ext ch2) (super n) a = bal (ch_ext ch) (super n) a + 5000 * 10 ^ 18 * count_list accounts a"
    using balances [of "test n"] balances [of "super n"] separate_shares [OF assms(7,11)] by simp_all
qed


section \<open>The storage after the start\<close>

lemma postInit_app:
  assumes "no_callbacks E" and "mints T bal" and "postInit T E proxy accounts (h, ch) = Inr (h', ch')"
  shows "h' = h \<and> ch_app ch' = ch_app ch"
proof -
  have "ch_app s' = ch_app s" if "sendTokensToAgent E s sf this sender tokens amount = Inr s'" for s s' sf this sender tokens amount
    using that
    by (auto simp: sendTokensToAgent_def split: list.splits)
      (metis upgrade_account_app [OF assms(1)] no_callbacksD(2) [OF assms(1)] deposit_app [OF assms(1)])
  then show ?thesis
    using assms(3) mintTestTokens_app [OF assms(2)] upgradeTokens_app [OF assms(1)]
    by (auto simp: postInit_def Let_def)
qed

text \<open>A start that succeeds leaves the app with the host and the agreement of the framework and
  the agent that the second hook created.\<close>

lemma start_task_storage:
  assumes "no_callbacks E" and "mints T bal" and "\<And>ch ch'. setInitialized E ch = Inr ch' \<Longrightarrow> ch_app ch' = ch_app ch"
    and "start_task T E accounts deploy_dao deploy_app ch = Inr (h, proxy, ch')"
  shows "\<exists>sf agent. h = \<lparr> hk_sf = Some sf, hk_agent = Some agent \<rparr> \<and>
    ch_app ch' = \<lparr> sto_host = sf_host sf, sto_cfa = sf_cfa sf, sto_agent = agent \<rparr>"
proof -
  from assms(4) obtain h2 ch4 a host cfa ch5 where 1: "getInitParams h2 = Inr (a, host, cfa)" "initialize E ch4 a host cfa = Inr ch5"
      "postInit T E proxy accounts (h2, ch5) = Inr (h, ch')"
    by (auto simp: start_task_def)
  have "ch_app ch5 = \<lparr> sto_host = host, sto_cfa = cfa, sto_agent = a \<rparr>"
    using 1(2) by (auto simp: initialize_def dest!: assms(3))
  moreover have "\<exists>sf. h2 = \<lparr> hk_sf = Some sf, hk_agent = Some a \<rparr> \<and> host = sf_host sf \<and> cfa = sf_cfa sf"
    using 1(1) by (cases h2) (auto simp: getInitParams_def)
  ultimately show ?thesis using postInit_app [OF assms(1,2) 1(3)] by auto
qed

section \<open>A concrete set-up\<close>

text \<open>A development chain: super tokens at 100, 110 and 120, their test tokens at the next addresses.\<close>

definition dev_super :: "string \<Rightarrow> eth_address" where
  "dev_super name = (if name = ''fDAI'' then 100 else if name = ''fUSDC'' then 110 else 120)"

definition dev_framework :: framework where
  "dev_framework = \<lparr>
     sf_tokens = (\<lambda>name. if name \<in> set test_tokens then Some (dev_super name + 1) else None),
     sf_superTokens = (\<lambda>name. if butlast name \<in> set test_tokens then Some (dev_super (butlast name)) else None),
     sf_host = 10, sf_cfa = 11 \<rparr>"

definition dev_tools :: "(balances \<times> bool) toolchain" where
  "dev_tools = \<lparr>
     deployFramework = (\<lambda>ch a. (None, ch)), deployTestToken = (\<lambda>ch a name. (None, ch)), deploySuperToken = (\<lambda>ch a name. (None, ch)),
     sdk_framework = (\<lambda>ch names. Inr dev_framework), contract_at = (\<lambda>ch a. Inr ()),
     token_mint = (\<lambda>ch t a n. Inr (s_set ch (credited (fst (ch_ext ch)) t a (unat n)))), namehash = (\<lambda>name. 1),
     dao_acl = (\<lambda>ch dao. Inr 12), agent_new = (\<lambda>ch. Inr (13, ch)),
     dao_newAppInstance = (\<lambda>ch dao i base d x. Inr ([\<lparr> log_event = ''NewAppProxy'', log_appId = i, log_proxy = 2 \<rparr>], ch)),
     agent_initialize = (\<lambda>ch a. Inr ch), agent_TRANSFER_ROLE = (\<lambda>ch a. Inr 14), agent_SAFE_EXECUTE_ROLE = (\<lambda>ch a. Inr 15),
     acl_createPermission = (\<lambda>ch acl e a r m. Inr ch) \<rparr>"

definition dev_hooks :: hooks where
  "dev_hooks = \<lparr> hk_sf = Some dev_framework, hk_agent = Some 2 \<rparr>"

lemma dev_simps [simp]:
  "token_mint dev_tools ch t a n = Inr (s_set ch (credited (fst (ch_ext ch)) t a (unat n)))" "contract_at dev_tools ch a = Inr ()"
  "sf_tokens dev_framework ''fDAI'' = Some 101" "sf_tokens dev_framework ''fUSDC'' = Some 111" "sf_tokens dev_framework ''fTUSDC'' = Some 121"
  "sf_superTokens dev_framework ''fDAIx'' = Some 100" "sf_superTokens dev_framework ''fUSDCx'' = Some 110"
  "sf_superTokens dev_framework ''fTUSDCx'' = Some 120"
  by (simp_all add: dev_tools_def dev_framework_def dev_super_def test_tokens_def)

lemma s_set_s_set [simp]: "s_set (s_set ch b) b' = s_set ch b'"
  by (simp add: s_set_def)

lemma dev_upgrade_simp [simp]:
  "s_upgrade (Suc 0) ch t c n = (if unat n \<le> fst (ch_ext ch) (t + 1) c
      then Inr (s_set ch (credited (moved (fst (ch_ext ch)) (t + 1) c t (unat n)) t c (unat n)))
      else Inl (GenericError ''balance too low''))"
  by (simp add: s_upgrade_def)

lemma dev_post:
  "\<exists>ch'. postInit dev_tools (scaled_evm 1) 3 [20, 21, 22] (dev_hooks, s_chain) = Inr (dev_hooks, ch')"
  by (simp add: postInit_def account_def dev_hooks_def mintTestTokens_def upgradeTokens_def sendTokensToAgent_def upgrade_account_def
    getSuperTokenName_def deposit_def open_to_all_def isValidSuperToken_def require_def staticInvoke_def s_move_def
    TOKENS_def NATIVE_TOKEN_def encode_uint256_def INITIAL_BALANCE_def ONE_TOKEN_def defined_def balance_simps s_chain_def word_less_nat_alt)


end
