(* ===== verification/Dev_Network.thy ===== *)
theory Dev_Network
  imports Event_Handlers
begin

text \<open>
  The helpers for the test chain: the addresses of the deployed contracts by network
  (\<^verbatim>\<open>helpers/configuration.ts\<close>, \<^verbatim>\<open>helpers/types.ts\<close>) and the calls of the node that change time, accounts
  and snapshots (\<^verbatim>\<open>helpers/rpc.ts\<close>). The node is a parameter: a state and its answer to a request.
\<close>

section \<open>Deployments\<close>

datatype EthereumNetworkNames = Goerli | Polygon | Mumbai | Gnosis

record deployments =
  dp_daoFactory :: string
  dp_agentBase :: string
  dp_cfav1 :: string
  dp_host :: string
  dp_supertokens :: "string list"
  dp_tokens :: "string list"

definition getNetworkNameById :: "int \<Rightarrow> EthereumNetworkNames" where
  "getNetworkNameById chainId =
     (if chainId = 5 then Goerli
      else if chainId = 100 then Gnosis
      else if chainId = 137 then Polygon
      else Goerli)"

text \<open>A network without an entry is \<^verbatim>\<open>undefined\<close>.\<close>

fun Config :: "EthereumNetworkNames \<Rightarrow> deployments option" where
  "Config Gnosis = Some \<lparr>
     dp_daoFactory = ''0x4037f97fcc94287257e50bd14c7da9cb4df18250'',
     dp_agentBase = ''0xa6ad366bfd2f43615bbec56f50cf606036fc11fe'',
     dp_cfav1 = ''0xEbdA4ceF883A7B12c4E669Ebc58927FBa8447C7D'',
     dp_host = ''0x2dFe937cD98Ab92e59cF3139138f18c823a4efE7'',
     dp_supertokens = [''0x59988e47A3503AaFaA0368b9deF095c818Fdca01''],
     dp_tokens = [''0xe91D153E0b41518A2Ce8Dd3D7944Fa863463a97d''] \<rparr>"
| "Config Goerli = Some \<lparr>
     dp_daoFactory = ''0x0c514a00401666780fcA29d4CD6943085818F049'',
     dp_agentBase = ''0x1B35F10413859D25Cf63D27336eF0434acF113FD'',
     dp_cfav1 = ''0xEd6BcbF6907D4feEEe8a8875543249bEa9D308E8'',
     dp_host = ''0x22ff293e14F1EC3A09B137e9e06084AFd63adDF9'',
     dp_supertokens = [''0xF2d68898557cCb2Cf4C10c3Ef2B034b2a69DAD00'', ''0x8aE68021f6170E5a766bE613cEA0d75236ECCa9a''],
     dp_tokens = [''0x88271d333C72e51516B67f5567c728E702b3eeE8'', ''0xc94dd466416A7dFE166aB2cF916D3875C049EBB7''] \<rparr>"
| "Config Polygon = None"
| "Config Mumbai = None"

definition getDeployments :: "int \<Rightarrow> deployments option" where
  "getDeployments chainId = Config (getNetworkNameById chainId)"

text \<open>Every chain but Polygon has deployments, each super token with its underlying token; an
  unknown chain is taken for Goerli.\<close>

lemma getDeployments_total: "getDeployments chainId = None \<longleftrightarrow> chainId = 137"
  by (simp add: getDeployments_def getNetworkNameById_def)

lemma getDeployments_pairs:
  "getDeployments chainId = Some d \<Longrightarrow> length (dp_supertokens d) = length (dp_tokens d) \<and> dp_tokens d \<noteq> []"
  by (auto simp: getDeployments_def getNetworkNameById_def split: if_splits)

section \<open>Durations\<close>

definition duration_seconds :: "int \<Rightarrow> int" where
  "duration_seconds val = val"

definition duration_minutes :: "int \<Rightarrow> int" where
  "duration_minutes val = val * duration_seconds 60"

definition duration_hours :: "int \<Rightarrow> int" where
  "duration_hours val = val * duration_minutes 60"

definition duration_days :: "int \<Rightarrow> int" where
  "duration_days val = val * duration_hours 24"

definition duration_weeks :: "int \<Rightarrow> int" where
  "duration_weeks val = val * duration_days 7"

definition duration_years :: "int \<Rightarrow> int" where
  "duration_years val = val * duration_days 365"

lemmas duration_defs = duration_seconds_def duration_minutes_def duration_hours_def duration_days_def duration_weeks_def
  duration_years_def

lemma durations: "duration_days n = 86400 * n" "duration_weeks n = 604800 * n" "duration_years n = 31536000 * n"
  by (simp_all add: duration_defs)

section \<open>Requests to the node\<close>

datatype rpc_request =
    Hardhat_setBalance string string
  | Hardhat_impersonateAccount string
  | Hardhat_setCode string string
  | Evm_revert string
  | Evm_snapshot
  | Evm_increaseTime int
  | Evm_mine

type_synonym 'p provider = "'p \<Rightarrow> rpc_request \<Rightarrow> (string \<times> 'p) result"

definition setBalance :: "'p provider \<Rightarrow> 'p \<Rightarrow> string \<Rightarrow> string \<Rightarrow> 'p result" where
  "setBalance provider p account balance = await (provider p (Hardhat_setBalance account balance)) (\<lambda>(_, p'). Inr p')"

text \<open>One ether is \<^verbatim>\<open>0xde0b6b3a7640000\<close> wei, without leading zeros; a signer is its address.\<close>

definition impersonateAddress :: "'p provider \<Rightarrow> 'p \<Rightarrow> string \<Rightarrow> bool \<Rightarrow> (string \<times> 'p) result" where
  "impersonateAddress provider p address setInitialBalance =
     await (provider p (Hardhat_impersonateAccount address)) (\<lambda>(_, p1).
     await (if setInitialBalance then setBalance provider p1 address ''0xde0b6b3a7640000'' else Inr p1) (\<lambda>p2.
       Inr (address, p2)))"

definition restoreSnapshot :: "'p provider \<Rightarrow> 'p \<Rightarrow> string \<Rightarrow> 'p result" where
  "restoreSnapshot provider p sid = await (provider p (Evm_revert sid)) (\<lambda>(_, p'). Inr p')"

definition takeSnapshot :: "'p provider \<Rightarrow> 'p \<Rightarrow> (string \<times> 'p) result" where
  "takeSnapshot provider p = provider p Evm_snapshot"

definition useSnapshot :: "'p provider \<Rightarrow> 'p \<Rightarrow> string \<Rightarrow> (string \<times> 'p) result" where
  "useSnapshot provider p snapshotId = await (restoreSnapshot provider p snapshotId) (\<lambda>p'. takeSnapshot provider p')"

text \<open>\<^verbatim>\<open>toNumber\<close> throws above the safe integers.\<close>

definition increase :: "'p provider \<Rightarrow> 'p \<Rightarrow> int \<Rightarrow> 'p result" where
  "increase provider p duration =
     (if duration < 0 then Inl (GenericError ''Cannot increase time by a negative amount'')
      else if duration \<ge> 2 ^ 53 then Inl RangeError
      else await (provider p (Evm_increaseTime duration)) (\<lambda>(_, p1).
           await (provider p1 Evm_mine) (\<lambda>(_, p2). Inr p2)))"

definition setBytecode :: "'p provider \<Rightarrow> 'p \<Rightarrow> string \<Rightarrow> string \<Rightarrow> 'p result" where
  "setBytecode provider p address bytecode = await (provider p (Hardhat_setCode address bytecode)) (\<lambda>(_, p'). Inr p')"

text \<open>
  A node with snapshots: a request for one gives a new name for the chain as it is and changes
  nothing of it, and reverting to a name, once, gives that chain back.
\<close>

definition keeps_snapshots :: "'p provider \<Rightarrow> ('p \<Rightarrow> 'v) \<Rightarrow> ('p \<Rightarrow> string \<Rightarrow> 'v option) \<Rightarrow> bool" where
  "keeps_snapshots provider view saved \<longleftrightarrow>
     (\<forall>p sid p'. provider p Evm_snapshot = Inr (sid, p') \<longrightarrow> view p' = view p \<and> saved p' = (saved p)(sid \<mapsto> view p)) \<and>
     (\<forall>p sid r p' v. provider p (Evm_revert sid) = Inr (r, p') \<longrightarrow> saved p sid = Some v \<longrightarrow> view p' = v)"

text \<open>Tests that each start with a restored snapshot all start on the same chain.\<close>

lemma useSnapshot_restores:
  assumes "keeps_snapshots provider view saved" and "saved p sid = Some v" and "useSnapshot provider p sid = Inr (sid', p')"
  shows "view p' = v \<and> saved p' sid' = Some v"
proof -
  from assms(3) obtain r p1 where 1: "provider p (Evm_revert sid) = Inr (r, p1)" "provider p1 Evm_snapshot = Inr (sid', p')"
    by (auto simp: useSnapshot_def restoreSnapshot_def takeSnapshot_def)
  then show ?thesis using assms(1,2) unfolding keeps_snapshots_def by fastforce
qed

text \<open>Each test works on the chain it finds, keeping the snapshots, and the next starts afresh.\<close>

lemma tests_start_alike:
  assumes "keeps_snapshots provider view saved" and "\<And>p p' t. t \<in> set tests \<Longrightarrow> t p = Inr p' \<Longrightarrow> saved p' = saved p"
    and "saved p sid = Some v"
    and "run_events (\<lambda>(sid, p) t. await (t p) (\<lambda>p1. useSnapshot provider p1 sid)) (sid, p) tests = Inr (sid', p')" and "tests \<noteq> []"
  shows "view p' = v"
  using assms(2-)
proof (induction tests arbitrary: sid p)
  case (Cons t ts)
  then obtain p1 sid2 p2 where 1: "t p = Inr p1" "useSnapshot provider p1 sid = Inr (sid2, p2)"
      "run_events (\<lambda>(sid, p) t. await (t p) (\<lambda>p1. useSnapshot provider p1 sid)) (sid2, p2) ts = Inr (sid', p')"
    by auto
  have "saved p1 sid = Some v" using Cons.prems(1) [of t p p1] 1(1) Cons.prems(2) by simp
  from useSnapshot_restores [OF assms(1) this 1(2)] have 2: "view p2 = v" "saved p2 sid2 = Some v" by simp_all
  show ?case
  proof (cases "ts = []")
    case True
    then show ?thesis using 1(3) 2(1) by simp
  next
    case False
    have "saved p' = saved p" if "u \<in> set ts" "u p = Inr p'" for u p p'
      using Cons.prems(1) [of u p p'] that by simp
    then show ?thesis using Cons.IH [OF _ 2(2) 1(3) False] by blast
  qed
qed simp

text \<open>A node that numbers its snapshots, and forgets one and the later ones when it reverts to it.\<close>

record 'v rpc_node =
  nd_view :: 'v
  nd_saved :: "'v list"

definition snapshot_id :: "nat \<Rightarrow> string" where
  "snapshot_id n = replicate n CHR ''1''"

fun node_provider :: "('v \<Rightarrow> rpc_request \<Rightarrow> 'v) \<Rightarrow> 'v rpc_node provider" where
  "node_provider f p Evm_snapshot = Inr (snapshot_id (length (nd_saved p)), p\<lparr> nd_saved := nd_saved p @ [nd_view p] \<rparr>)"
| "node_provider f p (Evm_revert sid) =
     (if length sid < length (nd_saved p) \<and> sid = snapshot_id (length sid)
      then Inr (''true'', \<lparr> nd_view = nd_saved p ! length sid, nd_saved = take (length sid) (nd_saved p) \<rparr>)
      else Inr (''false'', p))"
| "node_provider f p r = Inr ([], p\<lparr> nd_view := f (nd_view p) r \<rparr>)"

definition node_saved :: "'v rpc_node \<Rightarrow> string \<Rightarrow> 'v option" where
  "node_saved p sid = (if length sid < length (nd_saved p) \<and> sid = snapshot_id (length sid) then Some (nd_saved p ! length sid) else None)"

lemma node_keeps_snapshots: "keeps_snapshots (node_provider f) nd_view node_saved"
  by (auto simp: keeps_snapshots_def node_saved_def snapshot_id_def fun_eq_iff nth_append less_Suc_eq split: if_splits)

end
