(* ===== verification/Spec2Isabelle.thy ===== *)
theory Spec2Isabelle
  imports Token_Properties Startup_Properties View_Properties Math_Properties Flow_View_Properties
    App_Logic_Properties Conversion_Properties Update_Flow_Properties Contract_Composition Cards Carousel Identities
    Page_Composition App_Session Dev_Setup_Properties Dev_Network
begin

text \<open>
  Verification of the Superfluid Aragon app.

  \<^bold>\<open>The program.\<close> The app lets an Aragon organisation stream super tokens. It has three
  parts: a contract, and two halves of a client that run in separate JavaScript contexts.

  \<^item> The background script (\<^verbatim>\<open>script.js\<close>, \<^verbatim>\<open>store/\<close>) reads the events of the agreement contract
    and of the agent, in the order the client delivers them, and folds them into a store: the
    list of flows, the super tokens with their balances and net flows, and the tokens that each
    sender streams to the agent.
  \<^item> The front end turns each state of the store into a state to render
    (\<^verbatim>\<open>app-state-reducer.js\<close>) and shows it: the cards of the tokens, the warnings, the table of flows.
    Its side panels collect what a user types and hand it to the actions (\<^verbatim>\<open>app-logic.js\<close>), which
    request transactions. The transactions cause events, which come back to the store.
  \<^item> The contract (\<^verbatim>\<open>contracts/Superfluid.sol\<close>) checks the sender's role and the token, and has the
    organisation's agent call the agreement, or moves tokens to and from the agent.

  \<^bold>\<open>Conventions.\<close> Each JavaScript function is a function of the same name, or of a similar one
  where two files share it. A thrown exception or a rejected promise is a value \<open>Inl\<close>, and
  \<open>await\<close> sequences such computations. A promise that nobody waits for is modelled by what the
  caller sees. \<^verbatim>\<open>undefined\<close> is \<open>None\<close>. State is passed explicitly; the state of a React component
  is a record, its handlers and effects are functions on it, and which handlers the rendered
  component offers is a predicate. Integers of the contracts and of bn.js are integers;
  JavaScript's numbers are IEEE doubles where their rounding can be seen (\<open>Js_Number\<close>), and
  integers where the values are time stamps, block numbers, indices or pixels; the contract's
  own values are words of 160, 256 and 96 bits. The npm packages
  and the implementation-defined locale order are fields of the record \<open>libs\<close>, the Aragon API
  object and the contracts it gives are the record \<open>app_api\<close>; what a theorem relies on is one
  of its hypotheses, and \<open>sample_libs\<close> and the theory \<open>Samples\<close> give instances that satisfy them.

  \<^bold>\<open>The theories.\<close>

  \<^item> \<open>Prelude\<close>: errors, amounts, \<open>findIndex\<close>, the sort with a comparator (locale
    \<open>comparator\<close>), lists keyed up to an equivalence (locale \<open>keyed_list\<close>), dictionaries, strings,
    dates, the packages. \<open>Address\<close>: \<^verbatim>\<open>helpers/web3.js\<close>, \<^verbatim>\<open>network.js\<close>, \<^verbatim>\<open>time.js\<close>, \<^verbatim>\<open>token-list.js\<close>.
  \<^item> \<open>Store_State\<close>, \<open>Flow_Store\<close>, \<open>Token_Store\<close>, \<open>Event_Handlers\<close>: the store of
    \<^verbatim>\<open>store/updaters.js\<close>, \<^verbatim>\<open>store/event-handlers.js\<close> and the reducer of \<^verbatim>\<open>script.js\<close>. The abstract
    specification of the flow list is a ledger, a map from a direction, a token and an account
    to the open stream. \<open>Store_Properties\<close> (C1 to C4) shows that the list refines the ledger, that
    the amounts settled are the integrals of the rates over time, the store's invariant and that
    closed flows never change. \<open>Token_Properties\<close> (C5 to C11) shows what an event does to the
    tokens and the senders, exactly when a handler fails, and what replayed events do.
  \<^item> \<open>Subscription\<close>: the start of the script, \<^verbatim>\<open>store/helpers.js\<close> and \<^verbatim>\<open>preset-super-tokens.js\<close>.
    \<open>Startup_Properties\<close> (C12, C13, C15) shows that the retry loop ends and with what, which
    blocks are queried and which twice, and the state a start gives.
  \<^item> \<open>Amounts\<close>, \<open>App_State\<close>: \<^verbatim>\<open>helpers/superfluid.js\<close> and the front end's reducer.
    \<open>View_Properties\<close> (C17, C19 to C21) relates the rates, amounts and dates rendered to the store, and
    says exactly when the reducer throws.
  \<^item> \<open>Js_Number\<close>, \<open>Decimal_Math\<close>: doubles and \<^verbatim>\<open>helpers/math.js\<close>. \<open>Math_Properties\<close> (C22, C23)
    shows the round trip between amounts and decimal text.
  \<^item> \<open>Flow_View\<close>: \<^verbatim>\<open>flow.js\<close>, \<^verbatim>\<open>useFilteredFlows.js\<close>, \<^verbatim>\<open>Flows/index.js\<close>. \<open>Flow_View_Properties\<close>
    (C25, C26) shows the order of the table, what the filters keep, and that after any run of
    the store no row reads from an undefined token.
  \<^item> \<open>App_Logic\<close>: the actions and the state of a panel, as a step relation.
    \<open>App_Logic_Properties\<close> (C31) shows on which streams they act, when they report
    done, and when a panel loses its parameters. \<open>App_Session\<close> (C16) joins them, with transactions
    that settle in any order while the user goes on: when a panel waits, and what an older
    transaction does to a panel opened anew.
  \<^item> \<open>Conversion\<close>: \<^verbatim>\<open>helpers/conversion.js\<close>, the hooks for rates and the warnings to senders,
    with \<open>Conversion_Properties\<close> (C33).
  \<^item> \<open>Panels\<close>: the token selector and the forms for deposits, withdrawals and conversions.
    \<open>Panel_Properties\<close> (C34, C35) shows that the maximum button submits the exact balance and that
    the selector settles.
  \<^item> \<open>Update_Flow\<close>: the panel for flows and its field for the rate. \<open>Update_Flow_Properties\<close>
    (C37 to C39) shows that it creates a flow exactly when the ledger has none, that opened from
    a row it updates the row's stream, and its two dead ends.
  \<^item> \<open>Carousel\<close> (C40): the selection stays in range and every card can be reached. \<open>Cards\<close>,
    \<open>Identities\<close>: the numbers on a card, and the labels of addresses, with lemmas of their own.
  \<^item> \<open>Elements\<close>: what a component renders, a tree of elements with their texts, attributes and
    handlers; \<open>user_actions\<close> is the set of actions that a user can take in it, which leaves out the
    handlers of disabled elements and the submission of a form whose button is disabled.
    \<open>Panel_View\<close> is the markup of \<^verbatim>\<open>components/SidePanels/\<close> and of the badges, \<open>Page_View\<close> that of the
    cards, the carousel, the table, the warnings, the error boundary and \<^verbatim>\<open>App.js\<close>.
    \<open>Panel_View_Properties\<close> (C36) shows what a form offers, and that a session in the deposit form
    opened from a card ends with a deposit of the card's token; \<open>Page_View_Properties\<close> (C32) shows
    exactly which actions the rendered table offers, and what a card's button opens.
    \<open>Page_Composition\<close> (C28) goes from the events to the page: after any run of the store the page is
    rendered, but for two reasons that it names.
  \<^item> \<open>Dev_Setup\<close>: \<^verbatim>\<open>scripts/\<close>, the hooks that set a development chain up, which call the app's
    contract. \<open>Dev_Setup_Properties\<close> (C18) computes what every account holds afterwards.
    \<open>Dev_Network\<close>: \<^verbatim>\<open>helpers/\<close>, the deployments by network and the requests to a test node.
  \<^item> \<open>App_Contract\<close>: the contract. The other contracts are the record \<open>evm\<close>, whose calls may do
    anything to the chain. \<open>App_Contract_Properties\<close> (C14, C27, C30) shows who may change the
    storage and how, that a receiver's own deletion is a manager's, and where the tokens of a
    conversion go, from hypotheses on the tokens, the agent and the base contract that an
    executable chain satisfies. \<open>Contract_Composition\<close> (C24, C29) joins the front end to the
    contract: a transaction that an action requests, encoded, is a call of the contract.

  \<^bold>\<open>Interfaces.\<close> \<open>keyed_list\<close> is interpreted on the flows, the super tokens and the entries of
  senders, \<open>comparator\<close> on the tokens' symbols, the rows of the table, the warnings and the names
  of identities; the properties of lookups and of sorting rest on these interpretations.
  \<open>event_store\<close> of \<open>Event_Handlers\<close> is a system that handles events one by one with an invariant
  of its steps, and lifts it to runs; it is interpreted on the store for its invariant, for the
  closed flows, for undefined tokens, for the entries of senders and for the tokens that the
  flows and the entries name, on the filters of the table, and on the transactions of the contract.

  \<^bold>\<open>Bounds.\<close> The retry loop recurses on the retries left, which the source bounds. The search for
  the shortest decimal text of a double tries 1 to 17 digits, and 17 always suffice for a
  double. Every other recursion is over a list or has a termination measure. Decimals of
  a token are a \<^verbatim>\<open>uint8\<close>, whence the bound of 255 in C34.

  \<^bold>\<open>Not modelled.\<close> Styles and colours; the focus of inputs and the springs of animations; the
  delivery of events by RxJS and the client, of which the order is a parameter; the timing of
  React's effects, which are modelled as run after the change that triggers them;
  \<^verbatim>\<open>formatTokenAmount\<close>, the paging of the data view and the other functions of the Aragon UI
  package, which are fields of \<open>ui_libs\<close>; the start of the build tool's plugin, beyond the order
  in which it calls the hooks; \<^verbatim>\<open>index.js\<close>, which mounts the page; the configuration of the build
  tools and the tests; the reentrancy of the contract's calls, which the hypothesis
  \<open>no_callbacks\<close> excludes where a property needs it, and the cost of gas.
\<close>

end
